(* ===== verification/Prelude.thy ===== *)
theory Prelude
  imports Complex_Main
begin

text \<open>
  Shared library of the development.

  \<^item> Collections of facts: \<open>table_simps\<close> (operations on tables), \<open>text_simps\<close>
    (Python strings).
  \<^item> The value types of the model: an instant is a number of microseconds since the epoch
    (Python's aware \<open>datetime\<close>), a monotonic clock reading is a real number of seconds
    (Python's \<open>float\<close>, whose rounding is not modelled).
  \<^item> A database table is the list of its rows in insertion order; \<open>update_where\<close>,
    \<open>count_where\<close>, \<open>delete_where\<close> and \<open>lookup_by\<close> are the statements the repositories issue.
  \<^item> \<open>transaction\<close> is the unit of work of a request or a worker: an exception rolls the
    state back, a normal return commits it.
  \<^item> Two locales, \<open>op_system\<close> and \<open>one_way\<close>, carry every induction over runs of
    operations: an invariant kept by each operation, and a fact no operation takes back.
\<close>

named_theorems table_simps "operations on tables of rows"
named_theorems text_simps "operations on Python strings"

type_synonym instant = int
type_synonym seconds = real

definition us_per_second :: int where
  "us_per_second = 1000000"

definition timedelta_seconds :: "int \<Rightarrow> int" where
  "timedelta_seconds n = n * us_per_second"

definition timedelta_minutes :: "int \<Rightarrow> int" where
  "timedelta_minutes n = n * 60 * us_per_second"

definition timedelta_days :: "int \<Rightarrow> int" where
  "timedelta_days n = n * 86400 * us_per_second"

lemma timedelta_pos [simp]:
  "0 < timedelta_seconds n \<longleftrightarrow> 0 < n"
  "0 < timedelta_minutes n \<longleftrightarrow> 0 < n"
  "0 < timedelta_days n \<longleftrightarrow> 0 < n"
  by (simp_all add: timedelta_seconds_def timedelta_minutes_def timedelta_days_def us_per_second_def)

section \<open>Tables\<close>

definition lookup_by :: "('r \<Rightarrow> 'k) \<Rightarrow> 'k \<Rightarrow> 'r list \<Rightarrow> 'r option" where
  "lookup_by key k rows = find (\<lambda>r. key r = k) rows"

definition update_where :: "('r \<Rightarrow> bool) \<Rightarrow> ('r \<Rightarrow> 'r) \<Rightarrow> 'r list \<Rightarrow> 'r list" where
  "update_where p f rows = map (\<lambda>r. if p r then f r else r) rows"

definition count_where :: "('r \<Rightarrow> bool) \<Rightarrow> 'r list \<Rightarrow> nat" where
  "count_where p rows = length (filter p rows)"

definition delete_where :: "('r \<Rightarrow> bool) \<Rightarrow> 'r list \<Rightarrow> 'r list" where
  "delete_where p rows = filter (\<lambda>r. \<not> p r) rows"

definition unique_key :: "('r \<Rightarrow> 'k) \<Rightarrow> 'r list \<Rightarrow> bool" where
  "unique_key key rows = distinct (map key rows)"

lemma lookup_by_Nil [table_simps, simp]: "lookup_by key k [] = None"
  by (simp add: lookup_by_def)

lemma lookup_by_Cons [table_simps]:
  "lookup_by key k (r # rs) = (if key r = k then Some r else lookup_by key k rs)"
  by (simp add: lookup_by_def)

lemma lookup_by_append [table_simps]:
  "lookup_by key k (rs @ ss) =
     (case lookup_by key k rs of None \<Rightarrow> lookup_by key k ss | Some r \<Rightarrow> Some r)"
  by (induction rs) (auto simp: lookup_by_Cons)

lemma lookup_by_SomeD: "lookup_by key k rows = Some r \<Longrightarrow> r \<in> set rows \<and> key r = k"
  by (induction rows) (auto simp: lookup_by_Cons split: if_splits)

lemma lookup_by_None_iff [table_simps]: "lookup_by key k rows = None \<longleftrightarrow> (\<forall>r \<in> set rows. key r \<noteq> k)"
  by (induction rows) (auto simp: lookup_by_Cons)

lemma lookup_by_unique:
  "unique_key key rows \<Longrightarrow> r \<in> set rows \<Longrightarrow> key r = k \<Longrightarrow> lookup_by key k rows = Some r"
  by (induction rows) (auto simp: lookup_by_Cons unique_key_def)

lemma lookup_by_update_where:
  assumes "\<And>r. key (f r) = key r"
  shows "lookup_by key k (update_where p f rows) =
           map_option (\<lambda>r. if p r then f r else r) (lookup_by key k rows)"
  by (induction rows) (auto simp: lookup_by_Cons update_where_def assms)

lemma map_key_update_where:
  "(\<And>r. key (f r) = key r) \<Longrightarrow> map key (update_where p f rows) = map key rows"
  by (induction rows) (auto simp: update_where_def)

lemma unique_key_update_where [intro]:
  "unique_key key rows \<Longrightarrow> (\<And>r. key (f r) = key r) \<Longrightarrow> unique_key key (update_where p f rows)"
  by (simp add: unique_key_def map_key_update_where)

lemma unique_key_delete_where [intro]: "unique_key key rows \<Longrightarrow> unique_key key (delete_where p rows)"
  by (simp add: unique_key_def delete_where_def distinct_map_filter)

lemma unique_key_snoc:
  "unique_key key (rows @ [r]) \<longleftrightarrow> unique_key key rows \<and> lookup_by key (key r) rows = None"
  by (auto simp: unique_key_def lookup_by_None_iff) (metis image_eqI)

lemma set_update_where [table_simps]:
  "set (update_where p f rows) = (\<lambda>r. if p r then f r else r) ` set rows"
  by (simp add: update_where_def)

lemma ball_update_where:
  "(\<forall>r \<in> set (update_where p f rows). Q r) \<longleftrightarrow> (\<forall>r \<in> set rows. if p r then Q (f r) else Q r)"
  by (induction rows) (auto simp: update_where_def)

lemma filter_update_where:
  "(\<And>r. p r \<Longrightarrow> \<not> q r \<and> \<not> q (f r)) \<Longrightarrow> filter q (update_where p f rows) = filter q rows"
  by (induction rows) (auto simp: update_where_def)

lemma length_update_where [simp]: "length (update_where p f rows) = length rows"
  by (simp add: update_where_def)

lemma set_delete_where [table_simps]: "set (delete_where p rows) = {r \<in> set rows. \<not> p r}"
  by (auto simp: delete_where_def)

lemma lookup_by_delete_where:
  assumes "unique_key key rows"
  shows "lookup_by key k (delete_where p rows) =
           (case lookup_by key k rows of None \<Rightarrow> None | Some r \<Rightarrow> if p r then None else Some r)"
  using assms
proof (induction rows)
  case Nil
  then show ?case by (simp add: delete_where_def)
next
  case (Cons x xs)
  then have fresh: "lookup_by key (key x) xs = None" and uniq: "unique_key key xs"
    by (auto simp: unique_key_def lookup_by_None_iff rev_image_eqI)
  have "delete_where p (x # xs) = (if p x then delete_where p xs else x # delete_where p xs)"
    by (simp add: delete_where_def)
  with fresh Cons.IH [OF uniq] show ?case
    by (auto simp: lookup_by_Cons split: option.splits)
qed

text \<open>A row with the key exists and satisfies a predicate; updates and inserts that keep it keep this.\<close>

definition row_with :: "('r \<Rightarrow> 'k) \<Rightarrow> 'k \<Rightarrow> ('r \<Rightarrow> bool) \<Rightarrow> 'r list \<Rightarrow> bool" where
  "row_with key k P rows \<longleftrightarrow> (case lookup_by key k rows of None \<Rightarrow> False | Some r \<Rightarrow> P r)"

lemma row_with_lookup: "row_with key k P rows \<longleftrightarrow> (\<exists>r. lookup_by key k rows = Some r \<and> P r)"
  by (simp add: row_with_def split: option.splits)

lemma row_with_update:
  "row_with key k P rows \<Longrightarrow> (\<And>r. key (f r) = key r) \<Longrightarrow> (\<And>r. P r \<Longrightarrow> p r \<Longrightarrow> P (f r)) \<Longrightarrow>
     row_with key k P (update_where p f rows)"
  by (auto simp: row_with_def lookup_by_update_where split: option.splits)

lemma row_with_append: "row_with key k P rows \<Longrightarrow> row_with key k P (rows @ new)"
  by (auto simp: row_with_def lookup_by_append split: option.splits)

lemma count_where_le: "count_where p rows \<le> length rows"
  by (simp add: count_where_def)

lemma count_where_pos: "0 < count_where p rows \<longleftrightarrow> (\<exists>r \<in> set rows. p r)"
  by (auto simp: count_where_def filter_empty_conv length_greater_0_conv simp del: length_greater_0_conv
           dest: length_pos_if_in_set)

lemma count_where_unique:
  assumes "unique_key key rows"
  shows "count_where (\<lambda>r. key r = k \<and> p r) rows =
           (case lookup_by key k rows of Some r \<Rightarrow> if p r then 1 else 0 | None \<Rightarrow> 0)"
  using assms
proof (induction rows)
  case Nil
  then show ?case by (simp add: count_where_def)
next
  case (Cons x xs)
  show ?case
  proof (cases "key x = k")
    case True
    with Cons.prems have "filter (\<lambda>r. key r = k \<and> p r) xs = []"
      by (auto simp: unique_key_def filter_empty_conv) (metis image_eqI)
    with True show ?thesis by (simp add: count_where_def lookup_by_Cons)
  next
    case False
    with Cons show ?thesis by (simp add: count_where_def lookup_by_Cons unique_key_def)
  qed
qed

section \<open>Units of work\<close>

text \<open>
  An operation over a state \<open>'s\<close> returns an error or a result together with the state it has
  written so far. \<open>transaction\<close> is the boundary that owns commit and rollback.
\<close>

type_synonym ('s, 'e, 'a) operation = "'s \<Rightarrow> ('e + 'a) \<times> 's"

definition transaction :: "('s, 'e, 'a) operation \<Rightarrow> ('s, 'e, 'a) operation" where
  "transaction m s = (case m s of (Inl e, _) \<Rightarrow> (Inl e, s) | (Inr a, s') \<Rightarrow> (Inr a, s'))"

lemma transaction_Inl: "fst (m s) = Inl e \<Longrightarrow> transaction m s = (Inl e, s)"
  by (auto simp: transaction_def split: prod.splits)

lemma transaction_Inr: "m s = (Inr a, s') \<Longrightarrow> transaction m s = (Inr a, s')"
  by (simp add: transaction_def)

lemma transaction_snd:
  "snd (transaction m s) = s \<or> (\<exists>a. m s = (Inr a, snd (transaction m s)))"
  by (auto simp: transaction_def split: prod.splits sum.splits)

section \<open>Runs of operations\<close>

locale op_system =
  fixes exec :: "'op \<Rightarrow> 's \<Rightarrow> 's"
    and inv :: "'s \<Rightarrow> bool"
  assumes inv_exec: "inv s \<Longrightarrow> inv (exec op s)"
begin

lemma inv_run: "inv s \<Longrightarrow> inv (fold exec ops s)"
  by (induction ops arbitrary: s) (auto intro: inv_exec)

end

locale one_way = op_system exec inv
  for exec :: "'op \<Rightarrow> 's \<Rightarrow> 's" and inv :: "'s \<Rightarrow> bool" +
  fixes settled :: "'k \<Rightarrow> 's \<Rightarrow> bool"
  assumes settled_exec: "inv s \<Longrightarrow> settled k s \<Longrightarrow> settled k (exec op s)"
begin

lemma settled_run: "inv s \<Longrightarrow> settled k s \<Longrightarrow> settled k (fold exec ops s)"
  by (induction ops arbitrary: s) (auto intro: inv_exec settled_exec)

end

end
