(* ===== verification/Circuit_Breaker.thy ===== *)
theory Circuit_Breaker
  imports Prelude
begin

text \<open>
  The process-local circuit breaker of \<open>backend/app/core/circuit_breaker.py\<close>.

  Every method runs under the breaker's lock, so a method is one atomic function on the
  record of the fields; the clock reading a method makes is an argument. \<open>circuit_step\<close> is
  the interleaving of any number of callers: the permits handed out and not yet reported are
  part of the system state, and a caller may also drop its permit without reporting.
\<close>

section \<open>State and operations\<close>

datatype circuit_state = CLOSED | OPEN | HALF_OPEN

record circuit_permit =
  generation :: int
  is_half_open_probe :: bool

datatype circuit_open_error = CircuitOpenError (retry_after_seconds: seconds)

definition make_circuit_open_error :: "seconds \<Rightarrow> circuit_open_error" where
  "make_circuit_open_error retry_after = CircuitOpenError (max retry_after 0)"

record circuit_breaker =
  failure_threshold :: int
  recovery_seconds :: seconds
  state :: circuit_state
  consecutive_failures :: int
  opened_at :: "seconds option"
  cb_generation :: int

definition new_circuit_breaker :: "int \<Rightarrow> seconds \<Rightarrow> string + circuit_breaker" where
  "new_circuit_breaker threshold recovery =
     (if threshold < 1 then Inl ''failure_threshold must be at least 1.''
      else if recovery \<le> 0 then Inl ''recovery_seconds must be greater than 0.''
      else Inr \<lparr>failure_threshold = threshold, recovery_seconds = recovery, state = CLOSED,
                consecutive_failures = 0, opened_at = None, cb_generation = 0\<rparr>)"

definition acquire_permission ::
  "seconds \<Rightarrow> circuit_breaker \<Rightarrow> (circuit_open_error + circuit_permit) \<times> circuit_breaker" where
  "acquire_permission current_time b =
     (if state b = CLOSED then
        (Inr \<lparr>generation = cb_generation b, is_half_open_probe = False\<rparr>, b)
      else if state b = HALF_OPEN then (Inl (make_circuit_open_error 1), b)
      else
        let remaining =
              (case opened_at b of
                 None \<Rightarrow> recovery_seconds b
               | Some opened \<Rightarrow> recovery_seconds b - (current_time - opened))
        in if remaining > 0 then (Inl (make_circuit_open_error remaining), b)
           else (Inr \<lparr>generation = cb_generation b, is_half_open_probe = True\<rparr>,
                 b\<lparr>state := HALF_OPEN\<rparr>))"

definition open_locked :: "seconds \<Rightarrow> circuit_breaker \<Rightarrow> circuit_breaker" where
  "open_locked now b =
     b\<lparr>state := OPEN, opened_at := Some now, consecutive_failures := failure_threshold b,
       cb_generation := cb_generation b + 1\<rparr>"

definition record_success :: "circuit_permit \<Rightarrow> circuit_breaker \<Rightarrow> circuit_breaker" where
  "record_success permit b =
     (if generation permit \<noteq> cb_generation b then b
      else if is_half_open_probe permit then
        (if state b \<noteq> HALF_OPEN then b
         else b\<lparr>state := CLOSED, consecutive_failures := 0, opened_at := None,
                cb_generation := cb_generation b + 1\<rparr>)
      else if state b = CLOSED then b\<lparr>consecutive_failures := 0\<rparr>
      else b)"

definition record_failure :: "seconds \<Rightarrow> circuit_permit \<Rightarrow> circuit_breaker \<Rightarrow> circuit_breaker" where
  "record_failure now permit b =
     (if generation permit \<noteq> cb_generation b then b
      else if is_half_open_probe permit then
        (if state b = HALF_OPEN then open_locked now b else b)
      else if state b \<noteq> CLOSED then b
      else
        let b' = b\<lparr>consecutive_failures := consecutive_failures b + 1\<rparr>
        in if failure_threshold b' \<le> consecutive_failures b' then open_locked now b' else b')"

lemmas circuit_defs =
  acquire_permission_def record_success_def record_failure_def open_locked_def
  make_circuit_open_error_def Let_def

section \<open>Interleaved callers\<close>

record circuit_system =
  breaker :: circuit_breaker
  held :: "circuit_permit list"

inductive circuit_step :: "circuit_system \<Rightarrow> circuit_system \<Rightarrow> bool" where
  granted: "acquire_permission now (breaker s) = (Inr p, b') \<Longrightarrow>
     circuit_step s (s\<lparr>breaker := b', held := p # held s\<rparr>)"
| rejected: "acquire_permission now (breaker s) = (Inl e, b') \<Longrightarrow>
     circuit_step s (s\<lparr>breaker := b'\<rparr>)"
| succeeded: "p \<in> set (held s) \<Longrightarrow>
     circuit_step s (s\<lparr>breaker := record_success p (breaker s), held := remove1 p (held s)\<rparr>)"
| failed: "p \<in> set (held s) \<Longrightarrow>
     circuit_step s (s\<lparr>breaker := record_failure now p (breaker s), held := remove1 p (held s)\<rparr>)"
| abandoned: "p \<in> set (held s) \<Longrightarrow> circuit_step s (s\<lparr>held := remove1 p (held s)\<rparr>)"

inductive circuit_reachable :: "int \<Rightarrow> seconds \<Rightarrow> circuit_system \<Rightarrow> bool" for threshold recovery where
  initial: "new_circuit_breaker threshold recovery = Inr b \<Longrightarrow>
     circuit_reachable threshold recovery \<lparr>breaker = b, held = []\<rparr>"
| step: "circuit_reachable threshold recovery s \<Longrightarrow> circuit_step s t \<Longrightarrow>
     circuit_reachable threshold recovery t"

definition current_permits :: "circuit_system \<Rightarrow> circuit_permit list" where
  "current_permits s = filter (\<lambda>p. generation p = cb_generation (breaker s)) (held s)"

definition breaker_inv :: "circuit_breaker \<Rightarrow> bool" where
  "breaker_inv b \<longleftrightarrow>
     1 \<le> failure_threshold b \<and> 0 < recovery_seconds b \<and>
     (if state b = CLOSED
      then opened_at b = None \<and> 0 \<le> consecutive_failures b \<and>
           consecutive_failures b < failure_threshold b
      else opened_at b \<noteq> None \<and> consecutive_failures b = failure_threshold b)"

definition permits_inv :: "circuit_system \<Rightarrow> bool" where
  "permits_inv s \<longleftrightarrow>
     (\<forall>p \<in> set (held s). generation p \<le> cb_generation (breaker s)) \<and>
     (case state (breaker s) of
        CLOSED \<Rightarrow> (\<forall>p \<in> set (current_permits s). \<not> is_half_open_probe p)
      | OPEN \<Rightarrow> current_permits s = []
      | HALF_OPEN \<Rightarrow> length (current_permits s) \<le> 1 \<and>
          (\<forall>p \<in> set (current_permits s). is_half_open_probe p))"

section \<open>One lemma per operation\<close>

lemma breaker_inv_new: "new_circuit_breaker k r = Inr b \<Longrightarrow> breaker_inv b"
  by (auto simp: new_circuit_breaker_def breaker_inv_def split: if_splits)

lemma breaker_inv_acquire: "breaker_inv b \<Longrightarrow> breaker_inv (snd (acquire_permission now b))"
  by (auto simp: breaker_inv_def circuit_defs split: if_splits option.splits)

lemma breaker_inv_success: "breaker_inv b \<Longrightarrow> breaker_inv (record_success p b)"
  by (auto simp: breaker_inv_def circuit_defs)

lemma breaker_inv_failure: "breaker_inv b \<Longrightarrow> breaker_inv (record_failure now p b)"
  by (auto simp: breaker_inv_def circuit_defs)

lemma circuit_config_frame [simp]:
  "failure_threshold (snd (acquire_permission now b)) = failure_threshold b"
  "failure_threshold (record_success p b) = failure_threshold b"
  "failure_threshold (record_failure now p b) = failure_threshold b"
  "recovery_seconds (snd (acquire_permission now b)) = recovery_seconds b"
  "recovery_seconds (record_success p b) = recovery_seconds b"
  "recovery_seconds (record_failure now p b) = recovery_seconds b"
  by (auto simp: circuit_defs split: option.splits)

lemma stale_report_ignored:
  "generation p \<noteq> cb_generation b \<Longrightarrow> record_success p b = b \<and> record_failure now p b = b"
  by (simp add: record_success_def record_failure_def)

lemma cb_generation_mono:
  "cb_generation (snd (acquire_permission now b)) = cb_generation b"
  "cb_generation b \<le> cb_generation (record_success p b)"
  "cb_generation b \<le> cb_generation (record_failure now p b)"
  by (auto simp: circuit_defs split: option.splits)

lemma acquire_cases:
  assumes "acquire_permission now b = (Inr p, b')"
  obtains (closed) "state b = CLOSED" "b' = b" "p = \<lparr>generation = cb_generation b, is_half_open_probe = False\<rparr>"
    | (probe) "state b = OPEN" "b' = b\<lparr>state := HALF_OPEN\<rparr>"
        "p = \<lparr>generation = cb_generation b, is_half_open_probe = True\<rparr>"
  using assms by (cases "state b") (auto simp: circuit_defs split: if_splits option.splits)

lemma acquire_rejected_frame: "acquire_permission now b = (Inl e, b') \<Longrightarrow> b' = b"
  by (auto simp: circuit_defs split: if_splits option.splits)

lemma length_filter_remove1_le: "length (filter P (remove1 x xs)) \<le> length (filter P xs)"
  by (simp add: filter_remove1 length_remove1)

lemma permits_inv_drop:
  "permits_inv s \<Longrightarrow> permits_inv (s\<lparr>held := remove1 p (held s)\<rparr>)"
  by (auto simp: permits_inv_def current_permits_def filter_remove1 length_remove1
           split: circuit_state.splits dest: notin_set_remove1 set_remove1_subset [THEN subsetD])

lemma permits_inv_granted:
  assumes inv: "permits_inv s" and acq: "acquire_permission now (breaker s) = (Inr p, b')"
  shows "permits_inv (s\<lparr>breaker := b', held := p # held s\<rparr>)"
  using acq
proof (cases rule: acquire_cases)
  case closed
  with inv show ?thesis by (auto simp: permits_inv_def current_permits_def)
next
  case probe
  with inv show ?thesis by (auto simp: permits_inv_def current_permits_def)
qed

lemma permits_inv_bump:
  assumes "\<forall>p \<in> set ps. generation p \<le> cb_generation b" and "cb_generation b' = cb_generation b + 1"
  shows "permits_inv \<lparr>breaker = b', held = ps\<rparr>"
proof -
  have "current_permits \<lparr>breaker = b', held = ps\<rparr> = []"
    using assms by (force simp: current_permits_def filter_empty_conv)
  with assms show ?thesis by (force simp: permits_inv_def split: circuit_state.splits)
qed

lemma permits_inv_report:
  assumes inv: "permits_inv s"
    and b': "b' = record_success p (breaker s) \<or> b' = record_failure now p (breaker s)"
  shows "permits_inv (s\<lparr>breaker := b', held := remove1 p (held s)\<rparr>)"
proof -
  let ?b = "breaker s" and ?t = "s\<lparr>held := remove1 p (held s)\<rparr>"
  have drop: "permits_inv ?t" by (rule permits_inv_drop [OF inv])
  have old: "\<forall>q \<in> set (remove1 p (held s)). generation q \<le> cb_generation ?b"
    using drop by (simp add: permits_inv_def)
  have "cb_generation b' = cb_generation ?b + 1 \<or>
        cb_generation b' = cb_generation ?b \<and> state b' = state ?b"
    using b' by (auto simp: circuit_defs)
  then show ?thesis
  proof
    assume "cb_generation b' = cb_generation ?b + 1"
    from permits_inv_bump [OF old this] show ?thesis by (cases s) simp
  next
    assume "cb_generation b' = cb_generation ?b \<and> state b' = state ?b"
    with drop show ?thesis
      by (cases "state (breaker s)") (auto simp: permits_inv_def current_permits_def)
  qed
qed

lemma circuit_step_inv:
  assumes "circuit_step s t" and "breaker_inv (breaker s)" and "permits_inv s"
  shows "breaker_inv (breaker t) \<and> permits_inv t"
  using assms
proof (induction rule: circuit_step.induct)
  case (granted now s p b')
  then show ?case
    using breaker_inv_acquire [of "breaker s" now] permits_inv_granted [of s now p b'] by auto
next
  case (rejected now s e b')
  then show ?case using acquire_rejected_frame [OF rejected(1)] by simp
next
  case (succeeded p s)
  then show ?case
    using breaker_inv_success [of "breaker s" p] permits_inv_report [of s _ p] by auto
next
  case (failed p s now)
  then show ?case
    using breaker_inv_failure [of "breaker s" now p] permits_inv_report [of s _ p now] by auto
next
  case (abandoned p s)
  then show ?case using permits_inv_drop [of s p] by auto
qed

lemma circuit_reachable_inv:
  "circuit_reachable k r s \<Longrightarrow> breaker_inv (breaker s) \<and> permits_inv s"
proof (induction rule: circuit_reachable.induct)
  case (initial b)
  then have "state b = CLOSED" by (auto simp: new_circuit_breaker_def split: if_splits)
  with initial breaker_inv_new show ?case
    by (auto simp: permits_inv_def current_permits_def)
next
  case (step s t)
  then show ?case by (auto dest: circuit_step_inv)
qed

section \<open>Executable runs\<close>

datatype circuit_event =
    Acquire seconds
  | Succeed circuit_permit
  | Fail seconds circuit_permit
  | Abandon circuit_permit

fun circuit_exec :: "circuit_event \<Rightarrow> circuit_system \<Rightarrow> circuit_system" where
  "circuit_exec (Acquire now) s =
     (case acquire_permission now (breaker s) of
        (Inr p, b') \<Rightarrow> s\<lparr>breaker := b', held := p # held s\<rparr>
      | (Inl e, b') \<Rightarrow> s\<lparr>breaker := b'\<rparr>)"
| "circuit_exec (Succeed p) s =
     (if p \<in> set (held s)
      then s\<lparr>breaker := record_success p (breaker s), held := remove1 p (held s)\<rparr> else s)"
| "circuit_exec (Fail now p) s =
     (if p \<in> set (held s)
      then s\<lparr>breaker := record_failure now p (breaker s), held := remove1 p (held s)\<rparr> else s)"
| "circuit_exec (Abandon p) s = (if p \<in> set (held s) then s\<lparr>held := remove1 p (held s)\<rparr> else s)"

lemma circuit_exec_step: "circuit_exec e s = s \<or> circuit_step s (circuit_exec e s)"
  by (cases e) (auto intro: circuit_step.intros split: prod.splits sum.splits)

lemma circuit_run_reachable:
  "circuit_reachable k r s \<Longrightarrow> circuit_reachable k r (fold circuit_exec es s)"
proof (induction es arbitrary: s)
  case (Cons e es)
  have "circuit_reachable k r (circuit_exec e s)"
    using circuit_exec_step [of e s] Cons.prems by (auto intro: circuit_reachable.step)
  then show ?case by (simp add: Cons.IH)
qed simp

interpretation circuit_run: op_system circuit_exec "\<lambda>s. breaker_inv (breaker s) \<and> permits_inv s"
proof
  fix s e
  assume "breaker_inv (breaker s) \<and> permits_inv s"
  then show "breaker_inv (breaker (circuit_exec e s)) \<and> permits_inv (circuit_exec e s)"
    using circuit_exec_step [of e s] by (auto dest: circuit_step_inv)
qed

definition probing :: "circuit_system \<Rightarrow> bool" where
  "probing s \<longleftrightarrow> state (breaker s) = HALF_OPEN \<and> current_permits s = []"

lemma probing_exec:
  assumes "permits_inv s" and "probing s"
  shows "probing (circuit_exec e s)"
proof -
  have stale: "generation p \<noteq> cb_generation (breaker s)" if "p \<in> set (held s)" for p
    using that assms(2) by (auto simp: probing_def current_permits_def filter_empty_conv)
  have rej: "acquire_permission now (breaker s) = (Inl (make_circuit_open_error 1), breaker s)" for now
    using assms(2) by (simp add: probing_def acquire_permission_def)
  show ?thesis
    using assms(2) stale
    by (cases e) (auto simp: rej stale_report_ignored probing_def current_permits_def filter_remove1)
qed

interpretation circuit_stuck: one_way circuit_exec
    "\<lambda>s. breaker_inv (breaker s) \<and> permits_inv s" "\<lambda>(_::unit) s. probing s"
  by unfold_locales (simp add: probing_exec)

definition circuit_example :: circuit_system where
  "circuit_example =
     \<lparr>breaker = \<lparr>failure_threshold = 2, recovery_seconds = 30, state = CLOSED,
        consecutive_failures = 0, opened_at = None, cb_generation = 0\<rparr>, held = []\<rparr>"

lemma circuit_example_reachable: "circuit_reachable 2 30 circuit_example"
  unfolding circuit_example_def by (rule circuit_reachable.initial) (simp add: new_circuit_breaker_def)

definition plain_permit :: "int \<Rightarrow> circuit_permit" where
  "plain_permit g = \<lparr>generation = g, is_half_open_probe = False\<rparr>"

definition probe_permit :: "int \<Rightarrow> circuit_permit" where
  "probe_permit g = \<lparr>generation = g, is_half_open_probe = True\<rparr>"

lemmas circuit_eval = circuit_example_def plain_permit_def probe_permit_def circuit_defs
  current_permits_def

section \<open>Properties\<close>

text \<open>
  However callers interleave (acquire, report a success or a failure,
  or never report), in every reachable state at most one half-open probe of the current
  generation is in flight, a current permit is a probe exactly while the breaker is half open,
  and while the breaker is open no permit that could still change it is in flight.
\<close>

theorem cb_single_probe:
  assumes "circuit_reachable k r s"
  shows "length (filter is_half_open_probe (current_permits s)) \<le> 1 \<and>
    (\<forall>p \<in> set (current_permits s). is_half_open_probe p \<longleftrightarrow> state (breaker s) = HALF_OPEN) \<and>
    (state (breaker s) = OPEN \<longrightarrow> current_permits s = [])"
proof -
  have "permits_inv s" using circuit_reachable_inv [OF assms] by simp
  then show ?thesis
    using length_filter_le [of is_half_open_probe "current_permits s"]
    by (cases "state (breaker s)") (auto simp: permits_inv_def filter_empty_conv)
qed

definition circuit_example_trace :: "circuit_event list" where
  "circuit_example_trace =
     [Acquire 0, Acquire 1, Fail 2 (plain_permit 0), Fail 3 (plain_permit 0), Acquire 20, Acquire 40]"

lemma circuit_example_probing:
  "fold circuit_exec circuit_example_trace circuit_example =
     \<lparr>breaker = \<lparr>failure_threshold = 2, recovery_seconds = 30, state = HALF_OPEN,
        consecutive_failures = 2, opened_at = Some 3, cb_generation = 1\<rparr>,
      held = [probe_permit 1]\<rparr>"
  by (simp add: circuit_example_trace_def circuit_eval)

theorem cb_single_probe_witness:
  "state (breaker (fold circuit_exec circuit_example_trace circuit_example)) = HALF_OPEN \<and>
   length (filter is_half_open_probe
     (current_permits (fold circuit_exec circuit_example_trace circuit_example))) \<le> 1"
  using cb_single_probe [OF circuit_run_reachable [OF circuit_example_reachable],
      of circuit_example_trace]
  by (simp add: circuit_example_probing current_permits_def probe_permit_def)

text \<open>
  In a closed breaker, failures reported one after the other by
  permits of the current generation are counted, and the breaker opens exactly at the report that
  reaches the threshold: it keeps that report's time, holds the count at the threshold and starts
  a new generation, so that later reports of the same outage change nothing.
\<close>

theorem cb_consecutive_failures:
  assumes "breaker_inv b" and "state b = CLOSED" and "generation p = cb_generation b"
    and "\<not> is_half_open_probe p"
  shows "fold (\<lambda>t. record_failure t p) ts b =
    (let missing = nat (failure_threshold b - consecutive_failures b)
     in if length ts < missing
        then b\<lparr>consecutive_failures := consecutive_failures b + int (length ts)\<rparr>
        else open_locked (ts ! (missing - 1)) b)"
  using assms
proof (induction ts arbitrary: b)
  case Nil
  then show ?case by (auto simp: breaker_inv_def Let_def)
next
  case (Cons t ts)
  let ?b = "record_failure t p b"
  have stale: "fold (\<lambda>t. record_failure t p) us (open_locked t' b) = open_locked t' b" for us t'
    using Cons.prems(3)
    by (induction us) (simp_all add: record_failure_def open_locked_def)
  show ?case
  proof (cases "failure_threshold b \<le> consecutive_failures b + 1")
    case True
    then have "?b = open_locked t b"
      using Cons.prems by (simp add: record_failure_def open_locked_def)
    moreover from True Cons.prems(1,2) have "failure_threshold b - consecutive_failures b = 1"
      by (auto simp: breaker_inv_def)
    ultimately show ?thesis by (simp add: stale Let_def)
  next
    case False
    then have b': "?b = b\<lparr>consecutive_failures := consecutive_failures b + 1\<rparr>"
      using Cons.prems by (simp add: record_failure_def)
    have "nat (failure_threshold b - consecutive_failures b) =
          Suc (nat (failure_threshold ?b - consecutive_failures ?b))"
      using False by (simp add: b')
    moreover have "nat (failure_threshold ?b - consecutive_failures ?b) \<noteq> 0"
      using False by (simp add: b')
    moreover have "open_locked u ?b = open_locked u b" for u by (simp add: b' open_locked_def)
    ultimately show ?thesis
      using Cons.IH [of ?b] Cons.prems breaker_inv_failure [of b t p]
      by (auto simp: b' Let_def nth_Cons' algebra_simps)
  qed
qed

theorem cb_consecutive_failures_witness:
  "fold (\<lambda>t. record_failure t (plain_permit 0)) [5, 6, 7] (breaker circuit_example) =
     open_locked 6 (breaker circuit_example)"
  using cb_consecutive_failures [of "breaker circuit_example" "plain_permit 0" "[5, 6, 7]"]
  by (simp add: circuit_example_def plain_permit_def breaker_inv_def)

text \<open>
  A breaker opened at a time t fails fast: every request less than the
  recovery interval later is refused, unchanged, with the positive time that remains. The first
  request at or after that instant gets the probe, and every other request until the probe is
  reported is refused with a one-second hint. A successful probe closes the breaker with a clear
  count, a failed probe opens it for a full further interval, and both start a new generation.
\<close>

theorem cb_open_window:
  assumes "breaker_inv b" and "state b = OPEN" and "opened_at b = Some t"
  shows "acquire_permission now b =
      (if now - t < recovery_seconds b
       then (Inl (CircuitOpenError (recovery_seconds b - (now - t))), b)
       else (Inr (probe_permit (cb_generation b)), b\<lparr>state := HALF_OPEN\<rparr>)) \<and>
    acquire_permission later (b\<lparr>state := HALF_OPEN\<rparr>) =
      (Inl (CircuitOpenError 1), b\<lparr>state := HALF_OPEN\<rparr>) \<and>
    record_success (probe_permit (cb_generation b)) (b\<lparr>state := HALF_OPEN\<rparr>) =
      b\<lparr>state := CLOSED, consecutive_failures := 0, opened_at := None,
        cb_generation := cb_generation b + 1\<rparr> \<and>
    record_failure later (probe_permit (cb_generation b)) (b\<lparr>state := HALF_OPEN\<rparr>) =
      open_locked later b"
  using assms by (auto simp: circuit_defs probe_permit_def breaker_inv_def max_def)

theorem cb_open_window_witness:
  "acquire_permission 33 (open_locked 3 (breaker circuit_example)) =
     (Inr (probe_permit 1), (open_locked 3 (breaker circuit_example))\<lparr>state := HALF_OPEN\<rparr>)"
  using cb_open_window [of "open_locked 3 (breaker circuit_example)" 3 33 34]
  by (simp add: circuit_example_def open_locked_def breaker_inv_def)

text \<open>
  A probe that is never reported cannot be replaced: once the
  breaker is half open with no current permit in flight, no later sequence of calls leaves that
  state, and every request at any later time is refused. Half-open has no timeout of its own, so
  the recovery of the dependency depends on every probe being reported.
\<close>

theorem cb_lost_probe_is_final:
  assumes "circuit_reachable k r s" and "state (breaker s) = HALF_OPEN" and "current_permits s = []"
  shows "state (breaker (fold circuit_exec es s)) = HALF_OPEN \<and>
    fst (acquire_permission now (breaker (fold circuit_exec es s))) = Inl (CircuitOpenError 1)"
proof -
  have "probing (fold circuit_exec es s)"
    using circuit_stuck.settled_run [OF circuit_reachable_inv [OF assms(1)]] assms(2,3)
    by (simp add: probing_def)
  then show ?thesis by (simp add: probing_def acquire_permission_def make_circuit_open_error_def)
qed

theorem cb_lost_probe_is_final_witness:
  "state (breaker (fold circuit_exec [Acquire 100, Succeed (plain_permit 0), Acquire 1000000]
     (fold circuit_exec (circuit_example_trace @ [Abandon (probe_permit 1)]) circuit_example))) = HALF_OPEN"
proof -
  let ?s = "fold circuit_exec (circuit_example_trace @ [Abandon (probe_permit 1)]) circuit_example"
  have "?s = \<lparr>breaker = \<lparr>failure_threshold = 2, recovery_seconds = 30, state = HALF_OPEN,
        consecutive_failures = 2, opened_at = Some 3, cb_generation = 1\<rparr>, held = []\<rparr>"
    by (simp add: circuit_example_probing)
  then show ?thesis
    using cb_lost_probe_is_final [OF circuit_run_reachable [OF circuit_example_reachable],
        of "circuit_example_trace @ [Abandon (probe_permit 1)]"
           "[Acquire 100, Succeed (plain_permit 0), Acquire 1000000]" 0]
    by (simp add: current_permits_def)
qed

end
