(* ===== verification/Py_Values.thy ===== *)
theory Py_Values
  imports Prelude "HOL-Library.Word"
begin

text \<open>
  The values of the Python program the components share: strings, identifiers and JSON data.

  A Python string is a list of code points; the model's \<open>string\<close> (a list of \<open>char\<close>) holds the
  code points 0 to 255, on which \<open>py_strip\<close>, \<open>py_lower\<close> and \<open>py_split\<close> compute what \<open>str.strip\<close>,
  \<open>str.lower\<close> and \<open>str.split\<close> compute. A UUID is its 128-bit integer; \<open>uuid_str\<close> is \<open>str(u)\<close>
  and \<open>uuid_parse\<close> the constructor \<open>UUID(text)\<close> on texts of hexadecimal digits, braces,
  hyphens and the \<open>urn:uuid:\<close> prefix, \<open>None\<close> where it raises \<open>ValueError\<close>.
\<close>

section \<open>Strings\<close>

definition char_space :: "char \<Rightarrow> bool" where
  "char_space c \<longleftrightarrow>
     (let n = (of_char c :: nat) in 9 \<le> n \<and> n \<le> 13 \<or> 28 \<le> n \<and> n \<le> 32 \<or> n = 133 \<or> n = 160)"

definition char_upper_case :: "nat \<Rightarrow> bool" where
  "char_upper_case n \<longleftrightarrow> 65 \<le> n \<and> n \<le> 90 \<or> 192 \<le> n \<and> n \<le> 222 \<and> n \<noteq> 215"

definition char_lower :: "char \<Rightarrow> char" where
  "char_lower c =
     (let n = (of_char c :: nat) in if char_upper_case n then char_of (n + 32) else c)"

definition py_lstrip :: "string \<Rightarrow> string" where
  "py_lstrip s = dropWhile char_space s"

definition py_strip :: "string \<Rightarrow> string" where
  "py_strip s = rev (dropWhile char_space (rev (dropWhile char_space s)))"

definition py_lower :: "string \<Rightarrow> string" where
  "py_lower s = map char_lower s"

definition py_identifier :: "string \<Rightarrow> string" where
  "py_identifier s = py_lower (py_strip s)"

text \<open>\<open>text.partition(sep)\<close> for a one-character separator: \<open>None\<close> when it does not occur.\<close>

fun py_partition :: "char \<Rightarrow> string \<Rightarrow> (string \<times> string) option" where
  "py_partition sep [] = None"
| "py_partition sep (c # cs) =
     (if c = sep then Some ([], cs)
      else map_option (\<lambda>(a, b). (c # a, b)) (py_partition sep cs))"

text \<open>\<open>text.split()\<close> and \<open>sep.join(parts)\<close>.\<close>

fun py_split_from :: "string \<Rightarrow> string \<Rightarrow> string list" where
  "py_split_from w [] = (if w = [] then [] else [rev w])"
| "py_split_from w (c # cs) =
     (if char_space c then (if w = [] then [] else [rev w]) @ py_split_from [] cs
      else py_split_from (c # w) cs)"

definition py_split :: "string \<Rightarrow> string list" where
  "py_split s = py_split_from [] s"

fun py_join :: "string \<Rightarrow> string list \<Rightarrow> string" where
  "py_join sep [] = []"
| "py_join sep [w] = w"
| "py_join sep (w # v # ws) = w @ sep @ py_join sep (v # ws)"

definition py_word :: "string \<Rightarrow> bool" where
  "py_word w \<longleftrightarrow> w \<noteq> [] \<and> (\<forall>c \<in> set w. \<not> char_space c)"

lemma py_split_from_word:
  "\<forall>c \<in> set v. \<not> char_space c \<Longrightarrow> py_split_from w (v @ s) = py_split_from (rev v @ w) s"
  by (induction v arbitrary: w) auto

lemma py_split_from_last: "py_word w \<Longrightarrow> py_split_from [] w = [w]"
  using py_split_from_word [of w "[]" "[]"] by (simp add: py_word_def)

lemma py_split_from_next: "py_word w \<Longrightarrow> py_split_from [] (w @ CHR '' '' # s) = w # py_split_from [] s"
  using py_split_from_word [of w "[]" "CHR '' '' # s"] by (simp add: py_word_def char_space_def)

lemma py_split_join [text_simps]:
  "\<forall>w \<in> set ws. py_word w \<Longrightarrow> py_split (py_join [CHR '' ''] ws) = ws"
  unfolding py_split_def
proof (induction ws)
  case (Cons w ws)
  then show ?case by (cases ws) (simp_all add: py_split_from_last py_split_from_next)
qed simp

lemma of_char_char_lower:
  "(of_char (char_lower c) :: nat) =
     (if char_upper_case (of_char c) then of_char c + 32 else of_char c)"
  by (auto simp: char_lower_def Let_def char_upper_case_def)

lemma char_lower_idem [simp]: "char_lower (char_lower c) = char_lower c"
proof -
  have "\<not> char_upper_case (of_char (char_lower c))"
    by (auto simp: of_char_char_lower char_upper_case_def)
  then show ?thesis by (simp add: char_lower_def [of "char_lower c"] Let_def)
qed

lemma char_space_lower [simp]: "char_space (char_lower c) = char_space c"
  by (auto simp: char_space_def of_char_char_lower char_upper_case_def Let_def)

lemma dropWhile_space_lower:
  "dropWhile char_space (map char_lower s) = map char_lower (dropWhile char_space s)"
  by (induction s) auto

lemma py_strip_lower [text_simps]: "py_strip (py_lower s) = py_lower (py_strip s)"
  by (simp add: py_strip_def py_lower_def dropWhile_space_lower rev_map)

lemma py_lower_idem [text_simps]: "py_lower (py_lower s) = py_lower s"
  by (simp add: py_lower_def o_def)

lemma dropWhile_hd: "xs \<noteq> [] \<Longrightarrow> \<not> P (hd xs) \<Longrightarrow> dropWhile P xs = xs"
  by (cases xs) auto

lemma py_strip_eq_Nil [text_simps]: "py_strip s = [] \<longleftrightarrow> (\<forall>c \<in> set s. char_space c)"
proof
  assume "py_strip s = []"
  then have "rev (dropWhile char_space s) = [] \<or>
      (\<forall>c \<in> set (rev (dropWhile char_space s)). char_space c)"
    by (simp only: py_strip_def rev_is_Nil_conv dropWhile_eq_Nil_conv) simp
  then have "\<forall>c \<in> set (dropWhile char_space s). char_space c" by (auto dest: set_dropWhileD)
  moreover have "\<forall>c \<in> set (takeWhile char_space s). char_space c" by (auto dest: set_takeWhileD)
  ultimately show "\<forall>c \<in> set s. char_space c"
    using takeWhile_dropWhile_id [of char_space s] by (metis Un_iff set_append)
next
  assume "\<forall>c \<in> set s. char_space c"
  then show "py_strip s = []" by (auto simp: py_strip_def dest: set_dropWhileD)
qed

lemma map_of_sort_key:
  assumes "distinct (map fst m)"
  shows "map_of (sort_key fst m) = map_of m"
proof -
  have "distinct (map fst (sort_key fst m))"
    using assms by (simp add: distinct_map)
  then show ?thesis using assms by (simp add: map_of_inject_set [OF _ assms])
qed

lemma py_strip_visible: "\<forall>c \<in> set s. \<not> char_space c \<Longrightarrow> py_strip s = s"
proof -
  assume a: "\<forall>c \<in> set s. \<not> char_space c"
  have "dropWhile char_space t = t" if "set t \<subseteq> set s" for t
    using that a by (cases t) auto
  then show ?thesis by (simp add: py_strip_def)
qed

lemma py_strip_ends:
  "py_strip s = [] \<or> \<not> char_space (hd (py_strip s)) \<and> \<not> char_space (last (py_strip s))"
proof (cases "dropWhile char_space (rev (dropWhile char_space s)) = []")
  case True
  then show ?thesis by (simp add: py_strip_def)
next
  case False
  let ?a = "dropWhile char_space s" and ?b = "dropWhile char_space (rev (dropWhile char_space s))"
  have a: "?a \<noteq> []" using False by (metis rev.simps(1) dropWhile.simps(1))
  have "\<not> char_space (hd ?b)" using False by (rule hd_dropWhile)
  moreover have "last ?b = hd ?a"
  proof -
    obtain us where "rev ?a = us @ ?b" by (metis takeWhile_dropWhile_id)
    then have "last (rev ?a) = last ?b" using False by (metis last_appendR)
    then show ?thesis using a by (simp add: last_rev)
  qed
  moreover have "\<not> char_space (hd ?a)" using a by (rule hd_dropWhile)
  ultimately show ?thesis using False by (simp add: py_strip_def hd_rev last_rev)
qed

lemma py_strip_idem [text_simps]: "py_strip (py_strip s) = py_strip s"
proof (cases "py_strip s = []")
  case True
  then show ?thesis by (simp add: py_strip_def [of "[]"])
next
  case False
  with py_strip_ends [of s] have h: "\<not> char_space (hd (py_strip s))"
    and l: "\<not> char_space (hd (rev (py_strip s)))" by (auto simp: hd_rev)
  from False h have "dropWhile char_space (py_strip s) = py_strip s" by (rule dropWhile_hd)
  moreover have "dropWhile char_space (rev (py_strip s)) = rev (py_strip s)"
    using False l by (simp add: dropWhile_hd)
  ultimately show ?thesis by (simp add: py_strip_def [of "py_strip s"])
qed

lemma py_identifier_idem [text_simps, simp]: "py_identifier (py_identifier s) = py_identifier s"
  by (simp add: py_identifier_def text_simps)

lemma py_partition_Some:
  "py_partition sep s = Some (a, b) \<Longrightarrow> s = a @ sep # b \<and> sep \<notin> set a"
  by (induction s arbitrary: a) (auto split: if_splits)

lemma py_partition_append [simp]: "sep \<notin> set a \<Longrightarrow> py_partition sep (a @ sep # b) = Some (a, b)"
  by (induction a) auto

section \<open>Identifiers\<close>

type_synonym uuid = "128 word"

definition hex_digit :: "nat \<Rightarrow> char" where
  "hex_digit n = ''0123456789abcdef'' ! (n mod 16)"

fun hex_fixed :: "nat \<Rightarrow> nat \<Rightarrow> string" where
  "hex_fixed 0 n = []"
| "hex_fixed (Suc w) n = hex_fixed w (n div 16) @ [hex_digit n]"

definition uuid_hex :: "uuid \<Rightarrow> string" where
  "uuid_hex u = hex_fixed 32 (unat u)"

definition uuid_str :: "uuid \<Rightarrow> string" where
  "uuid_str u =
     (let h = uuid_hex u
      in take 8 h @ ''-'' @ take 4 (drop 8 h) @ ''-'' @ take 4 (drop 12 h) @ ''-'' @
         take 4 (drop 16 h) @ ''-'' @ drop 20 h)"

definition hex_value :: "char \<Rightarrow> nat option" where
  "hex_value c =
     (let n = (of_char c :: nat)
      in if 48 \<le> n \<and> n \<le> 57 then Some (n - 48)
         else if 97 \<le> n \<and> n \<le> 102 then Some (n - 87)
         else if 65 \<le> n \<and> n \<le> 70 then Some (n - 55)
         else None)"

fun hex_read :: "nat \<Rightarrow> string \<Rightarrow> nat option" where
  "hex_read acc [] = Some acc"
| "hex_read acc (c # cs) =
     (case hex_value c of None \<Rightarrow> None | Some d \<Rightarrow> hex_read (16 * acc + d) cs)"

fun remove_sub :: "string \<Rightarrow> nat \<Rightarrow> string \<Rightarrow> string" where
  "remove_sub pat skip [] = []"
| "remove_sub pat (Suc skip) (c # cs) = remove_sub pat skip cs"
| "remove_sub pat 0 (c # cs) =
     (if pat \<noteq> [] \<and> take (length pat) (c # cs) = pat then remove_sub pat (length pat - 1) cs
      else c # remove_sub pat 0 cs)"

definition strip_chars :: "char set \<Rightarrow> string \<Rightarrow> string" where
  "strip_chars cs s = rev (dropWhile (\<lambda>c. c \<in> cs) (rev (dropWhile (\<lambda>c. c \<in> cs) s)))"

definition uuid_parse :: "string \<Rightarrow> uuid option" where
  "uuid_parse text =
     (let h = filter (\<lambda>c. c \<noteq> CHR ''-'')
                (strip_chars {CHR ''{'', CHR ''}''}
                   (remove_sub ''uuid:'' 0 (remove_sub ''urn:'' 0 text)))
      in if length h \<noteq> 32 then None else map_option word_of_nat (hex_read 0 h))"

lemma hex_digit_set: "hex_digit n \<in> set ''0123456789abcdef''"
  unfolding hex_digit_def by (rule nth_mem) simp

lemma hex_value_digit [simp]: "hex_value (hex_digit n) = Some (n mod 16)"
proof -
  have "\<forall>k \<in> set [0..<16]. hex_value (''0123456789abcdef'' ! k) = Some k"
    by code_simp
  then show ?thesis by (simp add: hex_digit_def)
qed

lemma length_hex_fixed [simp]: "length (hex_fixed w n) = w"
  by (induction w n rule: hex_fixed.induct) auto

lemma hex_fixed_set: "set (hex_fixed w n) \<subseteq> set ''0123456789abcdef''"
  by (induction w n rule: hex_fixed.induct) (use hex_digit_set in auto)

lemma hex_read_append: "hex_read acc (xs @ ys) = Option.bind (hex_read acc xs) (\<lambda>a. hex_read a ys)"
  by (induction xs arbitrary: acc) (auto split: option.splits)

lemma hex_read_fixed [simp]: "hex_read 0 (hex_fixed w n) = Some (n mod 16 ^ w)"
proof (induction w n rule: hex_fixed.induct)
  case (2 w n)
  have "16 * (n div 16 mod 16 ^ w) + n mod 16 = n mod (16 * 16 ^ w)"
    by (simp add: mod_mult2_eq)
  with 2 show ?case by (simp add: hex_read_append)
qed simp

lemma remove_sub_absent: "pat \<noteq> [] \<Longrightarrow> hd pat \<notin> set s \<Longrightarrow> remove_sub pat 0 s = s"
  by (induction s) (cases pat; auto)+

lemma strip_chars_absent: "set s \<inter> cs = {} \<Longrightarrow> strip_chars cs s = s"
proof -
  assume a: "set s \<inter> cs = {}"
  have "dropWhile (\<lambda>c. c \<in> cs) xs = xs" if "set xs = set s" for xs
    using a that by (cases xs) auto
  then show ?thesis by (simp add: strip_chars_def)
qed

lemma uuid_str_set: "set (uuid_str u) \<subseteq> set ''0123456789abcdef-''"
proof -
  have h: "set (uuid_hex u) \<subseteq> set ''0123456789abcdef''"
    unfolding uuid_hex_def by (rule hex_fixed_set)
  have sub: "insert (CHR ''-'') (set ''0123456789abcdef'') = set ''0123456789abcdef-''" by auto
  have "set (uuid_str u) \<subseteq> insert (CHR ''-'') (set (uuid_hex u))"
    by (auto simp: uuid_str_def Let_def dest!: in_set_takeD in_set_dropD)
  with h show ?thesis unfolding sub [symmetric] by blast
qed

lemma uuid_str_digits: "filter (\<lambda>c. c \<noteq> CHR ''-'') (uuid_str u) = uuid_hex u"
proof -
  have "CHR ''-'' \<notin> set ''0123456789abcdef''" by simp
  then have h: "CHR ''-'' \<notin> set (uuid_hex u)"
    using hex_fixed_set [of 32 "unat u"] unfolding uuid_hex_def by blast
  have f: "filter (\<lambda>c. c \<noteq> CHR ''-'') xs = xs" if "set xs \<subseteq> set (uuid_hex u)" for xs
    using that h by (auto simp: filter_id_conv)
  have s: "take n (drop m xs) @ drop (m + n) xs = drop m xs" for n m and xs :: string
    by (metis append_take_drop_id drop_drop add.commute)
  show ?thesis
    using s [of 4 8 "uuid_hex u"] s [of 4 12 "uuid_hex u"] s [of 4 16 "uuid_hex u"]
    by (simp add: uuid_str_def Let_def f set_take_subset
        subset_trans [OF set_take_subset set_drop_subset] set_drop_subset)
qed

lemma uuid_parse_str [simp]: "uuid_parse (uuid_str u) = Some u"
proof -
  have "CHR ''u'' \<notin> set ''0123456789abcdef-''"
    and "set ''0123456789abcdef-'' \<inter> {CHR ''{'', CHR ''}''} = {}" by simp_all
  then have "CHR ''u'' \<notin> set (uuid_str u)" and "set (uuid_str u) \<inter> {CHR ''{'', CHR ''}''} = {}"
    using uuid_str_set [of u] by blast+
  moreover have "unat u < 16 ^ 32" using unsigned_less [of u] by simp
  ultimately show ?thesis
    by (simp add: uuid_parse_def Let_def remove_sub_absent strip_chars_absent uuid_str_digits)
      (simp add: uuid_hex_def)
qed

lemma uuid_str_inj: "uuid_str u = uuid_str v \<longleftrightarrow> u = v"
  by (metis uuid_parse_str option.inject)

section \<open>JSON data\<close>

datatype json =
    JNull
  | JBool bool
  | JInt int
  | JFloat real
  | JStr string
  | JList "json list"
  | JObj "(string \<times> json) list"

type_synonym payload = "(string \<times> json) list"

definition payload_get :: "payload \<Rightarrow> string \<Rightarrow> json" where
  "payload_get p k = (case map_of p k of None \<Rightarrow> JNull | Some v \<Rightarrow> v)"

text \<open>
  \<open>datetime.fromtimestamp(value, tz=UTC)\<close> of a number: \<open>None\<close> where it raises, outside the years
  1 to 9999. A float is rounded half to even to a microsecond.
\<close>

definition round_half_even :: "real \<Rightarrow> int" where
  "round_half_even x =
     (let f = \<lfloor>x\<rfloor>; d = x - of_int f
      in if d < 1 / 2 \<or> d = 1 / 2 \<and> even f then f else f + 1)"

definition utc_datetime :: "int \<Rightarrow> instant option" where
  "utc_datetime us =
     (if - 62135596800 * us_per_second \<le> us \<and> us < 253402300800 * us_per_second then Some us else None)"

fun datetime_fromtimestamp :: "json \<Rightarrow> instant option" where
  "datetime_fromtimestamp (JInt n) = utc_datetime (n * us_per_second)"
| "datetime_fromtimestamp (JFloat x) = utc_datetime (round_half_even (x * of_int us_per_second))"
| "datetime_fromtimestamp _ = None"

end
