(* ===== verification/Json_Web_Token.thy ===== *)
theory Json_Web_Token
  imports Py_Values
begin

text \<open>
  The boundary to the PyJWT library, which \<open>src/backend/app/core/security.py\<close>,
  \<open>service_identity.py\<close> and \<open>service_token_verifier.py\<close> call. PyJWT is not part of the repository, so
  it is a parameter: a record of the three functions the program uses, over a type \<open>'sk\<close> of
  signing keys and a type \<open>'pk\<close> of verification keys. \<open>jwt_decode\<close> takes the library's own
  reading of the clock.

  \<open>jwt_contract\<close> states what the program relies on, as PyJWT documents it: a token returned by
  \<open>encode\<close> carries the header it was given, and \<open>decode\<close> with the matching key returns its claims,
  dates converted to whole seconds, exactly when the checks asked for in the options pass; with
  whatever key, it returns no other claims than the token's.
\<close>

datatype claim = Claim json | Date instant

type_synonym claims = "(string \<times> claim) list"

record jwt_options =
  opt_algorithms :: "string list"
  opt_audience :: string
  opt_issuer :: string
  opt_require :: "string list"
  opt_verify_times :: bool

datatype jwt_failure = InvalidSignatureError | InvalidIssuerError | InvalidAudienceError | OtherPyJWTError

record ('sk, 'pk) jwt_lib =
  jwt_encode :: "claims \<Rightarrow> 'sk \<Rightarrow> string \<Rightarrow> payload \<Rightarrow> string option"
  jwt_get_unverified_header :: "string \<Rightarrow> payload option"
  jwt_decode :: "instant \<Rightarrow> string \<Rightarrow> 'pk \<Rightarrow> jwt_options \<Rightarrow> jwt_failure + payload"

fun claim_json :: "claim \<Rightarrow> json" where
  "claim_json (Claim j) = j"
| "claim_json (Date t) = JInt (t div us_per_second)"

definition claims_json :: "claims \<Rightarrow> payload" where
  "claims_json cs = map (\<lambda>(k, c). (k, claim_json c)) cs"

definition payload_seconds :: "payload \<Rightarrow> string \<Rightarrow> instant" where
  "payload_seconds p k = (case payload_get p k of JInt n \<Rightarrow> n * us_per_second | _ \<Rightarrow> 0)"

definition jwt_accepts :: "instant \<Rightarrow> jwt_options \<Rightarrow> string \<Rightarrow> payload \<Rightarrow> bool" where
  "jwt_accepts now opts alg p \<longleftrightarrow>
     alg \<in> set (opt_algorithms opts) \<and>
     (\<forall>k \<in> set (opt_require opts). payload_get p k \<noteq> JNull) \<and>
     payload_get p ''aud'' = JStr (opt_audience opts) \<and>
     payload_get p ''iss'' = JStr (opt_issuer opts) \<and>
     (opt_verify_times opts \<longrightarrow>
        payload_seconds p ''iat'' \<le> now \<and> payload_seconds p ''nbf'' \<le> now \<and>
        now < payload_seconds p ''exp'')"

definition string_claim :: "payload \<Rightarrow> string \<Rightarrow> bool" where
  "string_claim p k = (case payload_get p k of JStr _ \<Rightarrow> True | _ \<Rightarrow> False)"

definition jwt_contract :: "('sk, 'pk) jwt_lib \<Rightarrow> ('sk \<Rightarrow> 'pk) \<Rightarrow> bool" where
  "jwt_contract lib public_of \<longleftrightarrow>
     (\<forall>cs sk alg hdr tok. jwt_encode lib cs sk alg hdr = Some tok \<longrightarrow>
        (\<exists>c \<in> set tok. \<not> char_space c) \<and>
        (\<exists>h. jwt_get_unverified_header lib tok = Some h \<and> payload_get h ''alg'' = JStr alg \<and>
           (\<forall>k. payload_get hdr k \<noteq> JNull \<longrightarrow> payload_get h k = payload_get hdr k)) \<and>
        (\<forall>now pk opts p. jwt_decode lib now tok pk opts = Inr p \<longrightarrow> p = claims_json cs) \<and>
        (string_claim (claims_json cs) ''aud'' \<and> string_claim (claims_json cs) ''iss'' \<longrightarrow>
           (\<forall>now opts. if jwt_accepts now opts alg (claims_json cs)
              then jwt_decode lib now tok (public_of sk) opts = Inr (claims_json cs)
              else isl (jwt_decode lib now tok (public_of sk) opts))))"

lemma payload_get_claims_json [simp]:
  "payload_get (claims_json cs) k = (case map_of cs k of None \<Rightarrow> JNull | Some c \<Rightarrow> claim_json c)"
  by (induction cs) (auto simp: payload_get_def claims_json_def)

lemma jwt_contract_token:
  assumes "jwt_contract lib public_of" and "jwt_encode lib cs sk alg hdr = Some tok"
  obtains h where "jwt_get_unverified_header lib tok = Some h" and "payload_get h ''alg'' = JStr alg"
    and "\<And>k. payload_get hdr k \<noteq> JNull \<Longrightarrow> payload_get h k = payload_get hdr k"
    and "\<exists>c \<in> set tok. \<not> char_space c"
  using assms unfolding jwt_contract_def by blast

lemma jwt_contract_claims:
  "jwt_contract lib public_of \<Longrightarrow> jwt_encode lib cs sk alg hdr = Some tok \<Longrightarrow>
     jwt_decode lib now tok pk opts = Inr p \<Longrightarrow> p = claims_json cs"
  unfolding jwt_contract_def by blast

lemma jwt_contract_decode:
  assumes "jwt_contract lib public_of" and "jwt_encode lib cs sk alg hdr = Some tok"
    and "string_claim (claims_json cs) ''aud''" and "string_claim (claims_json cs) ''iss''"
  shows "jwt_accepts now opts alg (claims_json cs) \<Longrightarrow>
           jwt_decode lib now tok (public_of sk) opts = Inr (claims_json cs)"
    and "\<not> jwt_accepts now opts alg (claims_json cs) \<Longrightarrow>
           \<exists>e. jwt_decode lib now tok (public_of sk) opts = Inl e"
  using assms unfolding jwt_contract_def isl_def by meson+

section \<open>A library with one token\<close>

text \<open>
  The smallest library that meets the contract: it signs one claim set with one key, and refuses
  to sign anything else. The witnesses instantiate the parameter with it.
\<close>

definition one_token_lib :: "claims \<Rightarrow> string \<Rightarrow> payload \<Rightarrow> ('k, 'k) jwt_lib" where
  "one_token_lib cs alg hdr =
     \<lparr>jwt_encode = (\<lambda>cs' sk alg' hdr'. if cs' = cs \<and> alg' = alg \<and> hdr' = hdr then Some ''t'' else None),
      jwt_get_unverified_header = (\<lambda>tok. if tok = ''t'' then Some ((''alg'', JStr alg) # hdr) else None),
      jwt_decode = (\<lambda>now tok pk opts.
         if tok = ''t'' \<and> jwt_accepts now opts alg (claims_json cs) then Inr (claims_json cs)
         else Inl OtherPyJWTError)\<rparr>"

lemma one_token_contract: "payload_get hdr ''alg'' = JNull \<Longrightarrow> jwt_contract (one_token_lib cs alg hdr) public_of"
  by (auto simp: jwt_contract_def one_token_lib_def payload_get_def isl_def char_space_def)

text \<open>The same with several claim sets: the token of the n-th one has n + 1 characters.\<close>

definition token_table_lib :: "claims list \<Rightarrow> string \<Rightarrow> payload \<Rightarrow> ('k, 'k) jwt_lib" where
  "token_table_lib css alg hdr =
     \<lparr>jwt_encode = (\<lambda>cs sk alg' hdr'. if cs \<in> set css \<and> alg' = alg \<and> hdr' = hdr
         then Some (replicate (Suc (length (takeWhile (\<lambda>c. c \<noteq> cs) css))) (CHR ''t'')) else None),
      jwt_get_unverified_header = (\<lambda>tok. Some ((''alg'', JStr alg) # hdr)),
      jwt_decode = (\<lambda>now tok pk opts.
         if tok \<noteq> [] \<and> length tok \<le> length css \<and>
            jwt_accepts now opts alg (claims_json (css ! (length tok - 1)))
         then Inr (claims_json (css ! (length tok - 1)))
         else Inl OtherPyJWTError)\<rparr>"

lemma token_table_contract:
  assumes "payload_get hdr ''alg'' = JNull"
  shows "jwt_contract (token_table_lib css alg hdr) public_of"
proof -
  have "length (takeWhile (\<lambda>c. c \<noteq> cs) css) < length css" if "cs \<in> set css" for cs
    using that by (induction css) auto
  then have idx: "length (takeWhile (\<lambda>c. c \<noteq> cs) css) < length css \<and>
      css ! length (takeWhile (\<lambda>c. c \<noteq> cs) css) = cs" if "cs \<in> set css" for cs
    using that nth_length_takeWhile [of "\<lambda>c. c \<noteq> cs" css] by simp
  show ?thesis
    using assms
    by (auto simp: jwt_contract_def token_table_lib_def payload_get_def isl_def char_space_def Suc_le_eq idx
        split: if_splits)
qed

end
