(* ===== verification/Service_Identity.thy ===== *)
theory Service_Identity
  imports Json_Web_Token "HOL-Library.List_Lexorder" "HOL-Library.Char_ord" "HOL-Library.AList"
begin

text \<open>
  Credentials between services: \<open>core/service_identity.py\<close> (the provider mints short-lived RS256
  tokens) and \<open>core/service_token_verifier.py\<close> (the callee decides whether to trust one), in the
  order of the code. The clock is a reading passed in, \<open>NotAware\<close> when it is not a timezone-aware
  datetime; the token id is the value the id factory returned. PEM loading belongs to the
  cryptography library and is a parameter; arguments have their declared types, so the branches
  that reject a value of another Python type have no counterpart.
\<close>

section \<open>Types and configuration\<close>

definition SERVICE_TOKEN_ALGORITHM :: string where "SERVICE_TOKEN_ALGORITHM = ''RS256''"
definition SERVICE_TOKEN_USE :: string where "SERVICE_TOKEN_USE = ''service''"
definition SERVICE_TOKEN_TYPE :: string where "SERVICE_TOKEN_TYPE = ''JWT''"
definition MINIMUM_SERVICE_TOKEN_TTL_SECONDS :: int where "MINIMUM_SERVICE_TOKEN_TTL_SECONDS = 30"
definition MAXIMUM_SERVICE_TOKEN_TTL_SECONDS :: int where "MAXIMUM_SERVICE_TOKEN_TTL_SECONDS = 120"
definition MINIMUM_RSA_KEY_SIZE :: int where "MINIMUM_RSA_KEY_SIZE = 2048"
definition MAXIMUM_CLOCK_SKEW_SECONDS :: int where "MAXIMUM_CLOCK_SKEW_SECONDS = 30"
definition MAXIMUM_VERIFICATION_KEYS :: nat where "MAXIMUM_VERIFICATION_KEYS = 2"

lemmas service_token_constants =
  SERVICE_TOKEN_ALGORITHM_def SERVICE_TOKEN_USE_def SERVICE_TOKEN_TYPE_def
  MINIMUM_SERVICE_TOKEN_TTL_SECONDS_def MAXIMUM_SERVICE_TOKEN_TTL_SECONDS_def
  MINIMUM_RSA_KEY_SIZE_def MAXIMUM_CLOCK_SKEW_SECONDS_def MAXIMUM_VERIFICATION_KEYS_def

datatype service_scope = INCIDENTS_READ | INCIDENTS_WRITE | SERVICES_READ

fun scope_value :: "service_scope \<Rightarrow> string" where
  "scope_value INCIDENTS_READ = ''incidents:read''"
| "scope_value INCIDENTS_WRITE = ''incidents:write''"
| "scope_value SERVICES_READ = ''services:read''"

definition service_scope_of :: "string \<Rightarrow> service_scope option" where
  "service_scope_of v =
     find (\<lambda>s. scope_value s = v) [INCIDENTS_READ, INCIDENTS_WRITE, SERVICES_READ]"

datatype service_auth_failure_reason =
    MALFORMED_CREDENTIAL | INVALID_ALGORITHM | INVALID_TOKEN_TYPE | MISSING_KEY_ID | UNKNOWN_KEY
  | INVALID_SIGNATURE | INVALID_ISSUER | INVALID_AUDIENCE | INVALID_CLAIM_CONTRACT
  | INVALID_TOKEN_USE | INVALID_LIFETIME | INVALID_SCOPE_CONTRACT

datatype service_identity_error =
    ServiceIdentityConfigurationError string
  | ServiceTokenCreationError string
  | ServiceAuthenticationError service_auth_failure_reason

datatype clock_reading = Aware instant | NotAware

datatype 'k pem_load = PemInvalid | PemNotRsa | PemRsa 'k int

definition require_non_empty_text :: "string \<Rightarrow> string \<Rightarrow> service_identity_error + string" where
  "require_non_empty_text value field_name =
     (let normalized = py_strip value
      in if normalized = []
         then Inl (ServiceIdentityConfigurationError (field_name @ '' must not be empty.''))
         else Inr normalized)"

section \<open>The provider\<close>

record 'sk service_token_provider =
  stp_key_id :: string
  stp_issuer :: string
  stp_private_key :: 'sk
  stp_ttl_seconds :: int

definition new_service_token_provider ::
    "(string \<Rightarrow> 'sk pem_load) \<Rightarrow> string \<Rightarrow> string \<Rightarrow> string \<Rightarrow> int \<Rightarrow>
     service_identity_error + 'sk service_token_provider" where
  "new_service_token_provider load private_key_pem key_id issuer ttl =
     (case require_non_empty_text key_id ''key_id'' of Inl e \<Rightarrow> Inl e | Inr kid \<Rightarrow>
      case require_non_empty_text issuer ''issuer'' of Inl e \<Rightarrow> Inl e | Inr iss \<Rightarrow>
      if \<not> (MINIMUM_SERVICE_TOKEN_TTL_SECONDS \<le> ttl \<and> ttl \<le> MAXIMUM_SERVICE_TOKEN_TTL_SECONDS)
      then Inl (ServiceIdentityConfigurationError ''ttl_seconds must be between 30 and 120.'')
      else case load private_key_pem of
        PemInvalid \<Rightarrow> Inl (ServiceIdentityConfigurationError
          ''private_key_pem is not a valid unencrypted PEM private key.'')
      | PemNotRsa \<Rightarrow> Inl (ServiceIdentityConfigurationError
          ''private_key_pem must contain an RSA private key.'')
      | PemRsa key bits \<Rightarrow>
          if bits < MINIMUM_RSA_KEY_SIZE
          then Inl (ServiceIdentityConfigurationError ''RSA private keys must be at least 2048 bits.'')
          else Inr \<lparr>stp_key_id = kid, stp_issuer = iss, stp_private_key = key, stp_ttl_seconds = ttl\<rparr>)"

definition service_claims ::
    "'sk service_token_provider \<Rightarrow> instant \<Rightarrow> uuid \<Rightarrow> string \<Rightarrow> service_scope list \<Rightarrow> claims" where
  "service_claims prov issued_at token_id audience scopes =
     [(''iss'', Claim (JStr (stp_issuer prov))),
      (''sub'', Claim (JStr (stp_issuer prov))),
      (''aud'', Claim (JStr audience)),
      (''iat'', Date issued_at),
      (''nbf'', Date issued_at),
      (''exp'', Date (issued_at + timedelta_seconds (stp_ttl_seconds prov))),
      (''jti'', Claim (JStr (uuid_str token_id))),
      (''token_use'', Claim (JStr SERVICE_TOKEN_USE)),
      (''scope'', Claim (JStr (py_join [CHR '' ''] (sort (map scope_value (remdups scopes))))))]"

definition service_header :: "'sk service_token_provider \<Rightarrow> payload" where
  "service_header prov = [(''typ'', JStr ''JWT''), (''kid'', JStr (stp_key_id prov))]"

definition create_token ::
    "('sk, 'pk) jwt_lib \<Rightarrow> 'sk service_token_provider \<Rightarrow> clock_reading \<Rightarrow> uuid \<Rightarrow> string \<Rightarrow>
     service_scope list \<Rightarrow> service_identity_error + string" where
  "create_token lib prov clock token_id audience scopes =
     (case require_non_empty_text audience ''audience'' of Inl e \<Rightarrow> Inl e | Inr aud \<Rightarrow>
      if scopes = [] then Inl (ServiceTokenCreationError ''At least one service scope is required.'')
      else case clock of
        NotAware \<Rightarrow> Inl (ServiceTokenCreationError
          ''The service-token clock must return a timezone-aware datetime.'')
      | Aware issued_at \<Rightarrow>
          (case jwt_encode lib (service_claims prov issued_at token_id aud scopes)
                  (stp_private_key prov) SERVICE_TOKEN_ALGORITHM (service_header prov) of
             None \<Rightarrow> Inl (ServiceTokenCreationError ''The service credential could not be created.'')
           | Some tok \<Rightarrow> Inr tok))"

section \<open>The verifier\<close>

record 'pk service_token_verifier =
  stv_expected_issuer :: string
  stv_expected_audience :: string
  stv_public_keys :: "(string \<times> 'pk) list"
  stv_clock_skew :: int

record service_principal =
  sp_issuer :: string
  sp_subject :: string
  sp_audience :: string
  sp_token_id :: uuid
  sp_issued_at :: instant
  sp_not_before :: instant
  sp_expires_at :: instant
  sp_scopes :: "service_scope list"

fun load_public_keys ::
    "(string \<Rightarrow> 'pk pem_load) \<Rightarrow> (string \<times> string) list \<Rightarrow> (string \<times> 'pk) list \<Rightarrow>
     service_identity_error + (string \<times> 'pk) list" where
  "load_public_keys load [] loaded = Inr loaded"
| "load_public_keys load ((key_id, pem) # rest) loaded =
     (case require_non_empty_text key_id ''key_id'' of Inl e \<Rightarrow> Inl e | Inr kid \<Rightarrow>
      case load pem of
        PemInvalid \<Rightarrow> Inl (ServiceIdentityConfigurationError
          ''public_key_pem is not a valid PEM public key.'')
      | PemNotRsa \<Rightarrow> Inl (ServiceIdentityConfigurationError
          ''public_key_pem must contain an RSA public key.'')
      | PemRsa key bits \<Rightarrow>
          if bits < MINIMUM_RSA_KEY_SIZE
          then Inl (ServiceIdentityConfigurationError ''RSA public keys must be at least 2048 bits.'')
          else load_public_keys load rest (AList.update kid key loaded))"

definition new_service_token_verifier ::
    "(string \<Rightarrow> 'pk pem_load) \<Rightarrow> (string \<times> string) list \<Rightarrow> string \<Rightarrow> string \<Rightarrow> int \<Rightarrow>
     service_identity_error + 'pk service_token_verifier" where
  "new_service_token_verifier load public_keys expected_issuer expected_audience skew_seconds =
     (case require_non_empty_text expected_issuer ''expected_issuer'' of Inl e \<Rightarrow> Inl e | Inr iss \<Rightarrow>
      case require_non_empty_text expected_audience ''expected_audience'' of Inl e \<Rightarrow> Inl e | Inr aud \<Rightarrow>
      if \<not> (0 \<le> skew_seconds \<and> skew_seconds \<le> MAXIMUM_CLOCK_SKEW_SECONDS)
      then Inl (ServiceIdentityConfigurationError ''clock_skew_seconds must be between 0 and 30.'')
      else if public_keys = []
      then Inl (ServiceIdentityConfigurationError ''At least one service verification key is required.'')
      else if MAXIMUM_VERIFICATION_KEYS < length public_keys
      then Inl (ServiceIdentityConfigurationError ''At most two service verification keys are allowed.'')
      else case load_public_keys load public_keys [] of
        Inl e \<Rightarrow> Inl e
      | Inr keys \<Rightarrow> Inr \<lparr>stv_expected_issuer = iss, stv_expected_audience = aud,
          stv_public_keys = keys, stv_clock_skew = timedelta_seconds skew_seconds\<rparr>)"

fun numeric_date :: "payload \<Rightarrow> string \<Rightarrow> service_identity_error + instant" where
  "numeric_date p claim_name =
     (case datetime_fromtimestamp (payload_get p claim_name) of
        None \<Rightarrow> Inl (ServiceAuthenticationError INVALID_CLAIM_CONTRACT)
      | Some t \<Rightarrow> Inr t)"

definition token_scopes :: "payload \<Rightarrow> service_identity_error + service_scope list" where
  "token_scopes p =
     (case payload_get p ''scope'' of
        JStr v \<Rightarrow>
          (let names = py_split v
           in if names = [] \<or> \<not> distinct names
              then Inl (ServiceAuthenticationError INVALID_SCOPE_CONTRACT)
              else if \<exists>n \<in> set names. service_scope_of n = None
              then Inl (ServiceAuthenticationError INVALID_SCOPE_CONTRACT)
              else Inr (map (the \<circ> service_scope_of) names))
      | _ \<Rightarrow> Inl (ServiceAuthenticationError INVALID_SCOPE_CONTRACT))"

definition check_lifetime ::
    "int \<Rightarrow> clock_reading \<Rightarrow> instant \<Rightarrow> instant \<Rightarrow> instant \<Rightarrow> service_identity_error option" where
  "check_lifetime skew clock issued_at not_before expires_at =
     (if not_before \<noteq> issued_at then Some (ServiceAuthenticationError INVALID_LIFETIME)
      else if \<not> (timedelta_seconds MINIMUM_SERVICE_TOKEN_TTL_SECONDS \<le> expires_at - issued_at \<and>
                 expires_at - issued_at \<le> timedelta_seconds MAXIMUM_SERVICE_TOKEN_TTL_SECONDS)
      then Some (ServiceAuthenticationError INVALID_LIFETIME)
      else case clock of
        NotAware \<Rightarrow> Some (ServiceIdentityConfigurationError
          ''The service-token verifier clock must return a timezone-aware datetime.'')
      | Aware now \<Rightarrow>
          if issued_at > now + skew \<or> not_before > now + skew \<or> now \<ge> expires_at + skew
          then Some (ServiceAuthenticationError INVALID_LIFETIME) else None)"

definition principal_from_payload ::
    "'pk service_token_verifier \<Rightarrow> clock_reading \<Rightarrow> payload \<Rightarrow> service_identity_error + service_principal" where
  "principal_from_payload stv clock p =
     (case (payload_get p ''iss'', payload_get p ''sub'', payload_get p ''aud'') of
        (JStr iss, JStr sub, JStr aud) \<Rightarrow>
          if iss \<noteq> stv_expected_issuer stv \<or> sub \<noteq> stv_expected_issuer stv \<or>
             aud \<noteq> stv_expected_audience stv
          then Inl (ServiceAuthenticationError INVALID_CLAIM_CONTRACT)
          else if payload_get p ''token_use'' \<noteq> JStr SERVICE_TOKEN_USE
          then Inl (ServiceAuthenticationError INVALID_TOKEN_USE)
          else (case payload_get p ''jti'' of
            JStr jti \<Rightarrow>
              (case uuid_parse jti of
                 None \<Rightarrow> Inl (ServiceAuthenticationError INVALID_CLAIM_CONTRACT)
               | Some token_id \<Rightarrow>
                   (case numeric_date p ''iat'' of Inl e \<Rightarrow> Inl e | Inr issued_at \<Rightarrow>
                    case numeric_date p ''nbf'' of Inl e \<Rightarrow> Inl e | Inr not_before \<Rightarrow>
                    case numeric_date p ''exp'' of Inl e \<Rightarrow> Inl e | Inr expires_at \<Rightarrow>
                    case check_lifetime (stv_clock_skew stv) clock issued_at not_before expires_at of
                      Some e \<Rightarrow> Inl e
                    | None \<Rightarrow>
                    case token_scopes p of Inl e \<Rightarrow> Inl e | Inr scopes \<Rightarrow>
                      Inr \<lparr>sp_issuer = iss, sp_subject = sub, sp_audience = aud, sp_token_id = token_id,
                        sp_issued_at = issued_at, sp_not_before = not_before,
                        sp_expires_at = expires_at, sp_scopes = scopes\<rparr>))
          | _ \<Rightarrow> Inl (ServiceAuthenticationError INVALID_CLAIM_CONTRACT))
      | _ \<Rightarrow> Inl (ServiceAuthenticationError INVALID_CLAIM_CONTRACT))"

definition verifier_options :: "'pk service_token_verifier \<Rightarrow> jwt_options" where
  "verifier_options stv =
     \<lparr>opt_algorithms = [SERVICE_TOKEN_ALGORITHM], opt_audience = stv_expected_audience stv,
      opt_issuer = stv_expected_issuer stv,
      opt_require = [''iss'', ''sub'', ''aud'', ''iat'', ''nbf'', ''exp'', ''jti'', ''token_use'', ''scope''],
      opt_verify_times = False\<rparr>"

fun decode_failure_reason :: "jwt_failure \<Rightarrow> service_auth_failure_reason" where
  "decode_failure_reason InvalidSignatureError = INVALID_SIGNATURE"
| "decode_failure_reason InvalidIssuerError = INVALID_ISSUER"
| "decode_failure_reason InvalidAudienceError = INVALID_AUDIENCE"
| "decode_failure_reason OtherPyJWTError = INVALID_CLAIM_CONTRACT"

definition verify_token ::
    "('sk, 'pk) jwt_lib \<Rightarrow> 'pk service_token_verifier \<Rightarrow> instant \<Rightarrow> clock_reading \<Rightarrow> string \<Rightarrow>
     service_identity_error + service_principal" where
  "verify_token lib stv lib_now clock token =
     (if py_strip token = [] then Inl (ServiceAuthenticationError MALFORMED_CREDENTIAL)
      else case jwt_get_unverified_header lib token of
        None \<Rightarrow> Inl (ServiceAuthenticationError MALFORMED_CREDENTIAL)
      | Some header \<Rightarrow>
          if payload_get header ''alg'' \<noteq> JStr SERVICE_TOKEN_ALGORITHM
          then Inl (ServiceAuthenticationError INVALID_ALGORITHM)
          else if payload_get header ''typ'' \<noteq> JStr SERVICE_TOKEN_TYPE
          then Inl (ServiceAuthenticationError INVALID_TOKEN_TYPE)
          else (case payload_get header ''kid'' of
            JStr key_id \<Rightarrow>
              if key_id = [] then Inl (ServiceAuthenticationError MISSING_KEY_ID)
              else (case map_of (stv_public_keys stv) key_id of
                None \<Rightarrow> Inl (ServiceAuthenticationError UNKNOWN_KEY)
              | Some public_key \<Rightarrow>
                  (case jwt_decode lib lib_now token public_key (verifier_options stv) of
                     Inl e \<Rightarrow> Inl (ServiceAuthenticationError (decode_failure_reason e))
                   | Inr p \<Rightarrow> principal_from_payload stv clock p))
          | _ \<Rightarrow> Inl (ServiceAuthenticationError MISSING_KEY_ID)))"

section \<open>Lemmas\<close>

lemma require_non_empty_text_Inr:
  "require_non_empty_text v f = Inr n \<longleftrightarrow> n = py_strip v \<and> n \<noteq> []"
  by (auto simp: require_non_empty_text_def Let_def)

lemma new_service_token_provider_Inr:
  assumes "new_service_token_provider load pem kid iss ttl = Inr prov"
  shows "stp_key_id prov = py_strip kid" and "stp_key_id prov \<noteq> []"
    and "stp_issuer prov = py_strip iss" and "stp_ttl_seconds prov = ttl"
    and "30 \<le> stp_ttl_seconds prov" and "stp_ttl_seconds prov \<le> 120"
  using assms
  by (auto simp: new_service_token_provider_def require_non_empty_text_def service_token_constants
      Let_def split: sum.splits if_splits pem_load.splits)

lemma length_update_le: "length (AList.update k v kvs) \<le> Suc (length kvs)"
  by (induction kvs) auto

lemma load_public_keys_length:
  "load_public_keys load ks acc = Inr keys \<Longrightarrow> length keys \<le> length acc + length ks"
proof (induction load ks acc rule: load_public_keys.induct)
  case (2 load key_id pem rest acc)
  then show ?case
    using length_update_le [of "py_strip key_id" _ acc]
    by (fastforce simp: require_non_empty_text_Inr split: sum.splits pem_load.splits if_splits
        intro: order_trans)
qed simp

lemma new_service_token_verifier_Inr:
  assumes "new_service_token_verifier load keys iss aud skew = Inr stv"
  shows "0 \<le> stv_clock_skew stv" and "stv_clock_skew stv \<le> timedelta_seconds 30"
    and "length (stv_public_keys stv) \<le> 2"
    and "stv_expected_issuer stv = py_strip iss" and "stv_expected_audience stv = py_strip aud"
  using assms
  by (auto simp: new_service_token_verifier_def service_token_constants timedelta_seconds_def
      us_per_second_def require_non_empty_text_Inr dest!: load_public_keys_length
      split: sum.splits if_splits)

lemma numeric_date_Int [simp]:
  "payload_get p k = JInt n \<Longrightarrow> utc_datetime (n * us_per_second) = Some t \<Longrightarrow> numeric_date p k = Inr t"
  by simp

lemma scope_value_inj [simp]: "scope_value a = scope_value b \<longleftrightarrow> a = b"
  by (cases a; cases b) simp_all

lemma service_scope_of_value [simp]: "service_scope_of (scope_value s) = Some s"
  by (cases s) (simp_all add: service_scope_of_def)

lemma scope_value_word: "py_word (scope_value s)"
  by (cases s) (simp_all add: py_word_def char_space_def)

definition granted_scopes :: "service_scope list \<Rightarrow> service_scope list" where
  "granted_scopes scopes = sort_key scope_value (remdups scopes)"

lemma set_granted_scopes [simp]: "set (granted_scopes scopes) = set scopes"
  by (simp add: granted_scopes_def)

lemma granted_scope_names:
  "sort (map scope_value (remdups scopes)) = map scope_value (granted_scopes scopes)"
  by (rule sorted_distinct_set_unique) (simp_all add: granted_scopes_def distinct_map inj_on_def)

lemma token_scopes_granted:
  assumes "scopes \<noteq> []"
    and "payload_get p ''scope'' = JStr (py_join [CHR '' ''] (map scope_value (granted_scopes scopes)))"
  shows "token_scopes p = Inr (granted_scopes scopes)"
proof -
  let ?names = "map scope_value (granted_scopes scopes)"
  have "py_split (py_join [CHR '' ''] ?names) = ?names"
    by (rule py_split_join) (auto simp: scope_value_word)
  moreover have "?names \<noteq> []"
    using assms(1) by (metis set_granted_scopes set_empty map_is_Nil_conv)
  moreover have "distinct ?names"
    by (simp add: distinct_map inj_on_def granted_scopes_def)
  ultimately show ?thesis using assms(2) by (simp add: token_scopes_def o_def)
qed

lemma principal_from_payload_Inr:
  assumes "principal_from_payload stv clock p = Inr sp"
  shows "sp_issuer sp = stv_expected_issuer stv" and "sp_subject sp = stv_expected_issuer stv"
    and "sp_audience sp = stv_expected_audience stv"
    and "check_lifetime (stv_clock_skew stv) clock (sp_issued_at sp) (sp_not_before sp)
           (sp_expires_at sp) = None"
    and "token_scopes p = Inr (sp_scopes sp)"
  using assms
  by (auto simp: principal_from_payload_def simp del: numeric_date.simps
      split: json.splits if_splits option.splits sum.splits)

lemma token_scopes_Inr:
  assumes "token_scopes p = Inr scopes"
  shows "scopes \<noteq> []" and "distinct scopes"
proof -
  obtain v where v: "payload_get p ''scope'' = JStr v"
    using assms by (auto simp: token_scopes_def split: json.splits)
  let ?names = "py_split v"
  have s: "scopes = map (the \<circ> service_scope_of) ?names" and ne: "?names \<noteq> []"
    and d: "distinct ?names" and all: "\<forall>n \<in> set ?names. service_scope_of n \<noteq> None"
    using assms v by (auto simp: token_scopes_def Let_def split: if_splits)
  have val: "scope_value (the (service_scope_of n)) = n" if "n \<in> set ?names" for n
    using all that by (auto simp: service_scope_of_def find_Some_iff)
  have "inj_on (the \<circ> service_scope_of) (set ?names)"
    by (rule inj_on_inverseI [where g = scope_value]) (simp add: val)
  then show "scopes \<noteq> []" and "distinct scopes" using s ne d by (auto simp: distinct_map)
qed

definition demo_provider :: "unit service_token_provider" where
  "demo_provider =
     \<lparr>stp_key_id = ''k1'', stp_issuer = ''core-backend'', stp_private_key = (), stp_ttl_seconds = 60\<rparr>"

definition demo_verifier :: "unit service_token_verifier" where
  "demo_verifier =
     \<lparr>stv_expected_issuer = ''core-backend'', stv_expected_audience = ''incident-service'',
      stv_public_keys = [(''k1'', ())], stv_clock_skew = timedelta_seconds 5\<rparr>"

definition demo_token_lib :: "(unit, unit) jwt_lib" where
  "demo_token_lib =
     one_token_lib (service_claims demo_provider 1000000123 7 ''incident-service'' [INCIDENTS_READ])
       SERVICE_TOKEN_ALGORITHM (service_header demo_provider)"

definition demo_load :: "string \<Rightarrow> unit pem_load" where
  "demo_load pem = PemRsa () 2048"

lemmas demo_service_defs =
  demo_provider_def demo_verifier_def demo_token_lib_def demo_load_def one_token_lib_def

lemma demo_text [simp]:
  "py_strip ''incident-service'' = ''incident-service''"
  "py_strip ''core-backend'' = ''core-backend''" "py_strip ''k1'' = ''k1''" "py_strip ''t'' = ''t''"
  by (simp_all add: py_strip_def char_space_def)

lemma demo_new_provider:
  "new_service_token_provider demo_load ''pem'' ''k1'' ''core-backend'' 60 = Inr demo_provider"
  by (simp add: new_service_token_provider_def require_non_empty_text_def service_token_constants
      demo_service_defs)

lemma demo_new_verifier:
  "new_service_token_verifier demo_load [(''k1'', ''pem'')] ''core-backend'' ''incident-service'' 5 =
     Inr demo_verifier"
  by (simp add: new_service_token_verifier_def require_non_empty_text_def service_token_constants
      demo_service_defs)

lemma demo_create_token:
  "create_token demo_token_lib demo_provider (Aware 1000000123) 7 ''incident-service'' [INCIDENTS_READ] =
     Inr ''t''"
  by (simp add: create_token_def require_non_empty_text_def demo_service_defs)

lemma demo_contract: "jwt_contract demo_token_lib (\<lambda>_. ())"
  unfolding demo_token_lib_def
  by (rule one_token_contract) (simp add: service_header_def payload_get_def)

lemma demo_verify:
  "verify_token demo_token_lib demo_verifier 0 (Aware 1010000000) ''t'' =
     Inr \<lparr>sp_issuer = ''core-backend'', sp_subject = ''core-backend'', sp_audience = ''incident-service'',
       sp_token_id = 7, sp_issued_at = 1000000000, sp_not_before = 1000000000,
       sp_expires_at = 1060000000, sp_scopes = [INCIDENTS_READ]\<rparr>"
  by (simp add: verify_token_def principal_from_payload_def check_lifetime_def token_scopes_def
      utc_datetime_def service_claims_def service_header_def verifier_options_def jwt_accepts_def
      payload_get_def [of "_ # _"] py_split_def char_space_def service_scope_of_def
      service_token_constants demo_service_defs timedelta_seconds_def us_per_second_def)

section \<open>Properties\<close>

text \<open>
  Claim C39. Whatever the token and the JWT library, a verifier built by its
  constructor trusts a token only if a decoding with one of its at most two keys succeeded under
  RS256, issuer and subject are the expected service, the audience is this service, the token
  lives between 30 and 120 seconds, the clock is between 30 seconds before its issue and 150
  seconds after it, and it grants at least one scope, none twice.
\<close>

theorem service_token_trust:
  assumes "new_service_token_verifier load keys issuer audience skew = Inr stv"
    and "verify_token lib stv lib_now clock token = Inr sp"
  shows "length (stv_public_keys stv) \<le> 2 \<and>
    (\<exists>kid key p. map_of (stv_public_keys stv) kid = Some key \<and>
       jwt_decode lib lib_now token key (verifier_options stv) = Inr p) \<and>
    sp_issuer sp = py_strip issuer \<and> sp_subject sp = py_strip issuer \<and>
    sp_audience sp = py_strip audience \<and>
    timedelta_seconds 30 \<le> sp_expires_at sp - sp_issued_at sp \<and>
    sp_expires_at sp - sp_issued_at sp \<le> timedelta_seconds 120 \<and>
    (\<exists>now. clock = Aware now \<and> sp_issued_at sp - timedelta_seconds 30 \<le> now \<and>
       now < sp_issued_at sp + timedelta_seconds 150) \<and>
    sp_scopes sp \<noteq> [] \<and> distinct (sp_scopes sp)"
proof -
  note stv = new_service_token_verifier_Inr [OF assms(1)]
  obtain kid key p where key: "map_of (stv_public_keys stv) kid = Some key"
    and dec: "jwt_decode lib lib_now token key (verifier_options stv) = Inr p"
    and sp: "principal_from_payload stv clock p = Inr sp"
    using assms(2) by (auto simp: verify_token_def split: if_splits option.splits json.splits sum.splits)
  note sp = principal_from_payload_Inr [OF sp]
  from sp(4) stv(1,2) obtain now where "clock = Aware now"
    and "sp_issued_at sp - timedelta_seconds 30 \<le> now" and "now < sp_issued_at sp + timedelta_seconds 150"
    and "timedelta_seconds 30 \<le> sp_expires_at sp - sp_issued_at sp"
    and "sp_expires_at sp - sp_issued_at sp \<le> timedelta_seconds 120"
    by (auto simp: check_lifetime_def service_token_constants timedelta_seconds_def us_per_second_def
        split: if_splits clock_reading.splits)
  with stv sp key dec token_scopes_Inr [OF sp(5)] show ?thesis by auto
qed

theorem service_token_trust_witness:
  "\<exists>sp. verify_token demo_token_lib demo_verifier 0 (Aware 1010000000) ''t'' = Inr sp \<and>
     sp_scopes sp \<noteq> [] \<and> sp_issuer sp = ''core-backend''"
  using service_token_trust [OF demo_new_verifier demo_verify] demo_verify by simp

lemma minted_token_verified:
  assumes "jwt_contract lib public_of"
    and "new_service_token_provider load pem kid issuer ttl = Inr prov"
    and "create_token lib prov (Aware issued) token_id audience scopes = Inr token"
    and "stv_expected_issuer stv = stp_issuer prov" and "stv_expected_audience stv = py_strip audience"
    and "map_of (stv_public_keys stv) (stp_key_id prov) = Some (public_of (stp_private_key prov))"
    and "0 \<le> issued" and "issued < timedelta_seconds 253402300000"
  shows "let from = issued div us_per_second * us_per_second;
             until = from + timedelta_seconds ttl
         in verify_token lib stv lib_now (Aware now) token =
           (if from \<le> now + stv_clock_skew stv \<and> now < until + stv_clock_skew stv
            then Inr \<lparr>sp_issuer = stp_issuer prov, sp_subject = stp_issuer prov,
              sp_audience = py_strip audience, sp_token_id = token_id, sp_issued_at = from,
              sp_not_before = from, sp_expires_at = until, sp_scopes = granted_scopes scopes\<rparr>
            else Inl (ServiceAuthenticationError INVALID_LIFETIME)) \<and>
           set (granted_scopes scopes) = set scopes"
proof -
  note prov = new_service_token_provider_Inr [OF assms(2)]
  let ?cs = "service_claims prov issued token_id (py_strip audience) scopes"
  let ?p = "claims_json ?cs" and ?n = "issued div us_per_second"
  have enc: "jwt_encode lib ?cs (stp_private_key prov) SERVICE_TOKEN_ALGORITHM (service_header prov) = Some token"
    and ne: "scopes \<noteq> []" and aud: "py_strip audience \<noteq> []"
    using assms(3) by (auto simp: create_token_def require_non_empty_text_def Let_def
        split: if_splits sum.splits option.splits)
  obtain h where h: "jwt_get_unverified_header lib token = Some h"
    and alg: "payload_get h ''alg'' = JStr SERVICE_TOKEN_ALGORITHM"
    and hdr: "\<And>k. payload_get (service_header prov) k \<noteq> JNull \<Longrightarrow>
                payload_get h k = payload_get (service_header prov) k"
    and vis: "\<exists>c \<in> set token. \<not> char_space c"
    by (rule jwt_contract_token [OF assms(1) enc]) (rule that)
  have htyp: "payload_get h ''typ'' = JStr SERVICE_TOKEN_TYPE"
    and kid: "payload_get h ''kid'' = JStr (stp_key_id prov)"
    using hdr [of "''typ''"] hdr [of "''kid''"]
    by (simp_all add: service_header_def payload_get_def service_token_constants)
  have claims: "payload_get ?p ''iss'' = JStr (stp_issuer prov)"
    "payload_get ?p ''sub'' = JStr (stp_issuer prov)" "payload_get ?p ''aud'' = JStr (py_strip audience)"
    "payload_get ?p ''iat'' = JInt ?n" "payload_get ?p ''nbf'' = JInt ?n"
    "payload_get ?p ''exp'' = JInt (?n + ttl)" "payload_get ?p ''jti'' = JStr (uuid_str token_id)"
    "payload_get ?p ''token_use'' = JStr SERVICE_TOKEN_USE"
    "payload_get ?p ''scope'' = JStr (py_join [CHR '' ''] (map scope_value (granted_scopes scopes)))"
    by (simp_all add: service_claims_def granted_scope_names prov(4) timedelta_seconds_def us_per_second_def)
  have dec: "jwt_decode lib lib_now token (public_of (stp_private_key prov)) (verifier_options stv) = Inr ?p"
    by (rule jwt_contract_decode(1) [OF assms(1) enc])
      (simp_all add: string_claim_def jwt_accepts_def verifier_options_def assms(4,5) claims
        del: payload_get_claims_json)
  have "0 \<le> ?n" and "?n < 253402300000"
    using assms(7,8) by (simp_all add: us_per_second_def timedelta_seconds_def)
  then have dates: "utc_datetime (?n * us_per_second) = Some (?n * us_per_second)"
    "utc_datetime ((?n + ttl) * us_per_second) = Some ((?n + ttl) * us_per_second)"
    using prov(4-6) by (auto simp: utc_datetime_def us_per_second_def)
  have "\<not> py_strip token = []"
    using vis by (simp add: py_strip_eq_Nil)
  then have "verify_token lib stv lib_now (Aware now) token = principal_from_payload stv (Aware now) ?p"
    using prov(2) by (simp add: verify_token_def h alg htyp kid assms(6) dec)
  moreover have "numeric_date ?p ''iat'' = Inr (?n * us_per_second)"
    "numeric_date ?p ''nbf'' = Inr (?n * us_per_second)"
    "numeric_date ?p ''exp'' = Inr ((?n + ttl) * us_per_second)"
    using dates by (simp_all only: numeric_date.simps claims datetime_fromtimestamp.simps option.case)
  moreover note token_scopes_granted [OF ne claims(9)]
  moreover have "check_lifetime (stv_clock_skew stv) (Aware now) (?n * us_per_second)
      (?n * us_per_second) ((?n + ttl) * us_per_second) =
    (if ?n * us_per_second \<le> now + stv_clock_skew stv \<and>
        now < ?n * us_per_second + timedelta_seconds ttl + stv_clock_skew stv
     then None else Some (ServiceAuthenticationError INVALID_LIFETIME))"
    using prov(4-6)
    by (auto simp: check_lifetime_def service_token_constants timedelta_seconds_def us_per_second_def)
  moreover have "(?n + ttl) * us_per_second = ?n * us_per_second + timedelta_seconds ttl"
    by (simp add: timedelta_seconds_def algebra_simps)
  ultimately show ?thesis
    by (simp add: principal_from_payload_def claims assms(4,5) Let_def
        del: payload_get_claims_json numeric_date.simps)
qed

text \<open>
  Claim C40. A token the provider mints for an audience and a set of scopes
  is trusted by that audience's verifier with exactly these scopes during the window from its
  issue (to the whole second) less the skew until its expiry plus the skew, and refused with an
  invalid-lifetime error at every other time.
\<close>

theorem service_token_roundtrip:
  assumes "jwt_contract lib public_of"
    and "new_service_token_provider load pem kid issuer ttl = Inr prov"
    and "create_token lib prov (Aware issued) token_id audience scopes = Inr token"
    and "stv_expected_issuer stv = stp_issuer prov" and "stv_expected_audience stv = py_strip audience"
    and "map_of (stv_public_keys stv) (stp_key_id prov) = Some (public_of (stp_private_key prov))"
    and "0 \<le> issued" and "issued < timedelta_seconds 253402300000"
  shows "let from = issued div us_per_second * us_per_second;
             until = from + timedelta_seconds ttl
         in verify_token lib stv lib_now (Aware now) token =
           (if from \<le> now + stv_clock_skew stv \<and> now < until + stv_clock_skew stv
            then Inr \<lparr>sp_issuer = stp_issuer prov, sp_subject = stp_issuer prov,
              sp_audience = py_strip audience, sp_token_id = token_id, sp_issued_at = from,
              sp_not_before = from, sp_expires_at = until, sp_scopes = granted_scopes scopes\<rparr>
            else Inl (ServiceAuthenticationError INVALID_LIFETIME)) \<and>
           set (granted_scopes scopes) = set scopes"
  by (rule minted_token_verified [OF assms])

theorem service_token_roundtrip_witness:
  "isl (verify_token demo_token_lib demo_verifier 0 (Aware 1065000000) ''t'') \<and>
   \<not> isl (verify_token demo_token_lib demo_verifier 0 (Aware 1064999999) ''t'')"
  using service_token_roundtrip [OF demo_contract demo_new_provider demo_create_token,
      of demo_verifier 0 1065000000]
    service_token_roundtrip [OF demo_contract demo_new_provider demo_create_token,
      of demo_verifier 0 1064999999]
  by (simp add: demo_provider_def demo_verifier_def timedelta_seconds_def us_per_second_def Let_def)

end
