(* ===== verification/Incident_Domain.thy ===== *)
theory Incident_Domain
  imports Py_Values
begin

text \<open>
  The incident vocabulary both services share: \<open>domain/incident.py\<close> and \<open>schemas/incident.py\<close> of
  \<open>src/backend/app\<close> and \<open>src/incident-service/app\<close>, whose declarations agree. An enum is a datatype
  with the function that gives its wire value, the dataclass \<open>Incident\<close> a record, a request
  schema a record of its fields. A field a PATCH body leaves out is \<open>None\<close> and absent from
  \<open>upd_fields_set\<close> (pydantic's \<open>model_fields_set\<close>); one sent as \<open>null\<close> is \<open>None\<close> and present.
  \<open>incident_create_valid\<close> and \<open>incident_update_valid\<close> are the declared length bounds.
\<close>

section \<open>Enumerations\<close>

datatype incident_severity = SEV_1 | SEV_2 | SEV_3 | SEV_4

datatype incident_status = Status_OPEN | Status_INVESTIGATING | Status_MONITORING | Status_RESOLVED

fun severity_value :: "incident_severity \<Rightarrow> string" where
  "severity_value SEV_1 = ''SEV-1''"
| "severity_value SEV_2 = ''SEV-2''"
| "severity_value SEV_3 = ''SEV-3''"
| "severity_value SEV_4 = ''SEV-4''"

fun status_value :: "incident_status \<Rightarrow> string" where
  "status_value Status_OPEN = ''Open''"
| "status_value Status_INVESTIGATING = ''Investigating''"
| "status_value Status_MONITORING = ''Monitoring''"
| "status_value Status_RESOLVED = ''Resolved''"

section \<open>The incident and its request schemas\<close>

record incident =
  inc_id :: uuid
  inc_title :: string
  inc_service_id :: uuid
  inc_severity :: incident_severity
  inc_status :: incident_status
  inc_summary :: string
  inc_assignee :: string
  inc_started_at :: instant
  inc_resolved_at :: "instant option"
  inc_created_at :: instant
  inc_updated_at :: instant
  inc_source :: string
  inc_customer_impacting :: bool
  inc_acknowledged_at :: "instant option"
  inc_reported_by_email :: "string option"

record incident_create =
  crt_title :: string
  crt_service_id :: uuid
  crt_severity :: incident_severity
  crt_status :: incident_status
  crt_summary :: string
  crt_assignee :: string
  crt_started_at :: "instant option"
  crt_source :: string
  crt_customer_impacting :: bool
  crt_acknowledged_at :: "instant option"
  crt_reported_by_email :: "string option"

record incident_update =
  upd_title :: "string option"
  upd_service_id :: "uuid option"
  upd_severity :: "incident_severity option"
  upd_status :: "incident_status option"
  upd_summary :: "string option"
  upd_assignee :: "string option"
  upd_source :: "string option"
  upd_customer_impacting :: "bool option"
  upd_acknowledged_at :: "instant option"
  upd_started_at :: "instant option"
  upd_resolved_at :: "instant option"
  upd_fields_set :: "string list"

definition length_within :: "nat \<Rightarrow> nat \<Rightarrow> string \<Rightarrow> bool" where
  "length_within lo hi s \<longleftrightarrow> lo \<le> length s \<and> length s \<le> hi"

definition incident_create_valid :: "incident_create \<Rightarrow> bool" where
  "incident_create_valid p \<longleftrightarrow>
     length_within 1 200 (crt_title p) \<and> length_within 1 2000 (crt_summary p) \<and>
     length_within 1 120 (crt_assignee p) \<and> length_within 1 80 (crt_source p)"

definition incident_update_valid :: "incident_update \<Rightarrow> bool" where
  "incident_update_valid p \<longleftrightarrow>
     pred_option (length_within 1 200) (upd_title p) \<and>
     pred_option (length_within 1 2000) (upd_summary p) \<and>
     pred_option (length_within 1 120) (upd_assignee p) \<and>
     pred_option (length_within 1 80) (upd_source p)"

section \<open>Wire names\<close>

text \<open>\<open>to_camel\<close>, on the ASCII names the schemas declare.\<close>

definition ascii_upper :: "char \<Rightarrow> char" where
  "ascii_upper c = (let n = (of_char c :: nat) in if 97 \<le> n \<and> n \<le> 122 then char_of (n - 32) else c)"

definition py_upper :: "string \<Rightarrow> string" where
  "py_upper s = map ascii_upper s"

fun py_capitalize :: "string \<Rightarrow> string" where
  "py_capitalize [] = []"
| "py_capitalize (c # cs) = ascii_upper c # py_lower cs"

function split_on :: "char \<Rightarrow> string \<Rightarrow> string list" where
  "split_on sep s =
     (case py_partition sep s of None \<Rightarrow> [s] | Some (a, b) \<Rightarrow> a # split_on sep b)"
  by pat_completeness auto
termination
  by (relation "measure (\<lambda>(sep, s). length s)") (auto dest!: py_partition_Some)

declare split_on.simps [simp del]

definition to_camel :: "string \<Rightarrow> string" where
  "to_camel value = (let parts = split_on (CHR ''_'') value in hd parts @ concat (map py_capitalize (tl parts)))"

lemma split_on_absent: "sep \<notin> set s \<Longrightarrow> split_on sep s = [s]"
  by (subst split_on.simps) (auto split: option.splits dest: py_partition_Some)

lemma split_on_sep: "sep \<notin> set a \<Longrightarrow> split_on sep (a @ sep # b) = a # split_on sep b"
  by (subst split_on.simps) simp

end
