(* ===== verification/Incident_Gateway.thy ===== *)
theory Incident_Gateway
  imports Circuit_Breaker Service_Identity Incident_Domain
begin

text \<open>
  The Core Backend's HTTP adapter for the Incident Service,
  \<open>src/backend/app/gateways/http_incident_gateway.py\<close>, with the errors of \<open>incident_gateway.py\<close>.

  What the adapter calls is an argument: \<open>ge_create_token\<close> is the injected token provider and
  \<open>ge_transport\<close> the HTTP client, each given the number of the attempt, so that every pattern of
  failures over the attempts is covered. The circuit breaker is the model of
  \<open>Circuit_Breaker\<close>. The world holds the breaker and the log of what the adapter does to the
  outside: requests sent, sleeps, and metrics when they are enabled. Reading and writing JSON
  bodies through the pydantic schemas is a parameter, \<open>incident_codec\<close>.
\<close>

section \<open>Errors, requests and responses\<close>

datatype gateway_exception =
    IncidentGatewayUnavailableError string
  | IncidentGatewayCircuitOpenError int
  | IncidentGatewayProtocolError string
  | IncidentNotFoundError string
  | IncidentServiceReferenceError string
  | GatewayServiceIdentityError
  | RuntimeError string
  | OtherException string

definition circuit_open_exception :: "circuit_open_error \<Rightarrow> gateway_exception" where
  "circuit_open_exception e =
     (case e of CircuitOpenError r \<Rightarrow> IncidentGatewayCircuitOpenError (max 1 \<lceil>r\<rceil>))"

record outbound_request =
  orq_method :: string
  orq_url :: string
  orq_headers :: "(string \<times> string) list"
  orq_params :: "(string \<times> json) list option"
  orq_json :: "json option"

record http_response =
  status_code :: int
  body_json :: "json option"

datatype token_result = TokenReturned string | TokenNotText | TokenIdentityError | TokenOther string

datatype transport_result = TimedOut | TransportError | Responded http_response | TransportOther string

datatype gateway_event =
    Sent outbound_request
  | Slept seconds
  | DependencyAttempt string string
  | DependencyRetry string string
  | DependencyOperation string string seconds
  | CircuitObserved circuit_state

record gateway_config =
  gc_incidents_url :: string
  gc_audience :: string
  gc_read_max_attempts :: int
  gc_read_backoff_seconds :: seconds
  gc_metrics :: bool

record gateway_env =
  ge_request_id :: "string option"
  ge_create_token :: "nat \<Rightarrow> string \<Rightarrow> service_scope list \<Rightarrow> token_result"
  ge_transport :: "nat \<Rightarrow> outbound_request \<Rightarrow> transport_result"
  ge_started_at :: seconds
  ge_acquired_at :: seconds
  ge_reported_at :: seconds
  ge_finished_at :: seconds

record gateway_world =
  gw_circuit :: "circuit_breaker option"
  gw_log :: "gateway_event list"

definition RETRYABLE_READ_METHODS :: "string list" where
  "RETRYABLE_READ_METHODS = [''GET'', ''HEAD'', ''OPTIONS'']"

definition RETRYABLE_RESPONSE_STATUSES :: "int list" where
  "RETRYABLE_RESPONSE_STATUSES = [502, 503, 504]"

definition REQUEST_ID_HEADER :: string where "REQUEST_ID_HEADER = ''X-Request-ID''"

lemmas gateway_constants =
  RETRYABLE_READ_METHODS_def RETRYABLE_RESPONSE_STATUSES_def REQUEST_ID_HEADER_def

section \<open>Metrics, sleeping and circuit reports\<close>

definition log_event :: "gateway_event \<Rightarrow> gateway_world \<Rightarrow> gateway_world" where
  "log_event e w = w\<lparr>gw_log := gw_log w @ [e]\<rparr>"

definition record_dependency_attempt ::
    "gateway_config \<Rightarrow> string \<Rightarrow> string \<Rightarrow> gateway_world \<Rightarrow> gateway_world" where
  "record_dependency_attempt cfg meth outcome w =
     (if gc_metrics cfg then log_event (DependencyAttempt meth outcome) w else w)"

definition record_dependency_retry ::
    "gateway_config \<Rightarrow> string \<Rightarrow> string \<Rightarrow> gateway_world \<Rightarrow> gateway_world" where
  "record_dependency_retry cfg meth reason w =
     (if gc_metrics cfg then log_event (DependencyRetry meth reason) w else w)"

definition record_dependency_operation ::
    "gateway_config \<Rightarrow> string \<Rightarrow> string \<Rightarrow> seconds \<Rightarrow> gateway_world \<Rightarrow> gateway_world" where
  "record_dependency_operation cfg meth outcome duration w =
     (if gc_metrics cfg then log_event (DependencyOperation meth outcome duration) w else w)"

definition observe_circuit_state :: "gateway_config \<Rightarrow> gateway_world \<Rightarrow> gateway_world" where
  "observe_circuit_state cfg w =
     (case gw_circuit w of
        None \<Rightarrow> w
      | Some b \<Rightarrow> if gc_metrics cfg then log_event (CircuitObserved (state b)) w else w)"

definition sleep_before_retry :: "gateway_config \<Rightarrow> nat \<Rightarrow> gateway_world \<Rightarrow> gateway_world" where
  "sleep_before_retry cfg completed_attempts w =
     (let delay = gc_read_backoff_seconds cfg * 2 ^ (completed_attempts - 1)
      in if delay \<le> 0 then w else log_event (Slept delay) w)"

definition acquire_circuit_permission ::
    "seconds \<Rightarrow> gateway_world \<Rightarrow> (gateway_exception + circuit_permit option) \<times> gateway_world" where
  "acquire_circuit_permission now w =
     (case gw_circuit w of
        None \<Rightarrow> (Inr None, w)
      | Some b \<Rightarrow>
          (case acquire_permission now b of
             (Inl e, b') \<Rightarrow> (Inl (circuit_open_exception e), w\<lparr>gw_circuit := Some b'\<rparr>)
           | (Inr permit, b') \<Rightarrow> (Inr (Some permit), w\<lparr>gw_circuit := Some b'\<rparr>)))"

definition record_circuit_success :: "circuit_permit option \<Rightarrow> gateway_world \<Rightarrow> gateway_world" where
  "record_circuit_success permit w =
     (case (gw_circuit w, permit) of
        (Some b, Some p) \<Rightarrow> w\<lparr>gw_circuit := Some (record_success p b)\<rparr>
      | _ \<Rightarrow> w)"

definition record_circuit_failure ::
    "seconds \<Rightarrow> circuit_permit option \<Rightarrow> gateway_world \<Rightarrow> gateway_world" where
  "record_circuit_failure now permit w =
     (case (gw_circuit w, permit) of
        (Some b, Some p) \<Rightarrow> w\<lparr>gw_circuit := Some (record_failure now p b)\<rparr>
      | _ \<Rightarrow> w)"

definition response_outcome :: "int \<Rightarrow> string" where
  "response_outcome code =
     (if code < 300 then ''2xx'' else if code < 400 then ''3xx'' else if code < 500 then ''4xx'' else ''5xx'')"

section \<open>The constructor\<close>

definition new_http_incident_gateway ::
    "string \<Rightarrow> bool \<Rightarrow> string \<Rightarrow> int \<Rightarrow> seconds \<Rightarrow> bool \<Rightarrow> gateway_world \<Rightarrow>
     string + gateway_config \<times> gateway_world" where
  "new_http_incident_gateway url has_provider audience max_attempts backoff metrics w =
     (let normalized_url = rev (dropWhile (\<lambda>c. c = CHR ''/'') (rev (py_strip url)));
          normalized_audience = py_strip audience
      in if normalized_url = [] then Inl ''incident_service_url must not be empty.''
         else if \<not> has_provider then Inl ''service_token_provider is required.''
         else if normalized_audience = [] then Inl ''incident_service_audience must not be empty.''
         else if max_attempts < 1 then Inl ''read_max_attempts must be at least 1.''
         else if backoff < 0 then Inl ''read_backoff_seconds must not be negative.''
         else let cfg = \<lparr>gc_incidents_url = normalized_url @ ''/incidents'', gc_audience = normalized_audience,
                gc_read_max_attempts = max_attempts, gc_read_backoff_seconds = backoff, gc_metrics = metrics\<rparr>
              in Inr (cfg, observe_circuit_state cfg w))"

section \<open>One attempt\<close>

definition create_service_authorization ::
    "gateway_config \<Rightarrow> gateway_env \<Rightarrow> nat \<Rightarrow> string \<Rightarrow> gateway_exception + string" where
  "create_service_authorization cfg env n meth =
     (let scope = if meth \<in> set RETRYABLE_READ_METHODS then INCIDENTS_READ else INCIDENTS_WRITE
      in case ge_create_token env n (gc_audience cfg) [scope] of
           TokenReturned token \<Rightarrow>
             if token = [] then Inl GatewayServiceIdentityError else Inr (''Bearer '' @ token)
         | TokenNotText \<Rightarrow> Inl GatewayServiceIdentityError
         | TokenIdentityError \<Rightarrow> Inl GatewayServiceIdentityError
         | TokenOther e \<Rightarrow> Inl (OtherException e))"

definition request_headers :: "gateway_env \<Rightarrow> (string \<times> string) list" where
  "request_headers env =
     (case ge_request_id env of
        None \<Rightarrow> [(''Accept'', ''application/json'')]
      | Some rid \<Rightarrow> [(''Accept'', ''application/json''), (REQUEST_ID_HEADER, rid)])"

definition send_attempt ::
    "gateway_config \<Rightarrow> gateway_env \<Rightarrow> string \<Rightarrow> string \<Rightarrow> (string \<times> json) list option \<Rightarrow> json option \<Rightarrow>
     nat \<Rightarrow> gateway_world \<Rightarrow> (gateway_exception + transport_result) \<times> gateway_world" where
  "send_attempt cfg env meth url params body n w =
     (case create_service_authorization cfg env n meth of
        Inl e \<Rightarrow> (Inl e, w)
      | Inr authorization \<Rightarrow>
          let req = \<lparr>orq_method = meth, orq_url = url,
                orq_headers = AList.update ''Authorization'' authorization (request_headers env),
                orq_params = params, orq_json = body\<rparr>
          in (Inr (ge_transport env n req), log_event (Sent req) w))"

section \<open>The retry loop and the logical operation\<close>

text \<open>
  \<open>attempt_loop\<close> is the body of \<open>for attempt_number in range(1, maximum_attempts + 1)\<close> from
  attempt \<open>n\<close> on. It returns the value \<open>operation_outcome\<close> has when the loop is left, and the
  response or the exception.
\<close>

function attempt_loop ::
    "gateway_config \<Rightarrow> gateway_env \<Rightarrow> string \<Rightarrow> string \<Rightarrow> (string \<times> json) list option \<Rightarrow> json option \<Rightarrow>
     circuit_permit option \<Rightarrow> nat \<Rightarrow> nat \<Rightarrow> gateway_world \<Rightarrow>
     string \<times> (gateway_exception + http_response) \<times> gateway_world" where
  "attempt_loop cfg env meth url params body permit maximum n w =
     (if maximum < n then
        (''unexpected_error'', Inl (RuntimeError ''Incident Service retry loop exited unexpectedly.''), w)
      else
        let (attempt, w1) = send_attempt cfg env meth url params body n w;
            again = (\<lambda>reason w'. attempt_loop cfg env meth url params body permit maximum (n + 1)
                       (sleep_before_retry cfg n (record_dependency_retry cfg meth reason w')))
        in case attempt of
             Inl e \<Rightarrow> (''unexpected_error'', Inl e, w1)
           | Inr TimedOut \<Rightarrow>
               let w2 = record_dependency_attempt cfg meth ''timeout'' w1
               in if maximum \<le> n
                  then (''timeout'', Inl (IncidentGatewayUnavailableError ''Incident Service request timed out.''),
                        record_circuit_failure (ge_reported_at env) permit w2)
                  else again ''timeout'' w2
           | Inr TransportError \<Rightarrow>
               let w2 = record_dependency_attempt cfg meth ''transport_error'' w1
               in if maximum \<le> n
                  then (''transport_error'', Inl (IncidentGatewayUnavailableError ''Incident Service is unavailable.''),
                        record_circuit_failure (ge_reported_at env) permit w2)
                  else again ''transport_error'' w2
           | Inr (TransportOther e) \<Rightarrow> (''unexpected_error'', Inl (OtherException e), w1)
           | Inr (Responded r) \<Rightarrow>
               let outcome = response_outcome (status_code r);
                   w2 = record_dependency_attempt cfg meth outcome w1
               in if status_code r \<in> set RETRYABLE_RESPONSE_STATUSES \<and> n < maximum
                  then again ''retryable_status'' w2
                  else (outcome, Inr r,
                        if status_code r \<ge> 500 then record_circuit_failure (ge_reported_at env) permit w2
                        else record_circuit_success permit w2))"
  by pat_completeness auto
termination
  by (relation "measure (\<lambda>(cfg, env, meth, url, params, body, permit, maximum, n, w). Suc maximum - n)") auto

declare attempt_loop.simps [simp del]

definition maximum_attempts :: "gateway_config \<Rightarrow> string \<Rightarrow> circuit_permit option \<Rightarrow> nat" where
  "maximum_attempts cfg meth permit =
     (case permit of
        Some p \<Rightarrow> if is_half_open_probe p then 1
          else if meth \<in> set RETRYABLE_READ_METHODS then nat (gc_read_max_attempts cfg) else 1
      | None \<Rightarrow> if meth \<in> set RETRYABLE_READ_METHODS then nat (gc_read_max_attempts cfg) else 1)"

definition gateway_request ::
    "gateway_config \<Rightarrow> gateway_env \<Rightarrow> string \<Rightarrow> string \<Rightarrow> (string \<times> json) list option \<Rightarrow> json option \<Rightarrow>
     gateway_world \<Rightarrow> (gateway_exception + http_response) \<times> gateway_world" where
  "gateway_request cfg env method0 url params body w =
     (let meth = py_upper method0;
          (outcome, result, w2) =
            (case acquire_circuit_permission (ge_acquired_at env) w of
               (Inl e, w1) \<Rightarrow> (''circuit_open'', Inl e, w1)
             | (Inr permit, w1) \<Rightarrow>
                 (case attempt_loop cfg env meth url params body permit
                         (maximum_attempts cfg meth permit) 1 w1 of
                    (outcome, Inl GatewayServiceIdentityError, w2) \<Rightarrow>
                      (''authentication_error'',
                       Inl (IncidentGatewayUnavailableError ''Incident Service authentication is unavailable.''),
                       record_circuit_failure (ge_reported_at env) permit w2)
                  | other \<Rightarrow> other))
      in (result, observe_circuit_state cfg
            (record_dependency_operation cfg meth outcome (ge_finished_at env - ge_started_at env) w2)))"

section \<open>Status translation and the operations of the gateway\<close>

definition require_status :: "http_response \<Rightarrow> int \<Rightarrow> gateway_exception option" where
  "require_status r expected =
     (if status_code r = expected then None
      else if status_code r \<ge> 500 then Some (IncidentGatewayUnavailableError ''Incident Service is unavailable.'')
      else Some (IncidentGatewayProtocolError ''Incident Service returned an unexpected response.''))"

definition response_detail :: "http_response \<Rightarrow> string \<Rightarrow> string" where
  "response_detail r fallback =
     (case body_json r of
        Some (JObj members) \<Rightarrow>
          (case payload_get members ''detail'' of
             JStr detail \<Rightarrow> if detail = [] then fallback else detail
           | _ \<Rightarrow> fallback)
      | _ \<Rightarrow> fallback)"

record incident_codec =
  dump_incident_create :: "incident_create \<Rightarrow> json"
  dump_incident_update :: "incident_update \<Rightarrow> json"
  validate_incident :: "json \<Rightarrow> incident option"
  validate_incident_list :: "json \<Rightarrow> incident list option"

definition parse_incident :: "incident_codec \<Rightarrow> http_response \<Rightarrow> gateway_exception + incident" where
  "parse_incident codec r =
     (case Option.bind (body_json r) (validate_incident codec) of
        None \<Rightarrow> Inl (IncidentGatewayProtocolError ''Incident Service returned an invalid incident.'')
      | Some i \<Rightarrow> Inr i)"

definition parse_incident_list :: "incident_codec \<Rightarrow> http_response \<Rightarrow> gateway_exception + incident list" where
  "parse_incident_list codec r =
     (case Option.bind (body_json r) (validate_incident_list codec) of
        None \<Rightarrow> Inl (IncidentGatewayProtocolError ''Incident Service returned an invalid incident list.'')
      | Some is \<Rightarrow> Inr is)"

definition incident_url :: "gateway_config \<Rightarrow> uuid \<Rightarrow> string" where
  "incident_url cfg i = gc_incidents_url cfg @ ''/'' @ uuid_str i"

text \<open>\<open>finish\<close> handles a response: the errors of the given statuses, the expected status, the body.\<close>

definition finish ::
    "(int \<times> (string \<Rightarrow> gateway_exception) \<times> string) list \<Rightarrow> int \<Rightarrow>
     (http_response \<Rightarrow> gateway_exception + 'a) \<Rightarrow>
     (gateway_exception + http_response) \<times> gateway_world \<Rightarrow> (gateway_exception + 'a) \<times> gateway_world" where
  "finish errors expected parse outcome =
     (case outcome of
        (Inl e, w) \<Rightarrow> (Inl e, w)
      | (Inr r, w) \<Rightarrow>
          (case map_of errors (status_code r) of
             Some (exn, fallback) \<Rightarrow> (Inl (exn (response_detail r fallback)), w)
           | None \<Rightarrow>
               (case require_status r expected of
                  Some e \<Rightarrow> (Inl e, w)
                | None \<Rightarrow> (parse r, w))))"

definition gateway_list ::
    "incident_codec \<Rightarrow> gateway_config \<Rightarrow> gateway_env \<Rightarrow> string option \<Rightarrow> uuid option \<Rightarrow>
     incident_severity option \<Rightarrow> incident_status option \<Rightarrow> int \<Rightarrow> int \<Rightarrow> gateway_world \<Rightarrow>
     (gateway_exception + incident list) \<times> gateway_world" where
  "gateway_list codec cfg env search service_id severity status offset limit w =
     (let params =
        [(''offset'', JInt offset), (''limit'', JInt limit)] @
        (case search of None \<Rightarrow> [] | Some s \<Rightarrow> [(''search'', JStr s)]) @
        (case service_id of None \<Rightarrow> [] | Some u \<Rightarrow> [(''serviceId'', JStr (uuid_str u))]) @
        (case severity of None \<Rightarrow> [] | Some v \<Rightarrow> [(''severity'', JStr (severity_value v))]) @
        (case status of None \<Rightarrow> [] | Some v \<Rightarrow> [(''status'', JStr (status_value v))])
      in finish [] 200 (parse_incident_list codec)
           (gateway_request cfg env ''GET'' (gc_incidents_url cfg) (Some params) None w))"

definition gateway_get_by_id ::
    "incident_codec \<Rightarrow> gateway_config \<Rightarrow> gateway_env \<Rightarrow> uuid \<Rightarrow> gateway_world \<Rightarrow>
     (gateway_exception + incident) \<times> gateway_world" where
  "gateway_get_by_id codec cfg env i w =
     finish [(404, IncidentNotFoundError, ''Incident not found.'')] 200 (parse_incident codec)
       (gateway_request cfg env ''GET'' (incident_url cfg i) None None w)"

definition gateway_create ::
    "incident_codec \<Rightarrow> gateway_config \<Rightarrow> gateway_env \<Rightarrow> incident_create \<Rightarrow> gateway_world \<Rightarrow>
     (gateway_exception + incident) \<times> gateway_world" where
  "gateway_create codec cfg env payload w =
     finish [(404, IncidentServiceReferenceError, ''Referenced service not found.'')] 201 (parse_incident codec)
       (gateway_request cfg env ''POST'' (gc_incidents_url cfg) None
          (Some (dump_incident_create codec payload)) w)"

definition gateway_update ::
    "incident_codec \<Rightarrow> gateway_config \<Rightarrow> gateway_env \<Rightarrow> uuid \<Rightarrow> incident_update \<Rightarrow> gateway_world \<Rightarrow>
     (gateway_exception + incident) \<times> gateway_world" where
  "gateway_update codec cfg env i payload w =
     finish [(404, IncidentNotFoundError, ''Incident not found.''),
             (400, IncidentServiceReferenceError, ''Referenced service not found.'')] 200 (parse_incident codec)
       (gateway_request cfg env ''PATCH'' (incident_url cfg i) None
          (Some (dump_incident_update codec payload)) w)"

definition gateway_delete ::
    "gateway_config \<Rightarrow> gateway_env \<Rightarrow> uuid \<Rightarrow> gateway_world \<Rightarrow> (gateway_exception + unit) \<times> gateway_world" where
  "gateway_delete cfg env i w =
     finish [(404, IncidentNotFoundError, ''Incident not found.'')] 204 (\<lambda>_. Inr ())
       (gateway_request cfg env ''DELETE'' (incident_url cfg i) None None w)"

definition gateway_list_for_service ::
    "incident_codec \<Rightarrow> gateway_config \<Rightarrow> gateway_env \<Rightarrow> uuid \<Rightarrow> int \<Rightarrow> int \<Rightarrow> gateway_world \<Rightarrow>
     (gateway_exception + incident list) \<times> gateway_world" where
  "gateway_list_for_service codec cfg env service_id offset limit w =
     gateway_list codec cfg env None (Some service_id) None None offset limit w"

section \<open>Lemmas\<close>

fun sent_requests :: "gateway_event list \<Rightarrow> outbound_request list" where
  "sent_requests [] = []"
| "sent_requests (Sent r # es) = r # sent_requests es"
| "sent_requests (_ # es) = sent_requests es"

fun slept_seconds :: "gateway_event list \<Rightarrow> seconds" where
  "slept_seconds [] = 0"
| "slept_seconds (Slept t # es) = t + slept_seconds es"
| "slept_seconds (_ # es) = slept_seconds es"

lemma sent_requests_append [simp]: "sent_requests (a @ b) = sent_requests a @ sent_requests b"
  by (induction a rule: sent_requests.induct) auto

lemma slept_seconds_append [simp]: "slept_seconds (a @ b) = slept_seconds a + slept_seconds b"
  by (induction a rule: slept_seconds.induct) auto

lemmas gateway_step_defs =
  log_event_def record_dependency_attempt_def record_dependency_retry_def record_dependency_operation_def
  observe_circuit_state_def sleep_before_retry_def record_circuit_success_def record_circuit_failure_def

lemma gateway_circuit_frame [simp]:
  "gw_circuit (log_event e w) = gw_circuit w"
  "gw_circuit (record_dependency_attempt cfg m out w) = gw_circuit w"
  "gw_circuit (record_dependency_retry cfg m reason w) = gw_circuit w"
  "gw_circuit (record_dependency_operation cfg m out d w) = gw_circuit w"
  "gw_circuit (observe_circuit_state cfg w) = gw_circuit w"
  "gw_circuit (sleep_before_retry cfg n w) = gw_circuit w"
  by (simp_all add: gateway_step_defs Let_def split: option.splits)

lemma gateway_sent_frame [simp]:
  "sent_requests (gw_log (record_dependency_attempt cfg m out w)) = sent_requests (gw_log w)"
  "sent_requests (gw_log (record_dependency_retry cfg m reason w)) = sent_requests (gw_log w)"
  "sent_requests (gw_log (record_dependency_operation cfg m out d w)) = sent_requests (gw_log w)"
  "sent_requests (gw_log (observe_circuit_state cfg w)) = sent_requests (gw_log w)"
  "sent_requests (gw_log (sleep_before_retry cfg n w)) = sent_requests (gw_log w)"
  "gw_log (record_circuit_success permit w) = gw_log w"
  "gw_log (record_circuit_failure now permit w) = gw_log w"
  by (simp_all add: gateway_step_defs Let_def split: option.splits)

lemma gateway_slept_frame [simp]:
  "slept_seconds (gw_log (record_dependency_attempt cfg m out w)) = slept_seconds (gw_log w)"
  "slept_seconds (gw_log (record_dependency_retry cfg m reason w)) = slept_seconds (gw_log w)"
  "slept_seconds (gw_log (record_dependency_operation cfg m out d w)) = slept_seconds (gw_log w)"
  "slept_seconds (gw_log (observe_circuit_state cfg w)) = slept_seconds (gw_log w)"
  by (simp_all add: gateway_step_defs split: option.splits)

lemma slept_before_retry [simp]:
  assumes "0 \<le> gc_read_backoff_seconds cfg"
  shows "slept_seconds (gw_log (sleep_before_retry cfg n w)) =
           slept_seconds (gw_log w) + gc_read_backoff_seconds cfg * 2 ^ (n - 1)"
proof (cases "gc_read_backoff_seconds cfg = 0")
  case False
  with assms have "0 < gc_read_backoff_seconds cfg * 2 ^ (n - 1)" by simp
  then show ?thesis by (simp add: sleep_before_retry_def log_event_def Let_def)
qed (simp add: sleep_before_retry_def)

lemma gateway_circuit_reports [simp]:
  "gw_circuit (record_circuit_success permit w) =
     (case (gw_circuit w, permit) of (Some b, Some p) \<Rightarrow> Some (record_success p b) | _ \<Rightarrow> gw_circuit w)"
  "gw_circuit (record_circuit_failure now permit w) =
     (case (gw_circuit w, permit) of (Some b, Some p) \<Rightarrow> Some (record_failure now p b) | _ \<Rightarrow> gw_circuit w)"
  by (simp_all add: gateway_step_defs split: option.splits)

definition scope_for :: "string \<Rightarrow> service_scope" where
  "scope_for meth = (if meth \<in> set RETRYABLE_READ_METHODS then INCIDENTS_READ else INCIDENTS_WRITE)"

definition attempt_request ::
    "gateway_config \<Rightarrow> gateway_env \<Rightarrow> string \<Rightarrow> string \<Rightarrow> (string \<times> json) list option \<Rightarrow> json option \<Rightarrow>
     nat \<Rightarrow> outbound_request option" where
  "attempt_request cfg env meth url params body n =
     (case ge_create_token env n (gc_audience cfg) [scope_for meth] of
        TokenReturned token \<Rightarrow>
          if token = [] then None
          else Some \<lparr>orq_method = meth, orq_url = url,
            orq_headers = AList.update ''Authorization'' (''Bearer '' @ token) (request_headers env),
            orq_params = params, orq_json = body\<rparr>
      | _ \<Rightarrow> None)"

lemma send_attempt_cases:
  "(\<exists>r. attempt_request cfg env meth url params body n = Some r \<and>
      send_attempt cfg env meth url params body n w = (Inr (ge_transport env n r), log_event (Sent r) w)) \<or>
   attempt_request cfg env meth url params body n = None \<and>
   (\<exists>e. (e = GatewayServiceIdentityError \<or> (\<exists>x. e = OtherException x)) \<and>
      send_attempt cfg env meth url params body n w = (Inl e, w))"
  by (auto simp: send_attempt_def attempt_request_def create_service_authorization_def scope_for_def Let_def
      split: token_result.splits)

lemma attempt_request_Some:
  "attempt_request cfg env meth url params body n = Some r \<Longrightarrow>
     orq_method r = meth \<and> orq_url r = url \<and> orq_params r = params \<and> orq_json r = body \<and>
     (\<exists>token. ge_create_token env n (gc_audience cfg) [scope_for meth] = TokenReturned token \<and>
        map_of (orq_headers r) ''Authorization'' = Some (''Bearer '' @ token))"
  by (auto simp: attempt_request_def update_conv split: token_result.splits if_splits)

text \<open>One turn of the loop: it retries, it stops with the transport's result, or it has no credential.\<close>

definition retryable :: "transport_result \<Rightarrow> bool" where
  "retryable t = (case t of TimedOut \<Rightarrow> True | TransportError \<Rightarrow> True | TransportOther _ \<Rightarrow> False
     | Responded r \<Rightarrow> status_code r \<in> set RETRYABLE_RESPONSE_STATUSES)"

fun transport_outcome :: "transport_result \<Rightarrow> string" where
  "transport_outcome TimedOut = ''timeout''"
| "transport_outcome TransportError = ''transport_error''"
| "transport_outcome (Responded r) = response_outcome (status_code r)"
| "transport_outcome (TransportOther e) = ''unexpected_error''"

fun final_result :: "transport_result \<Rightarrow> gateway_exception + http_response" where
  "final_result TimedOut = Inl (IncidentGatewayUnavailableError ''Incident Service request timed out.'')"
| "final_result TransportError = Inl (IncidentGatewayUnavailableError ''Incident Service is unavailable.'')"
| "final_result (Responded r) = Inr r"
| "final_result (TransportOther e) = Inl (OtherException e)"

definition retry_reason :: "transport_result \<Rightarrow> string" where
  "retry_reason t = (case t of TimedOut \<Rightarrow> ''timeout'' | TransportError \<Rightarrow> ''transport_error''
     | _ \<Rightarrow> ''retryable_status'')"

definition final_report ::
    "gateway_env \<Rightarrow> circuit_permit option \<Rightarrow> gateway_exception + http_response \<Rightarrow> gateway_world \<Rightarrow> gateway_world" where
  "final_report env permit result w =
     (case result of
        Inr r \<Rightarrow> if status_code r \<ge> 500 then record_circuit_failure (ge_reported_at env) permit w
                else record_circuit_success permit w
      | Inl (IncidentGatewayUnavailableError _) \<Rightarrow> record_circuit_failure (ge_reported_at env) permit w
      | Inl _ \<Rightarrow> w)"

lemma attempt_loop_retry:
  assumes "attempt_request cfg env meth url params body n = Some r"
    and "retryable (ge_transport env n r)" and "n < maximum"
  shows "attempt_loop cfg env meth url params body permit maximum n w =
    attempt_loop cfg env meth url params body permit maximum (Suc n)
      (sleep_before_retry cfg n (record_dependency_retry cfg meth (retry_reason (ge_transport env n r))
        (record_dependency_attempt cfg meth (transport_outcome (ge_transport env n r))
          (log_event (Sent r) w))))"
  using send_attempt_cases [of cfg env meth url params body n w] assms
  by (subst attempt_loop.simps)
    (auto simp: retryable_def retry_reason_def Let_def split: transport_result.splits)

lemma attempt_loop_stop:
  assumes "attempt_request cfg env meth url params body n = Some r"
    and "\<not> (retryable (ge_transport env n r) \<and> n < maximum)" and "n \<le> maximum"
    and "\<And>e. ge_transport env n r \<noteq> TransportOther e"
  shows "attempt_loop cfg env meth url params body permit maximum n w =
    (transport_outcome (ge_transport env n r), final_result (ge_transport env n r),
     final_report env permit (final_result (ge_transport env n r))
       (record_dependency_attempt cfg meth (transport_outcome (ge_transport env n r))
         (log_event (Sent r) w)))"
  using send_attempt_cases [of cfg env meth url params body n w] assms
  by (subst attempt_loop.simps)
    (auto simp: retryable_def final_report_def Let_def split: transport_result.splits)

lemma attempt_loop_raise:
  assumes "attempt_request cfg env meth url params body n = Some r"
    and "ge_transport env n r = TransportOther e" and "n \<le> maximum"
  shows "attempt_loop cfg env meth url params body permit maximum n w =
    (''unexpected_error'', Inl (OtherException e), log_event (Sent r) w)"
  using send_attempt_cases [of cfg env meth url params body n w] assms
  by (subst attempt_loop.simps) (auto simp: Let_def)

lemma attempt_loop_no_token:
  assumes "attempt_request cfg env meth url params body n = None" and "n \<le> maximum"
  shows "\<exists>e. (e = GatewayServiceIdentityError \<or> (\<exists>x. e = OtherException x)) \<and>
    attempt_loop cfg env meth url params body permit maximum n w = (''unexpected_error'', Inl e, w)"
  using send_attempt_cases [of cfg env meth url params body n w] assms
  by (subst attempt_loop.simps) (auto simp: Let_def)

lemma final_report_circuit:
  "gw_circuit v = gw_circuit w \<Longrightarrow>
     gw_circuit (final_report env permit res v) = gw_circuit (final_report env permit res w)"
  by (auto simp: final_report_def split: sum.splits gateway_exception.splits option.splits)

lemma final_report_log [simp]: "gw_log (final_report env permit res w) = gw_log w"
  by (auto simp: final_report_def split: sum.splits gateway_exception.splits)

definition loop_exception :: "gateway_exception \<Rightarrow> bool" where
  "loop_exception e \<longleftrightarrow> e = GatewayServiceIdentityError \<or>
     (\<exists>t. e = IncidentGatewayUnavailableError t) \<or> (\<exists>t. e = OtherException t)"

lemma final_result_cases: "final_result t = Inl e \<Longrightarrow> loop_exception e"
  by (cases t) (auto simp: loop_exception_def)

lemma attempt_loop_run:
  assumes "1 \<le> n" and "n \<le> maximum"
    and "attempt_loop cfg env meth url params body permit maximum n w = (out, res, w')"
  shows "gw_circuit w' = gw_circuit (final_report env permit res w) \<and>
    (\<forall>e. res = Inl e \<longrightarrow> loop_exception e) \<and>
    (\<exists>rs. sent_requests (gw_log w') = sent_requests (gw_log w) @ rs \<and> length rs + n \<le> Suc maximum \<and>
       (\<forall>r \<in> set rs. \<exists>i. attempt_request cfg env meth url params body i = Some r))"
  using assms
proof (induction "maximum - n" arbitrary: n w rule: less_induct)
  case less
  show ?case
  proof (cases "attempt_request cfg env meth url params body n")
    case None
    from attempt_loop_no_token [OF None less.prems(2), of permit w] less.prems show ?thesis
      by (auto simp: final_report_def loop_exception_def)
  next
    case (Some r)
    let ?t = "ge_transport env n r"
    consider (raise) e where "?t = TransportOther e"
      | (retry) "retryable ?t" "n < maximum"
      | (stop) "\<not> (retryable ?t \<and> n < maximum)" "\<And>e. ?t \<noteq> TransportOther e"
      by (cases "retryable ?t \<and> n < maximum"; cases ?t) auto
    then show ?thesis
    proof cases
      case raise
      from attempt_loop_raise [OF Some raise less.prems(2), of permit w] less.prems Some show ?thesis
        by (auto simp: final_report_def log_event_def loop_exception_def)
    next
      case stop
      from attempt_loop_stop [OF Some stop(1) less.prems(2) stop(2), of permit w] less.prems Some
      show ?thesis
        by (auto simp: log_event_def intro!: final_report_circuit dest: final_result_cases)
    next
      case retry
      let ?w = "sleep_before_retry cfg n (record_dependency_retry cfg meth (retry_reason ?t)
        (record_dependency_attempt cfg meth (transport_outcome ?t) (log_event (Sent r) w)))"
      have run: "attempt_loop cfg env meth url params body permit maximum (Suc n) ?w = (out, res, w')"
        using attempt_loop_retry [OF Some retry, of permit w] less.prems(3) by simp
      have "maximum - Suc n < maximum - n" and "1 \<le> Suc n" and "Suc n \<le> maximum" using retry by simp_all
      from less.hyps [OF this run] obtain rs where
        ih: "gw_circuit w' = gw_circuit (final_report env permit res ?w)"
        "\<forall>e. res = Inl e \<longrightarrow> loop_exception e"
        "sent_requests (gw_log w') = sent_requests (gw_log ?w) @ rs" "length rs + Suc n \<le> Suc maximum"
        "\<forall>r \<in> set rs. \<exists>i. attempt_request cfg env meth url params body i = Some r"
        by blast
      have "gw_circuit (final_report env permit res ?w) = gw_circuit (final_report env permit res w)"
        by (rule final_report_circuit) simp
      moreover have "sent_requests (gw_log w') = sent_requests (gw_log w) @ (r # rs)"
        using ih(3) by (simp add: log_event_def)
      ultimately show ?thesis
        using ih Some by (intro conjI exI [of _ "r # rs"]) auto
    qed
  qed
qed

lemma acquire_circuit_cases:
  "(gw_circuit w = None \<and> acquire_circuit_permission now w = (Inr None, w)) \<or>
   (\<exists>b p b'. gw_circuit w = Some b \<and> acquire_permission now b = (Inr p, b') \<and>
      acquire_circuit_permission now w = (Inr (Some p), w\<lparr>gw_circuit := Some b'\<rparr>)) \<or>
   (\<exists>b e. gw_circuit w = Some b \<and> acquire_permission now b = (Inl e, b) \<and>
      acquire_circuit_permission now w = (Inl (circuit_open_exception e), w))"
proof (cases "gw_circuit w")
  case (Some b)
  obtain res b' where acq: "acquire_permission now b = (res, b')" by fastforce
  show ?thesis
  proof (cases res)
    case (Inl e)
    then have "b' = b" using acq acquire_rejected_frame by blast
    then show ?thesis using acq Inl Some by (simp add: acquire_circuit_permission_def)
  qed (use acq Some in \<open>simp add: acquire_circuit_permission_def\<close>)
qed (simp add: acquire_circuit_permission_def)

definition service_failure :: "gateway_exception + http_response \<Rightarrow> gateway_exception + http_response" where
  "service_failure res = (if res = Inl GatewayServiceIdentityError
     then Inl (IncidentGatewayUnavailableError ''Incident Service authentication is unavailable.'') else res)"

lemma gateway_request_granted:
  assumes "acquire_circuit_permission (ge_acquired_at env) w = (Inr permit, w1)"
    and "attempt_loop cfg env (py_upper m) url params body permit
           (maximum_attempts cfg (py_upper m) permit) 1 w1 = (out, res, w2)"
  shows "fst (gateway_request cfg env m url params body w) = service_failure res \<and>
    gw_circuit (snd (gateway_request cfg env m url params body w)) =
      gw_circuit (if res = Inl GatewayServiceIdentityError
        then record_circuit_failure (ge_reported_at env) permit w2 else w2) \<and>
    sent_requests (gw_log (snd (gateway_request cfg env m url params body w))) = sent_requests (gw_log w2) \<and>
    slept_seconds (gw_log (snd (gateway_request cfg env m url params body w))) = slept_seconds (gw_log w2)"
  using assms
  by (auto simp: gateway_request_def service_failure_def Let_def
      split: sum.splits gateway_exception.splits)

lemma gateway_request_refused:
  assumes "acquire_circuit_permission (ge_acquired_at env) w = (Inl e, w1)"
  shows "fst (gateway_request cfg env m url params body w) = Inl e \<and>
    gw_circuit (snd (gateway_request cfg env m url params body w)) = gw_circuit w1 \<and>
    sent_requests (gw_log (snd (gateway_request cfg env m url params body w))) = sent_requests (gw_log w1)"
  using assms by (simp add: gateway_request_def Let_def)

lemma maximum_attempts_bounds:
  assumes "1 \<le> gc_read_max_attempts cfg"
  shows "1 \<le> maximum_attempts cfg meth permit"
    and "maximum_attempts cfg meth permit \<le>
           (if meth \<in> set RETRYABLE_READ_METHODS then nat (gc_read_max_attempts cfg) else 1)"
  using assms by (auto simp: maximum_attempts_def split: option.splits)

lemma new_gateway_Inr:
  "new_http_incident_gateway url has aud k backoff metrics w = Inr (cfg, w') \<Longrightarrow>
     1 \<le> gc_read_max_attempts cfg \<and> gc_read_max_attempts cfg = k \<and> 0 \<le> gc_read_backoff_seconds cfg"
  by (auto simp: new_http_incident_gateway_def Let_def split: if_splits)

text \<open>Later operations on a breaker whose probe was never reported.\<close>

type_synonym request_call =
  "gateway_config \<times> gateway_env \<times> string \<times> string \<times> (string \<times> json) list option \<times> json option"

fun run_call :: "request_call \<Rightarrow> gateway_world \<Rightarrow> (gateway_exception + http_response) \<times> gateway_world" where
  "run_call (cfg, env, m, url, params, body) w = gateway_request cfg env m url params body w"

definition gateway_blocked :: "circuit_breaker \<times> outbound_request list \<Rightarrow> gateway_world \<Rightarrow> bool" where
  "gateway_blocked k w \<longleftrightarrow>
     gw_circuit w = Some (fst k) \<and> state (fst k) = HALF_OPEN \<and> sent_requests (gw_log w) = snd k"

lemma gateway_blocked_call:
  assumes "gateway_blocked k w"
  shows "gateway_blocked k (snd (run_call c w)) \<and> fst (run_call c w) = Inl (IncidentGatewayCircuitOpenError 1)"
proof -
  obtain cfg env m url params body where c: "c = (cfg, env, m, url, params, body)" by (metis prod_cases6)
  have "acquire_circuit_permission (ge_acquired_at env) w = (Inl (IncidentGatewayCircuitOpenError 1), w)"
    using assms by (simp add: gateway_blocked_def acquire_circuit_permission_def acquire_permission_def
        make_circuit_open_error_def circuit_open_exception_def gateway_world.defs)
  from gateway_request_refused [OF this, of cfg m url params body] assms show ?thesis
    by (simp add: c gateway_blocked_def)
qed

interpretation gateway_stuck: one_way "\<lambda>c w. snd (run_call c w)" "\<lambda>_. True" gateway_blocked
  by unfold_locales (simp_all add: gateway_blocked_call)

text \<open>A run of the loop in which the first attempts fail in a retryable way.\<close>

lemma attempt_loop_retries:
  assumes "0 \<le> gc_read_backoff_seconds cfg" and "1 \<le> n" and "n + k \<le> maximum"
    and "\<And>i. n \<le> i \<Longrightarrow> i < n + k \<Longrightarrow> \<exists>r. attempt_request cfg env meth url params body i = Some r \<and>
           retryable (ge_transport env i r)"
  shows "\<exists>w' rs. attempt_loop cfg env meth url params body permit maximum n w =
        attempt_loop cfg env meth url params body permit maximum (n + k) w' \<and>
      sent_requests (gw_log w') = sent_requests (gw_log w) @ rs \<and> length rs = k \<and>
      slept_seconds (gw_log w') =
        slept_seconds (gw_log w) + gc_read_backoff_seconds cfg * (2 ^ (n + k - 1) - 2 ^ (n - 1))"
  using assms(2-4)
proof (induction k arbitrary: n w)
  case 0
  then show ?case by auto
next
  case (Suc k)
  obtain r where r: "attempt_request cfg env meth url params body n = Some r"
    "retryable (ge_transport env n r)" using Suc.prems(3) [of n] by auto
  let ?w = "sleep_before_retry cfg n (record_dependency_retry cfg meth (retry_reason (ge_transport env n r))
      (record_dependency_attempt cfg meth (transport_outcome (ge_transport env n r)) (log_event (Sent r) w)))"
  have step: "attempt_loop cfg env meth url params body permit maximum n w =
      attempt_loop cfg env meth url params body permit maximum (Suc n) ?w"
    using Suc.prems(2) by (intro attempt_loop_retry [OF r]) simp
  have "1 \<le> Suc n" and "Suc n + k \<le> maximum" using Suc.prems by simp_all
  moreover have "\<And>i. Suc n \<le> i \<Longrightarrow> i < Suc n + k \<Longrightarrow>
      \<exists>r. attempt_request cfg env meth url params body i = Some r \<and> retryable (ge_transport env i r)"
    using Suc.prems(3) by simp
  ultimately obtain w' rs where ih:
    "attempt_loop cfg env meth url params body permit maximum (Suc n) ?w =
       attempt_loop cfg env meth url params body permit maximum (Suc n + k) w'"
    "sent_requests (gw_log w') = sent_requests (gw_log ?w) @ rs" "length rs = k"
    "slept_seconds (gw_log w') =
       slept_seconds (gw_log ?w) + gc_read_backoff_seconds cfg * (2 ^ (Suc n + k - 1) - 2 ^ (Suc n - 1))"
    using Suc.IH [of "Suc n" ?w] by blast
  have sent: "sent_requests (gw_log w') = sent_requests (gw_log w) @ (r # rs)"
    using ih(2) by (simp add: log_event_def)
  have double: "(2::real) ^ n = 2 * 2 ^ (n - 1)" using Suc.prems(1) by (cases n) simp_all
  have "slept_seconds (gw_log w') =
      slept_seconds (gw_log w) + gc_read_backoff_seconds cfg * (2 ^ (n + Suc k - 1) - 2 ^ (n - 1))"
    using ih(4) assms(1) by (simp add: log_event_def double algebra_simps)
  then show ?case using step ih(1,3) sent by (intro exI [of _ w'] exI [of _ "r # rs"]) simp
qed

section \<open>Properties\<close>

text \<open>
  Claim C37. One logical operation of a constructed gateway sends at most
  as many requests as configured when the method is safe and at most one otherwise (a mutation is
  never repeated), none when the circuit refuses it, and one when it is a half-open probe. Every
  request sent has the operation's method, address, parameters and body, and carries a bearer
  token asked for with exactly the scope the method needs.
\<close>

theorem gateway_bounded_attempts:
  assumes "new_http_incident_gateway base True audience k backoff metrics w0 = Inr (cfg, w1)"
  shows "\<exists>rs. sent_requests (gw_log (snd (gateway_request cfg env m url params body w))) =
        sent_requests (gw_log w) @ rs \<and>
      length rs \<le> (if py_upper m \<in> {''GET'', ''HEAD'', ''OPTIONS''} then nat k else 1) \<and>
      (\<forall>b e. gw_circuit w = Some b \<and> fst (acquire_permission (ge_acquired_at env) b) = Inl e \<longrightarrow> rs = []) \<and>
      (\<forall>b p. gw_circuit w = Some b \<and> fst (acquire_permission (ge_acquired_at env) b) = Inr p \<and>
         is_half_open_probe p \<longrightarrow> length rs \<le> 1) \<and>
      (\<forall>r \<in> set rs. orq_method r = py_upper m \<and> orq_url r = url \<and> orq_params r = params \<and> orq_json r = body \<and>
         (\<exists>i token. ge_create_token env i (gc_audience cfg)
              [if py_upper m \<in> {''GET'', ''HEAD'', ''OPTIONS''} then INCIDENTS_READ else INCIDENTS_WRITE] =
              TokenReturned token \<and>
            map_of (orq_headers r) ''Authorization'' = Some (''Bearer '' @ token)))"
proof -
  note cfg = new_gateway_Inr [OF assms]
  have scope: "scope_for (py_upper m) =
      (if py_upper m \<in> {''GET'', ''HEAD'', ''OPTIONS''} then INCIDENTS_READ else INCIDENTS_WRITE)"
    by (simp add: scope_for_def gateway_constants)
  obtain res w2 where acq: "acquire_circuit_permission (ge_acquired_at env) w = (res, w2)" by fastforce
  show ?thesis
  proof (cases res)
    case (Inl e)
    then show ?thesis
      using acquire_circuit_cases [of w "ge_acquired_at env"] acq
        gateway_request_refused [of env w e w2 cfg m url params body]
      by (intro exI [of _ "[]"]) auto
  next
    case (Inr permit)
    obtain out res' w3 where run: "attempt_loop cfg env (py_upper m) url params body permit
        (maximum_attempts cfg (py_upper m) permit) 1 w2 = (out, res', w3)" by (metis prod_cases3)
    note bounds = maximum_attempts_bounds [of cfg "py_upper m" permit]
    have "1 \<le> maximum_attempts cfg (py_upper m) permit" using bounds(1) cfg by blast
    from attempt_loop_run [OF le_refl this run] obtain rs where
      rs: "sent_requests (gw_log w3) = sent_requests (gw_log w2) @ rs"
      "length rs \<le> maximum_attempts cfg (py_upper m) permit"
      "\<forall>r \<in> set rs. \<exists>i. attempt_request cfg env (py_upper m) url params body i = Some r" by auto
    have w2: "gw_log w2 = gw_log w" and granted: "gw_circuit w = Some b \<Longrightarrow>
        \<exists>p. permit = Some p \<and> fst (acquire_permission (ge_acquired_at env) b) = Inr p" for b
      using acquire_circuit_cases [of w "ge_acquired_at env"] acq Inr by auto
    have sent: "sent_requests (gw_log (snd (gateway_request cfg env m url params body w))) =
        sent_requests (gw_log w) @ rs"
      using gateway_request_granted [OF acq [unfolded Inr] run] rs(1) w2 by simp
    have count: "length rs \<le> (if py_upper m \<in> {''GET'', ''HEAD'', ''OPTIONS''} then nat k else 1)"
      using bounds(2) cfg rs(2) by (auto simp: gateway_constants)
    have probe: "length rs \<le> 1" if "gw_circuit w = Some b"
      "fst (acquire_permission (ge_acquired_at env) b) = Inr p" "is_half_open_probe p" for b p
      using granted [OF that(1)] that(2,3) rs(2) by (auto simp: maximum_attempts_def)
    have refused: "rs = []" if "gw_circuit w = Some b"
      "fst (acquire_permission (ge_acquired_at env) b) = Inl e" for b e
      using granted [OF that(1)] that(2) by auto
    have each: "orq_method r = py_upper m \<and> orq_url r = url \<and> orq_params r = params \<and> orq_json r = body \<and>
        (\<exists>i token. ge_create_token env i (gc_audience cfg) [scope_for (py_upper m)] = TokenReturned token \<and>
          map_of (orq_headers r) ''Authorization'' = Some (''Bearer '' @ token))" if "r \<in> set rs" for r
      using rs(3) that attempt_request_Some by blast
    show ?thesis
      unfolding scope [symmetric] using sent count probe refused each by blast
  qed
qed

definition demo_gateway :: gateway_config where
  "demo_gateway = \<lparr>gc_incidents_url = ''http://incidents/incidents'', gc_audience = ''incident-service'',
     gc_read_max_attempts = 3, gc_read_backoff_seconds = 1 / 2, gc_metrics = True\<rparr>"

definition demo_env :: "(nat \<Rightarrow> transport_result) \<Rightarrow> gateway_env" where
  "demo_env t = \<lparr>ge_request_id = Some ''r1'', ge_create_token = (\<lambda>_ _ _. TokenReturned ''jwt''),
     ge_transport = (\<lambda>n _. t n), ge_started_at = 0, ge_acquired_at = 40, ge_reported_at = 41,
     ge_finished_at = 42\<rparr>"

definition demo_closed :: circuit_breaker where
  "demo_closed = breaker circuit_example"

definition demo_open :: circuit_breaker where
  "demo_open = open_locked 3 demo_closed"

definition demo_world :: "circuit_breaker \<Rightarrow> gateway_world" where
  "demo_world b = \<lparr>gw_circuit = Some b, gw_log = []\<rparr>"

lemmas demo_gateway_defs = demo_gateway_def demo_env_def demo_closed_def demo_open_def demo_world_def

lemma demo_new_gateway:
  "new_http_incident_gateway '' http://incidents/'' True ''incident-service'' 3 (1 / 2) True
     \<lparr>gw_circuit = None, gw_log = []\<rparr> = Inr (demo_gateway, \<lparr>gw_circuit = None, gw_log = []\<rparr>)"
  by (simp add: new_http_incident_gateway_def py_strip_def char_space_def observe_circuit_state_def
      demo_gateway_def)

lemma demo_upper [simp]: "py_upper ''post'' = ''POST''" "py_upper ''get'' = ''GET''"
  by code_simp+

theorem gateway_bounded_attempts_witness:
  "length (sent_requests (gw_log (snd (gateway_request demo_gateway (demo_env (\<lambda>_. TimedOut))
     ''post'' ''http://incidents/incidents'' None (Some JNull) (demo_world demo_closed))))) \<le> 1"
  using gateway_bounded_attempts [OF demo_new_gateway, of "demo_env (\<lambda>_. TimedOut)" "''post''"
      "''http://incidents/incidents''" None "Some JNull" "demo_world demo_closed"]
  by (auto simp: demo_world_def)

text \<open>
  Every operation the circuit admits reports its permit exactly once
  and according to its result: a success for a response below 500, a failure for a response of
  500 or more and for a timeout, a transport error or a missing credential. The exception is an
  error of any other kind, which leaves the permit unreported.
\<close>

theorem gateway_single_report:
  assumes "new_http_incident_gateway base True audience k backoff metrics w0 = Inr (cfg, w1)"
    and "gw_circuit w = Some b" and "acquire_permission (ge_acquired_at env) b = (Inr p, b')"
  shows "gw_circuit (snd (gateway_request cfg env m url params body w)) = Some
      (case fst (gateway_request cfg env m url params body w) of
         Inr r \<Rightarrow> if status_code r \<ge> 500 then record_failure (ge_reported_at env) p b' else record_success p b'
       | Inl (IncidentGatewayUnavailableError _) \<Rightarrow> record_failure (ge_reported_at env) p b'
       | Inl _ \<Rightarrow> b') \<and>
    (\<forall>e. fst (gateway_request cfg env m url params body w) = Inl e \<longrightarrow>
       (\<exists>t. e = IncidentGatewayUnavailableError t) \<or> (\<exists>t. e = OtherException t))"
proof -
  let ?w = "w\<lparr>gw_circuit := Some b'\<rparr>" and ?m = "py_upper m"
  have acq: "acquire_circuit_permission (ge_acquired_at env) w = (Inr (Some p), ?w)"
    using assms(2,3) by (simp add: acquire_circuit_permission_def)
  obtain out res w3 where run: "attempt_loop cfg env ?m url params body (Some p)
      (maximum_attempts cfg ?m (Some p)) 1 ?w = (out, res, w3)" by (metis prod_cases3)
  have "1 \<le> maximum_attempts cfg ?m (Some p)"
    using maximum_attempts_bounds(1) new_gateway_Inr [OF assms(1)] by blast
  note loop = attempt_loop_run [OF le_refl this run]
  show ?thesis
    using gateway_request_granted [OF acq run] loop
    by (cases res) (auto simp: service_failure_def final_report_def loop_exception_def)
qed

lemma demo_acquire:
  "acquire_permission 40 demo_closed = (Inr (plain_permit 0), demo_closed)"
  "acquire_permission 40 demo_open = (Inr (probe_permit 1), demo_open\<lparr>state := HALF_OPEN\<rparr>)"
  by (simp_all add: demo_gateway_defs circuit_eval)

lemma demo_env_simps [simp]:
  "ge_transport (demo_env t) n r = t n" "ge_acquired_at (demo_env t) = 40"
  "ge_reported_at (demo_env t) = 41"
  by (simp_all add: demo_env_def)

lemma demo_attempt_request:
  "attempt_request demo_gateway (demo_env t) m url params body n =
     Some \<lparr>orq_method = m, orq_url = url, orq_headers =
       [(''Accept'', ''application/json''), (''X-Request-ID'', ''r1''), (''Authorization'', ''Bearer jwt'')],
       orq_params = params, orq_json = body\<rparr>"
  by (simp add: attempt_request_def demo_gateway_defs request_headers_def REQUEST_ID_HEADER_def)

lemma demo_post_timeout:
  "fst (gateway_request demo_gateway (demo_env (\<lambda>_. TimedOut)) ''post'' u p b (demo_world demo_closed)) =
     Inl (IncidentGatewayUnavailableError ''Incident Service request timed out.'')"
proof -
  let ?e = "demo_env (\<lambda>_. TimedOut)" and ?w = "demo_world demo_closed"
  have acq: "acquire_circuit_permission (ge_acquired_at ?e) ?w = (Inr (Some (plain_permit 0)), ?w)"
    using demo_acquire(1) by (simp add: acquire_circuit_permission_def demo_world_def)
  have max: "maximum_attempts demo_gateway (py_upper ''post'') (Some (plain_permit 0)) = 1"
    by (simp add: maximum_attempts_def plain_permit_def gateway_constants)
  from attempt_loop_stop [OF demo_attempt_request, of "\<lambda>_. TimedOut" 1 "py_upper ''post''" u p b 1]
  have "attempt_loop demo_gateway ?e (py_upper ''post'') u p b (Some (plain_permit 0))
      (maximum_attempts demo_gateway (py_upper ''post'') (Some (plain_permit 0))) 1 ?w =
    (''timeout'', Inl (IncidentGatewayUnavailableError ''Incident Service request timed out.''),
     final_report ?e (Some (plain_permit 0))
       (Inl (IncidentGatewayUnavailableError ''Incident Service request timed out.''))
       (record_dependency_attempt demo_gateway (py_upper ''post'') ''timeout''
         (log_event (Sent \<lparr>orq_method = py_upper ''post'', orq_url = u, orq_headers =
            [(''Accept'', ''application/json''), (''X-Request-ID'', ''r1''), (''Authorization'', ''Bearer jwt'')],
            orq_params = p, orq_json = b\<rparr>) ?w)))"
    unfolding max by (simp del: demo_upper)
  from gateway_request_granted [OF acq this] show ?thesis by (simp add: service_failure_def)
qed

theorem gateway_single_report_witness:
  "gw_circuit (snd (gateway_request demo_gateway (demo_env (\<lambda>_. TimedOut)) ''post''
      ''http://incidents/incidents'' None None (demo_world demo_closed))) =
     Some (demo_closed\<lparr>consecutive_failures := 1\<rparr>)"
proof -
  let ?e = "demo_env (\<lambda>_. TimedOut)"
  have "gw_circuit (demo_world demo_closed) = Some demo_closed"
    and "acquire_permission (ge_acquired_at ?e) demo_closed = (Inr (plain_permit 0), demo_closed)"
    using demo_acquire(1) by (simp_all add: demo_world_def demo_env_def)
  from gateway_single_report [OF demo_new_gateway this, of "''post''" "''http://incidents/incidents''" None None]
  have "gw_circuit (snd (gateway_request demo_gateway ?e ''post'' ''http://incidents/incidents'' None None
      (demo_world demo_closed))) = Some (record_failure 41 (plain_permit 0) demo_closed)"
    by (simp add: demo_post_timeout)
  then show ?thesis by (simp add: demo_closed_def circuit_eval)
qed

text \<open>
  If an error of another kind ends the operation that holds the
  half-open probe, the gateway never calls the Incident Service again: whatever operations follow,
  at whatever times, no request is sent, each of them fails with the circuit-open error, and the
  breaker stays half open.
\<close>

theorem gateway_lost_probe:
  assumes "new_http_incident_gateway base True audience k backoff metrics w0 = Inr (cfg, w1)"
    and "gw_circuit w = Some b" and "state b = OPEN"
    and "acquire_permission (ge_acquired_at env) b = (Inr p, b')"
    and "gateway_request cfg env m url params body w = (Inl (OtherException e), w')"
  shows "let v = fold (\<lambda>c w. snd (run_call c w)) later w'
    in gw_circuit v = Some (b\<lparr>state := HALF_OPEN\<rparr>) \<and>
       sent_requests (gw_log v) = sent_requests (gw_log w') \<and>
       fst (run_call next_call v) = Inl (IncidentGatewayCircuitOpenError 1)"
proof -
  have b': "b' = b\<lparr>state := HALF_OPEN\<rparr>"
    using assms(3,4) by (auto simp: acquire_permission_def Let_def split: if_splits)
  let ?w = "w\<lparr>gw_circuit := Some b'\<rparr>" and ?m = "py_upper m"
  have acq: "acquire_circuit_permission (ge_acquired_at env) w = (Inr (Some p), ?w)"
    using assms(2,4) by (simp add: acquire_circuit_permission_def)
  obtain out res w3 where run: "attempt_loop cfg env ?m url params body (Some p)
      (maximum_attempts cfg ?m (Some p)) 1 ?w = (out, res, w3)" by (metis prod_cases3)
  have one: "1 \<le> maximum_attempts cfg ?m (Some p)"
    using maximum_attempts_bounds(1) new_gateway_Inr [OF assms(1)] by blast
  have "gw_circuit w' = Some b'"
    using gateway_request_granted [OF acq run] attempt_loop_run [OF le_refl one run] assms(5)
    by (auto simp: service_failure_def final_report_def split: if_splits)
  then have "gateway_blocked (b', sent_requests (gw_log w')) w'"
    by (simp add: gateway_blocked_def b')
  then have "gateway_blocked (b', sent_requests (gw_log w')) (fold (\<lambda>c w. snd (run_call c w)) later w')"
    by (intro gateway_stuck.settled_run) simp_all
  then show ?thesis
    using gateway_blocked_call [of "(b', sent_requests (gw_log w'))" _ next_call] b'
    by (simp add: gateway_blocked_def Let_def)
qed

lemma demo_probe_raises:
  "\<exists>w. gateway_request demo_gateway (demo_env (\<lambda>_. TransportOther ''InvalidURL'')) ''get'' u p b
     (demo_world demo_open) = (Inl (OtherException ''InvalidURL''), w)"
proof -
  let ?e = "demo_env (\<lambda>_. TransportOther ''InvalidURL'')" and ?w = "demo_world (demo_open\<lparr>state := HALF_OPEN\<rparr>)"
  have acq: "acquire_circuit_permission (ge_acquired_at ?e) (demo_world demo_open) = (Inr (Some (probe_permit 1)), ?w)"
    using demo_acquire(2) by (simp add: acquire_circuit_permission_def demo_world_def)
  have max: "maximum_attempts demo_gateway (py_upper ''get'') (Some (probe_permit 1)) = 1"
    by (simp add: maximum_attempts_def probe_permit_def)
  obtain v where "attempt_loop demo_gateway ?e (py_upper ''get'') u p b (Some (probe_permit 1))
      (maximum_attempts demo_gateway (py_upper ''get'') (Some (probe_permit 1))) 1 ?w =
    (''unexpected_error'', Inl (OtherException ''InvalidURL''), v)"
    using attempt_loop_raise [OF demo_attempt_request, of "\<lambda>_. TransportOther ''InvalidURL''" 1
        "py_upper ''get''" u p b "''InvalidURL''" 1]
    unfolding max by (simp del: demo_upper)
  from gateway_request_granted [OF acq this] show ?thesis
    by (intro exI [of _ "snd (gateway_request demo_gateway ?e ''get'' u p b (demo_world demo_open))"])
      (simp add: prod_eq_iff service_failure_def)
qed

theorem gateway_lost_probe_witness:
  "\<exists>w'. gateway_request demo_gateway (demo_env (\<lambda>_. TransportOther ''InvalidURL'')) ''get''
       ''http://incidents/incidents'' None None (demo_world demo_open) = (Inl (OtherException ''InvalidURL''), w') \<and>
     fst (run_call (demo_gateway, demo_env (\<lambda>_. TimedOut), ''post'', ''http://incidents/incidents'', None, None)
       (fold (\<lambda>c w. snd (run_call c w))
         [(demo_gateway, demo_env (\<lambda>_. TimedOut), ''get'', ''http://incidents/incidents'', None, None)] w')) =
       Inl (IncidentGatewayCircuitOpenError 1)"
proof -
  let ?e = "demo_env (\<lambda>_. TransportOther ''InvalidURL'')"
  obtain w' where w': "gateway_request demo_gateway ?e ''get'' ''http://incidents/incidents'' None None
      (demo_world demo_open) = (Inl (OtherException ''InvalidURL''), w')" using demo_probe_raises by blast
  have "gw_circuit (demo_world demo_open) = Some demo_open" and "state demo_open = OPEN"
    and "acquire_permission (ge_acquired_at ?e) demo_open = (Inr (probe_permit 1), demo_open\<lparr>state := HALF_OPEN\<rparr>)"
    using demo_acquire(2) by (simp_all add: demo_world_def demo_open_def open_locked_def)
  from gateway_lost_probe [OF demo_new_gateway this w',
      of "[(demo_gateway, demo_env (\<lambda>_. TimedOut), ''get'', ''http://incidents/incidents'', None, None)]"
         "(demo_gateway, demo_env (\<lambda>_. TimedOut), ''post'', ''http://incidents/incidents'', None, None)"] w'
  show ?thesis by (auto simp: Let_def simp del: run_call.simps)
qed

text \<open>
  A read that is not a half-open probe survives transient failures:
  if its first j attempts time out, fail in transport or are answered 502, 503 or 504, and the
  next one ends otherwise or is the last allowed, then the caller gets that attempt's result,
  exactly j + 1 requests were sent and the waits add up to the base delay times 2^j - 1.
\<close>

theorem gateway_read_retries:
  assumes "new_http_incident_gateway base True audience k backoff metrics w0 = Inr (cfg, w1)"
    and "gw_circuit w = Some b" and "state b = CLOSED"
    and "py_upper m \<in> {''GET'', ''HEAD'', ''OPTIONS''}"
    and "\<And>n. ge_create_token env n (gc_audience cfg) [INCIDENTS_READ] = TokenReturned (token n) \<and> token n \<noteq> []"
    and "\<And>n r. ge_transport env n r = t n"
    and "\<And>i. 1 \<le> i \<Longrightarrow> i \<le> j \<Longrightarrow> retryable (t i)" and "Suc j \<le> nat k"
    and "retryable (t (Suc j)) \<longrightarrow> Suc j = nat k" and "\<And>e. t (Suc j) \<noteq> TransportOther e"
  shows "let (res, w') = gateway_request cfg env m url params body w
    in res = final_result (t (Suc j)) \<and>
       (\<exists>rs. sent_requests (gw_log w') = sent_requests (gw_log w) @ rs \<and> length rs = Suc j) \<and>
       slept_seconds (gw_log w') = slept_seconds (gw_log w) + gc_read_backoff_seconds cfg * (2 ^ j - 1)"
proof -
  note cfg = new_gateway_Inr [OF assms(1)]
  let ?m = "py_upper m" and ?p = "\<lparr>generation = cb_generation b, is_half_open_probe = False\<rparr>"
  have read: "?m \<in> set RETRYABLE_READ_METHODS" using assms(4) by (simp add: gateway_constants)
  have acq: "acquire_circuit_permission (ge_acquired_at env) w = (Inr (Some ?p), w)"
    using assms(2,3) by (simp add: acquire_circuit_permission_def acquire_permission_def)
  have max: "maximum_attempts cfg ?m (Some ?p) = nat k"
    using read cfg by (simp add: maximum_attempts_def)
  have req: "\<exists>r. attempt_request cfg env ?m url params body i = Some r" for i
    using assms(5) [of i] read by (simp add: attempt_request_def scope_for_def)
  have nonneg: "0 \<le> gc_read_backoff_seconds cfg" using cfg by blast
  obtain v rs where run: "attempt_loop cfg env ?m url params body (Some ?p) (nat k) 1 w =
      attempt_loop cfg env ?m url params body (Some ?p) (nat k) (Suc j) v"
    and v: "sent_requests (gw_log v) = sent_requests (gw_log w) @ rs" "length rs = j"
    "slept_seconds (gw_log v) = slept_seconds (gw_log w) + gc_read_backoff_seconds cfg * (2 ^ j - 1)"
    using attempt_loop_retries [OF nonneg le_refl, of j "nat k" env ?m url params body "Some ?p" w]
      assms(6-8) req by auto
  obtain r where r: "attempt_request cfg env ?m url params body (Suc j) = Some r" using req by blast
  have "\<not> (retryable (ge_transport env (Suc j) r) \<and> Suc j < nat k)"
    and "\<And>e. ge_transport env (Suc j) r \<noteq> TransportOther e" using assms(6,9,10) by auto
  from attempt_loop_stop [OF r this(1) assms(8) this(2), of "Some ?p" v] run
  have loop: "attempt_loop cfg env ?m url params body (Some ?p) (maximum_attempts cfg ?m (Some ?p)) 1 w =
      (transport_outcome (t (Suc j)), final_result (t (Suc j)), final_report env (Some ?p) (final_result (t (Suc j)))
       (record_dependency_attempt cfg ?m (transport_outcome (t (Suc j))) (log_event (Sent r) v)))"
    by (simp add: max assms(6))
  have fin: "service_failure (final_result (t (Suc j))) = final_result (t (Suc j)) \<and>
      final_result (t (Suc j)) \<noteq> Inl GatewayServiceIdentityError"
    by (cases "t (Suc j)") (simp_all add: service_failure_def)
  show ?thesis
    using gateway_request_granted [OF acq loop] fin v
    by (simp add: case_prod_unfold log_event_def Let_def)
qed

definition demo_flaky :: "nat \<Rightarrow> transport_result" where
  "demo_flaky n = (if n = 1 then TimedOut else if n = 2 then Responded \<lparr>status_code = 503, body_json = None\<rparr>
     else Responded \<lparr>status_code = 200, body_json = Some (JList [])\<rparr>)"

theorem gateway_read_retries_witness:
  "\<exists>w'. gateway_request demo_gateway (demo_env demo_flaky) ''get'' ''http://incidents/incidents'' None None
       (demo_world demo_closed) = (Inr \<lparr>status_code = 200, body_json = Some (JList [])\<rparr>, w') \<and>
     length (sent_requests (gw_log w')) = 3 \<and> slept_seconds (gw_log w') = 3 / 2"
proof -
  have "gw_circuit (demo_world demo_closed) = Some demo_closed" and "state demo_closed = CLOSED"
    by (simp_all add: demo_gateway_defs circuit_example_def)
  from gateway_read_retries [OF demo_new_gateway this, of "''get''" "demo_env demo_flaky" "\<lambda>_. ''jwt''"
      demo_flaky 2 "''http://incidents/incidents''" None None]
  show ?thesis
    by (auto simp: demo_flaky_def retryable_def RETRYABLE_RESPONSE_STATUSES_def case_prod_unfold prod_eq_iff
        demo_world_def demo_gateway_def demo_env_def Let_def)
qed

end
