(* ===== verification/Security_Tokens.thy ===== *)
theory Security_Tokens
  imports Json_Web_Token
begin

text \<open>
  \<open>src/backend/app/core/security.py\<close>: user tokens (access, refresh and reauthentication JWTs), the
  reauthentication fingerprint and session-bound CSRF tokens, and \<open>password_policy.py\<close> and
  \<open>password_reset_tokens.py\<close> beside it.

  The record \<open>security\<close> holds the settings the functions read and the libraries they call: PyJWT
  with symmetric keys, HMAC-SHA256 and SHA-256 in hexadecimal, and the password hasher, whose
  hash takes the salt it draws as an argument. \<open>now\<close> is the clock, \<open>token_id\<close> the fresh UUID and
  \<open>nonce\<close> the random text a function draws. \<open>hmac.compare_digest\<close> is equality.
\<close>

record security =
  sec_jwt :: "(string, string) jwt_lib"
  sec_hmac_sha256 :: "string \<Rightarrow> string \<Rightarrow> string"
  sec_sha256 :: "string \<Rightarrow> string"
  sec_hash :: "nat \<Rightarrow> string \<Rightarrow> string"
  sec_verify :: "string \<Rightarrow> string \<Rightarrow> bool"
  sec_dummy_password_hash :: string
  sec_jwt_issuer :: string
  sec_jwt_audience :: string
  sec_jwt_secret_key :: string
  sec_jwt_refresh_secret_key :: string
  sec_jwt_reauth_secret_key :: string
  sec_csrf_secret_key :: string
  sec_access_token_expire_minutes :: int
  sec_reauth_token_expire_minutes :: int
  sec_refresh_token_expire_days :: int

definition JWT_ALGORITHM :: string where "JWT_ALGORITHM = ''HS256''"
definition ACCESS_TOKEN_TYPE :: string where "ACCESS_TOKEN_TYPE = ''access''"
definition REFRESH_TOKEN_TYPE :: string where "REFRESH_TOKEN_TYPE = ''refresh''"
definition REAUTH_TOKEN_TYPE :: string where "REAUTH_TOKEN_TYPE = ''reauth''"

lemmas token_constants = JWT_ALGORITHM_def ACCESS_TOKEN_TYPE_def REFRESH_TOKEN_TYPE_def REAUTH_TOKEN_TYPE_def

datatype token_validation_error = TokenValidationError string

record refresh_token_claims =
  rc_user_id :: uuid
  rc_session_id :: uuid
  rc_token_id :: uuid
  rc_expires_at :: instant

record reauthentication_claims =
  ra_user_id :: uuid
  ra_token_id :: uuid
  ra_credential_fingerprint :: string

definition hash_password :: "security \<Rightarrow> nat \<Rightarrow> string \<Rightarrow> string" where
  "hash_password sec salt password = sec_hash sec salt password"

definition verify_password :: "security \<Rightarrow> string \<Rightarrow> string \<Rightarrow> bool" where
  "verify_password sec plain_password hashed_password = sec_verify sec plain_password hashed_password"

definition jwt_header :: payload where
  "jwt_header = [(''typ'', JStr ''JWT'')]"

definition decode_options :: "security \<Rightarrow> string list \<Rightarrow> jwt_options" where
  "decode_options sec require =
     \<lparr>opt_algorithms = [JWT_ALGORITHM], opt_audience = sec_jwt_audience sec,
      opt_issuer = sec_jwt_issuer sec, opt_require = require, opt_verify_times = True\<rparr>"

section \<open>Shared claim validation\<close>

definition decode_subject :: "payload \<Rightarrow> token_validation_error + uuid" where
  "decode_subject p =
     (case payload_get p ''sub'' of
        JStr subject \<Rightarrow>
          (case uuid_parse subject of
             None \<Rightarrow> Inl (TokenValidationError ''The token subject is invalid.'')
           | Some u \<Rightarrow> Inr u)
      | _ \<Rightarrow> Inl (TokenValidationError ''The token subject is invalid.''))"

definition decode_jti :: "payload \<Rightarrow> token_validation_error + uuid" where
  "decode_jti p =
     (case payload_get p ''jti'' of
        JStr v \<Rightarrow>
          (case uuid_parse v of
             None \<Rightarrow> Inl (TokenValidationError ''The token identifier is invalid.'')
           | Some u \<Rightarrow> Inr u)
      | _ \<Rightarrow> Inl (TokenValidationError ''The token identifier is invalid.''))"

definition validate_jti :: "payload \<Rightarrow> token_validation_error option" where
  "validate_jti p = (case decode_jti p of Inl e \<Rightarrow> Some e | Inr _ \<Rightarrow> None)"

section \<open>Access tokens\<close>

definition access_claims :: "security \<Rightarrow> instant \<Rightarrow> uuid \<Rightarrow> uuid \<Rightarrow> int option \<Rightarrow> claims" where
  "access_claims sec now token_id user_id expires_delta =
     [(''sub'', Claim (JStr (uuid_str user_id))), (''iat'', Date now), (''nbf'', Date now),
      (''exp'', Date (now + (case expires_delta of
          None \<Rightarrow> timedelta_minutes (sec_access_token_expire_minutes sec) | Some d \<Rightarrow> d))),
      (''iss'', Claim (JStr (sec_jwt_issuer sec))), (''aud'', Claim (JStr (sec_jwt_audience sec))),
      (''type'', Claim (JStr ACCESS_TOKEN_TYPE)), (''jti'', Claim (JStr (uuid_str token_id)))]"

definition create_access_token ::
    "security \<Rightarrow> instant \<Rightarrow> uuid \<Rightarrow> uuid \<Rightarrow> int option \<Rightarrow> string option" where
  "create_access_token sec now token_id user_id expires_delta =
     jwt_encode (sec_jwt sec) (access_claims sec now token_id user_id expires_delta)
       (sec_jwt_secret_key sec) JWT_ALGORITHM jwt_header"

definition decode_access_token :: "security \<Rightarrow> instant \<Rightarrow> string \<Rightarrow> token_validation_error + uuid" where
  "decode_access_token sec now token =
     (case jwt_decode (sec_jwt sec) now token (sec_jwt_secret_key sec)
             (decode_options sec [''sub'', ''iat'', ''nbf'', ''exp'', ''iss'', ''aud'', ''type'', ''jti'']) of
        Inl _ \<Rightarrow> Inl (TokenValidationError ''The access token is invalid.'')
      | Inr p \<Rightarrow>
          if payload_get p ''type'' \<noteq> JStr ACCESS_TOKEN_TYPE
          then Inl (TokenValidationError ''The token is not an access token.'')
          else (case validate_jti p of
            Some e \<Rightarrow> Inl e
          | None \<Rightarrow> decode_subject p))"

section \<open>Refresh tokens\<close>

definition refresh_claims :: "security \<Rightarrow> instant \<Rightarrow> uuid \<Rightarrow> uuid \<Rightarrow> uuid \<Rightarrow> instant \<Rightarrow> claims" where
  "refresh_claims sec now user_id session_id token_id expires_at =
     [(''sub'', Claim (JStr (uuid_str user_id))), (''sid'', Claim (JStr (uuid_str session_id))),
      (''jti'', Claim (JStr (uuid_str token_id))), (''iat'', Date now), (''nbf'', Date now),
      (''exp'', Date expires_at), (''iss'', Claim (JStr (sec_jwt_issuer sec))),
      (''aud'', Claim (JStr (sec_jwt_audience sec))), (''type'', Claim (JStr REFRESH_TOKEN_TYPE))]"

definition create_refresh_token ::
    "security \<Rightarrow> instant \<Rightarrow> uuid \<Rightarrow> uuid \<Rightarrow> uuid \<Rightarrow> instant \<Rightarrow> string option" where
  "create_refresh_token sec now user_id session_id token_id expires_at =
     jwt_encode (sec_jwt sec) (refresh_claims sec now user_id session_id token_id expires_at)
       (sec_jwt_refresh_secret_key sec) JWT_ALGORITHM jwt_header"

definition decode_refresh_token ::
    "security \<Rightarrow> instant \<Rightarrow> string \<Rightarrow> token_validation_error + refresh_token_claims" where
  "decode_refresh_token sec now token =
     (case jwt_decode (sec_jwt sec) now token (sec_jwt_refresh_secret_key sec)
             (decode_options sec [''sub'', ''sid'', ''jti'', ''iat'', ''nbf'', ''exp'', ''iss'', ''aud'', ''type'']) of
        Inl _ \<Rightarrow> Inl (TokenValidationError ''The refresh token is invalid.'')
      | Inr p \<Rightarrow>
          if payload_get p ''type'' \<noteq> JStr REFRESH_TOKEN_TYPE
          then Inl (TokenValidationError ''The token is not a refresh token.'')
          else (case decode_subject p of Inl e \<Rightarrow> Inl e | Inr user_id \<Rightarrow>
            case payload_get p ''sid'' of
              JStr session_value \<Rightarrow>
                (case payload_get p ''jti'' of
                   JStr token_value \<Rightarrow>
                     if \<not> (case payload_get p ''exp'' of JInt _ \<Rightarrow> True | JFloat _ \<Rightarrow> True | _ \<Rightarrow> False)
                     then Inl (TokenValidationError ''The refresh-token expiration is invalid.'')
                     else (case (uuid_parse session_value, uuid_parse token_value) of
                       (Some session_id, Some token_id) \<Rightarrow>
                         (case datetime_fromtimestamp (payload_get p ''exp'') of
                            None \<Rightarrow> Inl (TokenValidationError ''The refresh-token expiration is invalid.'')
                          | Some expires_at \<Rightarrow> Inr \<lparr>rc_user_id = user_id, rc_session_id = session_id,
                              rc_token_id = token_id, rc_expires_at = expires_at\<rparr>)
                     | _ \<Rightarrow> Inl (TokenValidationError ''The refresh token contains an invalid UUID claim.''))
                 | _ \<Rightarrow> Inl (TokenValidationError ''The refresh-token identifier is invalid.''))
            | _ \<Rightarrow> Inl (TokenValidationError ''The refresh-token session identifier is invalid.'')))"

section \<open>Reauthentication\<close>

definition create_reauthentication_fingerprint :: "security \<Rightarrow> string \<Rightarrow> string" where
  "create_reauthentication_fingerprint sec hashed_password =
     sec_hmac_sha256 sec (sec_jwt_reauth_secret_key sec) (''opsflow-reauth-credential:'' @ hashed_password)"

definition reauthentication_credential_matches :: "security \<Rightarrow> string \<Rightarrow> string \<Rightarrow> bool" where
  "reauthentication_credential_matches sec hashed_password credential_fingerprint \<longleftrightarrow>
     create_reauthentication_fingerprint sec hashed_password = credential_fingerprint"

definition reauth_claims :: "security \<Rightarrow> instant \<Rightarrow> uuid \<Rightarrow> uuid \<Rightarrow> string \<Rightarrow> int option \<Rightarrow> claims" where
  "reauth_claims sec now token_id user_id credential_hash expires_delta =
     [(''sub'', Claim (JStr (uuid_str user_id))), (''iat'', Date now), (''nbf'', Date now),
      (''exp'', Date (now + (case expires_delta of
          None \<Rightarrow> timedelta_minutes (sec_reauth_token_expire_minutes sec) | Some d \<Rightarrow> d))),
      (''iss'', Claim (JStr (sec_jwt_issuer sec))), (''aud'', Claim (JStr (sec_jwt_audience sec))),
      (''type'', Claim (JStr REAUTH_TOKEN_TYPE)), (''jti'', Claim (JStr (uuid_str token_id))),
      (''cv'', Claim (JStr (create_reauthentication_fingerprint sec credential_hash)))]"

definition create_reauthentication_token ::
    "security \<Rightarrow> instant \<Rightarrow> uuid \<Rightarrow> uuid \<Rightarrow> string \<Rightarrow> int option \<Rightarrow> string option" where
  "create_reauthentication_token sec now token_id user_id credential_hash expires_delta =
     jwt_encode (sec_jwt sec) (reauth_claims sec now token_id user_id credential_hash expires_delta)
       (sec_jwt_reauth_secret_key sec) JWT_ALGORITHM jwt_header"

definition decode_reauthentication_token ::
    "security \<Rightarrow> instant \<Rightarrow> string \<Rightarrow> token_validation_error + reauthentication_claims" where
  "decode_reauthentication_token sec now token =
     (case jwt_decode (sec_jwt sec) now token (sec_jwt_reauth_secret_key sec)
             (decode_options sec [''sub'', ''iat'', ''nbf'', ''exp'', ''iss'', ''aud'', ''type'', ''jti'', ''cv'']) of
        Inl _ \<Rightarrow> Inl (TokenValidationError ''The reauthentication token is invalid.'')
      | Inr p \<Rightarrow>
          if payload_get p ''type'' \<noteq> JStr REAUTH_TOKEN_TYPE
          then Inl (TokenValidationError ''The token is not a reauthentication token.'')
          else (case decode_subject p of Inl e \<Rightarrow> Inl e | Inr user_id \<Rightarrow>
            case decode_jti p of Inl e \<Rightarrow> Inl e | Inr token_id \<Rightarrow>
            case payload_get p ''cv'' of
              JStr fp \<Rightarrow>
                if length fp \<noteq> 64
                then Inl (TokenValidationError ''The reauthentication credential fingerprint is invalid.'')
                else Inr \<lparr>ra_user_id = user_id, ra_token_id = token_id, ra_credential_fingerprint = fp\<rparr>
            | _ \<Rightarrow> Inl (TokenValidationError ''The reauthentication credential fingerprint is invalid.'')))"

section \<open>CSRF tokens\<close>

definition csrf_signature :: "security \<Rightarrow> uuid \<Rightarrow> string \<Rightarrow> string" where
  "csrf_signature sec session_id nonce =
     sec_hmac_sha256 sec (sec_csrf_secret_key sec) (uuid_str session_id @ '':'' @ nonce)"

definition create_csrf_token :: "security \<Rightarrow> string \<Rightarrow> uuid \<Rightarrow> string" where
  "create_csrf_token sec nonce session_id = nonce @ ''.'' @ csrf_signature sec session_id nonce"

definition validate_csrf_token :: "security \<Rightarrow> uuid \<Rightarrow> string \<Rightarrow> bool" where
  "validate_csrf_token sec session_id csrf_token =
     (case py_partition (CHR ''.'') csrf_token of
        None \<Rightarrow> False
      | Some (nonce, supplied_signature) \<Rightarrow>
          if nonce = [] \<or> supplied_signature = [] then False
          else supplied_signature = csrf_signature sec session_id nonce)"

section \<open>Password policy\<close>

definition PASSWORD_MIN_LENGTH :: nat where "PASSWORD_MIN_LENGTH = 15"
definition PASSWORD_MAX_LENGTH :: nat where "PASSWORD_MAX_LENGTH = 128"

definition validate_new_password :: "string \<Rightarrow> string option" where
  "validate_new_password password =
     (if length password < PASSWORD_MIN_LENGTH
      then Some ''The new password must contain at least 15 characters.''
      else if PASSWORD_MAX_LENGTH < length password
      then Some ''The new password must not exceed 128 characters.''
      else None)"

section \<open>Password-reset tokens\<close>

definition digest_password_reset_token :: "security \<Rightarrow> string \<Rightarrow> string option" where
  "digest_password_reset_token sec token = (if token = [] then None else Some (sec_sha256 sec token))"

definition create_password_reset_credential_fingerprint :: "security \<Rightarrow> string \<Rightarrow> string option" where
  "create_password_reset_credential_fingerprint sec hashed_password =
     (if hashed_password = [] then None
      else Some (sec_sha256 sec (''opsflow-password-reset-credential:'' @ hashed_password)))"

definition password_reset_credential_matches :: "security \<Rightarrow> string \<Rightarrow> string \<Rightarrow> bool option" where
  "password_reset_credential_matches sec hashed_password credential_fingerprint =
     map_option (\<lambda>expected. expected = credential_fingerprint)
       (create_password_reset_credential_fingerprint sec hashed_password)"

section \<open>Lemmas\<close>

lemma minted_type:
  assumes "jwt_contract (sec_jwt sec) public_of" and "jwt_encode (sec_jwt sec) cs sk alg hdr = Some tok"
    and "map_of cs ''type'' = Some (Claim (JStr kind))"
  shows "kind \<noteq> ACCESS_TOKEN_TYPE \<Longrightarrow> isl (decode_access_token sec now tok)"
    and "kind \<noteq> REFRESH_TOKEN_TYPE \<Longrightarrow> isl (decode_refresh_token sec now tok)"
    and "kind \<noteq> REAUTH_TOKEN_TYPE \<Longrightarrow> isl (decode_reauthentication_token sec now tok)"
  using assms(3)
  by (auto simp: decode_access_token_def decode_refresh_token_def decode_reauthentication_token_def
      split: sum.splits dest!: jwt_contract_claims [OF assms(1,2)])

lemma uuid_claims [simp]:
  "payload_get p ''sub'' = JStr (uuid_str u) \<Longrightarrow> decode_subject p = Inr u"
  "payload_get p ''jti'' = JStr (uuid_str u) \<Longrightarrow> decode_jti p = Inr u"
  by (simp_all add: decode_subject_def decode_jti_def)

definition whole_second :: "instant \<Rightarrow> instant" where
  "whole_second t = t div us_per_second * us_per_second"

lemma whole_second_le: "whole_second t \<le> t"
  by (simp add: whole_second_def us_per_second_def)

text \<open>A minted token decodes exactly from its issue until its expiry, both to the whole second.\<close>

lemma minted_decodes:
  assumes "jwt_contract (sec_jwt sec) (\<lambda>k. k)" and "jwt_encode (sec_jwt sec) cs sk JWT_ALGORITHM hdr = Some tok"
    and "map_of cs ''aud'' = Some (Claim (JStr (sec_jwt_audience sec)))"
    and "map_of cs ''iss'' = Some (Claim (JStr (sec_jwt_issuer sec)))"
    and "map_of cs ''iat'' = Some (Date issued)" and "map_of cs ''nbf'' = Some (Date issued)"
    and "map_of cs ''exp'' = Some (Date until)"
    and "\<forall>k \<in> set require. payload_get (claims_json cs) k \<noteq> JNull"
  shows "if whole_second issued \<le> now \<and> now < whole_second until
    then jwt_decode (sec_jwt sec) now tok sk (decode_options sec require) = Inr (claims_json cs)
    else isl (jwt_decode (sec_jwt sec) now tok sk (decode_options sec require))"
proof -
  have str: "string_claim (claims_json cs) ''aud''" "string_claim (claims_json cs) ''iss''"
    using assms(3,4) by (simp_all add: string_claim_def)
  have acc: "jwt_accepts now (decode_options sec require) JWT_ALGORITHM (claims_json cs) \<longleftrightarrow>
      whole_second issued \<le> now \<and> now < whole_second until"
    using assms(3-8) by (auto simp: jwt_accepts_def decode_options_def payload_seconds_def whole_second_def)
  show ?thesis
    using jwt_contract_decode(1) [OF assms(1,2) str, of now "decode_options sec require"]
      jwt_contract_decode(2) [OF assms(1,2) str, of now "decode_options sec require"]
    unfolding acc by (auto simp: isl_def)
qed

definition collision_free :: "(string \<Rightarrow> string) \<Rightarrow> string set \<Rightarrow> bool" where
  "collision_free h messages \<longleftrightarrow> inj_on h messages"

section \<open>Properties\<close>

text \<open>
  A token minted for one purpose is refused, at every time, by the
  decoders of the other two, even if an operator configured the three secrets equal: access,
  refresh and reauthentication tokens cannot stand in for one another.
\<close>

theorem token_kinds_disjoint:
  assumes "jwt_contract (sec_jwt sec) (\<lambda>k. k)"
  shows "(create_access_token sec issued token_id user delta = Some tok \<longrightarrow>
      isl (decode_refresh_token sec now tok) \<and> isl (decode_reauthentication_token sec now tok)) \<and>
    (create_refresh_token sec issued user session_id token_id expires_at = Some tok \<longrightarrow>
      isl (decode_access_token sec now tok) \<and> isl (decode_reauthentication_token sec now tok)) \<and>
    (create_reauthentication_token sec issued token_id user credential_hash delta = Some tok \<longrightarrow>
      isl (decode_access_token sec now tok) \<and> isl (decode_refresh_token sec now tok))"
  unfolding create_access_token_def create_refresh_token_def create_reauthentication_token_def
  using minted_type [OF assms, of "access_claims sec issued token_id user delta" _ _ _ tok ACCESS_TOKEN_TYPE now]
    minted_type [OF assms, of "refresh_claims sec issued user session_id token_id expires_at" _ _ _ tok
      REFRESH_TOKEN_TYPE now]
    minted_type [OF assms, of "reauth_claims sec issued token_id user credential_hash delta" _ _ _ tok
      REAUTH_TOKEN_TYPE now]
  by (simp add: access_claims_def refresh_claims_def reauth_claims_def token_constants)

text \<open>
  An access token names its user from its issue until its expiry,
  both to the whole second, and is refused at every other time.
\<close>

theorem access_token_roundtrip:
  assumes "jwt_contract (sec_jwt sec) (\<lambda>k. k)"
    and "create_access_token sec issued token_id user None = Some tok"
  shows "decode_access_token sec now tok =
    (if whole_second issued \<le> now \<and>
        now < whole_second (issued + timedelta_minutes (sec_access_token_expire_minutes sec))
     then Inr user else Inl (TokenValidationError ''The access token is invalid.''))"
proof -
  let ?cs = "access_claims sec issued token_id user None"
  have enc: "jwt_encode (sec_jwt sec) ?cs (sec_jwt_secret_key sec) JWT_ALGORITHM jwt_header = Some tok"
    using assms(2) by (simp add: create_access_token_def)
  have req: "\<forall>k \<in> set [''sub'', ''iat'', ''nbf'', ''exp'', ''iss'', ''aud'', ''type'', ''jti''].
      payload_get (claims_json ?cs) k \<noteq> JNull"
    by (simp add: access_claims_def)
  have dec: "validate_jti (claims_json ?cs) = None" "decode_subject (claims_json ?cs) = Inr user"
    "payload_get (claims_json ?cs) ''type'' = JStr ACCESS_TOKEN_TYPE"
    by (simp_all add: access_claims_def validate_jti_def uuid_claims(2) [of _ token_id] uuid_claims(1) [of _ user])
  show ?thesis
    using minted_decodes [OF assms(1) enc, of issued
        "issued + timedelta_minutes (sec_access_token_expire_minutes sec)" _ now, OF _ _ _ _ _ req] dec
    by (auto simp: decode_access_token_def isl_def access_claims_def split: if_splits
        simp del: payload_get_claims_json)
qed

text \<open>
  A refresh token yields exactly the identifiers it was minted with, and its expiry to the whole
  second, from its issue until that expiry.
\<close>

lemma refresh_token_roundtrip:
  assumes "jwt_contract (sec_jwt sec) (\<lambda>k. k)"
    and "create_refresh_token sec issued user session_id token_id expires_at = Some tok"
    and "0 \<le> expires_at" and "expires_at < timedelta_seconds 253402300000"
  shows "decode_refresh_token sec now tok =
    (if whole_second issued \<le> now \<and> now < whole_second expires_at
     then Inr \<lparr>rc_user_id = user, rc_session_id = session_id, rc_token_id = token_id,
       rc_expires_at = whole_second expires_at\<rparr>
     else Inl (TokenValidationError ''The refresh token is invalid.''))"
proof -
  let ?cs = "refresh_claims sec issued user session_id token_id expires_at"
  have enc: "jwt_encode (sec_jwt sec) ?cs (sec_jwt_refresh_secret_key sec) JWT_ALGORITHM jwt_header = Some tok"
    using assms(2) by (simp add: create_refresh_token_def)
  have req: "\<forall>k \<in> set [''sub'', ''sid'', ''jti'', ''iat'', ''nbf'', ''exp'', ''iss'', ''aud'', ''type''].
      payload_get (claims_json ?cs) k \<noteq> JNull"
    by (simp add: refresh_claims_def)
  have dec: "decode_subject (claims_json ?cs) = Inr user"
    "payload_get (claims_json ?cs) ''type'' = JStr REFRESH_TOKEN_TYPE"
    "payload_get (claims_json ?cs) ''sid'' = JStr (uuid_str session_id)"
    "payload_get (claims_json ?cs) ''jti'' = JStr (uuid_str token_id)"
    "payload_get (claims_json ?cs) ''exp'' = JInt (expires_at div us_per_second)"
    by (simp_all add: refresh_claims_def uuid_claims(1) [of _ user])
  have date: "datetime_fromtimestamp (JInt (expires_at div us_per_second)) = Some (whole_second expires_at)"
    using assms(3,4) by (auto simp: utc_datetime_def whole_second_def us_per_second_def timedelta_seconds_def)
  show ?thesis
    using minted_decodes [OF assms(1) enc, of issued expires_at _ now, OF _ _ _ _ _ req] dec date
    by (auto simp: decode_refresh_token_def isl_def refresh_claims_def split: if_splits
        simp del: payload_get_claims_json datetime_fromtimestamp.simps)
qed

text \<open>
  A reauthentication token yields its user, its identifier
  and a fingerprint until its expiry, and the fingerprint matches a stored password hash exactly
  when it is the hash the token was issued for: changing the password ends the token. The HMAC
  is assumed to give 64 characters and not to collide on the two hashes.
\<close>

theorem reauth_token_bound_to_password:
  assumes "jwt_contract (sec_jwt sec) (\<lambda>k. k)"
    and "\<And>m. length (sec_hmac_sha256 sec (sec_jwt_reauth_secret_key sec) m) = 64"
    and "collision_free (sec_hmac_sha256 sec (sec_jwt_reauth_secret_key sec))
           {''opsflow-reauth-credential:'' @ credential_hash, ''opsflow-reauth-credential:'' @ stored}"
    and "create_reauthentication_token sec issued token_id user credential_hash None = Some tok"
  shows "if whole_second issued \<le> now \<and>
       now < whole_second (issued + timedelta_minutes (sec_reauth_token_expire_minutes sec))
    then \<exists>c. decode_reauthentication_token sec now tok = Inr c \<and> ra_user_id c = user \<and>
      ra_token_id c = token_id \<and>
      (reauthentication_credential_matches sec stored (ra_credential_fingerprint c) \<longleftrightarrow> stored = credential_hash)
    else decode_reauthentication_token sec now tok =
      Inl (TokenValidationError ''The reauthentication token is invalid.'')"
proof -
  let ?cs = "reauth_claims sec issued token_id user credential_hash None"
  let ?fp = "create_reauthentication_fingerprint sec credential_hash"
  have enc: "jwt_encode (sec_jwt sec) ?cs (sec_jwt_reauth_secret_key sec) JWT_ALGORITHM jwt_header = Some tok"
    using assms(4) by (simp add: create_reauthentication_token_def)
  have req: "\<forall>k \<in> set [''sub'', ''iat'', ''nbf'', ''exp'', ''iss'', ''aud'', ''type'', ''jti'', ''cv''].
      payload_get (claims_json ?cs) k \<noteq> JNull"
    by (simp add: reauth_claims_def)
  have dec: "decode_subject (claims_json ?cs) = Inr user" "decode_jti (claims_json ?cs) = Inr token_id"
    "payload_get (claims_json ?cs) ''type'' = JStr REAUTH_TOKEN_TYPE"
    "payload_get (claims_json ?cs) ''cv'' = JStr ?fp"
    by (simp_all add: reauth_claims_def uuid_claims(2) [of _ token_id] uuid_claims(1) [of _ user])
  have len: "length ?fp = 64" using assms(2) by (simp add: create_reauthentication_fingerprint_def)
  have fp: "reauthentication_credential_matches sec stored ?fp \<longleftrightarrow> stored = credential_hash"
    using assms(3) unfolding reauthentication_credential_matches_def create_reauthentication_fingerprint_def
      collision_free_def by (auto dest: inj_onD)
  show ?thesis
    using minted_decodes [OF assms(1) enc, of issued
        "issued + timedelta_minutes (sec_reauth_token_expire_minutes sec)" _ now, OF _ _ _ _ _ req] dec len fp
    by (auto simp: decode_reauthentication_token_def isl_def reauth_claims_def split: if_splits
        simp del: payload_get_claims_json)
qed

text \<open>
  A CSRF token made for a session validates for that session
  and for no other one. The HMAC is assumed to give 64 characters and not to collide on the
  messages of the token's nonce; the nonce is random text without a dot.
\<close>

theorem csrf_token_bound_to_session:
  assumes "\<And>m. length (sec_hmac_sha256 sec (sec_csrf_secret_key sec) m) = 64"
    and "collision_free (sec_hmac_sha256 sec (sec_csrf_secret_key sec))
           (range (\<lambda>u. uuid_str u @ '':'' @ nonce))"
    and "nonce \<noteq> []" and "CHR ''.'' \<notin> set nonce"
  shows "validate_csrf_token sec other (create_csrf_token sec nonce session_id) \<longleftrightarrow> other = session_id"
proof -
  have "csrf_signature sec session_id nonce \<noteq> []"
    using assms(1) [of "uuid_str session_id @ '':'' @ nonce"] by (auto simp: csrf_signature_def)
  then have "validate_csrf_token sec other (create_csrf_token sec nonce session_id) \<longleftrightarrow>
      csrf_signature sec session_id nonce = csrf_signature sec other nonce"
    using assms(3,4) py_partition_append [OF assms(4)]
    by (auto simp: validate_csrf_token_def create_csrf_token_def)
  also have "\<dots> \<longleftrightarrow> uuid_str session_id @ '':'' @ nonce = uuid_str other @ '':'' @ nonce"
    using assms(2) unfolding csrf_signature_def collision_free_def by (auto dest: inj_onD)
  also have "\<dots> \<longleftrightarrow> other = session_id" by (auto simp: uuid_str_inj)
  finally show ?thesis .
qed

section \<open>Witnesses\<close>

text \<open>
  Concrete libraries: a PyJWT that signs one claim set, and a keyed digest that pads its message to
  64 characters, which does not collide on messages of one length up to 64.
\<close>

definition demo_digest :: "string \<Rightarrow> string \<Rightarrow> string" where
  "demo_digest key message = take 64 (message @ replicate 64 (CHR ''x''))"

definition demo_security :: "claims \<Rightarrow> security" where
  "demo_security cs = \<lparr>sec_jwt = one_token_lib cs JWT_ALGORITHM jwt_header,
     sec_hmac_sha256 = demo_digest, sec_sha256 = demo_digest [], sec_hash = (\<lambda>salt p. p),
     sec_verify = (\<lambda>p h. p = h), sec_dummy_password_hash = ''dummy'', sec_jwt_issuer = ''opsflow'',
     sec_jwt_audience = ''opsflow-api'', sec_jwt_secret_key = ''k'', sec_jwt_refresh_secret_key = ''k'',
     sec_jwt_reauth_secret_key = ''k'', sec_csrf_secret_key = ''c'',
     sec_access_token_expire_minutes = 15, sec_reauth_token_expire_minutes = 5,
     sec_refresh_token_expire_days = 7\<rparr>"

lemma demo_security_simps [simp]:
  "sec_jwt (demo_security cs) = one_token_lib cs JWT_ALGORITHM jwt_header"
  "sec_hmac_sha256 (demo_security cs) = demo_digest"
  "sec_access_token_expire_minutes (demo_security cs) = 15"
  "sec_reauth_token_expire_minutes (demo_security cs) = 5"
  by (simp_all add: demo_security_def)

lemma demo_security_contract: "jwt_contract (sec_jwt (demo_security cs)) public_of"
  by (simp add: one_token_contract jwt_header_def payload_get_def)

definition demo_user_claims :: claims where
  "demo_user_claims = access_claims (demo_security []) 1000000 9 7 None"

lemma demo_create_access:
  "create_access_token (demo_security demo_user_claims) 1000000 9 7 None = Some ''t''"
  by (simp add: create_access_token_def one_token_lib_def demo_user_claims_def access_claims_def
      demo_security_def)

theorem access_token_roundtrip_witness:
  "decode_access_token (demo_security demo_user_claims) 900999999 ''t'' = Inr 7 \<and>
   isl (decode_access_token (demo_security demo_user_claims) 901000000 ''t'')"
  using access_token_roundtrip [OF demo_security_contract demo_create_access, of 900999999]
    access_token_roundtrip [OF demo_security_contract demo_create_access, of 901000000]
  by (simp add: whole_second_def timedelta_minutes_def us_per_second_def)

theorem token_kinds_disjoint_witness:
  "isl (decode_refresh_token (demo_security demo_user_claims) 2000000 ''t'') \<and>
   isl (decode_reauthentication_token (demo_security demo_user_claims) 2000000 ''t'')"
  using token_kinds_disjoint [OF demo_security_contract, of demo_user_claims 1000000 9 7 None "''t''" 2000000]
    demo_create_access by blast

definition demo_refresh_claims :: claims where
  "demo_refresh_claims = refresh_claims (demo_security []) 1000000 7 8 9 5500000"

lemma demo_create_refresh:
  "create_refresh_token (demo_security demo_refresh_claims) 1000000 7 8 9 5500000 = Some ''t''"
  by (simp add: create_refresh_token_def one_token_lib_def demo_refresh_claims_def refresh_claims_def
      demo_security_def)

lemma demo_digest_length: "length (demo_digest k m) = 64"
  by (simp add: demo_digest_def)

lemma demo_digest_inj:
  "length m = length m' \<Longrightarrow> length m \<le> 64 \<Longrightarrow> demo_digest k m = demo_digest k m' \<Longrightarrow> m = m'"
  by (simp add: demo_digest_def)

definition demo_reauth_claims :: claims where
  "demo_reauth_claims = reauth_claims (demo_security []) 1000000 9 7 ''hash1'' None"

lemma demo_create_reauth:
  "create_reauthentication_token (demo_security demo_reauth_claims) 1000000 9 7 ''hash1'' None = Some ''t''"
  by (simp add: create_reauthentication_token_def one_token_lib_def demo_reauth_claims_def reauth_claims_def
      demo_security_def create_reauthentication_fingerprint_def)

theorem reauth_token_bound_to_password_witness:
  "\<exists>c. decode_reauthentication_token (demo_security demo_reauth_claims) 2000000 ''t'' = Inr c \<and>
     \<not> reauthentication_credential_matches (demo_security demo_reauth_claims) ''hash2''
         (ra_credential_fingerprint c)"
proof -
  have "collision_free (sec_hmac_sha256 (demo_security demo_reauth_claims)
      (sec_jwt_reauth_secret_key (demo_security demo_reauth_claims)))
      {''opsflow-reauth-credential:'' @ ''hash1'', ''opsflow-reauth-credential:'' @ ''hash2''}"
    unfolding collision_free_def by (rule inj_onI) (auto dest: demo_digest_inj [rotated 2])
  from reauth_token_bound_to_password [OF demo_security_contract _ this demo_create_reauth, of 2000000]
  show ?thesis by (auto simp: demo_digest_length whole_second_def timedelta_minutes_def us_per_second_def)
qed

theorem csrf_token_bound_to_session_witness:
  "validate_csrf_token (demo_security []) 5 (create_csrf_token (demo_security []) ''nonce'' 5) \<and>
   \<not> validate_csrf_token (demo_security []) 6 (create_csrf_token (demo_security []) ''nonce'' 5)"
proof -
  have len: "length (uuid_str u) = 36" for u by (simp add: uuid_str_def uuid_hex_def Let_def)
  have "collision_free (sec_hmac_sha256 (demo_security []) (sec_csrf_secret_key (demo_security [])))
      (range (\<lambda>u. uuid_str u @ '':'' @ ''nonce''))"
    unfolding collision_free_def by (rule inj_onI) (auto simp: len dest!: demo_digest_inj [rotated 2])
  from csrf_token_bound_to_session [OF _ this, of 5 5] csrf_token_bound_to_session [OF _ this, of 6 5]
  show ?thesis by (simp add: demo_digest_length)
qed

end
