(* ===== verification/Auth_Store.thy ===== *)
theory Auth_Store
  imports Py_Values
begin

text \<open>
  The Core Backend's tables of users, authentication sessions and password-reset tokens, with the
  statements of \<open>sqlalchemy_user_repository.py\<close>, \<open>sqlalchemy_auth_session_repository.py\<close> and
  \<open>sqlalchemy_password_reset_token_repository.py\<close> on them. A table is the list of its rows; an
  INSERT that breaks a primary key, a unique column or a foreign key declared in \<open>models/\<close> is
  \<open>Inl\<close> of an integrity error. Row locks and the advisory lock of token issuance make the
  operations that hold them atomic: an operation of the model is one such step.
\<close>

section \<open>Rows\<close>

datatype user_role = VIEWER | OPERATOR | ADMIN

fun user_role_value :: "user_role \<Rightarrow> string" where
  "user_role_value VIEWER = ''viewer''"
| "user_role_value OPERATOR = ''operator''"
| "user_role_value ADMIN = ''admin''"

record user =
  usr_id :: uuid
  usr_email :: string
  usr_full_name :: string
  usr_role :: user_role
  usr_is_active :: bool
  usr_created_at :: instant
  usr_updated_at :: instant

record user_auth_record =
  uar_user :: user
  uar_hashed_password :: string

record auth_session =
  ses_id :: uuid
  ses_user_id :: uuid
  ses_current_jti :: uuid
  ses_created_at :: instant
  ses_last_used_at :: instant
  ses_expires_at :: instant
  ses_revoked_at :: "instant option"
  ses_revocation_reason :: "string option"

definition session_is_revoked :: "auth_session \<Rightarrow> bool" where
  "session_is_revoked s \<longleftrightarrow> ses_revoked_at s \<noteq> None"

definition session_is_expired :: "instant \<Rightarrow> auth_session \<Rightarrow> bool" where
  "session_is_expired now s \<longleftrightarrow> ses_expires_at s \<le> now"

record password_reset_token =
  prt_id :: uuid
  prt_user_id :: uuid
  prt_token_digest :: string
  prt_credential_fingerprint :: string
  prt_created_at :: instant
  prt_expires_at :: instant
  prt_used_at :: "instant option"
  prt_invalidated_at :: "instant option"

record auth_db =
  db_users :: "user_auth_record list"
  db_sessions :: "auth_session list"
  db_reset_tokens :: "password_reset_token list"

datatype db_error = IntegrityError string

abbreviation user_key :: "user_auth_record \<Rightarrow> uuid" where
  "user_key r \<equiv> usr_id (uar_user r)"

abbreviation user_email_key :: "user_auth_record \<Rightarrow> string" where
  "user_email_key r \<equiv> usr_email (uar_user r)"

section \<open>Users\<close>

definition user_get_by_id :: "uuid \<Rightarrow> auth_db \<Rightarrow> user option" where
  "user_get_by_id u db = map_option uar_user (lookup_by user_key u (db_users db))"

definition user_get_by_email :: "string \<Rightarrow> auth_db \<Rightarrow> user option" where
  "user_get_by_email email db = map_option uar_user (lookup_by user_email_key email (db_users db))"

definition get_auth_record_by_email :: "string \<Rightarrow> auth_db \<Rightarrow> user_auth_record option" where
  "get_auth_record_by_email email db = lookup_by user_email_key email (db_users db)"

text \<open>The two defaults of an inserted row, its creation and update instants, are separate readings of the clock.\<close>

definition user_add ::
    "instant \<times> instant \<Rightarrow> uuid \<Rightarrow> string \<Rightarrow> string \<Rightarrow> string \<Rightarrow> user_role \<Rightarrow> bool \<Rightarrow> auth_db \<Rightarrow>
     (db_error + user) \<times> auth_db" where
  "user_add now fresh_id email full_name hashed_password role is_active db =
     (let u = \<lparr>usr_id = fresh_id, usr_email = email, usr_full_name = full_name, usr_role = role,
                usr_is_active = is_active, usr_created_at = fst now, usr_updated_at = snd now\<rparr>
      in if lookup_by user_key fresh_id (db_users db) \<noteq> None then (Inl (IntegrityError ''users.id''), db)
         else if lookup_by user_email_key email (db_users db) \<noteq> None
         then (Inl (IntegrityError ''users.email''), db)
         else (Inr u, db\<lparr>db_users := db_users db @
                 [\<lparr>uar_user = u, uar_hashed_password = hashed_password\<rparr>]\<rparr>))"

definition update_password_hash_if_current ::
    "instant \<Rightarrow> uuid \<Rightarrow> string \<Rightarrow> string \<Rightarrow> auth_db \<Rightarrow> bool \<times> auth_db" where
  "update_password_hash_if_current now user_id expected_hashed_password new_hashed_password db =
     (let match = (\<lambda>r. user_key r = user_id \<and> uar_hashed_password r = expected_hashed_password)
      in (count_where match (db_users db) = 1,
          db\<lparr>db_users := update_where match
               (\<lambda>r. r\<lparr>uar_hashed_password := new_hashed_password,
                  uar_user := (uar_user r)\<lparr>usr_updated_at := now\<rparr>\<rparr>) (db_users db)\<rparr>))"

section \<open>Sessions\<close>

definition session_create :: "auth_session \<Rightarrow> auth_db \<Rightarrow> (db_error + auth_session) \<times> auth_db" where
  "session_create s db =
     (if lookup_by ses_id (ses_id s) (db_sessions db) \<noteq> None
      then (Inl (IntegrityError ''auth_sessions.id''), db)
      else if lookup_by ses_current_jti (ses_current_jti s) (db_sessions db) \<noteq> None
      then (Inl (IntegrityError ''auth_sessions.current_jti''), db)
      else if lookup_by user_key (ses_user_id s) (db_users db) = None
      then (Inl (IntegrityError ''auth_sessions.user_id''), db)
      else (Inr s, db\<lparr>db_sessions := db_sessions db @ [s]\<rparr>))"

definition session_get_by_id :: "uuid \<Rightarrow> auth_db \<Rightarrow> auth_session option" where
  "session_get_by_id i db = lookup_by ses_id i (db_sessions db)"

text \<open>\<open>get_by_id_for_update\<close> reads the same row and locks it.\<close>

definition session_get_by_id_for_update :: "uuid \<Rightarrow> auth_db \<Rightarrow> auth_session option" where
  "session_get_by_id_for_update i db = lookup_by ses_id i (db_sessions db)"

definition session_update_current_token ::
    "uuid \<Rightarrow> uuid \<Rightarrow> instant \<Rightarrow> auth_db \<Rightarrow> (db_error + unit) \<times> auth_db" where
  "session_update_current_token session_id current_jti last_used_at db =
     (if lookup_by ses_id session_id (db_sessions db) \<noteq> None \<and>
         (\<exists>s \<in> set (db_sessions db). ses_id s \<noteq> session_id \<and> ses_current_jti s = current_jti)
      then (Inl (IntegrityError ''auth_sessions.current_jti''), db)
      else (Inr (), db\<lparr>db_sessions := update_where (\<lambda>s. ses_id s = session_id)
              (\<lambda>s. s\<lparr>ses_current_jti := current_jti, ses_last_used_at := last_used_at\<rparr>) (db_sessions db)\<rparr>))"

definition session_revoke :: "uuid \<Rightarrow> instant \<Rightarrow> string \<Rightarrow> auth_db \<Rightarrow> auth_db" where
  "session_revoke session_id revoked_at reason db =
     db\<lparr>db_sessions := update_where (\<lambda>s. ses_id s = session_id \<and> ses_revoked_at s = None)
        (\<lambda>s. s\<lparr>ses_revoked_at := Some revoked_at, ses_revocation_reason := Some reason\<rparr>) (db_sessions db)\<rparr>"

definition session_revoke_all_for_user :: "uuid \<Rightarrow> instant \<Rightarrow> string \<Rightarrow> auth_db \<Rightarrow> nat \<times> auth_db" where
  "session_revoke_all_for_user user_id revoked_at reason db =
     (let match = (\<lambda>s. ses_user_id s = user_id \<and> ses_revoked_at s = None)
      in (count_where match (db_sessions db),
          db\<lparr>db_sessions := update_where match
               (\<lambda>s. s\<lparr>ses_revoked_at := Some revoked_at, ses_revocation_reason := Some reason\<rparr>)
               (db_sessions db)\<rparr>))"

definition session_delete_expired_before :: "instant \<Rightarrow> auth_db \<Rightarrow> nat \<times> auth_db" where
  "session_delete_expired_before cutoff db =
     (count_where (\<lambda>s. ses_expires_at s < cutoff) (db_sessions db),
      db\<lparr>db_sessions := delete_where (\<lambda>s. ses_expires_at s < cutoff) (db_sessions db)\<rparr>)"

section \<open>Password-reset tokens\<close>

definition reset_token_create :: "password_reset_token \<Rightarrow> auth_db \<Rightarrow> (db_error + password_reset_token) \<times> auth_db" where
  "reset_token_create t db =
     (if lookup_by prt_id (prt_id t) (db_reset_tokens db) \<noteq> None
      then (Inl (IntegrityError ''password_reset_tokens.id''), db)
      else if lookup_by prt_token_digest (prt_token_digest t) (db_reset_tokens db) \<noteq> None
      then (Inl (IntegrityError ''uq_password_reset_tokens_token_digest''), db)
      else if lookup_by user_key (prt_user_id t) (db_users db) = None
      then (Inl (IntegrityError ''password_reset_tokens.user_id''), db)
      else (Inr t, db\<lparr>db_reset_tokens := db_reset_tokens db @ [t]\<rparr>))"

definition reset_token_get_by_digest_for_update :: "string \<Rightarrow> auth_db \<Rightarrow> password_reset_token option" where
  "reset_token_get_by_digest_for_update digest db = lookup_by prt_token_digest digest (db_reset_tokens db)"

definition reset_token_mark_used :: "uuid \<Rightarrow> instant \<Rightarrow> auth_db \<Rightarrow> bool \<times> auth_db" where
  "reset_token_mark_used token_id used_at db =
     (let match = (\<lambda>t. prt_id t = token_id \<and> prt_used_at t = None \<and> prt_invalidated_at t = None)
      in (count_where match (db_reset_tokens db) = 1,
          db\<lparr>db_reset_tokens := update_where match (\<lambda>t. t\<lparr>prt_used_at := Some used_at\<rparr>) (db_reset_tokens db)\<rparr>))"

definition reset_token_invalidate_active_for_user ::
    "uuid \<Rightarrow> instant \<Rightarrow> uuid option \<Rightarrow> auth_db \<Rightarrow> nat \<times> auth_db" where
  "reset_token_invalidate_active_for_user user_id invalidated_at exclude_token_id db =
     (let match = (\<lambda>t. prt_user_id t = user_id \<and> prt_used_at t = None \<and> prt_invalidated_at t = None \<and>
                     Some (prt_id t) \<noteq> exclude_token_id)
      in (count_where match (db_reset_tokens db),
          db\<lparr>db_reset_tokens := update_where match (\<lambda>t. t\<lparr>prt_invalidated_at := Some invalidated_at\<rparr>)
               (db_reset_tokens db)\<rparr>))"

text \<open>
  \<open>_issuance_lock_key\<close>: the signed 64-bit key of the advisory lock, from the first eight bytes of
  the SHA-256 digest of the user's identifier (\<open>sha256_first8\<close>).
\<close>

definition issuance_lock_key :: "(uuid \<Rightarrow> 64 word) \<Rightarrow> uuid \<Rightarrow> int" where
  "issuance_lock_key sha256_first8 user_id =
     (let unsigned_key = uint (sha256_first8 user_id)
      in if 2 ^ 63 \<le> unsigned_key then unsigned_key - 2 ^ 64 else unsigned_key)"

lemma issuance_lock_key_signed: "issuance_lock_key h u = sint (h u)"
proof -
  let ?k = "uint (h u)"
  have range: "0 \<le> ?k" "?k < 2 ^ 64" using uint_lt2p [of "h u"] by simp_all
  have "sint (h u) = (?k + 2 ^ 63) mod 2 ^ 64 - 2 ^ 63"
    by (simp add: sint_uint signed_take_bit_eq_take_bit_shift take_bit_eq_mod)
  also have "\<dots> = (if 2 ^ 63 \<le> ?k then ?k - 2 ^ 64 else ?k)"
  proof (cases "2 ^ 63 \<le> ?k")
    case True
    then have "(?k + 2 ^ 63) mod 2 ^ 64 = (?k - 2 ^ 63) mod 2 ^ 64"
      using mod_add_self2 [of "?k - 2 ^ 63" "2 ^ 64"] by (simp add: add.commute)
    with True range show ?thesis by (simp add: mod_pos_pos_trivial)
  qed (use range in \<open>simp add: mod_pos_pos_trivial\<close>)
  finally show ?thesis by (simp add: issuance_lock_key_def Let_def)
qed

section \<open>Well-formed tables\<close>

definition auth_db_inv :: "auth_db \<Rightarrow> bool" where
  "auth_db_inv db \<longleftrightarrow>
     unique_key user_key (db_users db) \<and> unique_key user_email_key (db_users db) \<and>
     (\<forall>r \<in> set (db_users db). py_identifier (user_email_key r) = user_email_key r) \<and>
     unique_key ses_id (db_sessions db) \<and> unique_key ses_current_jti (db_sessions db) \<and>
     (\<forall>s \<in> set (db_sessions db). lookup_by user_key (ses_user_id s) (db_users db) \<noteq> None) \<and>
     unique_key prt_id (db_reset_tokens db) \<and> unique_key prt_token_digest (db_reset_tokens db) \<and>
     (\<forall>t \<in> set (db_reset_tokens db). lookup_by user_key (prt_user_id t) (db_users db) \<noteq> None)"

lemmas auth_store_defs =
  user_add_def update_password_hash_if_current_def session_create_def session_update_current_token_def
  session_revoke_def session_revoke_all_for_user_def session_delete_expired_before_def
  reset_token_create_def reset_token_mark_used_def reset_token_invalidate_active_for_user_def

lemma lookup_by_update_where_None [simp]:
  "(\<And>r. key (f r) = key r) \<Longrightarrow> lookup_by key k (update_where p f rows) = None \<longleftrightarrow> lookup_by key k rows = None"
  by (simp add: lookup_by_update_where)

lemma update_where_key_in:
  "r \<in> set (update_where p f rows) \<Longrightarrow> (\<And>r. g (f r) = g r) \<Longrightarrow> \<exists>r' \<in> set rows. g r = g r'"
  by (auto simp: set_update_where split: if_splits)

lemma unique_key_update_one:
  assumes "unique_key idk rows" and "unique_key key rows"
    and "\<And>r. idk (f r) = idk r" and "\<And>r. key (f r) = v"
    and "\<forall>r \<in> set rows. idk r \<noteq> i \<longrightarrow> key r \<noteq> v"
  shows "unique_key key (update_where (\<lambda>r. idk r = i) f rows)"
  using assms
proof (induction rows)
  case Nil
  then show ?case by (simp add: unique_key_def update_where_def)
next
  case (Cons x xs)
  have ih: "unique_key key (update_where (\<lambda>r. idk r = i) f xs)"
    using Cons by (auto simp: unique_key_def)
  have keys: "key ` set (update_where (\<lambda>r. idk r = i) f xs) \<subseteq> key ` set xs \<union> {v}"
    using Cons.prems(4) by (auto simp: set_update_where)
  show ?case
  proof (cases "idk x = i")
    case True
    then have "\<forall>r \<in> set xs. idk r \<noteq> i"
      using Cons.prems(1) by (auto simp: unique_key_def image_iff)
    then have "update_where (\<lambda>r. idk r = i) f xs = xs"
      by (induction xs) (auto simp: update_where_def)
    moreover have "v \<notin> key ` set xs"
      using Cons.prems(5) \<open>\<forall>r \<in> set xs. idk r \<noteq> i\<close> by auto
    ultimately show ?thesis
      using True Cons.prems(2,4) by (simp add: unique_key_def update_where_def)
  next
    case False
    then have "key x \<noteq> v" using Cons.prems(5) by simp
    then have "key x \<notin> key ` set (update_where (\<lambda>r. idk r = i) f xs)"
      using keys Cons.prems(2) by (auto simp: unique_key_def)
    then show ?thesis
      using False ih by (auto simp: unique_key_def update_where_def image_iff split: if_splits)
  qed
qed

lemma auth_db_inv_users:
  "auth_db_inv db \<Longrightarrow> auth_db_inv (snd (update_password_hash_if_current now u h h' db))"
  by (auto simp: auth_db_inv_def update_password_hash_if_current_def Let_def unique_key_update_where
      dest!: update_where_key_in [where g = user_email_key])

lemma lookup_by_append_None [simp]:
  "lookup_by key k (rows @ new) = None \<longleftrightarrow> lookup_by key k rows = None \<and> lookup_by key k new = None"
  by (auto simp: lookup_by_append split: option.splits)

lemma auth_db_inv_user_add:
  "auth_db_inv db \<Longrightarrow> py_identifier email = email \<Longrightarrow> auth_db_inv (snd (user_add ts i email n h r a db))"
  by (auto simp: auth_db_inv_def user_add_def Let_def unique_key_snoc simp del: not_None_eq)

lemma auth_db_inv_session_create:
  "auth_db_inv db \<Longrightarrow> auth_db_inv (snd (session_create s db))"
  by (auto simp: auth_db_inv_def session_create_def unique_key_snoc)

lemma auth_db_inv_update_current_token:
  assumes "auth_db_inv db"
  shows "auth_db_inv (snd (session_update_current_token i jti t db))"
proof (cases "fst (session_update_current_token i jti t db)")
  case (Inl e)
  then have "snd (session_update_current_token i jti t db) = db"
    by (auto simp: session_update_current_token_def split: if_splits)
  then show ?thesis using assms by simp
next
  case (Inr u)
  let ?f = "\<lambda>s. s\<lparr>ses_current_jti := jti, ses_last_used_at := t\<rparr>"
  let ?rows = "update_where (\<lambda>s. ses_id s = i) ?f (db_sessions db)"
  have db: "snd (session_update_current_token i jti t db) = db\<lparr>db_sessions := ?rows\<rparr>"
    and free: "lookup_by ses_id i (db_sessions db) = None \<or>
      (\<forall>s \<in> set (db_sessions db). ses_id s \<noteq> i \<longrightarrow> ses_current_jti s \<noteq> jti)"
    using Inr by (auto simp: session_update_current_token_def split: if_splits)
  have "unique_key ses_current_jti ?rows"
  proof (cases "lookup_by ses_id i (db_sessions db) = None")
    case True
    then have "?rows = db_sessions db"
      by (auto simp: lookup_by_None_iff update_where_def intro: map_idI)
    then show ?thesis using assms by (simp add: auth_db_inv_def)
  next
    case False
    then show ?thesis
      using assms free by (intro unique_key_update_one) (auto simp: auth_db_inv_def)
  qed
  moreover have "\<forall>s \<in> set ?rows. \<exists>s' \<in> set (db_sessions db). ses_user_id s = ses_user_id s'"
    by (auto dest!: update_where_key_in [where g = ses_user_id])
  ultimately show ?thesis
    using assms unfolding db auth_db_inv_def by (auto simp: unique_key_update_where)
qed

lemma auth_db_inv_revoke:
  "auth_db_inv db \<Longrightarrow> auth_db_inv (session_revoke i t reason db)"
  "auth_db_inv db \<Longrightarrow> auth_db_inv (snd (session_revoke_all_for_user u t reason db))"
  by (auto simp: auth_db_inv_def session_revoke_def session_revoke_all_for_user_def Let_def
      unique_key_update_where dest!: update_where_key_in [where g = ses_user_id])

lemma auth_db_inv_purge: "auth_db_inv db \<Longrightarrow> auth_db_inv (snd (session_delete_expired_before t db))"
  by (auto simp: auth_db_inv_def session_delete_expired_before_def unique_key_delete_where set_delete_where)

lemma auth_db_inv_reset_create: "auth_db_inv db \<Longrightarrow> auth_db_inv (snd (reset_token_create t db))"
  by (auto simp: auth_db_inv_def reset_token_create_def unique_key_snoc)

lemma auth_db_inv_reset_update:
  "auth_db_inv db \<Longrightarrow> auth_db_inv (snd (reset_token_mark_used i t db))"
  "auth_db_inv db \<Longrightarrow> auth_db_inv (snd (reset_token_invalidate_active_for_user u t x db))"
  by (auto simp: auth_db_inv_def reset_token_mark_used_def reset_token_invalidate_active_for_user_def Let_def
      unique_key_update_where dest!: update_where_key_in [where g = prt_user_id])

lemmas auth_db_inv_intros =
  auth_db_inv_users auth_db_inv_user_add auth_db_inv_session_create auth_db_inv_update_current_token
  auth_db_inv_revoke auth_db_inv_purge auth_db_inv_reset_create auth_db_inv_reset_update

section \<open>Revoked sessions stay revoked\<close>

definition session_revoked :: "uuid \<Rightarrow> auth_db \<Rightarrow> bool" where
  "session_revoked i db \<longleftrightarrow> row_with ses_id i session_is_revoked (db_sessions db)"

lemma session_revoked_sessions:
  "db_sessions db' = db_sessions db \<Longrightarrow> session_revoked i db' = session_revoked i db"
  by (simp add: session_revoked_def)

lemma session_revoked_frame [simp]:
  "session_revoked i (snd (update_password_hash_if_current now u h h' db)) = session_revoked i db"
  "session_revoked i (snd (user_add ts j email n h r a db)) = session_revoked i db"
  "session_revoked i (snd (reset_token_create t db)) = session_revoked i db"
  "session_revoked i (snd (reset_token_mark_used j t' db)) = session_revoked i db"
  "session_revoked i (snd (reset_token_invalidate_active_for_user u t' x db)) = session_revoked i db"
  by (rule session_revoked_sessions, simp add: auth_store_defs Let_def)+

lemma session_revoked_kept:
  "session_revoked i db \<Longrightarrow> session_revoked i (snd (session_create s db))"
  "session_revoked i db \<Longrightarrow> session_revoked i (snd (session_update_current_token j jti t db))"
  "session_revoked i db \<Longrightarrow> session_revoked i (session_revoke j t reason db)"
  "session_revoked i db \<Longrightarrow> session_revoked i (snd (session_revoke_all_for_user u t reason db))"
  by (auto simp: session_revoked_def auth_store_defs Let_def session_is_revoked_def
      intro!: row_with_append row_with_update)

lemma session_revoke_revokes:
  "session_get_by_id i db = Some s \<Longrightarrow> session_revoked i (session_revoke i t reason db)"
  by (auto simp: session_revoked_def session_get_by_id_def session_revoke_def row_with_def
      session_is_revoked_def lookup_by_update_where dest: lookup_by_SomeD)

lemma session_revoke_all_revokes:
  "session_get_by_id i db = Some s \<Longrightarrow> ses_user_id s = u \<Longrightarrow>
     session_revoked i (snd (session_revoke_all_for_user u t reason db))"
  by (auto simp: session_revoked_def session_get_by_id_def session_revoke_all_for_user_def Let_def
      row_with_def session_is_revoked_def lookup_by_update_where)

section \<open>Reset tokens that can no longer be used\<close>

definition token_is_spent :: "password_reset_token \<Rightarrow> bool" where
  "token_is_spent t \<longleftrightarrow> prt_used_at t \<noteq> None \<or> prt_invalidated_at t \<noteq> None"

definition reset_token_spent :: "string \<Rightarrow> auth_db \<Rightarrow> bool" where
  "reset_token_spent digest db \<longleftrightarrow> row_with prt_token_digest digest token_is_spent (db_reset_tokens db)"

lemma reset_token_spent_tokens:
  "db_reset_tokens db' = db_reset_tokens db \<Longrightarrow> reset_token_spent g db' = reset_token_spent g db"
  by (simp add: reset_token_spent_def)

lemma reset_token_spent_frame [simp]:
  "reset_token_spent g (snd (update_password_hash_if_current now u h h' db)) = reset_token_spent g db"
  "reset_token_spent g (snd (user_add ts j email n h r a db)) = reset_token_spent g db"
  "reset_token_spent g (snd (session_create s db)) = reset_token_spent g db"
  "reset_token_spent g (snd (session_update_current_token j jti t db)) = reset_token_spent g db"
  "reset_token_spent g (session_revoke j t reason db) = reset_token_spent g db"
  "reset_token_spent g (snd (session_revoke_all_for_user u t reason db)) = reset_token_spent g db"
  by (rule reset_token_spent_tokens, simp add: auth_store_defs Let_def)+

lemma reset_token_spent_kept:
  "reset_token_spent g db \<Longrightarrow> reset_token_spent g (snd (reset_token_create t db))"
  "reset_token_spent g db \<Longrightarrow> reset_token_spent g (snd (reset_token_mark_used j t' db))"
  "reset_token_spent g db \<Longrightarrow> reset_token_spent g (snd (reset_token_invalidate_active_for_user u t' x db))"
  by (auto simp: reset_token_spent_def auth_store_defs Let_def token_is_spent_def
      intro!: row_with_append row_with_update)

text \<open>At most one usable reset token per user.\<close>

definition active_reset_tokens :: "uuid \<Rightarrow> auth_db \<Rightarrow> password_reset_token list" where
  "active_reset_tokens u db =
     filter (\<lambda>t. prt_user_id t = u \<and> prt_used_at t = None \<and> prt_invalidated_at t = None) (db_reset_tokens db)"

section \<open>What every statement keeps, every service keeps\<close>

text \<open>
  The contract between the repositories and the services: a fact \<open>P\<close> about the tables that each
  statement the services issue keeps, where rotation draws refresh-token identifiers that are
  \<open>ok\<close>. The services' lemmas are proved once, from it. \<open>issue_invariant\<close> adds the insertion of a
  reset token.
\<close>

locale store_invariant =
  fixes P :: "auth_db \<Rightarrow> bool" and ok :: "uuid \<Rightarrow> bool"
  assumes keep_password: "P db \<Longrightarrow> P (snd (update_password_hash_if_current now u h h' db))"
    and keep_user_add: "P db \<Longrightarrow> py_identifier email = email \<Longrightarrow> P (snd (user_add ts i email n h r a db))"
    and keep_session_create: "P db \<Longrightarrow> P (snd (session_create s db))"
    and keep_update_token: "P db \<Longrightarrow> ok jti \<Longrightarrow> P (snd (session_update_current_token i jti t db))"
    and keep_revoke: "P db \<Longrightarrow> P (session_revoke i t reason db)"
    and keep_revoke_all: "P db \<Longrightarrow> P (snd (session_revoke_all_for_user u t reason db))"
    and keep_mark_used: "P db \<Longrightarrow> P (snd (reset_token_mark_used i t db))"
    and keep_invalidate: "P db \<Longrightarrow> P (snd (reset_token_invalidate_active_for_user u t x db))"

locale issue_invariant = store_invariant +
  assumes keep_reset_create: "P db \<Longrightarrow> P (snd (reset_token_create tok db))"

interpretation wellformed: issue_invariant auth_db_inv "\<lambda>_. True"
  by unfold_locales (auto intro: auth_db_inv_intros)

interpretation revoked: issue_invariant "session_revoked i" "\<lambda>_. True" for i
  by unfold_locales (auto intro: session_revoked_kept)

interpretation spent: issue_invariant "reset_token_spent g" "\<lambda>_. True" for g
  by unfold_locales (auto intro: reset_token_spent_kept)

text \<open>A refresh token that is no longer current: nothing but drawing its identifier again changes that.\<close>

definition token_superseded :: "uuid \<Rightarrow> uuid \<Rightarrow> auth_db \<Rightarrow> bool" where
  "token_superseded i jti db \<longleftrightarrow> row_with ses_id i (\<lambda>s. ses_current_jti s \<noteq> jti) (db_sessions db)"

interpretation superseded: issue_invariant "token_superseded i jti" "\<lambda>drawn. drawn \<noteq> jti" for i jti
  by unfold_locales
    (auto simp: token_superseded_def auth_store_defs Let_def intro!: row_with_append row_with_update)

end
