(* ===== verification/Authentication.thy ===== *)
theory Authentication
  imports Security_Tokens Auth_Store
begin

text \<open>
  \<open>src/backend/app/services/authentication_service.py\<close>, with \<open>auth_session_maintenance_service.py\<close>
  and \<open>user_service.py\<close>. An operation takes the database and returns an error or a result; those
  that write also return the database they leave behind, which the caller commits or rolls back.
  What one call draws from the outside is the record \<open>auth_draws\<close>: the readings of the clock in
  the order the code makes them, the UUIDs, the CSRF nonce and the salt of the password hash.
\<close>

section \<open>Errors, results, draws\<close>

datatype auth_error =
    InvalidCredentialsError string
  | InactiveUserError string
  | ReauthenticationError string
  | PasswordChangeError string
  | RefreshTokenReuseError uuid uuid
  | InvalidCsrfTokenError string
  | AuthDatabaseError db_error
  | AuthTokenEncodingError

record auth_draws =
  dr_decode_now :: instant
  dr_now :: instant
  dr_update_now :: instant
  dr_access_now :: instant
  dr_refresh_now :: instant
  dr_cookie_decode_now :: instant
  dr_cookie_now :: instant
  dr_session_id :: uuid
  dr_refresh_id :: uuid
  dr_access_id :: uuid
  dr_nonce :: string
  dr_salt :: nat

record authentication_result =
  res_access_token :: string
  res_refresh_token :: string
  res_csrf_token :: string
  res_user :: user
  res_session_id :: uuid
  res_refresh_token_id :: uuid

record resolved_refresh_session =
  rrs_user :: user
  rrs_session :: auth_session
  rrs_claims :: refresh_token_claims

record refresh_rotation_result =
  rot_access_token :: string
  rot_refresh_token :: string
  rot_user :: user
  rot_session_id :: uuid
  rot_previous_refresh_token_id :: uuid
  rot_refresh_token_id :: uuid

record password_change_result =
  pcr_user_id :: uuid
  pcr_revoked_sessions :: nat

section \<open>Users\<close>

definition require_active_user :: "user \<Rightarrow> auth_error option" where
  "require_active_user u =
     (if usr_is_active u then None else Some (InactiveUserError ''The user account is inactive.''))"

definition resolve_active_user :: "uuid \<Rightarrow> auth_db \<Rightarrow> auth_error + user" where
  "resolve_active_user user_id db =
     (case user_get_by_id user_id db of
        None \<Rightarrow> Inl (InvalidCredentialsError ''The authenticated user no longer exists.'')
      | Some u \<Rightarrow> (case require_active_user u of Some e \<Rightarrow> Inl e | None \<Rightarrow> Inr u))"

definition authenticate :: "security \<Rightarrow> string \<Rightarrow> string \<Rightarrow> auth_db \<Rightarrow> auth_error + user" where
  "authenticate sec email password db =
     (case get_auth_record_by_email (py_lower (py_strip email)) db of
        None \<Rightarrow> Inl (InvalidCredentialsError ''Invalid credentials.'')
      | Some r \<Rightarrow>
          if \<not> verify_password sec password (uar_hashed_password r)
          then Inl (InvalidCredentialsError ''Invalid credentials.'')
          else if \<not> usr_is_active (uar_user r) then Inl (InactiveUserError ''The user account is inactive.'')
          else Inr (uar_user r))"

section \<open>Reauthentication and password change\<close>

definition reauthenticate ::
    "security \<Rightarrow> auth_draws \<Rightarrow> user \<Rightarrow> string \<Rightarrow> auth_db \<Rightarrow> auth_error + string \<times> int" where
  "reauthenticate sec d u password db =
     (case require_active_user u of Some e \<Rightarrow> Inl e | None \<Rightarrow>
      case get_auth_record_by_email (py_lower (py_strip (usr_email u))) db of
        None \<Rightarrow> Inl (ReauthenticationError ''Reauthentication failed.'')
      | Some r \<Rightarrow>
          if \<not> verify_password sec password (uar_hashed_password r) \<or> usr_id (uar_user r) \<noteq> usr_id u
          then Inl (ReauthenticationError ''Reauthentication failed.'')
          else (case create_reauthentication_token sec (dr_access_now d) (dr_access_id d) (usr_id u)
                       (uar_hashed_password r) None of
                  None \<Rightarrow> Inl AuthTokenEncodingError
                | Some token \<Rightarrow> Inr (token, sec_reauth_token_expire_minutes sec * 60)))"

definition service_decode_reauthentication_token ::
    "security \<Rightarrow> auth_draws \<Rightarrow> string \<Rightarrow> auth_error + reauthentication_claims" where
  "service_decode_reauthentication_token sec d token =
     (case decode_reauthentication_token sec (dr_decode_now d) token of
        Inl _ \<Rightarrow> Inl (ReauthenticationError ''Reauthentication proof is invalid.'')
      | Inr c \<Rightarrow> Inr c)"

definition resolve_reauthentication_token ::
    "security \<Rightarrow> auth_draws \<Rightarrow> string \<Rightarrow> auth_db \<Rightarrow> auth_error + user" where
  "resolve_reauthentication_token sec d token db =
     (case service_decode_reauthentication_token sec d token of Inl e \<Rightarrow> Inl e | Inr c \<Rightarrow>
      case resolve_active_user (ra_user_id c) db of Inl e \<Rightarrow> Inl e | Inr u \<Rightarrow>
      case get_auth_record_by_email (py_lower (py_strip (usr_email u))) db of
        None \<Rightarrow> Inl (ReauthenticationError ''Reauthentication proof is invalid.'')
      | Some r \<Rightarrow>
          if usr_id (uar_user r) \<noteq> usr_id u
          then Inl (ReauthenticationError ''Reauthentication proof is invalid.'')
          else if \<not> reauthentication_credential_matches sec (uar_hashed_password r) (ra_credential_fingerprint c)
          then Inl (ReauthenticationError ''Reauthentication proof is stale.'')
          else Inr u)"

definition change_password ::
    "security \<Rightarrow> auth_draws \<Rightarrow> user \<Rightarrow> string \<Rightarrow> string \<Rightarrow> auth_db \<Rightarrow>
     (auth_error + password_change_result) \<times> auth_db" where
  "change_password sec d u reauth_token new_password db =
     (case require_active_user u of Some e \<Rightarrow> (Inl e, db) | None \<Rightarrow>
      case service_decode_reauthentication_token sec d reauth_token of Inl e \<Rightarrow> (Inl e, db) | Inr c \<Rightarrow>
      if ra_user_id c \<noteq> usr_id u
      then (Inl (ReauthenticationError ''Reauthentication proof does not belong to this user.''), db)
      else case get_auth_record_by_email (py_lower (py_strip (usr_email u))) db of
        None \<Rightarrow> (Inl (ReauthenticationError ''Reauthentication proof cannot be validated.''), db)
      | Some r \<Rightarrow>
          if usr_id (uar_user r) \<noteq> usr_id u
          then (Inl (ReauthenticationError ''Reauthentication proof cannot be validated.''), db)
          else let current = uar_hashed_password r
          in if \<not> reauthentication_credential_matches sec current (ra_credential_fingerprint c)
             then (Inl (ReauthenticationError ''Reauthentication proof is stale.''), db)
             else (case validate_new_password new_password of
               Some violation \<Rightarrow> (Inl (PasswordChangeError violation), db)
             | None \<Rightarrow>
                 if verify_password sec new_password current
                 then (Inl (PasswordChangeError ''The new password must differ from the current password.''), db)
                 else
                   let replacement_hash = hash_password sec (dr_salt d) new_password;
                       (updated, db1) = update_password_hash_if_current (dr_update_now d) (usr_id u) current
                                          replacement_hash db
                   in if \<not> updated
                      then (Inl (ReauthenticationError ''The credential changed while the operation was in progress.''), db1)
                      else let (revoked, db2) = session_revoke_all_for_user (usr_id u) (dr_now d)
                                                  ''password_changed'' db1
                           in (Inr \<lparr>pcr_user_id = usr_id u, pcr_revoked_sessions = revoked\<rparr>, db2)))"

section \<open>Sessions: login, refresh, logout\<close>

definition issue_authentication_result ::
    "security \<Rightarrow> auth_draws \<Rightarrow> user \<Rightarrow> auth_db \<Rightarrow> (auth_error + authentication_result) \<times> auth_db" where
  "issue_authentication_result sec d u db =
     (case require_active_user u of Some e \<Rightarrow> (Inl e, db) | None \<Rightarrow>
      let now = dr_now d;
          s = \<lparr>ses_id = dr_session_id d, ses_user_id = usr_id u, ses_current_jti = dr_refresh_id d,
               ses_created_at = now, ses_last_used_at = now,
               ses_expires_at = now + timedelta_days (sec_refresh_token_expire_days sec),
               ses_revoked_at = None, ses_revocation_reason = None\<rparr>
      in case session_create s db of
           (Inl e, db1) \<Rightarrow> (Inl (AuthDatabaseError e), db1)
         | (Inr s, db1) \<Rightarrow>
             (case create_access_token sec (dr_access_now d) (dr_access_id d) (usr_id u) None of
                None \<Rightarrow> (Inl AuthTokenEncodingError, db1)
              | Some access \<Rightarrow>
                  (case create_refresh_token sec (dr_refresh_now d) (usr_id u) (ses_id s) (ses_current_jti s)
                          (ses_expires_at s) of
                     None \<Rightarrow> (Inl AuthTokenEncodingError, db1)
                   | Some refresh \<Rightarrow>
                       (Inr \<lparr>res_access_token = access, res_refresh_token = refresh,
                          res_csrf_token = create_csrf_token sec (dr_nonce d) (ses_id s), res_user = u,
                          res_session_id = ses_id s, res_refresh_token_id = ses_current_jti s\<rparr>, db1))))"

definition issue_access_token :: "security \<Rightarrow> auth_draws \<Rightarrow> user \<Rightarrow> auth_error + string" where
  "issue_access_token sec d u =
     (case require_active_user u of Some e \<Rightarrow> Inl e | None \<Rightarrow>
      case create_access_token sec (dr_access_now d) (dr_access_id d) (usr_id u) None of
        None \<Rightarrow> Inl AuthTokenEncodingError | Some t \<Rightarrow> Inr t)"

definition resolve_access_token :: "security \<Rightarrow> auth_draws \<Rightarrow> string \<Rightarrow> auth_db \<Rightarrow> auth_error + user" where
  "resolve_access_token sec d token db =
     (case decode_access_token sec (dr_decode_now d) token of
        Inl _ \<Rightarrow> Inl (InvalidCredentialsError ''Invalid access token.'')
      | Inr user_id \<Rightarrow> resolve_active_user user_id db)"

definition validate_csrf ::
    "security \<Rightarrow> uuid \<Rightarrow> string option \<Rightarrow> string option \<Rightarrow> auth_error option" where
  "validate_csrf sec session_id csrf_cookie csrf_header =
     (case (csrf_cookie, csrf_header) of
        (Some cookie, Some header) \<Rightarrow>
          if cookie \<noteq> header then Some (InvalidCsrfTokenError ''CSRF proof does not match.'')
          else if \<not> validate_csrf_token sec session_id cookie
          then Some (InvalidCsrfTokenError ''CSRF token signature is invalid.'')
          else None
      | _ \<Rightarrow> Some (InvalidCsrfTokenError ''CSRF proof is missing.''))"

definition decode_refresh_token_with_csrf ::
    "security \<Rightarrow> auth_draws \<Rightarrow> string \<Rightarrow> string option \<Rightarrow> string option \<Rightarrow> auth_error + refresh_token_claims" where
  "decode_refresh_token_with_csrf sec d token csrf_cookie csrf_header =
     (case decode_refresh_token sec (dr_decode_now d) token of
        Inl _ \<Rightarrow> Inl (InvalidCredentialsError ''Invalid refresh token.'')
      | Inr c \<Rightarrow>
          (case validate_csrf sec (rc_session_id c) csrf_cookie csrf_header of
             Some e \<Rightarrow> Inl e | None \<Rightarrow> Inr c))"

definition require_usable_session ::
    "auth_session \<Rightarrow> refresh_token_claims \<Rightarrow> instant \<Rightarrow> auth_error option" where
  "require_usable_session s c now =
     (if ses_revoked_at s \<noteq> None
      then Some (InvalidCredentialsError ''The authentication session has been revoked.'')
      else if ses_expires_at s \<le> now
      then Some (InvalidCredentialsError ''The authentication session has expired.'')
      else if ses_user_id s \<noteq> rc_user_id c
      then Some (InvalidCredentialsError ''The refresh token does not belong to this session.'')
      else None)"

definition resolve_refresh_token_with_csrf ::
    "security \<Rightarrow> auth_draws \<Rightarrow> string \<Rightarrow> string option \<Rightarrow> string option \<Rightarrow> auth_db \<Rightarrow>
     auth_error + resolved_refresh_session" where
  "resolve_refresh_token_with_csrf sec d token csrf_cookie csrf_header db =
     (case decode_refresh_token_with_csrf sec d token csrf_cookie csrf_header of Inl e \<Rightarrow> Inl e | Inr c \<Rightarrow>
      case session_get_by_id (rc_session_id c) db of
        None \<Rightarrow> Inl (InvalidCredentialsError ''The authentication session does not exist.'')
      | Some s \<Rightarrow>
          (case require_usable_session s c (dr_now d) of Some e \<Rightarrow> Inl e | None \<Rightarrow>
           if ses_current_jti s \<noteq> rc_token_id c
           then Inl (InvalidCredentialsError ''The refresh token is no longer current.'')
           else (case resolve_active_user (rc_user_id c) db of
             Inl e \<Rightarrow> Inl e
           | Inr u \<Rightarrow> Inr \<lparr>rrs_user = u, rrs_session = s, rrs_claims = c\<rparr>)))"

definition rotate_refresh_token_with_csrf ::
    "security \<Rightarrow> auth_draws \<Rightarrow> string \<Rightarrow> string option \<Rightarrow> string option \<Rightarrow> auth_db \<Rightarrow>
     (auth_error + refresh_rotation_result) \<times> auth_db" where
  "rotate_refresh_token_with_csrf sec d token csrf_cookie csrf_header db =
     (case decode_refresh_token_with_csrf sec d token csrf_cookie csrf_header of Inl e \<Rightarrow> (Inl e, db) | Inr c \<Rightarrow>
      case session_get_by_id_for_update (rc_session_id c) db of
        None \<Rightarrow> (Inl (InvalidCredentialsError ''The authentication session does not exist.''), db)
      | Some s \<Rightarrow>
          (case require_usable_session s c (dr_now d) of Some e \<Rightarrow> (Inl e, db) | None \<Rightarrow>
           if ses_current_jti s \<noteq> rc_token_id c
           then (Inl (RefreshTokenReuseError (ses_user_id s) (ses_id s)),
                 session_revoke (ses_id s) (dr_now d) ''refresh_token_reuse'' db)
           else (case resolve_active_user (rc_user_id c) db of Inl e \<Rightarrow> (Inl e, db) | Inr u \<Rightarrow>
             case session_update_current_token (ses_id s) (dr_refresh_id d) (dr_now d) db of
               (Inl e, db1) \<Rightarrow> (Inl (AuthDatabaseError e), db1)
             | (Inr _, db1) \<Rightarrow>
                 (case create_refresh_token sec (dr_refresh_now d) (usr_id u) (ses_id s) (dr_refresh_id d)
                         (ses_expires_at s) of
                    None \<Rightarrow> (Inl AuthTokenEncodingError, db1)
                  | Some refresh \<Rightarrow>
                      (case create_access_token sec (dr_access_now d) (dr_access_id d) (usr_id u) None of
                         None \<Rightarrow> (Inl AuthTokenEncodingError, db1)
                       | Some access \<Rightarrow>
                           (Inr \<lparr>rot_access_token = access, rot_refresh_token = refresh, rot_user = u,
                              rot_session_id = ses_id s, rot_previous_refresh_token_id = rc_token_id c,
                              rot_refresh_token_id = dr_refresh_id d\<rparr>, db1))))))"

definition revoke_refresh_session_with_csrf ::
    "security \<Rightarrow> auth_draws \<Rightarrow> string \<Rightarrow> string option \<Rightarrow> string option \<Rightarrow> auth_db \<Rightarrow>
     (auth_error + user \<times> uuid) \<times> auth_db" where
  "revoke_refresh_session_with_csrf sec d token csrf_cookie csrf_header db =
     (case decode_refresh_token_with_csrf sec d token csrf_cookie csrf_header of Inl e \<Rightarrow> (Inl e, db) | Inr c \<Rightarrow>
      case session_get_by_id_for_update (rc_session_id c) db of
        None \<Rightarrow> (Inl (InvalidCredentialsError ''The authentication session does not exist.''), db)
      | Some s \<Rightarrow>
          (case require_usable_session s c (dr_now d) of Some e \<Rightarrow> (Inl e, db) | None \<Rightarrow>
           if ses_current_jti s \<noteq> rc_token_id c
           then (Inl (RefreshTokenReuseError (ses_user_id s) (ses_id s)),
                 session_revoke (ses_id s) (dr_now d) ''refresh_token_reuse'' db)
           else (case resolve_active_user (rc_user_id c) db of
             Inl e \<Rightarrow> (Inl e, db)
           | Inr u \<Rightarrow> (Inr (u, ses_id s), session_revoke (ses_id s) (dr_now d) ''logout'' db))))"

definition revoke_all_sessions_for_user ::
    "auth_draws \<Rightarrow> user \<Rightarrow> auth_db \<Rightarrow> (auth_error + nat) \<times> auth_db" where
  "revoke_all_sessions_for_user d u db =
     (case require_active_user u of
        Some e \<Rightarrow> (Inl e, db)
      | None \<Rightarrow> (let (n, db1) = session_revoke_all_for_user (usr_id u) (dr_now d) ''logout_all'' db in (Inr n, db1)))"

section \<open>Maintenance and registration\<close>

text \<open>\<open>AuthSessionMaintenanceService\<close>: the constructor's check, then the purge; \<open>now\<close> as an aware instant.\<close>

definition purge_expired_sessions :: "int \<Rightarrow> instant \<Rightarrow> auth_db \<Rightarrow> (string + nat) \<times> auth_db" where
  "purge_expired_sessions retention_days now db =
     (if retention_days < 1
      then (Inl ''Authentication-session retention must be at least one day.'', db)
      else let (n, db1) = session_delete_expired_before (now - timedelta_days retention_days) db in (Inr n, db1))"

datatype create_user_error = UserAlreadyExistsError string | CreateUserDatabaseError db_error

definition create_user ::
    "security \<Rightarrow> instant \<times> instant \<Rightarrow> uuid \<Rightarrow> nat \<Rightarrow> string \<Rightarrow> string \<Rightarrow> string \<Rightarrow> user_role \<Rightarrow> auth_db \<Rightarrow>
     (create_user_error + user) \<times> auth_db" where
  "create_user sec now fresh_id salt email full_name password role db =
     (let normalized_email = py_lower (py_strip email);
          normalized_name = py_strip full_name
      in case user_get_by_email normalized_email db of
           Some _ \<Rightarrow> (Inl (UserAlreadyExistsError ''A user with that email already exists.''), db)
         | None \<Rightarrow>
             (case user_add now fresh_id normalized_email normalized_name (hash_password sec salt password)
                     role True db of
                (Inl e, db1) \<Rightarrow> (Inl (CreateUserDatabaseError e), db1)
              | (Inr u, db1) \<Rightarrow> (Inr u, db1)))"

section \<open>The services keep what the statements keep\<close>

context store_invariant
begin

lemma keep_eq:
  "P db \<Longrightarrow> update_password_hash_if_current now u h h' db = (did, db') \<Longrightarrow> P db'"
  "P db \<Longrightarrow> session_create s db = (res, db') \<Longrightarrow> P db'"
  "P db \<Longrightarrow> session_revoke_all_for_user u t reason db = (n, db') \<Longrightarrow> P db'"
  "P db \<Longrightarrow> reset_token_mark_used i t db = (did, db') \<Longrightarrow> P db'"
  "P db \<Longrightarrow> reset_token_invalidate_active_for_user u t x db = (n, db') \<Longrightarrow> P db'"
  "P db \<Longrightarrow> py_identifier email = email \<Longrightarrow> user_add ts i email nm h rl a db = (ru, db') \<Longrightarrow> P db'"
  "P db \<Longrightarrow> ok jti \<Longrightarrow> session_update_current_token i jti t db = (res', db') \<Longrightarrow> P db'"
  using keep_password keep_session_create keep_revoke_all keep_mark_used keep_invalidate keep_user_add
    keep_update_token by (metis snd_conv)+

lemma keep_change_password: "P db \<Longrightarrow> P (snd (change_password sec d u tok new db))"
  by (auto simp: change_password_def Let_def intro: keep_eq
      split: option.splits sum.splits prod.splits)

lemma keep_issue: "P db \<Longrightarrow> P (snd (issue_authentication_result sec d u db))"
  by (auto simp: issue_authentication_result_def Let_def intro: keep_eq
      split: option.splits sum.splits prod.splits)

lemma keep_rotate: "P db \<Longrightarrow> ok (dr_refresh_id d) \<Longrightarrow> P (snd (rotate_refresh_token_with_csrf sec d tok c h db))"
  by (auto simp: rotate_refresh_token_with_csrf_def intro: keep_eq keep_revoke
      split: option.splits sum.splits prod.splits)

lemma keep_revoke_session: "P db \<Longrightarrow> P (snd (revoke_refresh_session_with_csrf sec d tok c h db))"
  by (auto simp: revoke_refresh_session_with_csrf_def intro: keep_revoke
      split: option.splits sum.splits)

lemma keep_revoke_all_sessions: "P db \<Longrightarrow> P (snd (revoke_all_sessions_for_user d u db))"
  by (auto simp: revoke_all_sessions_for_user_def Let_def intro: keep_eq split: option.splits prod.splits)

lemma keep_create_user: "P db \<Longrightarrow> P (snd (create_user sec now i salt email n p r db))"
proof -
  have "py_identifier (py_lower (py_strip email)) = py_lower (py_strip email)"
    using py_identifier_idem [of email] by (simp add: py_identifier_def)
  then show "P db \<Longrightarrow> P (snd (create_user sec now i salt email n p r db))"
    by (auto simp: create_user_def Let_def intro: keep_eq split: option.splits sum.splits prod.splits)
qed

end

end
