(* ===== verification/Password_Reset.thy ===== *)
theory Password_Reset
  imports Authentication
begin

text \<open>
  \<open>src/backend/app/services/password_reset_service.py\<close>: issuing a recovery credential and consuming
  it. \<open>pd_now\<close>, \<open>pd_update_now\<close> are the readings of the clock, \<open>pd_raw_token\<close> the random credential,
  \<open>pd_token_id\<close> the fresh identifier, \<open>pd_salt\<close> the salt of the new hash. The issue lock of an
  account and the row lock of a token make each operation one step.
\<close>

datatype password_reset_error =
    InvalidPasswordResetCredentialError string
  | PasswordResetPasswordError string
  | PasswordResetDatabaseError db_error

record reset_draws =
  pd_now :: instant
  pd_update_now :: instant
  pd_raw_token :: string
  pd_token_id :: uuid
  pd_salt :: nat

record password_reset_issue_result =
  pri_user_id :: uuid
  pri_email :: string
  pri_raw_token :: string
  pri_expires_at :: instant

record password_reset_completion_result =
  prc_user_id :: uuid
  prc_revoked_sessions :: nat

definition digest_token :: "security \<Rightarrow> string \<Rightarrow> string" where
  "digest_token sec raw_token = sec_sha256 sec raw_token"

definition require_usable_token :: "password_reset_token \<Rightarrow> instant \<Rightarrow> password_reset_error option" where
  "require_usable_token t now =
     (if prt_used_at t \<noteq> None
      then Some (InvalidPasswordResetCredentialError ''Password reset credential has already been used.'')
      else if prt_invalidated_at t \<noteq> None
      then Some (InvalidPasswordResetCredentialError ''Password reset credential has been invalidated.'')
      else if prt_expires_at t \<le> now
      then Some (InvalidPasswordResetCredentialError ''Password reset credential has expired.'')
      else None)"

definition request_reset ::
    "security \<Rightarrow> reset_draws \<Rightarrow> int \<Rightarrow> string \<Rightarrow> auth_db \<Rightarrow>
     (password_reset_error + password_reset_issue_result option) \<times> auth_db" where
  "request_reset sec d token_ttl email db =
     (case get_auth_record_by_email (py_lower (py_strip email)) db of
        None \<Rightarrow> (Inr None, db)
      | Some r \<Rightarrow>
          if \<not> usr_is_active (uar_user r) then (Inr None, db)
          else
            let now = pd_now d; u = uar_user r;
                (_, db1) = reset_token_invalidate_active_for_user (usr_id u) now None db;
                t = \<lparr>prt_id = pd_token_id d, prt_user_id = usr_id u,
                     prt_token_digest = digest_token sec (pd_raw_token d),
                     prt_credential_fingerprint = create_reauthentication_fingerprint sec (uar_hashed_password r),
                     prt_created_at = now, prt_expires_at = now + token_ttl, prt_used_at = None,
                     prt_invalidated_at = None\<rparr>
            in case reset_token_create t db1 of
                 (Inl e, db2) \<Rightarrow> (Inl (PasswordResetDatabaseError e), db2)
               | (Inr _, db2) \<Rightarrow>
                   (Inr (Some \<lparr>pri_user_id = usr_id u, pri_email = usr_email u,
                      pri_raw_token = pd_raw_token d, pri_expires_at = now + token_ttl\<rparr>), db2))"

text \<open>\<open>confirm_reset\<close> in two parts: the writes once every check has passed, and the checks.\<close>

definition consume_reset ::
    "security \<Rightarrow> reset_draws \<Rightarrow> password_reset_token \<Rightarrow> user \<Rightarrow> string \<Rightarrow> string \<Rightarrow> auth_db \<Rightarrow>
     (password_reset_error + password_reset_completion_result) \<times> auth_db" where
  "consume_reset sec d t u current new_password db =
     (let now = pd_now d;
          (updated, db1) = update_password_hash_if_current (pd_update_now d) (usr_id u) current
                             (hash_password sec (pd_salt d) new_password) db
      in if \<not> updated
         then (Inl (InvalidPasswordResetCredentialError ''The credential changed while the reset was in progress.''), db1)
         else
           let (consumed, db2) = reset_token_mark_used (prt_id t) now db1
           in if \<not> consumed
              then (Inl (InvalidPasswordResetCredentialError ''Password reset credential could not be consumed.''), db2)
              else
                let (_, db3) = reset_token_invalidate_active_for_user (usr_id u) now (Some (prt_id t)) db2;
                    (revoked, db4) = session_revoke_all_for_user (usr_id u) now ''password_reset'' db3
                in (Inr \<lparr>prc_user_id = usr_id u, prc_revoked_sessions = revoked\<rparr>, db4))"

definition confirm_reset ::
    "security \<Rightarrow> reset_draws \<Rightarrow> string \<Rightarrow> string \<Rightarrow> auth_db \<Rightarrow>
     (password_reset_error + password_reset_completion_result) \<times> auth_db" where
  "confirm_reset sec d raw_token new_password db =
     (case reset_token_get_by_digest_for_update (digest_token sec raw_token) db of
        None \<Rightarrow> (Inl (InvalidPasswordResetCredentialError ''Password reset credential is invalid.''), db)
      | Some t \<Rightarrow>
      case require_usable_token t (pd_now d) of Some e \<Rightarrow> (Inl e, db) | None \<Rightarrow>
      case user_get_by_id (prt_user_id t) db of
        None \<Rightarrow> (Inl (InvalidPasswordResetCredentialError ''Password reset credential is invalid.''), db)
      | Some u \<Rightarrow>
      if \<not> usr_is_active u
      then (Inl (InvalidPasswordResetCredentialError ''Password reset credential is invalid.''), db)
      else case get_auth_record_by_email (py_lower (py_strip (usr_email u))) db of
        None \<Rightarrow> (Inl (InvalidPasswordResetCredentialError ''Password reset credential is invalid.''), db)
      | Some r \<Rightarrow>
      if usr_id (uar_user r) \<noteq> usr_id u
      then (Inl (InvalidPasswordResetCredentialError ''Password reset credential is invalid.''), db)
      else if create_reauthentication_fingerprint sec (uar_hashed_password r) \<noteq> prt_credential_fingerprint t
      then (Inl (InvalidPasswordResetCredentialError ''Password reset credential is stale.''), db)
      else case validate_new_password new_password of
        Some violation \<Rightarrow> (Inl (PasswordResetPasswordError violation), db)
      | None \<Rightarrow>
      if verify_password sec new_password (uar_hashed_password r)
      then (Inl (PasswordResetPasswordError ''The new password must differ from the current password.''), db)
      else consume_reset sec d t u (uar_hashed_password r) new_password db)"

section \<open>The services keep what the statements keep\<close>

context store_invariant
begin

lemma keep_consume_reset: "P db \<Longrightarrow> P (snd (consume_reset sec d t u current new db))"
proof -
  assume db: "P db"
  obtain a db1 where 1: "update_password_hash_if_current (pd_update_now d) (usr_id u) current
      (hash_password sec (pd_salt d) new) db = (a, db1)" by fastforce
  obtain b db2 where 2: "reset_token_mark_used (prt_id t) (pd_now d) db1 = (b, db2)" by fastforce
  obtain m db3 where 3: "reset_token_invalidate_active_for_user (usr_id u) (pd_now d) (Some (prt_id t)) db2 =
      (m, db3)" by fastforce
  obtain n db4 where 4: "session_revoke_all_for_user (usr_id u) (pd_now d) ''password_reset'' db3 = (n, db4)"
    by fastforce
  have "P db1" by (rule keep_eq(1) [OF db 1])
  moreover from this have "P db2" by (rule keep_eq(4) [OF _ 2])
  moreover from this have "P db3" by (rule keep_eq(5) [OF _ 3])
  moreover from this have "P db4" by (rule keep_eq(3) [OF _ 4])
  ultimately show ?thesis by (simp add: consume_reset_def Let_def 1 2 3 4)
qed

lemma keep_confirm_reset: "P db \<Longrightarrow> P (snd (confirm_reset sec d raw new db))"
  by (auto simp: confirm_reset_def intro: keep_consume_reset split: option.splits)

end

text \<open>A fact that issuing a reset token keeps too, with or without the two statements it consists of.\<close>

locale account_invariant = store_invariant +
  assumes keep_request_reset: "P db \<Longrightarrow> P (snd (request_reset sec d ttl email db))"

sublocale issue_invariant \<subseteq> account_invariant
proof
  show "P (snd (request_reset sec d ttl email db))" if "P db" for db sec d ttl email
    using that keep_invalidate keep_reset_create
    by (auto simp: request_reset_def Let_def split_beta split: option.splits sum.splits)
qed

text \<open>At most one usable reset token per user.\<close>

definition one_active_reset :: "auth_db \<Rightarrow> bool" where
  "one_active_reset db \<longleftrightarrow> (\<forall>u. length (active_reset_tokens u db) \<le> 1)"

lemma active_reset_frame:
  "db_reset_tokens db' = db_reset_tokens db \<Longrightarrow> active_reset_tokens u db' = active_reset_tokens u db"
  by (simp add: active_reset_tokens_def)

lemma length_filter_update_le:
  "(\<And>t. p t \<Longrightarrow> q (f t) \<Longrightarrow> q t) \<Longrightarrow> length (filter q (update_where p f ts)) \<le> length (filter q ts)"
  by (induction ts) (auto simp: update_where_def)

lemma active_reset_shrinks:
  "length (active_reset_tokens u (snd (reset_token_mark_used i t db))) \<le> length (active_reset_tokens u db)"
  "length (active_reset_tokens u (snd (reset_token_invalidate_active_for_user v t x db))) \<le>
     length (active_reset_tokens u db)"
  by (auto simp: active_reset_tokens_def reset_token_mark_used_def reset_token_invalidate_active_for_user_def
      Let_def intro!: length_filter_update_le)

lemma active_after_invalidate:
  "active_reset_tokens u (snd (reset_token_invalidate_active_for_user u t None db)) = []"
proof -
  let ?q = "\<lambda>t. prt_user_id t = u \<and> prt_used_at t = None \<and> prt_invalidated_at t = None"
  have "filter ?q (update_where (\<lambda>s. prt_user_id s = u \<and> prt_used_at s = None \<and> prt_invalidated_at s = None \<and>
      Some (prt_id s) \<noteq> None) (\<lambda>s. s\<lparr>prt_invalidated_at := Some t\<rparr>) rows) = []" for rows
    by (induction rows) (simp_all add: update_where_def)
  then show ?thesis
    by (simp add: active_reset_tokens_def reset_token_invalidate_active_for_user_def Let_def)
qed

lemma active_after_create:
  "length (active_reset_tokens u (snd (reset_token_create tok db))) \<le>
     length (active_reset_tokens u db) + (if prt_user_id tok = u then 1 else 0)"
  by (auto simp: active_reset_tokens_def reset_token_create_def)

lemma one_active_request_reset: "one_active_reset db \<Longrightarrow> one_active_reset (snd (request_reset sec d ttl email db))"
  unfolding one_active_reset_def
proof
  fix u
  assume inv: "\<forall>u. length (active_reset_tokens u db) \<le> 1"
  show "length (active_reset_tokens u (snd (request_reset sec d ttl email db))) \<le> 1"
  proof (cases "get_auth_record_by_email (py_lower (py_strip email)) db")
    case None
    then show ?thesis using inv by (simp add: request_reset_def)
  next
    case (Some r)
    let ?v = "usr_id (uar_user r)"
    let ?db1 = "snd (reset_token_invalidate_active_for_user ?v (pd_now d) None db)"
    let ?t = "\<lparr>prt_id = pd_token_id d, prt_user_id = ?v, prt_token_digest = digest_token sec (pd_raw_token d),
      prt_credential_fingerprint = create_reauthentication_fingerprint sec (uar_hashed_password r),
      prt_created_at = pd_now d, prt_expires_at = pd_now d + ttl, prt_used_at = None, prt_invalidated_at = None\<rparr>"
    have db: "snd (request_reset sec d ttl email db) =
        (if usr_is_active (uar_user r) then snd (reset_token_create ?t ?db1) else db)"
      using Some by (auto simp: request_reset_def Let_def split_beta split: sum.splits)
    have "length (active_reset_tokens u ?db1) + (if ?v = u then 1 else 0) \<le> 1"
      using inv active_reset_shrinks(2) [of u ?v "pd_now d" None db] active_after_invalidate [of u "pd_now d" db]
      by (auto intro: order_trans)
    then show ?thesis
      using active_after_create [of u ?t ?db1] inv by (auto simp: db)
  qed
qed

lemma one_active_le:
  "one_active_reset db \<Longrightarrow> (\<And>u. length (active_reset_tokens u db') \<le> length (active_reset_tokens u db)) \<Longrightarrow>
     one_active_reset db'"
  unfolding one_active_reset_def by (meson le_trans)

lemma one_active_same: "one_active_reset db \<Longrightarrow> db_reset_tokens db' = db_reset_tokens db \<Longrightarrow> one_active_reset db'"
  by (simp add: one_active_reset_def active_reset_tokens_def)

interpretation one_active: account_invariant one_active_reset "\<lambda>_. True"
proof
  fix db assume inv: "one_active_reset db"
  show "one_active_reset (snd (update_password_hash_if_current now u h h' db))" for now u h h'
    by (rule one_active_same [OF inv]) (simp add: auth_store_defs Let_def)
  show "one_active_reset (snd (user_add ts i email n h r a db))" for ts i email n h r a
    by (rule one_active_same [OF inv]) (simp add: auth_store_defs Let_def)
  show "one_active_reset (snd (session_create s db))" for s
    by (rule one_active_same [OF inv]) (simp add: auth_store_defs)
  show "one_active_reset (snd (session_update_current_token i jti t db))" for i jti t
    by (rule one_active_same [OF inv]) (simp add: auth_store_defs)
  show "one_active_reset (session_revoke i t reason db)" for i t reason
    by (rule one_active_same [OF inv]) (simp add: auth_store_defs)
  show "one_active_reset (snd (session_revoke_all_for_user u t reason db))" for u t reason
    by (rule one_active_same [OF inv]) (simp add: auth_store_defs Let_def)
  show "one_active_reset (snd (reset_token_mark_used i t db))" for i t
    by (rule one_active_le [OF inv]) (rule active_reset_shrinks)
  show "one_active_reset (snd (reset_token_invalidate_active_for_user u t x db))" for u t x
    by (rule one_active_le [OF inv]) (rule active_reset_shrinks)
  show "one_active_reset (snd (request_reset sec d ttl email db))" for sec d ttl email
    by (rule one_active_request_reset [OF inv])
qed

end
