(* ===== verification/Sliding_Window.thy ===== *)
theory Sliding_Window
  imports Prelude
begin

text \<open>
  The sliding window both throttles of \<open>src/backend/app/core\<close> keep per key: a queue of instants,
  oldest first, from which \<open>prune\<close> drops the expired ones. The locale \<open>window_limiter\<close> states what a
  limiter built on it does to one family of queues, and proves once that at most \<open>limit\<close> requests
  per key are counted in any window.
\<close>

definition prune :: "seconds \<Rightarrow> seconds list \<Rightarrow> seconds list" where
  "prune cutoff bucket = dropWhile (\<lambda>t. t \<le> cutoff) bucket"

lemma prune_sorted_filter: "sorted b \<Longrightarrow> prune cutoff b = filter (\<lambda>t. cutoff < t) b"
proof (induction b)
  case (Cons x xs)
  show ?case
  proof (cases "x \<le> cutoff")
    case True
    with Cons show ?thesis by (simp add: prune_def)
  next
    case False
    with Cons.prems have "\<forall>t \<in> set xs. cutoff < t" by auto
    with False show ?thesis by (simp add: prune_def filter_id_conv)
  qed
qed (simp add: prune_def)

lemma prune_length: "length (prune cutoff b) \<le> length b"
  by (simp add: prune_def length_dropWhile_le)

lemma prune_sorted: "sorted b \<Longrightarrow> sorted (prune cutoff b)"
  by (simp add: prune_sorted_filter sorted_filter [of "\<lambda>x. x", simplified])

lemma prune_subset: "set (prune cutoff b) \<subseteq> set b"
  using set_dropWhileD by (fastforce simp: prune_def)

lemma prune_prune: "c \<le> d \<Longrightarrow> prune d (prune c b) = prune d b"
  by (induction b) (auto simp: prune_def)

definition in_window :: "seconds \<Rightarrow> seconds \<Rightarrow> seconds \<Rightarrow> bool" where
  "in_window window t a \<longleftrightarrow> t - window < a \<and> a \<le> t"

locale window_limiter =
  fixes step :: "'r \<Rightarrow> 's \<Rightarrow> 's"
    and time :: "'r \<Rightarrow> seconds"
    and counted :: "'r \<Rightarrow> 's \<Rightarrow> 'k option"
    and bucket :: "'s \<Rightarrow> 'k \<Rightarrow> seconds list"
    and configured :: "nat \<Rightarrow> seconds \<Rightarrow> 's \<Rightarrow> bool"
  assumes configured_step: "configured limit window s \<Longrightarrow> configured limit window (step r s)"
    and admitted_below: "configured limit window s \<Longrightarrow> counted r s = Some k \<Longrightarrow>
          length (prune (time r - window) (bucket s k)) < limit \<and>
          bucket (step r s) k = prune (time r - window) (bucket s k) @ [time r]"
    and others_kept: "configured limit window s \<Longrightarrow> counted r s \<noteq> Some k \<Longrightarrow>
          bucket (step r s) k = bucket s k \<or> bucket (step r s) k = prune (time r - window) (bucket s k)"
begin

fun counted_times :: "'k \<Rightarrow> 'r list \<Rightarrow> 's \<Rightarrow> seconds list" where
  "counted_times k [] s = []"
| "counted_times k (r # rs) s =
     (if counted r s = Some k then [time r] else []) @ counted_times k rs (step r s)"

definition window_inv :: "nat \<Rightarrow> seconds \<Rightarrow> 'k \<Rightarrow> seconds \<Rightarrow> seconds list \<Rightarrow> 's \<Rightarrow> bool" where
  "window_inv limit window k latest H s \<longleftrightarrow>
     configured limit window s \<and> sorted (bucket s k) \<and> (\<forall>a \<in> set (bucket s k). a \<le> latest) \<and> (\<forall>a \<in> set H. a \<le> latest) \<and>
     filter (\<lambda>a. latest - window < a) H = filter (\<lambda>a. latest - window < a) (bucket s k) \<and>
     (\<forall>t. length (filter (in_window window t) H) \<le> limit)"

lemma window_inv_step:
  assumes inv: "window_inv limit window k latest H s" and now: "latest \<le> time r"
  shows "window_inv limit window k (time r)
    (H @ (if counted r s = Some k then [time r] else [])) (step r s)"
proof -
  let ?now = "time r" and ?b = "bucket s k"
  have conf: "configured limit window s" using inv by (simp add: window_inv_def)
  have sorted: "sorted ?b" and old: "\<forall>a \<in> set ?b. a \<le> latest" and hist: "\<forall>a \<in> set H. a \<le> latest"
    and bound: "\<And>t. length (filter (in_window window t) H) \<le> limit"
    and agree: "filter (\<lambda>a. latest - window < a) H = filter (\<lambda>a. latest - window < a) ?b"
    using inv by (auto simp: window_inv_def)
  have old': "\<forall>a \<in> set ?b. a \<le> ?now" and hist': "\<forall>a \<in> set H. a \<le> ?now"
    using old hist now by force+
  have "filter (\<lambda>a. ?now - window < a) H = filter (\<lambda>a. ?now - window < a) (filter (\<lambda>a. latest - window < a) H)"
    using now by (auto intro: filter_cong)
  also have "\<dots> = filter (\<lambda>a. ?now - window < a) ?b"
    unfolding agree using now by (auto intro: filter_cong)
  finally have agree_now: "filter (\<lambda>a. ?now - window < a) H = filter (\<lambda>a. ?now - window < a) ?b" .
  have pr: "prune (?now - window) ?b = filter (\<lambda>a. ?now - window < a) ?b"
    using sorted by (rule prune_sorted_filter)
  show ?thesis
  proof (cases "counted r s = Some k")
    case True
    note adm = admitted_below [OF conf True]
    have "length (filter (in_window window t) (H @ [?now])) \<le> limit" for t
    proof (cases "in_window window t ?now")
      case in_w: True
      then have "length (filter (in_window window t) H) \<le> length (filter (\<lambda>a. ?now - window < a) H)"
        by (induction H) (auto simp: in_window_def)
      also have "\<dots> < limit" using adm agree_now pr by simp
      finally show ?thesis using in_w by simp
    qed (use bound in simp)
    moreover have "sorted (bucket (step r s) k)"
      using adm pr sorted old now by (auto simp: sorted_append sorted_filter [of "\<lambda>x. x", simplified])
    ultimately show ?thesis
      using True adm pr agree_now old' hist' configured_step [OF conf] by (auto simp: window_inv_def)
  next
    case False
    from others_kept [OF conf False] show ?thesis
      using False pr agree_now sorted old' hist' bound configured_step [OF conf]
      by (auto simp: window_inv_def sorted_filter [of "\<lambda>x. x", simplified])
  qed
qed

lemma window_inv_run:
  assumes "window_inv limit window k latest H s" and "sorted (latest # map time rs)"
  shows "length (filter (in_window window t) (H @ counted_times k rs s)) \<le> limit"
  using assms
proof (induction rs arbitrary: latest H s)
  case Nil
  then show ?case by (simp add: window_inv_def)
next
  case (Cons r rs)
  have "window_inv limit window k (time r) (H @ (if counted r s = Some k then [time r] else [])) (step r s)"
    using Cons.prems by (intro window_inv_step) auto
  from Cons.IH [OF this] Cons.prems(2) show ?case by simp
qed

lemma counted_bounded:
  assumes "configured limit window s" and "bucket s k = []" and "sorted (map time rs)"
  shows "length (filter (in_window window t) (counted_times k rs s)) \<le> limit"
proof (cases rs)
  case (Cons r rs')
  have "window_inv limit window k (time r) [] s" using assms(1,2) by (simp add: window_inv_def)
  from window_inv_run [OF this, of rs t] assms(3) Cons show ?thesis by simp
qed simp

end

end
