(* ===== verification/Login_Throttle.thy ===== *)
theory Login_Throttle
  imports Sliding_Window Py_Values
begin

text \<open>
  \<open>src/backend/app/core/login_throttle.py\<close>: the in-memory login throttle. A dictionary of queues is
  a function from keys to queues, the empty queue where the dictionary has no entry (the code
  creates empty entries on access and never tells them from absent ones). HMAC-SHA256 is a
  parameter of the state, \<open>lt_hmac key message\<close>; the clock reading is an argument, and a call is
  one step, as the lock makes it. Floating-point instants are real numbers.
\<close>

datatype throttle_reason = BlockedByIp | BlockedByAccount

record login_throttle_decision =
  ltd_allowed :: bool
  ltd_blocked_by :: "throttle_reason option"

record login_throttle =
  lt_hmac :: "string \<Rightarrow> string \<Rightarrow> string"
  lt_secret_key :: string
  lt_ip_max_attempts :: int
  lt_ip_window :: seconds
  lt_account_max_failures :: int
  lt_account_window :: seconds
  lt_ip_attempts :: "string \<Rightarrow> seconds list"
  lt_account_failures :: "string \<Rightarrow> seconds list"

definition new_login_throttle ::
    "(string \<Rightarrow> string \<Rightarrow> string) \<Rightarrow> string \<Rightarrow> int \<Rightarrow> int \<Rightarrow> int \<Rightarrow> int \<Rightarrow> string + login_throttle" where
  "new_login_throttle hmac secret_key ip_max ip_window account_max account_window =
     (if secret_key = [] then Inl ''A login throttle secret is required.''
      else if ip_max \<le> 0 then Inl ''ip_max_attempts must be positive.''
      else if ip_window \<le> 0 then Inl ''ip_window_seconds must be positive.''
      else if account_max \<le> 0 then Inl ''account_max_failures must be positive.''
      else if account_window \<le> 0 then Inl ''account_window_seconds must be positive.''
      else Inr \<lparr>lt_hmac = hmac, lt_secret_key = secret_key, lt_ip_max_attempts = ip_max,
        lt_ip_window = of_int ip_window, lt_account_max_failures = account_max,
        lt_account_window = of_int account_window, lt_ip_attempts = (\<lambda>_. []),
        lt_account_failures = (\<lambda>_. [])\<rparr>)"

definition lt_opaque_key :: "login_throttle \<Rightarrow> string \<Rightarrow> string \<Rightarrow> string" where
  "lt_opaque_key lt namespace v = lt_hmac lt (lt_secret_key lt) (namespace @ '':'' @ v)"

definition lt_account_key :: "login_throttle \<Rightarrow> string \<Rightarrow> string" where
  "lt_account_key lt account_identifier =
     lt_opaque_key lt ''account'' (py_lower (py_strip account_identifier))"

definition lt_get_active_entries ::
    "(string \<Rightarrow> seconds list) \<Rightarrow> string \<Rightarrow> seconds \<Rightarrow> seconds \<Rightarrow> seconds list" where
  "lt_get_active_entries storage key now window = prune (now - window) (storage key)"

definition lt_begin_attempt ::
    "seconds \<Rightarrow> string \<Rightarrow> string \<Rightarrow> login_throttle \<Rightarrow> login_throttle_decision \<times> login_throttle" where
  "lt_begin_attempt now client_address account_identifier lt =
     (let ip_key = lt_opaque_key lt ''ip'' client_address;
          account_key = lt_account_key lt account_identifier;
          ip_attempts = lt_get_active_entries (lt_ip_attempts lt) ip_key now (lt_ip_window lt)
      in if lt_ip_max_attempts lt \<le> int (length ip_attempts)
         then (\<lparr>ltd_allowed = False, ltd_blocked_by = Some BlockedByIp\<rparr>,
               lt\<lparr>lt_ip_attempts := (lt_ip_attempts lt)(ip_key := ip_attempts)\<rparr>)
         else
           let lt1 = lt\<lparr>lt_ip_attempts := (lt_ip_attempts lt)(ip_key := ip_attempts @ [now])\<rparr>;
               failures = lt_get_active_entries (lt_account_failures lt1) account_key now (lt_account_window lt);
               lt2 = lt1\<lparr>lt_account_failures := (lt_account_failures lt1)(account_key := failures)\<rparr>
           in if lt_account_max_failures lt \<le> int (length failures)
              then (\<lparr>ltd_allowed = False, ltd_blocked_by = Some BlockedByAccount\<rparr>, lt2)
              else (\<lparr>ltd_allowed = True, ltd_blocked_by = None\<rparr>, lt2))"

definition lt_record_failure :: "seconds \<Rightarrow> string \<Rightarrow> login_throttle \<Rightarrow> login_throttle" where
  "lt_record_failure now account_identifier lt =
     (let key = lt_account_key lt account_identifier;
          failures = lt_get_active_entries (lt_account_failures lt) key now (lt_account_window lt)
      in lt\<lparr>lt_account_failures := (lt_account_failures lt)(key := failures @ [now])\<rparr>)"

definition lt_record_success :: "string \<Rightarrow> login_throttle \<Rightarrow> login_throttle" where
  "lt_record_success account_identifier lt =
     lt\<lparr>lt_account_failures := (lt_account_failures lt)(lt_account_key lt account_identifier := [])\<rparr>"

definition lt_reset :: "login_throttle \<Rightarrow> login_throttle" where
  "lt_reset lt = lt\<lparr>lt_ip_attempts := (\<lambda>_. []), lt_account_failures := (\<lambda>_. [])\<rparr>"

section \<open>Lemmas\<close>

lemmas login_throttle_defs =
  lt_begin_attempt_def lt_record_failure_def lt_record_success_def lt_get_active_entries_def
  lt_account_key_def lt_opaque_key_def Let_def

lemma lt_config_frame [simp]:
  "lt_hmac (lt_record_failure t a lt) = lt_hmac lt" "lt_secret_key (lt_record_failure t a lt) = lt_secret_key lt"
  "lt_ip_attempts (lt_record_failure t a lt) = lt_ip_attempts lt"
  "lt_ip_window (lt_record_failure t a lt) = lt_ip_window lt"
  "lt_ip_max_attempts (lt_record_failure t a lt) = lt_ip_max_attempts lt"
  "lt_account_window (lt_record_failure t a lt) = lt_account_window lt"
  "lt_account_max_failures (lt_record_failure t a lt) = lt_account_max_failures lt"
  by (simp_all add: lt_record_failure_def Let_def)

lemma lt_account_key_failure [simp]: "lt_account_key (lt_record_failure t a lt) b = lt_account_key lt b"
  by (simp add: lt_account_key_def lt_opaque_key_def)

lemma lt_account_key_identifier:
  "py_identifier a = py_identifier b \<Longrightarrow> lt_account_key lt a = lt_account_key lt b"
  by (simp add: lt_account_key_def py_identifier_def)

text \<open>Everything that can happen to the throttle between resets, in order, at given instants.\<close>

datatype login_event =
    BeginAttempt seconds string string
  | LoginFailed seconds string
  | LoginSucceeded seconds string

fun login_event_time :: "login_event \<Rightarrow> seconds" where
  "login_event_time (BeginAttempt t _ _) = t"
| "login_event_time (LoginFailed t _) = t"
| "login_event_time (LoginSucceeded t _) = t"

fun login_step :: "login_event \<Rightarrow> login_throttle \<Rightarrow> login_throttle" where
  "login_step (BeginAttempt t addr acc) lt = snd (lt_begin_attempt t addr acc lt)"
| "login_step (LoginFailed t acc) lt = lt_record_failure t acc lt"
| "login_step (LoginSucceeded t acc) lt = lt_record_success acc lt"

fun login_counted :: "login_event \<Rightarrow> login_throttle \<Rightarrow> string option" where
  "login_counted (BeginAttempt t addr acc) lt =
     (if ltd_blocked_by (fst (lt_begin_attempt t addr acc lt)) \<noteq> Some BlockedByIp
      then Some (lt_opaque_key lt ''ip'' addr) else None)"
| "login_counted _ lt = None"

definition login_configured :: "nat \<Rightarrow> seconds \<Rightarrow> login_throttle \<Rightarrow> bool" where
  "login_configured limit window lt \<longleftrightarrow> lt_ip_max_attempts lt = int limit \<and> lt_ip_window lt = window"

interpretation login_ip: window_limiter login_step login_event_time login_counted lt_ip_attempts login_configured
proof
  show "login_configured limit window (login_step r s)" if "login_configured limit window s" for limit window s r
    using that by (cases r) (auto simp: login_configured_def login_throttle_defs)
  show "length (prune (login_event_time r - window) (lt_ip_attempts s k)) < limit \<and>
      lt_ip_attempts (login_step r s) k = prune (login_event_time r - window) (lt_ip_attempts s k) @ [login_event_time r]"
    if "login_configured limit window s" and "login_counted r s = Some k" for limit window r s k
    using that by (cases r) (auto simp: login_configured_def login_throttle_defs split: if_splits)
  show "lt_ip_attempts (login_step r s) k = lt_ip_attempts s k \<or>
      lt_ip_attempts (login_step r s) k = prune (login_event_time r - window) (lt_ip_attempts s k)"
    if "login_configured limit window s" and "login_counted r s \<noteq> Some k" for limit window r s k
    using that by (cases r) (auto simp: login_configured_def login_throttle_defs split: if_splits)
qed

lemma lt_failures_fold:
  assumes "sorted (ts @ [now])" and "py_identifier acc = py_identifier acc'"
    and "\<And>t. t \<in> set ts \<Longrightarrow> sorted (lt_account_failures lt (lt_account_key lt acc') @ [t])"
    and "sorted (lt_account_failures lt (lt_account_key lt acc'))"
  shows "prune (now - lt_account_window lt)
      (lt_account_failures (fold (\<lambda>t. lt_record_failure t acc) ts lt) (lt_account_key lt acc')) =
    prune (now - lt_account_window lt) (lt_account_failures lt (lt_account_key lt acc') @ ts)"
  using assms
proof (induction ts arbitrary: lt)
  case (Cons t ts)
  let ?lt = "lt_record_failure t acc lt" and ?k = "lt_account_key lt acc'" and ?w = "lt_account_window lt"
  have key: "lt_account_key lt acc = ?k" using Cons.prems(2) by (rule lt_account_key_identifier)
  have b: "lt_account_failures ?lt ?k = prune (t - ?w) (lt_account_failures lt ?k) @ [t]"
    by (simp add: lt_record_failure_def lt_get_active_entries_def key Let_def)
  have sorted_b: "sorted (lt_account_failures lt ?k @ [t])" using Cons.prems(3) by simp
  have "sorted (lt_account_failures ?lt ?k)"
    unfolding b using prune_sorted [of "lt_account_failures lt ?k" "t - ?w"] sorted_b
      prune_subset [of "t - ?w" "lt_account_failures lt ?k"] by (auto simp: sorted_append)
  moreover have "sorted (lt_account_failures ?lt ?k @ [u])" if "u \<in> set ts" for u
    using calculation Cons.prems(1) that unfolding b by (fastforce simp: sorted_append)
  ultimately have ih: "prune (now - ?w) (lt_account_failures (fold (\<lambda>t. lt_record_failure t acc) ts ?lt) ?k) =
      prune (now - ?w) (lt_account_failures ?lt ?k @ ts)"
    using Cons.IH [of ?lt] Cons.prems(1,2) by simp
  have "t \<le> now" using Cons.prems(1) by simp
  have s1: "sorted (lt_account_failures ?lt ?k @ ts)" and s2: "sorted (lt_account_failures lt ?k @ t # ts)"
    using \<open>sorted (lt_account_failures ?lt ?k)\<close> sorted_b Cons.prems(1) unfolding b
    by (fastforce simp: sorted_append)+
  have "filter (\<lambda>a. now - ?w < a) (prune (t - ?w) (lt_account_failures lt ?k)) =
      filter (\<lambda>a. now - ?w < a) (lt_account_failures lt ?k)"
    using Cons.prems(4) \<open>t \<le> now\<close> by (auto simp: prune_sorted_filter intro: filter_cong)
  then show ?case
    using ih s1 s2 by (simp add: prune_sorted_filter b)
qed simp

text \<open>The attempts of one client address that the address limit lets through, with their instants.\<close>

fun login_admitted :: "string \<Rightarrow> login_event list \<Rightarrow> login_throttle \<Rightarrow> seconds list" where
  "login_admitted addr [] lt = []"
| "login_admitted addr (e # es) lt =
     (case e of
        BeginAttempt t a acc \<Rightarrow>
          if a = addr \<and> ltd_blocked_by (fst (lt_begin_attempt t a acc lt)) \<noteq> Some BlockedByIp then [t] else []
      | _ \<Rightarrow> []) @ login_admitted addr es (login_step e lt)"

lemma lt_opaque_key_step: "lt_opaque_key (login_step e lt) ns v = lt_opaque_key lt ns v"
  by (cases e) (simp_all add: login_throttle_defs)

lemma login_admitted_counted:
  "length (filter P (login_admitted addr es lt)) \<le>
     length (filter P (login_ip.counted_times (lt_opaque_key lt ''ip'' addr) es lt))"
proof (induction es arbitrary: lt)
  case (Cons e es)
  have "length (filter P (login_admitted addr es (login_step e lt))) \<le>
      length (filter P (login_ip.counted_times (lt_opaque_key lt ''ip'' addr) es (login_step e lt)))"
    using Cons.IH [of "login_step e lt"] by (simp add: lt_opaque_key_step)
  then show ?case by (cases e) auto
qed simp

section \<open>Properties\<close>

text \<open>
  From a new throttle, whatever attempts, failures and successes of any
  accounts are interleaved in time order, the address limit lets through at most
  \<open>ip_max_attempts\<close> login attempts of one client address in any window of
  \<open>ip_window_seconds\<close>.
\<close>

theorem login_ip_bounded:
  assumes "new_login_throttle hmac secret ip_max ip_window account_max account_window = Inr lt"
    and "sorted (map login_event_time events)"
  shows "length (filter (in_window (of_int ip_window) t) (login_admitted addr events lt)) \<le> nat ip_max"
proof -
  have "login_configured (nat ip_max) (of_int ip_window) lt"
    and "lt_ip_attempts lt (lt_opaque_key lt ''ip'' addr) = []"
    using assms(1) by (auto simp: new_login_throttle_def login_configured_def split: if_splits)
  from login_ip.counted_bounded [OF this assms(2), of t]
    login_admitted_counted [of "in_window (of_int ip_window) t" addr events lt]
  show ?thesis by linarith
qed

definition demo_hmac :: "string \<Rightarrow> string \<Rightarrow> string" where
  "demo_hmac key message = message"

definition demo_throttle :: login_throttle where
  "demo_throttle = \<lparr>lt_hmac = demo_hmac, lt_secret_key = ''k'', lt_ip_max_attempts = 2, lt_ip_window = 60,
     lt_account_max_failures = 2, lt_account_window = 300, lt_ip_attempts = (\<lambda>_. []),
     lt_account_failures = (\<lambda>_. [])\<rparr>"

lemma demo_new_throttle: "new_login_throttle demo_hmac ''k'' 2 60 2 300 = Inr demo_throttle"
  by (simp add: new_login_throttle_def demo_throttle_def)

theorem login_ip_bounded_witness:
  "length (filter (in_window 60 70)
     (login_admitted ''10.0.0.1'' [BeginAttempt 0 ''10.0.0.1'' ''a'', BeginAttempt 20 ''10.0.0.1'' ''b'',
        LoginFailed 21 ''b'', BeginAttempt 30 ''10.0.0.1'' ''c''] demo_throttle)) \<le> 2"
  using login_ip_bounded [OF demo_new_throttle, of "[BeginAttempt 0 ''10.0.0.1'' ''a'',
      BeginAttempt 20 ''10.0.0.1'' ''b'', LoginFailed 21 ''b'', BeginAttempt 30 ''10.0.0.1'' ''c'']" 70 "''10.0.0.1''"]
  by simp

text \<open>
  After a successful login has cleared an account, consecutive
  failures at instants \<open>ts\<close> lock it, under any spelling of the identifier that differs in case or
  surrounding space: an attempt the address limit lets through is allowed exactly when fewer than
  \<open>account_max_failures\<close> of the failures are younger than the account window, and it is counted
  against the address either way.
\<close>

theorem login_account_lockout:
  assumes "sorted (ts @ [now])" and "py_identifier acc = py_identifier acc'"
    and "py_identifier acc'' = py_identifier acc'"
    and "int (length (prune (now - lt_ip_window lt) (lt_ip_attempts lt (lt_opaque_key lt ''ip'' addr)))) <
           lt_ip_max_attempts lt"
  shows "let lt1 = fold (\<lambda>t. lt_record_failure t acc) ts (lt_record_success acc'' lt);
             (decision, lt2) = lt_begin_attempt now addr acc' lt1;
             recent = length (filter (\<lambda>t. now - lt_account_window lt < t) ts)
         in (ltd_allowed decision \<longleftrightarrow> int recent < lt_account_max_failures lt) \<and>
            (\<not> ltd_allowed decision \<longrightarrow> ltd_blocked_by decision = Some BlockedByAccount) \<and>
            lt_ip_attempts lt2 (lt_opaque_key lt ''ip'' addr) =
              prune (now - lt_ip_window lt) (lt_ip_attempts lt (lt_opaque_key lt ''ip'' addr)) @ [now]"
proof -
  let ?s = "lt_record_success acc'' lt"
  let ?lt1 = "fold (\<lambda>t. lt_record_failure t acc) ts ?s" and ?k = "lt_account_key lt acc'"
  have key: "lt_account_key lt acc'' = ?k" using assms(3) by (rule lt_account_key_identifier)
  have "lt_account_failures ?s ?k = []" by (simp add: lt_record_success_def key)
  moreover have "lt_account_key ?s acc' = ?k"
    by (simp add: lt_record_success_def lt_account_key_def lt_opaque_key_def)
  moreover have "lt_account_window ?s = lt_account_window lt" "lt_ip_attempts ?s = lt_ip_attempts lt"
    by (simp_all add: lt_record_success_def)
  ultimately have s: "lt_account_failures ?s ?k = []" "lt_account_key ?s acc' = ?k"
    "lt_account_window ?s = lt_account_window lt" "lt_ip_attempts ?s = lt_ip_attempts lt" .
  have frame: "lt_ip_attempts (fold (\<lambda>t. lt_record_failure t acc) us v) = lt_ip_attempts v \<and>
      lt_ip_window (fold (\<lambda>t. lt_record_failure t acc) us v) = lt_ip_window v \<and>
      lt_ip_max_attempts (fold (\<lambda>t. lt_record_failure t acc) us v) = lt_ip_max_attempts v \<and>
      lt_account_window (fold (\<lambda>t. lt_record_failure t acc) us v) = lt_account_window v \<and>
      lt_account_max_failures (fold (\<lambda>t. lt_record_failure t acc) us v) = lt_account_max_failures v \<and>
      lt_account_key (fold (\<lambda>t. lt_record_failure t acc) us v) b = lt_account_key v b \<and>
      lt_opaque_key (fold (\<lambda>t. lt_record_failure t acc) us v) ns w = lt_opaque_key v ns w" for us v b ns w
    by (induction us arbitrary: v) (simp_all add: lt_opaque_key_def)
  have conf: "lt_ip_window ?s = lt_ip_window lt" "lt_ip_max_attempts ?s = lt_ip_max_attempts lt"
    "lt_account_max_failures ?s = lt_account_max_failures lt" "lt_opaque_key ?s ns w = lt_opaque_key lt ns w" for ns w
    by (simp_all add: lt_record_success_def lt_opaque_key_def)
  have "prune (now - lt_account_window lt) (lt_account_failures ?lt1 ?k) = prune (now - lt_account_window lt) ts"
    using lt_failures_fold [OF assms(1,2), of ?s] s by simp
  also have "\<dots> = filter (\<lambda>t. now - lt_account_window lt < t) ts"
    using assms(1) by (intro prune_sorted_filter) (simp add: sorted_append)
  finally have failures: "prune (now - lt_account_window lt) (lt_account_failures ?lt1 ?k) =
      filter (\<lambda>t. now - lt_account_window lt < t) ts" .
  show ?thesis
    using assms(4)
    by (simp add: lt_begin_attempt_def lt_get_active_entries_def frame s conf failures Let_def)
qed

theorem login_account_lockout_witness:
  "\<not> ltd_allowed (fst (lt_begin_attempt 40 ''10.0.0.1'' ''Ann''
     (fold (\<lambda>t. lt_record_failure t ''ann '') [10, 20] (lt_record_success ''ann'' demo_throttle)))) \<and>
   ltd_allowed (fst (lt_begin_attempt 310 ''10.0.0.1'' ''Ann''
     (fold (\<lambda>t. lt_record_failure t ''ann '') [10, 20] (lt_record_success ''ann'' demo_throttle))))"
proof -
  have ids: "py_identifier ''ann '' = py_identifier ''Ann''" "py_identifier ''ann'' = py_identifier ''Ann''"
    by code_simp+
  have room: "int (length (prune (t - lt_ip_window demo_throttle)
      (lt_ip_attempts demo_throttle (lt_opaque_key demo_throttle ''ip'' a)))) < lt_ip_max_attempts demo_throttle" for t a
    by (simp add: demo_throttle_def prune_def)
  have conf: "lt_account_window demo_throttle = 300" "lt_account_max_failures demo_throttle = 2"
    by (simp_all add: demo_throttle_def)
  show ?thesis
    using login_account_lockout [OF _ ids room, of "[10, 20]" 40 "''10.0.0.1''"]
      login_account_lockout [OF _ ids room, of "[10, 20]" 310 "''10.0.0.1''"]
    by (simp add: conf case_prod_unfold Let_def)
qed

end
