(* ===== verification/Reset_Throttle.thy ===== *)
theory Reset_Throttle
  imports Sliding_Window Py_Values
begin

text \<open>
  \<open>src/backend/app/core/password_reset_throttle.py\<close>: the in-memory limiter of anonymous
  password-reset requests, with one queue per client address and one per account. Dictionaries,
  HMAC and the clock are modelled as in the login throttle.
\<close>

datatype reset_block_reason = ResetBlockedIp | ResetBlockedAccount | ResetBlockedIpAndAccount

record reset_throttle_decision =
  rtd_allowed :: bool
  rtd_blocked_by :: "reset_block_reason option"
  rtd_retry_after :: "int option"

record reset_throttle =
  rt_hmac :: "string \<Rightarrow> string \<Rightarrow> string"
  rt_secret_key :: string
  rt_ip_max_requests :: int
  rt_ip_window :: int
  rt_account_max_requests :: int
  rt_account_window :: int
  rt_ip_requests :: "string \<Rightarrow> seconds list"
  rt_account_requests :: "string \<Rightarrow> seconds list"

definition new_reset_throttle ::
    "(string \<Rightarrow> string \<Rightarrow> string) \<Rightarrow> string \<Rightarrow> int \<Rightarrow> int \<Rightarrow> int \<Rightarrow> int \<Rightarrow> string + reset_throttle" where
  "new_reset_throttle hmac secret_key ip_max ip_window account_max account_window =
     (if secret_key = [] then Inl ''secret_key must not be empty.''
      else if ip_max < 1 then Inl ''ip_max_requests must be at least 1.''
      else if ip_window < 1 then Inl ''ip_window_seconds must be at least 1.''
      else if account_max < 1 then Inl ''account_max_requests must be at least 1.''
      else if account_window < 1 then Inl ''account_window_seconds must be at least 1.''
      else Inr \<lparr>rt_hmac = hmac, rt_secret_key = secret_key, rt_ip_max_requests = ip_max,
        rt_ip_window = ip_window, rt_account_max_requests = account_max, rt_account_window = account_window,
        rt_ip_requests = (\<lambda>_. []), rt_account_requests = (\<lambda>_. [])\<rparr>)"

definition rt_normalize_client_address :: "string \<Rightarrow> string" where
  "rt_normalize_client_address client_address =
     (let normalized = py_lower (py_strip client_address)
      in if normalized = [] then ''unknown'' else normalized)"

definition rt_normalize_account_identifier :: "string \<Rightarrow> string" where
  "rt_normalize_account_identifier account_identifier = py_lower (py_strip account_identifier)"

definition rt_account_key :: "reset_throttle \<Rightarrow> string \<Rightarrow> string" where
  "rt_account_key rt account_identifier =
     rt_hmac rt (rt_secret_key rt) (rt_normalize_account_identifier account_identifier)"

definition rt_prune :: "seconds list \<Rightarrow> seconds \<Rightarrow> int \<Rightarrow> seconds list" where
  "rt_prune bucket now window = prune (now - of_int window) bucket"

definition rt_blocked_by :: "bool \<Rightarrow> bool \<Rightarrow> reset_block_reason" where
  "rt_blocked_by ip_blocked account_blocked =
     (if ip_blocked \<and> account_blocked then ResetBlockedIpAndAccount
      else if ip_blocked then ResetBlockedIp else ResetBlockedAccount)"

text \<open>Python's \<open>int(x)\<close> of a float truncates toward zero.\<close>

definition py_int :: "real \<Rightarrow> int" where
  "py_int x = (if 0 \<le> x then \<lfloor>x\<rfloor> else \<lceil>x\<rceil>)"

definition rt_retry_after ::
    "reset_throttle \<Rightarrow> seconds \<Rightarrow> seconds list \<Rightarrow> seconds list \<Rightarrow> bool \<Rightarrow> bool \<Rightarrow> int" where
  "rt_retry_after rt now ip_bucket account_bucket ip_blocked account_blocked =
     (let remaining_windows =
        (if ip_blocked \<and> ip_bucket \<noteq> [] then [hd ip_bucket + of_int (rt_ip_window rt) - now] else []) @
        (if account_blocked \<and> account_bucket \<noteq> []
         then [hd account_bucket + of_int (rt_account_window rt) - now] else [])
      in if remaining_windows = [] then 1
         else let longest_remaining = foldr max (tl remaining_windows) (hd remaining_windows);
                  whole_seconds = py_int longest_remaining
              in max 1 (if longest_remaining > of_int whole_seconds then whole_seconds + 1 else whole_seconds))"

definition rt_check_and_record ::
    "seconds \<Rightarrow> string \<Rightarrow> string \<Rightarrow> reset_throttle \<Rightarrow> reset_throttle_decision \<times> reset_throttle" where
  "rt_check_and_record now client_address account_identifier rt =
     (let ip_key = rt_normalize_client_address client_address;
          account_key = rt_account_key rt account_identifier;
          ip_bucket = rt_prune (rt_ip_requests rt ip_key) now (rt_ip_window rt);
          account_bucket = rt_prune (rt_account_requests rt account_key) now (rt_account_window rt);
          ip_blocked = (rt_ip_max_requests rt \<le> int (length ip_bucket));
          account_blocked = (rt_account_max_requests rt \<le> int (length account_bucket))
      in if ip_blocked \<or> account_blocked
         then (\<lparr>rtd_allowed = False, rtd_blocked_by = Some (rt_blocked_by ip_blocked account_blocked),
                rtd_retry_after = Some (rt_retry_after rt now ip_bucket account_bucket ip_blocked account_blocked)\<rparr>,
               rt\<lparr>rt_ip_requests := (rt_ip_requests rt)(ip_key := ip_bucket),
                 rt_account_requests := (rt_account_requests rt)(account_key := account_bucket)\<rparr>)
         else (\<lparr>rtd_allowed = True, rtd_blocked_by = None, rtd_retry_after = None\<rparr>,
               rt\<lparr>rt_ip_requests := (rt_ip_requests rt)(ip_key := ip_bucket @ [now]),
                 rt_account_requests := (rt_account_requests rt)(account_key := account_bucket @ [now])\<rparr>))"

section \<open>Both queues as window limiters\<close>

text \<open>A request is an instant, a client address and an account identifier.\<close>

type_synonym reset_call = "seconds \<times> string \<times> string"

fun reset_step :: "reset_call \<Rightarrow> reset_throttle \<Rightarrow> reset_throttle" where
  "reset_step (now, addr, acc) rt = snd (rt_check_and_record now addr acc rt)"

fun reset_allowed :: "reset_call \<Rightarrow> reset_throttle \<Rightarrow> bool" where
  "reset_allowed (now, addr, acc) rt = rtd_allowed (fst (rt_check_and_record now addr acc rt))"

fun reset_ip_counted :: "reset_call \<Rightarrow> reset_throttle \<Rightarrow> string option" where
  "reset_ip_counted (now, addr, acc) rt =
     (if reset_allowed (now, addr, acc) rt then Some (rt_normalize_client_address addr) else None)"

fun reset_account_counted :: "reset_call \<Rightarrow> reset_throttle \<Rightarrow> string option" where
  "reset_account_counted (now, addr, acc) rt =
     (if reset_allowed (now, addr, acc) rt then Some (rt_account_key rt acc) else None)"

definition reset_ip_configured :: "nat \<Rightarrow> seconds \<Rightarrow> reset_throttle \<Rightarrow> bool" where
  "reset_ip_configured limit window rt \<longleftrightarrow> rt_ip_max_requests rt = int limit \<and> of_int (rt_ip_window rt) = window"

definition reset_account_configured :: "nat \<Rightarrow> seconds \<Rightarrow> reset_throttle \<Rightarrow> bool" where
  "reset_account_configured limit window rt \<longleftrightarrow>
     rt_account_max_requests rt = int limit \<and> of_int (rt_account_window rt) = window"

interpretation reset_ip: window_limiter reset_step fst reset_ip_counted rt_ip_requests reset_ip_configured
  by unfold_locales
    (auto simp: rt_check_and_record_def rt_prune_def reset_ip_configured_def Let_def split: if_splits)

interpretation reset_account: window_limiter reset_step fst reset_account_counted rt_account_requests
    reset_account_configured
  by unfold_locales
    (auto simp: rt_check_and_record_def rt_prune_def reset_account_configured_def Let_def split: if_splits)

lemma rt_account_key_step [simp]: "rt_account_key (reset_step c rt) acc = rt_account_key rt acc"
  by (cases c) (simp add: rt_check_and_record_def rt_account_key_def Let_def)

fun reset_allowed_times :: "(reset_call \<Rightarrow> bool) \<Rightarrow> reset_call list \<Rightarrow> reset_throttle \<Rightarrow> seconds list" where
  "reset_allowed_times p [] rt = []"
| "reset_allowed_times p (c # cs) rt =
     (if p c \<and> reset_allowed c rt then [fst c] else []) @ reset_allowed_times p cs (reset_step c rt)"

lemma reset_allowed_ip_counted:
  "length (filter P (reset_allowed_times (\<lambda>(_, a, _). rt_normalize_client_address a = k) cs rt)) \<le>
     length (filter P (reset_ip.counted_times k cs rt))"
  by (induction cs arbitrary: rt) (auto split: prod.splits)

lemma reset_allowed_account_counted:
  "length (filter P (reset_allowed_times (\<lambda>(_, _, b). py_identifier b = py_identifier acc) cs rt)) \<le>
     length (filter P (reset_account.counted_times (rt_account_key rt acc) cs rt))"
proof (induction cs arbitrary: rt)
  case (Cons c cs)
  have "length (filter P (reset_allowed_times (\<lambda>(_, _, b). py_identifier b = py_identifier acc) cs (reset_step c rt))) \<le>
      length (filter P (reset_account.counted_times (rt_account_key rt acc) cs (reset_step c rt)))"
    using Cons.IH [of "reset_step c rt"] by simp
  moreover have "reset_account_counted c rt = Some (rt_account_key rt acc)"
    if "(\<lambda>(_, _, b). py_identifier b = py_identifier acc) c" and "reset_allowed c rt"
    using that by (cases c) (simp add: rt_account_key_def rt_normalize_account_identifier_def py_identifier_def)
  ultimately show ?case
    by (cases "(\<lambda>(_, _, b). py_identifier b = py_identifier acc) c \<and> reset_allowed c rt")
      (simp_all only: reset_allowed_times.simps reset_account.counted_times.simps if_True if_False
        filter_append length_append append_Nil simp_thms add_mono le_add2 order_trans [OF _ le_add2])
qed simp

text \<open>The state between calls: every queue is in time order, in the past, and within its limit.\<close>

definition reset_inv :: "seconds \<Rightarrow> reset_throttle \<Rightarrow> bool" where
  "reset_inv now rt \<longleftrightarrow> 1 \<le> rt_ip_window rt \<and> 1 \<le> rt_account_window rt \<and>
     1 \<le> rt_ip_max_requests rt \<and> 1 \<le> rt_account_max_requests rt \<and>
     (\<forall>k. sorted (rt_ip_requests rt k @ [now]) \<and> int (length (rt_ip_requests rt k)) \<le> rt_ip_max_requests rt) \<and>
     (\<forall>k. sorted (rt_account_requests rt k @ [now]) \<and>
        int (length (rt_account_requests rt k)) \<le> rt_account_max_requests rt)"

lemma sorted_prune_snoc: "sorted (b @ [t]) \<Longrightarrow> t \<le> now \<Longrightarrow> sorted (prune c b @ [now])"
  using prune_sorted [of b c] prune_subset [of c b] by (auto simp: sorted_append dest!: subsetD)

lemma sorted_snoc_snoc: "sorted (b @ [t]) \<Longrightarrow> t \<le> now \<Longrightarrow> sorted ((b @ [t]) @ [now :: real])"
  by (auto simp: sorted_append)

lemma sorted_snoc_mono: "sorted (b @ [t]) \<Longrightarrow> t \<le> now \<Longrightarrow> sorted (b @ [now :: real])"
  by (auto simp: sorted_append)

lemma reset_inv_step:
  assumes "reset_inv earlier rt" and "earlier \<le> fst c"
  shows "reset_inv (fst c) (reset_step c rt)"
proof -
  obtain now addr acc where c: "c = (now, addr, acc)" by (metis prod_cases3)
  have sorted_ip: "sorted (prune x (rt_ip_requests rt k) @ [now])"
    and sorted_acc: "sorted (prune x (rt_account_requests rt k) @ [now])" for x k
    using assms by (auto simp: reset_inv_def c intro: sorted_prune_snoc)
  have kept_ip: "sorted (rt_ip_requests rt k @ [now])" and kept_acc: "sorted (rt_account_requests rt k @ [now])" for k
    using assms by (auto simp: reset_inv_def c intro: sorted_snoc_mono)
  have len_ip: "int (length (prune x (rt_ip_requests rt k))) \<le> rt_ip_max_requests rt"
    and len_acc: "int (length (prune x (rt_account_requests rt k))) \<le> rt_account_max_requests rt" for x k
    using assms(1) prune_length [of x "rt_ip_requests rt k"] prune_length [of x "rt_account_requests rt k"]
    by (auto simp: reset_inv_def intro: order_trans [OF of_nat_mono])
  show ?thesis
    using assms(1) sorted_ip sorted_acc kept_ip kept_acc len_ip len_acc
      sorted_snoc_snoc [OF sorted_ip order_refl] sorted_snoc_snoc [OF sorted_acc order_refl]
    by (auto simp: c reset_inv_def rt_check_and_record_def rt_prune_def Let_def)
qed

lemma reset_inv_run:
  "reset_inv earlier rt \<Longrightarrow> sorted (earlier # map fst cs @ [now]) \<Longrightarrow> reset_inv now (fold reset_step cs rt)"
proof (induction cs arbitrary: earlier rt)
  case Nil
  then show ?case by (auto simp: reset_inv_def intro: sorted_snoc_mono)
next
  case (Cons c cs)
  from reset_inv_step [OF Cons.prems(1)] Cons.prems(2) Cons.IH [of "fst c" "reset_step c rt"]
  show ?case by auto
qed

lemma py_int_round_up:
  assumes "0 < x" and "x \<le> of_int n"
  defines "r \<equiv> max 1 (if x > of_int (py_int x) then py_int x + 1 else py_int x)"
  shows "1 \<le> r" and "x \<le> of_int r" and "r \<le> n"
proof -
  let ?y = "if x > of_int (py_int x) then py_int x + 1 else py_int x"
  have f: "py_int x = \<lfloor>x\<rfloor>" using assms(1) by (simp add: py_int_def)
  show "1 \<le> r" by (simp add: r_def)
  have "x \<le> of_int ?y" unfolding f by (auto; linarith)
  moreover have "real_of_int ?y \<le> of_int r" by (simp only: of_int_le_iff r_def max.cobounded2)
  ultimately show "x \<le> of_int r" by linarith
  have "0 < n" using assms(1,2) by linarith
  moreover have "?y \<le> n" using assms(2) unfolding f
    by (auto; linarith)
  ultimately show "r \<le> n" by (simp add: r_def)
qed

lemma new_reset_throttle_inv:
  "new_reset_throttle hmac secret ip_max ip_window account_max account_window = Inr rt \<Longrightarrow>
     reset_inv now rt \<and> rt_ip_max_requests rt = ip_max \<and> rt_ip_window rt = ip_window \<and>
     rt_account_max_requests rt = account_max \<and> rt_account_window rt = account_window"
  by (auto simp: new_reset_throttle_def reset_inv_def split: if_splits)

lemma reset_config_run:
  "rt_ip_window (fold reset_step cs rt) = rt_ip_window rt \<and>
   rt_account_window (fold reset_step cs rt) = rt_account_window rt \<and>
   rt_ip_max_requests (fold reset_step cs rt) = rt_ip_max_requests rt \<and>
   rt_account_max_requests (fold reset_step cs rt) = rt_account_max_requests rt"
proof (induction cs arbitrary: rt)
  case (Cons c cs)
  obtain now addr acc where "c = (now, addr, acc)" by (metis prod_cases3)
  then show ?case using Cons.IH [of "reset_step c rt"] by (simp add: rt_check_and_record_def Let_def)
qed simp

text \<open>A full queue has room again once its oldest instant has left the window.\<close>

lemma room_after_expiry:
  assumes "int (length b) \<le> limit" and "1 \<le> limit" and "b \<noteq> [] \<longrightarrow> hd b + of_int window - now \<le> of_int r"
    and "now + of_int r \<le> later"
  shows "int (length (prune (later - of_int window) b)) < limit"
proof (cases b)
  case (Cons x xs)
  have "x \<le> later - of_int window" using assms(3,4) Cons by simp
  then have "length (prune (later - of_int window) b) \<le> length xs"
    by (simp add: Cons prune_def length_dropWhile_le)
  then show ?thesis using assms(1) Cons by simp
qed (use assms(2) in \<open>simp add: prune_def\<close>)

lemma room_kept:
  "int (length b) < limit \<Longrightarrow> int (length (prune c b)) < limit"
  using prune_length [of c b] by linarith

lemma prune_hd_remaining:
  assumes "prune (now - of_int window) b \<noteq> []" and "\<forall>t \<in> set b. t \<le> now"
  shows "0 < hd (prune (now - of_int window) b) + of_int window - now \<and>
    hd (prune (now - of_int window) b) + of_int window - now \<le> of_int window"
proof -
  let ?h = "hd (prune (now - of_int window) b)"
  have "\<not> ?h \<le> now - of_int window"
    using assms(1) hd_dropWhile [of "\<lambda>t. t \<le> now - of_int window" b] by (simp add: prune_def)
  moreover have "?h \<in> set b"
    using hd_in_set [OF assms(1)] prune_subset by (meson subsetD)
  ultimately show ?thesis using assms(2) by auto
qed

lemma retry_after_bounds:
  assumes "ipb \<or> accb" and "ipb \<longrightarrow> ib \<noteq> [] \<and> 0 < hd ib + of_int (rt_ip_window rt) - now \<and>
      hd ib + of_int (rt_ip_window rt) - now \<le> of_int (rt_ip_window rt)"
    and "accb \<longrightarrow> ab \<noteq> [] \<and> 0 < hd ab + of_int (rt_account_window rt) - now \<and>
      hd ab + of_int (rt_account_window rt) - now \<le> of_int (rt_account_window rt)"
  shows "1 \<le> rt_retry_after rt now ib ab ipb accb \<and>
    rt_retry_after rt now ib ab ipb accb \<le> max (rt_ip_window rt) (rt_account_window rt) \<and>
    (ipb \<longrightarrow> hd ib + of_int (rt_ip_window rt) - now \<le> of_int (rt_retry_after rt now ib ab ipb accb)) \<and>
    (accb \<longrightarrow> hd ab + of_int (rt_account_window rt) - now \<le> of_int (rt_retry_after rt now ib ab ipb accb))"
proof -
  let ?i = "hd ib + of_int (rt_ip_window rt) - now" and ?a = "hd ab + of_int (rt_account_window rt) - now"
  let ?x = "if ipb \<and> accb then max ?a ?i else if ipb then ?i else ?a"
  have r: "rt_retry_after rt now ib ab ipb accb =
      max 1 (if ?x > of_int (py_int ?x) then py_int ?x + 1 else py_int ?x)"
    using assms by (auto simp: rt_retry_after_def Let_def)
  have "0 < ?x" and "?x \<le> of_int (max (rt_ip_window rt) (rt_account_window rt))"
    using assms by auto
  note b = py_int_round_up [OF this]
  have "ipb \<longrightarrow> ?i \<le> ?x" and "accb \<longrightarrow> ?a \<le> ?x" using assms(1) by auto
  then show ?thesis using b unfolding r [symmetric] by auto
qed

section \<open>Properties\<close>

text \<open>
  From a new limiter, in any run of requests in time order, at most
  \<open>ip_max_requests\<close> requests of one normalised client address and at most
  \<open>account_max_requests\<close> requests for one account, however its identifier is spelled, are allowed
  in any window of the respective length.
\<close>

theorem reset_requests_bounded:
  assumes "new_reset_throttle hmac secret ip_max ip_window account_max account_window = Inr rt"
    and "sorted (map fst calls)"
  shows "length (filter (in_window (of_int ip_window) t)
      (reset_allowed_times (\<lambda>(_, a, _). rt_normalize_client_address a = addr) calls rt)) \<le> nat ip_max \<and>
    length (filter (in_window (of_int account_window) t)
      (reset_allowed_times (\<lambda>(_, _, b). py_identifier b = py_identifier acc) calls rt)) \<le> nat account_max"
proof
  have "reset_ip_configured (nat ip_max) (of_int ip_window) rt" and "rt_ip_requests rt addr = []"
    using assms(1) by (auto simp: new_reset_throttle_def reset_ip_configured_def split: if_splits)
  from reset_ip.counted_bounded [OF this assms(2)]
  show "length (filter (in_window (of_int ip_window) t)
      (reset_allowed_times (\<lambda>(_, a, _). rt_normalize_client_address a = addr) calls rt)) \<le> nat ip_max"
    using reset_allowed_ip_counted order_trans by blast
  have "reset_account_configured (nat account_max) (of_int account_window) rt"
    and "rt_account_requests rt (rt_account_key rt acc) = []"
    using assms(1) by (auto simp: new_reset_throttle_def reset_account_configured_def split: if_splits)
  from reset_account.counted_bounded [OF this assms(2)]
  show "length (filter (in_window (of_int account_window) t)
      (reset_allowed_times (\<lambda>(_, _, b). py_identifier b = py_identifier acc) calls rt)) \<le> nat account_max"
    using reset_allowed_account_counted order_trans by blast
qed

definition demo_reset_hmac :: "string \<Rightarrow> string \<Rightarrow> string" where
  "demo_reset_hmac key message = message"

definition demo_reset_throttle :: reset_throttle where
  "demo_reset_throttle = \<lparr>rt_hmac = demo_reset_hmac, rt_secret_key = ''k'', rt_ip_max_requests = 1,
     rt_ip_window = 60, rt_account_max_requests = 1, rt_account_window = 300, rt_ip_requests = (\<lambda>_. []),
     rt_account_requests = (\<lambda>_. [])\<rparr>"

lemma demo_new_reset_throttle: "new_reset_throttle demo_reset_hmac ''k'' 1 60 1 300 = Inr demo_reset_throttle"
  by (simp add: new_reset_throttle_def demo_reset_throttle_def)

theorem reset_requests_bounded_witness:
  "length (filter (in_window 60 50)
      (reset_allowed_times (\<lambda>(_, a, _). rt_normalize_client_address a = ''10.0.0.1'')
        [(0, ''10.0.0.1'', ''ann''), (10, ''10.0.0.1 '', ''bob''), (40, ''10.0.0.2'', ''ann'')] demo_reset_throttle)) \<le> 1"
  using reset_requests_bounded [OF demo_new_reset_throttle,
      of "[(0, ''10.0.0.1'', ''ann''), (10, ''10.0.0.1 '', ''bob''), (40, ''10.0.0.2'', ''ann'')]"
         50 "''10.0.0.1''" "''ann''"]
  by simp

text \<open>
  In a state reached from a new limiter, a denied request gets a wait
  between one second and the longer window, it is not recorded in either queue, and the same
  request made after that wait, with no other request between, is allowed.
\<close>

theorem reset_retry_after:
  assumes "new_reset_throttle hmac secret ip_max ip_window account_max account_window = Inr rt0"
    and "sorted (map fst calls @ [now])"
    and "rt_check_and_record now addr acc (fold reset_step calls rt0) = (d, rt')" and "\<not> rtd_allowed d"
  shows "\<exists>wait. rtd_retry_after d = Some wait \<and> 1 \<le> wait \<and> wait \<le> max ip_window account_window \<and>
    (\<forall>k. set (rt_ip_requests rt' k) \<subseteq> set (rt_ip_requests (fold reset_step calls rt0) k)) \<and>
    (\<forall>k. set (rt_account_requests rt' k) \<subseteq> set (rt_account_requests (fold reset_step calls rt0) k)) \<and>
    (\<forall>later. now + of_int wait \<le> later \<longrightarrow> rtd_allowed (fst (rt_check_and_record later addr acc rt')))"
proof -
  let ?rt = "fold reset_step calls rt0"
  let ?k = "rt_normalize_client_address addr" and ?a = "rt_account_key ?rt acc"
  let ?ib = "prune (now - of_int (rt_ip_window ?rt)) (rt_ip_requests ?rt ?k)"
  let ?ab = "prune (now - of_int (rt_account_window ?rt)) (rt_account_requests ?rt ?a)"
  let ?ipb = "rt_ip_max_requests ?rt \<le> int (length ?ib)"
  let ?accb = "rt_account_max_requests ?rt \<le> int (length ?ab)"
  let ?r = "rt_retry_after ?rt now ?ib ?ab ?ipb ?accb"
  note new = new_reset_throttle_inv [OF assms(1)]
  have inv: "reset_inv now ?rt"
  proof (cases calls)
    case Nil
    then show ?thesis using new by simp
  next
    case (Cons c cs)
    have "sorted (fst c # map fst calls @ [now])" using assms(2) Cons by simp
    with new show ?thesis by (intro reset_inv_run [of "fst c"]) simp_all
  qed
  have blocked: "?ipb \<or> ?accb" and d: "rtd_retry_after d = Some ?r"
    and rt': "rt' = ?rt\<lparr>rt_ip_requests := (rt_ip_requests ?rt)(?k := ?ib),
      rt_account_requests := (rt_account_requests ?rt)(?a := ?ab)\<rparr>"
    using assms(3,4) by (auto simp: rt_check_and_record_def rt_prune_def Let_def split: if_splits)
  have past: "\<forall>t \<in> set (rt_ip_requests ?rt ?k). t \<le> now" "\<forall>t \<in> set (rt_account_requests ?rt ?a). t \<le> now"
    and pos: "1 \<le> rt_ip_max_requests ?rt" "1 \<le> rt_account_max_requests ?rt"
    using inv by (auto simp: reset_inv_def sorted_append)
  have ne: "?ipb \<longrightarrow> ?ib \<noteq> []" "?accb \<longrightarrow> ?ab \<noteq> []" using pos by auto
  note bounds = retry_after_bounds [OF blocked, of ?ib ?rt now ?ab]
  have r: "1 \<le> ?r \<and> ?r \<le> max ip_window account_window \<and>
      (?ipb \<longrightarrow> hd ?ib + of_int (rt_ip_window ?rt) - now \<le> of_int ?r) \<and>
      (?accb \<longrightarrow> hd ?ab + of_int (rt_account_window ?rt) - now \<le> of_int ?r)"
    using bounds ne prune_hd_remaining [OF _ past(1)] prune_hd_remaining [OF _ past(2)]
      reset_config_run [of calls rt0] new by simp
  have len: "int (length ?ib) \<le> rt_ip_max_requests ?rt" "int (length ?ab) \<le> rt_account_max_requests ?rt"
    using inv prune_length order_trans unfolding reset_inv_def by (metis of_nat_mono)+
  have key': "rt_account_key rt' acc = ?a" by (simp add: rt' rt_account_key_def)
  have "rtd_allowed (fst (rt_check_and_record later addr acc rt'))" if "now + of_int ?r \<le> later" for later
  proof -
    have "int (length (prune (later - of_int (rt_ip_window ?rt)) ?ib)) < rt_ip_max_requests ?rt"
      using room_after_expiry [OF len(1) pos(1) _ that] room_kept r by (cases ?ipb) auto
    moreover have "int (length (prune (later - of_int (rt_account_window ?rt)) ?ab)) < rt_account_max_requests ?rt"
      using room_after_expiry [OF len(2) pos(2) _ that] room_kept r by (cases ?accb) auto
    ultimately show ?thesis
      by (simp add: rt_check_and_record_def rt_prune_def key' Let_def) (simp add: rt')
  qed
  moreover have "set (rt_ip_requests rt' k) \<subseteq> set (rt_ip_requests ?rt k)"
    and "set (rt_account_requests rt' k) \<subseteq> set (rt_account_requests ?rt k)" for k
    using prune_subset by (auto simp: rt')
  ultimately show ?thesis using d r by blast
qed

lemma demo_reset_denied:
  "\<not> rtd_allowed (fst (rt_check_and_record 10 ''a'' ''y'' (fold reset_step [(0, ''a'', ''x'')] demo_reset_throttle)))"
proof -
  have "rt_normalize_client_address ''a'' = ''a''" by code_simp
  then show ?thesis
    by (simp add: rt_check_and_record_def rt_prune_def prune_def demo_reset_throttle_def rt_account_key_def Let_def)
qed

theorem reset_retry_after_witness:
  "\<exists>wait. rtd_retry_after (fst (rt_check_and_record 10 ''a'' ''y''
       (fold reset_step [(0, ''a'', ''x'')] demo_reset_throttle))) = Some wait \<and> 1 \<le> wait \<and> wait \<le> 300"
proof -
  obtain d rt' where run: "rt_check_and_record 10 ''a'' ''y''
      (fold reset_step [(0, ''a'', ''x'')] demo_reset_throttle) = (d, rt')" by fastforce
  then have "\<not> rtd_allowed d" using demo_reset_denied by simp
  from reset_retry_after [OF demo_new_reset_throttle _ run this] show ?thesis
    unfolding run by auto
qed

end
