(* ===== verification/Auth_Routes.thy ===== *)
theory Auth_Routes
  imports Password_Reset Login_Throttle Reset_Throttle
begin

text \<open>
  The authentication endpoints of \<open>src/backend/app/api/routes/auth.py\<close>, the cookies of
  \<open>core/auth_cookies.py\<close>, the bearer dependency \<open>get_current_user\<close> of \<open>api/dependencies.py\<close> and the
  unit of work of \<open>db/session.py\<close>: an endpoint that returns commits its database writes, one that
  raises rolls them back. Throttles and security events are outside the transaction.

  An endpoint is a function from the application's state, the request and what the request draws
  to its reply and the new state. \<open>Raised\<close> replies are HTTPExceptions, and 500 for an exception no
  handler names. Security events keep their name, outcome and reason.
\<close>

section \<open>Requests, replies and state\<close>

datatype auth_error_code =
    ACCESS_CREDENTIALS_INVALID | LOGIN_CREDENTIALS_INVALID | LOGIN_THROTTLED
  | REFRESH_CREDENTIALS_INVALID | CSRF_VALIDATION_FAILED | REAUTHENTICATION_FAILED
  | REAUTHENTICATION_REQUIRED | PASSWORD_CHANGE_REJECTED | PASSWORD_RESET_THROTTLED
  | PASSWORD_RESET_CREDENTIAL_INVALID | PASSWORD_RESET_PASSWORD_REJECTED

datatype cookie_change = CookieKept | CookieCleared | CookieSet string "int option"

record auth_reply =
  rp_status :: int
  rp_error_code :: "auth_error_code option"
  rp_retry_after :: "int option"
  rp_refresh_cookie :: cookie_change
  rp_csrf_cookie :: cookie_change
  rp_access_token :: "string option"
  rp_reauth :: "(string \<times> int) option"
  rp_user :: "user option"

datatype handler_exit = Returned auth_reply | Raised auth_reply

record security_event =
  ev_event :: string
  ev_outcome :: string
  ev_reason :: "string option"

record auth_request =
  rq_client_host :: "string option"
  rq_bearer :: "string option"
  rq_refresh_cookie :: "string option"
  rq_csrf_cookie :: "string option"
  rq_csrf_header :: "string option"

record auth_app =
  app_db :: auth_db
  app_login_throttle :: login_throttle
  app_reset_throttle :: reset_throttle
  app_events :: "security_event list"

definition plain_reply :: "int \<Rightarrow> auth_reply" where
  "plain_reply code = \<lparr>rp_status = code, rp_error_code = None, rp_retry_after = None,
     rp_refresh_cookie = CookieKept, rp_csrf_cookie = CookieKept, rp_access_token = None,
     rp_reauth = None, rp_user = None\<rparr>"

definition http_exception :: "int \<Rightarrow> auth_error_code \<Rightarrow> handler_exit" where
  "http_exception code e = Raised (plain_reply code\<lparr>rp_error_code := Some e\<rparr>)"

definition unhandled :: handler_exit where
  "unhandled = Raised (plain_reply 500)"

definition emit :: "string \<Rightarrow> string \<Rightarrow> string option \<Rightarrow> auth_app \<Rightarrow> auth_app" where
  "emit event outcome reason app =
     app\<lparr>app_events := app_events app @ [\<lparr>ev_event = event, ev_outcome = outcome, ev_reason = reason\<rparr>]\<rparr>"

definition unit_of_work :: "(auth_app \<Rightarrow> handler_exit \<times> auth_app) \<Rightarrow> auth_app \<Rightarrow> auth_reply \<times> auth_app" where
  "unit_of_work handler app =
     (case handler app of
        (Returned r, app') \<Rightarrow> (r, app')
      | (Raised r, app') \<Rightarrow> (r, app'\<lparr>app_db := app_db app\<rparr>))"

section \<open>Cookies\<close>

text \<open>Empty cookie values are treated as absent.\<close>

definition get_cookie :: "string option \<Rightarrow> string option" where
  "get_cookie v = (case v of Some [] \<Rightarrow> None | _ \<Rightarrow> v)"

definition refresh_cookie_max_age :: "security \<Rightarrow> instant \<Rightarrow> instant \<Rightarrow> string \<Rightarrow> token_validation_error + int" where
  "refresh_cookie_max_age sec decode_now now token =
     (case decode_refresh_token sec decode_now token of
        Inl e \<Rightarrow> Inl e
      | Inr c \<Rightarrow> Inr (max 0 (py_int (of_int (rc_expires_at c - now) / of_int us_per_second))))"

definition clear_auth_cookies :: "auth_reply \<Rightarrow> auth_reply" where
  "clear_auth_cookies r = r\<lparr>rp_refresh_cookie := CookieCleared, rp_csrf_cookie := CookieCleared\<rparr>"

section \<open>The bearer dependency\<close>

definition get_current_user ::
    "security \<Rightarrow> auth_draws \<Rightarrow> auth_request \<Rightarrow> auth_app \<Rightarrow> (handler_exit + user) \<times> auth_app" where
  "get_current_user sec d req app =
     (case get_cookie (rq_bearer req) of
        None \<Rightarrow> (Inl (http_exception 401 ACCESS_CREDENTIALS_INVALID),
                 emit ''auth.access_token.failed'' ''failure'' (Some ''missing_access_token'') app)
      | Some token \<Rightarrow>
          (case resolve_access_token sec d token (app_db app) of
             Inl _ \<Rightarrow> (Inl (http_exception 401 ACCESS_CREDENTIALS_INVALID),
                      emit ''auth.access_token.failed'' ''failure'' (Some ''invalid_access_token'') app)
           | Inr u \<Rightarrow> (Inr u, app)))"

section \<open>Registration and login\<close>

definition email_local_part :: "string \<Rightarrow> string" where
  "email_local_part email = py_strip (case py_partition (CHR ''@'') email of None \<Rightarrow> email | Some (a, _) \<Rightarrow> a)"

definition register_account ::
    "security \<Rightarrow> instant \<times> instant \<Rightarrow> uuid \<Rightarrow> nat \<Rightarrow> string \<Rightarrow> string \<Rightarrow> auth_app \<Rightarrow> handler_exit \<times> auth_app" where
  "register_account sec now fresh_id salt email password app =
     (let normalized_email = py_lower (py_strip email);
          local_part = email_local_part normalized_email;
          display_name = if local_part = [] then ''OpsFlow User'' else take 120 local_part
      in case create_user sec now fresh_id salt normalized_email display_name password VIEWER (app_db app) of
           (Inr u, db) \<Rightarrow> (Returned (plain_reply 201\<lparr>rp_user := Some u\<rparr>), app\<lparr>app_db := db\<rparr>)
         | (Inl (UserAlreadyExistsError _), db) \<Rightarrow> (Raised (plain_reply 409), app\<lparr>app_db := db\<rparr>)
         | (Inl (CreateUserDatabaseError _), db) \<Rightarrow> (unhandled, app\<lparr>app_db := db\<rparr>))"

definition client_address :: "auth_request \<Rightarrow> string" where
  "client_address req = (case rq_client_host req of None \<Rightarrow> ''unknown'' | Some h \<Rightarrow> h)"

text \<open>\<open>t_begin\<close>, \<open>t_fail\<close> are the throttle's own readings of its monotonic clock.\<close>

definition login_for_access_token ::
    "security \<Rightarrow> auth_draws \<Rightarrow> seconds \<Rightarrow> seconds \<Rightarrow> auth_request \<Rightarrow> string \<Rightarrow> string \<Rightarrow> auth_app \<Rightarrow>
     handler_exit \<times> auth_app" where
  "login_for_access_token sec d t_begin t_fail req username password app =
     (let (decision, lt) = lt_begin_attempt t_begin (client_address req) username (app_login_throttle app);
          app1 = app\<lparr>app_login_throttle := lt\<rparr>
      in if \<not> ltd_allowed decision
         then (http_exception 429 LOGIN_THROTTLED,
               emit ''auth.login.throttled'' ''blocked''
                 (Some (case ltd_blocked_by decision of Some BlockedByIp \<Rightarrow> ''ip'' | Some BlockedByAccount \<Rightarrow> ''account''
                    | None \<Rightarrow> ''unknown'')) app1)
         else case authenticate sec username password (app_db app1) of
           Inl _ \<Rightarrow>
             (http_exception 401 LOGIN_CREDENTIALS_INVALID,
              emit ''auth.login.failed'' ''failure'' (Some ''invalid_credentials'')
                (app1\<lparr>app_login_throttle := lt_record_failure t_fail username (app_login_throttle app1)\<rparr>))
         | Inr u \<Rightarrow>
             let app2 = app1\<lparr>app_login_throttle := lt_record_success username (app_login_throttle app1)\<rparr>
             in case issue_authentication_result sec d u (app_db app2) of
                  (Inl _, db) \<Rightarrow> (unhandled, app2\<lparr>app_db := db\<rparr>)
                | (Inr res, db) \<Rightarrow>
                    (case refresh_cookie_max_age sec (dr_cookie_decode_now d) (dr_cookie_now d) (res_refresh_token res) of
                       Inl _ \<Rightarrow> (unhandled, app2\<lparr>app_db := db\<rparr>)
                     | Inr max_age \<Rightarrow>
                         (Returned (plain_reply 200\<lparr>rp_access_token := Some (res_access_token res),
                            rp_refresh_cookie := CookieSet (res_refresh_token res) (Some max_age),
                            rp_csrf_cookie := CookieSet (res_csrf_token res) None\<rparr>),
                          emit ''auth.login.succeeded'' ''success'' None (app2\<lparr>app_db := db\<rparr>))))"

section \<open>Reauthentication and password change\<close>

definition reauthenticate_current_user ::
    "security \<Rightarrow> auth_draws \<Rightarrow> auth_request \<Rightarrow> string \<Rightarrow> auth_app \<Rightarrow> handler_exit \<times> auth_app" where
  "reauthenticate_current_user sec d req password app =
     (case get_current_user sec d req app of (Inl e, app1) \<Rightarrow> (e, app1) | (Inr u, app1) \<Rightarrow>
      case reauthenticate sec d u password (app_db app1) of
        Inr (token, ttl) \<Rightarrow>
          (Returned (plain_reply 200\<lparr>rp_reauth := Some (token, ttl)\<rparr>),
           emit ''auth.reauthentication.succeeded'' ''success'' None app1)
      | Inl (ReauthenticationError _) \<Rightarrow>
          (http_exception 401 REAUTHENTICATION_FAILED,
           emit ''auth.reauthentication.failed'' ''failure'' (Some ''invalid_current_password'') app1)
      | Inl _ \<Rightarrow> (unhandled, app1))"

definition change_current_user_password ::
    "security \<Rightarrow> auth_draws \<Rightarrow> auth_request \<Rightarrow> string \<Rightarrow> string \<Rightarrow> auth_app \<Rightarrow> handler_exit \<times> auth_app" where
  "change_current_user_password sec d req reauth_token new_password app =
     (case get_current_user sec d req app of (Inl e, app1) \<Rightarrow> (e, app1) | (Inr u, app1) \<Rightarrow>
      case change_password sec d u reauth_token new_password (app_db app1) of
        (Inr _, db) \<Rightarrow>
          (Returned (clear_auth_cookies (plain_reply 204)),
           emit ''auth.password_change.succeeded'' ''success'' None (app1\<lparr>app_db := db\<rparr>))
      | (Inl (ReauthenticationError _), db) \<Rightarrow>
          (http_exception 403 REAUTHENTICATION_REQUIRED,
           emit ''auth.password_change.blocked'' ''blocked'' (Some ''invalid_or_stale_reauthentication'')
             (app1\<lparr>app_db := db\<rparr>))
      | (Inl (PasswordChangeError _), db) \<Rightarrow>
          (http_exception 400 PASSWORD_CHANGE_REJECTED,
           emit ''auth.password_change.failed'' ''failure'' (Some ''password_policy_rejected'')
             (app1\<lparr>app_db := db\<rparr>))
      | (Inl _, db) \<Rightarrow> (unhandled, app1\<lparr>app_db := db\<rparr>))"

section \<open>Password recovery\<close>

text \<open>
  \<open>deliver\<close> is the delivery coordinator: \<open>False\<close> when the provider raises its delivery error. The
  route lets that error out; the handler \<open>create_app\<close> registers for it answers as if the mail had
  been sent, after the transaction has been rolled back.
\<close>

definition password_reset_delivery_error_handler :: handler_exit where
  "password_reset_delivery_error_handler = Raised (plain_reply 202)"

definition request_password_reset ::
    "security \<Rightarrow> reset_draws \<Rightarrow> int \<Rightarrow> (password_reset_issue_result \<Rightarrow> bool) \<Rightarrow> seconds \<Rightarrow> auth_request \<Rightarrow>
     string \<Rightarrow> auth_app \<Rightarrow> handler_exit \<times> auth_app" where
  "request_password_reset sec d token_ttl deliver now req email app =
     (let (decision, rt) = rt_check_and_record now (client_address req) email (app_reset_throttle app);
          app1 = app\<lparr>app_reset_throttle := rt\<rparr>;
          accepted = (\<lambda>a. (Returned (plain_reply 202), emit ''auth.password_reset.requested'' ''success'' None a))
      in if \<not> rtd_allowed decision
         then (Raised (plain_reply 429\<lparr>rp_error_code := Some PASSWORD_RESET_THROTTLED,
                 rp_retry_after := rtd_retry_after decision\<rparr>),
               emit ''auth.password_reset.throttled'' ''blocked''
                 (Some (case rtd_blocked_by decision of Some ResetBlockedIp \<Rightarrow> ''ip''
                    | Some ResetBlockedAccount \<Rightarrow> ''account''
                    | Some ResetBlockedIpAndAccount \<Rightarrow> ''ip_and_account'' | None \<Rightarrow> ''unknown'')) app1)
         else case request_reset sec d token_ttl email (app_db app1) of
           (Inl _, db) \<Rightarrow> (unhandled, app1\<lparr>app_db := db\<rparr>)
         | (Inr None, db) \<Rightarrow> accepted (app1\<lparr>app_db := db\<rparr>)
         | (Inr (Some issuance), db) \<Rightarrow>
             if \<not> deliver issuance
             then (password_reset_delivery_error_handler, emit ''auth.password_reset.delivery_failed'' ''failure''
                     (Some ''delivery_provider_failure'') (app1\<lparr>app_db := db\<rparr>))
             else accepted (app1\<lparr>app_db := db\<rparr>))"

definition confirm_password_reset ::
    "security \<Rightarrow> reset_draws \<Rightarrow> string \<Rightarrow> string \<Rightarrow> auth_app \<Rightarrow> handler_exit \<times> auth_app" where
  "confirm_password_reset sec d token new_password app =
     (case confirm_reset sec d token new_password (app_db app) of
        (Inr _, db) \<Rightarrow>
          (Returned (clear_auth_cookies (plain_reply 204)),
           emit ''auth.password_reset.completed'' ''success'' None (app\<lparr>app_db := db\<rparr>))
      | (Inl (InvalidPasswordResetCredentialError _), db) \<Rightarrow>
          (http_exception 400 PASSWORD_RESET_CREDENTIAL_INVALID,
           emit ''auth.password_reset.failed'' ''failure'' (Some ''invalid_or_expired_reset_credential'')
             (app\<lparr>app_db := db\<rparr>))
      | (Inl (PasswordResetPasswordError _), db) \<Rightarrow>
          (http_exception 400 PASSWORD_RESET_PASSWORD_REJECTED,
           emit ''auth.password_reset.failed'' ''failure'' (Some ''replacement_password_rejected'')
             (app\<lparr>app_db := db\<rparr>))
      | (Inl (PasswordResetDatabaseError _), db) \<Rightarrow> (unhandled, app\<lparr>app_db := db\<rparr>))"

section \<open>Refresh and logout\<close>

definition refresh_access_token ::
    "security \<Rightarrow> auth_draws \<Rightarrow> auth_request \<Rightarrow> auth_app \<Rightarrow> handler_exit \<times> auth_app" where
  "refresh_access_token sec d req app =
     (case get_cookie (rq_refresh_cookie req) of
        None \<Rightarrow> (http_exception 401 REFRESH_CREDENTIALS_INVALID,
                 emit ''auth.refresh.failed'' ''failure'' (Some ''missing_refresh_cookie'') app)
      | Some token \<Rightarrow>
          (case rotate_refresh_token_with_csrf sec d token (get_cookie (rq_csrf_cookie req)) (rq_csrf_header req)
                  (app_db app) of
             (Inr res, db) \<Rightarrow>
               (case refresh_cookie_max_age sec (dr_cookie_decode_now d) (dr_cookie_now d) (rot_refresh_token res) of
                  Inl _ \<Rightarrow> (unhandled, app\<lparr>app_db := db\<rparr>)
                | Inr max_age \<Rightarrow>
                    (Returned (plain_reply 200\<lparr>rp_access_token := Some (rot_access_token res),
                       rp_refresh_cookie := CookieSet (rot_refresh_token res) (Some max_age)\<rparr>),
                     emit ''auth.refresh.succeeded'' ''success'' None (app\<lparr>app_db := db\<rparr>)))
           | (Inl (InvalidCsrfTokenError _), db) \<Rightarrow>
               (http_exception 403 CSRF_VALIDATION_FAILED,
                emit ''csrf.validation.failed'' ''blocked'' (Some ''refresh_request'') (app\<lparr>app_db := db\<rparr>))
           | (Inl (RefreshTokenReuseError _ _), db) \<Rightarrow>
               (Returned (clear_auth_cookies
                  (plain_reply 401\<lparr>rp_error_code := Some REFRESH_CREDENTIALS_INVALID\<rparr>)),
                emit ''auth.refresh.reuse_detected'' ''blocked'' (Some ''refresh_token_reuse'') (app\<lparr>app_db := db\<rparr>))
           | (Inl (AuthDatabaseError _), db) \<Rightarrow> (unhandled, app\<lparr>app_db := db\<rparr>)
           | (Inl AuthTokenEncodingError, db) \<Rightarrow> (unhandled, app\<lparr>app_db := db\<rparr>)
           | (Inl _, db) \<Rightarrow>
               (http_exception 401 REFRESH_CREDENTIALS_INVALID,
                emit ''auth.refresh.failed'' ''failure'' (Some ''invalid_refresh_credential'') (app\<lparr>app_db := db\<rparr>))))"

definition logout :: "security \<Rightarrow> auth_draws \<Rightarrow> auth_request \<Rightarrow> auth_app \<Rightarrow> handler_exit \<times> auth_app" where
  "logout sec d req app =
     (let cleared = Returned (clear_auth_cookies (plain_reply 204))
      in case get_cookie (rq_refresh_cookie req) of
           None \<Rightarrow> (cleared, app)
         | Some token \<Rightarrow>
             (case revoke_refresh_session_with_csrf sec d token (get_cookie (rq_csrf_cookie req))
                     (rq_csrf_header req) (app_db app) of
                (Inr _, db) \<Rightarrow> (cleared, emit ''auth.logout.succeeded'' ''success'' None (app\<lparr>app_db := db\<rparr>))
              | (Inl (InvalidCsrfTokenError _), db) \<Rightarrow>
                  (http_exception 403 CSRF_VALIDATION_FAILED,
                   emit ''csrf.validation.failed'' ''blocked'' (Some ''logout_request'') (app\<lparr>app_db := db\<rparr>))
              | (Inl (RefreshTokenReuseError _ _), db) \<Rightarrow>
                  (cleared, emit ''auth.logout.reuse_detected'' ''blocked'' (Some ''refresh_token_reuse'') (app\<lparr>app_db := db\<rparr>))
              | (Inl (AuthDatabaseError _), db) \<Rightarrow> (unhandled, app\<lparr>app_db := db\<rparr>)
              | (Inl AuthTokenEncodingError, db) \<Rightarrow> (unhandled, app\<lparr>app_db := db\<rparr>)
              | (Inl _, db) \<Rightarrow> (cleared, app\<lparr>app_db := db\<rparr>)))"

definition logout_all :: "security \<Rightarrow> auth_draws \<Rightarrow> auth_request \<Rightarrow> auth_app \<Rightarrow> handler_exit \<times> auth_app" where
  "logout_all sec d req app =
     (case get_current_user sec d req app of (Inl e, app1) \<Rightarrow> (e, app1) | (Inr u, app1) \<Rightarrow>
      case revoke_all_sessions_for_user d u (app_db app1) of
        (Inl _, db) \<Rightarrow> (unhandled, app1\<lparr>app_db := db\<rparr>)
      | (Inr _, db) \<Rightarrow>
          (Returned (clear_auth_cookies (plain_reply 204)),
           emit ''auth.logout_all.succeeded'' ''success'' None (app1\<lparr>app_db := db\<rparr>)))"

definition read_current_user :: "security \<Rightarrow> auth_draws \<Rightarrow> auth_request \<Rightarrow> auth_app \<Rightarrow> handler_exit \<times> auth_app" where
  "read_current_user sec d req app =
     (case get_current_user sec d req app of
        (Inl e, app1) \<Rightarrow> (e, app1)
      | (Inr u, app1) \<Rightarrow> (Returned (plain_reply 200\<lparr>rp_user := Some u\<rparr>), app1))"

section \<open>Every request is one unit of work\<close>

datatype auth_call =
    Register "instant \<times> instant" uuid nat string string
  | Login auth_draws seconds seconds auth_request string string
  | Reauthenticate auth_draws auth_request string
  | ChangePassword auth_draws auth_request string string
  | RequestReset reset_draws seconds auth_request string
  | ConfirmReset reset_draws string string
  | Refresh auth_draws auth_request
  | Logout auth_draws auth_request
  | LogoutAll auth_draws auth_request
  | Me auth_draws auth_request

record auth_deployment =
  dep_security :: security
  dep_reset_ttl :: int
  dep_deliver :: "password_reset_issue_result \<Rightarrow> bool"

fun auth_handler :: "auth_deployment \<Rightarrow> auth_call \<Rightarrow> auth_app \<Rightarrow> handler_exit \<times> auth_app" where
  "auth_handler dep (Register now i salt email pw) = register_account (dep_security dep) now i salt email pw"
| "auth_handler dep (Login d t t' req name pw) = login_for_access_token (dep_security dep) d t t' req name pw"
| "auth_handler dep (Reauthenticate d req pw) = reauthenticate_current_user (dep_security dep) d req pw"
| "auth_handler dep (ChangePassword d req tok pw) = change_current_user_password (dep_security dep) d req tok pw"
| "auth_handler dep (RequestReset d t req email) =
     request_password_reset (dep_security dep) d (dep_reset_ttl dep) (dep_deliver dep) t req email"
| "auth_handler dep (ConfirmReset d tok pw) = confirm_password_reset (dep_security dep) d tok pw"
| "auth_handler dep (Refresh d req) = refresh_access_token (dep_security dep) d req"
| "auth_handler dep (Logout d req) = logout (dep_security dep) d req"
| "auth_handler dep (LogoutAll d req) = logout_all (dep_security dep) d req"
| "auth_handler dep (Me d req) = read_current_user (dep_security dep) d req"

definition auth_serve :: "auth_deployment \<Rightarrow> auth_call \<Rightarrow> auth_app \<Rightarrow> auth_reply \<times> auth_app" where
  "auth_serve dep call app = unit_of_work (auth_handler dep call) app"

definition auth_exec :: "auth_deployment \<Rightarrow> auth_call \<Rightarrow> auth_app \<Rightarrow> auth_app" where
  "auth_exec dep call app = snd (auth_serve dep call app)"

lemma app_db_emit [simp]: "app_db (emit e o' r app) = app_db app"
  by (simp add: emit_def)

lemma get_current_user_db: "get_current_user sec d req app = (res, app1) \<Longrightarrow> app_db app1 = app_db app"
  by (auto simp: get_current_user_def split: option.splits sum.splits)

lemma get_current_user_Inr:
  "get_current_user sec d req app = (Inr u, app1) \<Longrightarrow>
     user_get_by_id (usr_id u) (app_db app) = Some u \<and> usr_is_active u \<and> app1 = app"
  by (auto simp: get_current_user_def resolve_access_token_def resolve_active_user_def require_active_user_def
      user_get_by_id_def dest: lookup_by_SomeD split: option.splits sum.splits if_splits)

text \<open>The refresh-token identifier a call would make current.\<close>

fun drawn_refresh_id :: "auth_call \<Rightarrow> uuid option" where
  "drawn_refresh_id (Refresh d req) = Some (dr_refresh_id d)"
| "drawn_refresh_id _ = None"

context account_invariant
begin

lemma keep_register: "P (app_db app) \<Longrightarrow> P (app_db (snd (register_account sec now i salt email pw app)))"
  using keep_create_user [of "app_db app" sec now i salt]
  by (auto simp: register_account_def Let_def split_beta split: sum.splits create_user_error.splits)

lemma keep_login: "P (app_db app) \<Longrightarrow> P (app_db (snd (login_for_access_token sec d t t' req name pw app)))"
  using keep_issue [of "app_db app" sec d]
  by (auto simp: login_for_access_token_def Let_def split_beta split: sum.splits)

lemma keep_reauthenticate: "P (app_db app) \<Longrightarrow> P (app_db (snd (reauthenticate_current_user sec d req pw app)))"
  by (auto simp: reauthenticate_current_user_def dest: get_current_user_db
      split: sum.splits prod.splits auth_error.splits)

lemma keep_change_current_password:
  assumes "P (app_db app)"
  shows "P (app_db (snd (change_current_user_password sec d req tok pw app)))"
proof (cases "fst (get_current_user sec d req app)")
  case (Inl e)
  then show ?thesis
    using assms get_current_user_db [of sec d req app "Inl e" "snd (get_current_user sec d req app)"]
    by (simp add: change_current_user_password_def split_beta prod_eq_iff)
next
  case (Inr u)
  have "app_db (snd (get_current_user sec d req app)) = app_db app"
    using get_current_user_db [of sec d req app] by (metis prod.collapse)
  then show ?thesis
    using keep_change_password [OF assms, of sec d u tok pw] Inr
    by (auto simp: change_current_user_password_def split_beta split: sum.splits auth_error.splits)
qed

lemma keep_request_password_reset:
  "P (app_db app) \<Longrightarrow> P (app_db (snd (request_password_reset sec d ttl deliver t req email app)))"
  using keep_request_reset [of "app_db app" sec d ttl email]
  by (auto simp: request_password_reset_def Let_def split_beta split: sum.splits option.splits)

lemma keep_confirm_password_reset:
  "P (app_db app) \<Longrightarrow> P (app_db (snd (confirm_password_reset sec d tok pw app)))"
  using keep_confirm_reset [of "app_db app" sec d tok pw]
  by (auto simp: confirm_password_reset_def split_beta split: sum.splits password_reset_error.splits)

lemma keep_refresh: "P (app_db app) \<Longrightarrow> ok (dr_refresh_id d) \<Longrightarrow> P (app_db (snd (refresh_access_token sec d req app)))"
  using keep_rotate [of "app_db app" d sec]
  by (auto simp: refresh_access_token_def split_beta split: sum.splits option.splits auth_error.splits)

lemma keep_logout: "P (app_db app) \<Longrightarrow> P (app_db (snd (logout sec d req app)))"
  using keep_revoke_session [of "app_db app" sec d]
  by (auto simp: logout_def Let_def split_beta split: sum.splits option.splits auth_error.splits)

lemma keep_logout_all:
  assumes "P (app_db app)"
  shows "P (app_db (snd (logout_all sec d req app)))"
proof -
  have "app_db (snd (get_current_user sec d req app)) = app_db app"
    using get_current_user_db [of sec d req app] by (metis prod.collapse)
  then show ?thesis
    using assms keep_revoke_all_sessions [OF assms, of d]
    by (auto simp: logout_all_def split_beta split: sum.splits)
qed

lemma keep_exec:
  assumes "P (app_db app)" and "\<And>jti. drawn_refresh_id call = Some jti \<Longrightarrow> ok jti"
  shows "P (app_db (auth_exec dep call app))"
proof -
  have "P (app_db (snd (auth_handler dep call app)))"
    using assms by (cases call)
      (auto intro: keep_register keep_login keep_reauthenticate keep_change_current_password
        keep_request_password_reset keep_confirm_password_reset keep_refresh keep_logout keep_logout_all
        simp: read_current_user_def dest: get_current_user_db split: sum.splits prod.splits)
  then show ?thesis
    using assms(1) by (auto simp: auth_exec_def auth_serve_def unit_of_work_def split: prod.splits handler_exit.splits)
qed

lemma keep_run:
  "P (app_db app) \<Longrightarrow> (\<And>call jti. call \<in> set calls \<Longrightarrow> drawn_refresh_id call = Some jti \<Longrightarrow> ok jti) \<Longrightarrow>
     P (app_db (fold (auth_exec dep) calls app))"
  by (induction calls arbitrary: app) (auto intro: keep_exec)

end

lemma rotate_Inr:
  assumes "rotate_refresh_token_with_csrf sec d token ck hdr db = (Inr r, db')"
  obtains c s u where "decode_refresh_token_with_csrf sec d token ck hdr = Inr c"
    and "session_get_by_id (rc_session_id c) db = Some s" and "require_usable_session s c (dr_now d) = None"
    and "ses_current_jti s = rc_token_id c" and "resolve_active_user (rc_user_id c) db = Inr u"
    and "session_update_current_token (ses_id s) (dr_refresh_id d) (dr_now d) db = (Inr (), db')"
    and "rot_session_id r = ses_id s" and "rot_previous_refresh_token_id r = rc_token_id c"
    and "rot_refresh_token_id r = dr_refresh_id d" and "rot_user r = u"
  using assms
  by (auto simp: rotate_refresh_token_with_csrf_def session_get_by_id_def session_get_by_id_for_update_def
      split: sum.splits option.splits if_splits prod.splits)

lemma usable_not_revoked:
  "session_revoked i db \<Longrightarrow> session_get_by_id i db = Some s \<Longrightarrow> require_usable_session s c now \<noteq> None"
  by (auto simp: session_revoked_def row_with_def session_get_by_id_def session_is_revoked_def
      require_usable_session_def)

lemma session_get_by_id_id: "session_get_by_id i db = Some s \<Longrightarrow> ses_id s = i"
  by (auto simp: session_get_by_id_def dest: lookup_by_SomeD)

definition stable_claims :: "security \<Rightarrow> string \<Rightarrow> bool" where
  "stable_claims sec token \<longleftrightarrow>
     (\<forall>t t' c c'. decode_refresh_token sec t token = Inr c \<longrightarrow> decode_refresh_token sec t' token = Inr c' \<longrightarrow> c = c')"

lemma decode_with_csrf_Inr:
  "decode_refresh_token_with_csrf sec d token ck hdr = Inr c \<Longrightarrow>
     decode_refresh_token sec (dr_decode_now d) token = Inr c \<and>
     validate_csrf sec (rc_session_id c) ck hdr = None"
  by (auto simp: decode_refresh_token_with_csrf_def split: sum.splits option.splits)

lemma get_cookie_Some: "get_cookie v = Some t \<Longrightarrow> v = Some t"
  by (auto simp: get_cookie_def split: option.splits list.splits)

lemma refresh_200:
  assumes "auth_serve dep (Refresh d req) app = (reply, app')" and "rp_status reply = 200"
  obtains token r db' where "get_cookie (rq_refresh_cookie req) = Some token"
    and "rotate_refresh_token_with_csrf (dep_security dep) d token (get_cookie (rq_csrf_cookie req))
           (rq_csrf_header req) (app_db app) = (Inr r, db')"
    and "app_db app' = db'" and "rp_access_token reply = Some (rot_access_token r)"
    and "\<exists>age. rp_refresh_cookie reply = CookieSet (rot_refresh_token r) (Some age)"
  using assms
  by (auto simp: auth_serve_def unit_of_work_def refresh_access_token_def http_exception_def unhandled_def
      plain_reply_def clear_auth_cookies_def split: option.splits sum.splits prod.splits auth_error.splits)

end
