(* ===== verification/Auth_Properties.thy ===== *)
theory Auth_Properties
  imports Auth_Routes
begin

text \<open>
  What the authentication endpoints promise, over arbitrary sequences of requests. The first
  section evaluates the properties on a small deployment: one user, one session, a table of tokens
  standing for PyJWT.
\<close>

section \<open>A small deployment\<close>

text \<open>
  User 7 with session 8, whose current refresh-token identifier is 9; the tokens are, in this
  order, that refresh token, its successor with identifier 10, an access token, a reauthentication
  token, and the two refresh tokens of a session 20.
\<close>

definition demo_claims :: "claims list" where
  "demo_claims =
     [refresh_claims (demo_security []) 1000000 7 8 9 604801000000,
      refresh_claims (demo_security []) 2000000 7 8 10 604801000000,
      access_claims (demo_security []) 2000000 11 7 None,
      reauth_claims (demo_security []) 2000000 12 7 ''correct horse battery'' None,
      refresh_claims (demo_security []) 2000000 7 20 9 604802000000,
      refresh_claims (demo_security []) 2000000 7 20 10 604802000000]"

definition demo_sec :: security where
  "demo_sec = demo_security []\<lparr>sec_jwt := token_table_lib demo_claims JWT_ALGORITHM jwt_header\<rparr>"

definition demo_dep :: auth_deployment where
  "demo_dep = \<lparr>dep_security = demo_sec, dep_reset_ttl = 900000000, dep_deliver = (\<lambda>_. True)\<rparr>"

definition demo_draws :: "uuid \<Rightarrow> auth_draws" where
  "demo_draws jti = \<lparr>dr_decode_now = 2000000, dr_now = 2000000, dr_update_now = 2000000, dr_access_now = 2000000,
     dr_refresh_now = 2000000, dr_cookie_decode_now = 2000000, dr_cookie_now = 2000000,
     dr_session_id = 20, dr_refresh_id = jti, dr_access_id = 11, dr_nonce = ''nonce'', dr_salt = 0\<rparr>"

definition demo_user :: user where
  "demo_user = \<lparr>usr_id = 7, usr_email = ''a@b.c'', usr_full_name = ''a'', usr_role = VIEWER,
     usr_is_active = True, usr_created_at = 0, usr_updated_at = 0\<rparr>"

definition demo_session :: "uuid \<Rightarrow> auth_session" where
  "demo_session jti = \<lparr>ses_id = 8, ses_user_id = 7, ses_current_jti = jti, ses_created_at = 1000000,
     ses_last_used_at = 1000000, ses_expires_at = 604801000000, ses_revoked_at = None,
     ses_revocation_reason = None\<rparr>"

definition demo_app :: "user_auth_record list \<Rightarrow> auth_session list \<Rightarrow> auth_app" where
  "demo_app users sessions =
     \<lparr>app_db = \<lparr>db_users = users, db_sessions = sessions, db_reset_tokens = []\<rparr>,
      app_login_throttle =
        \<lparr>lt_hmac = demo_digest, lt_secret_key = ''k'', lt_ip_max_attempts = 20, lt_ip_window = 60,
         lt_account_max_failures = 5, lt_account_window = 300, lt_ip_attempts = (\<lambda>_. []),
         lt_account_failures = (\<lambda>_. [])\<rparr>,
      app_reset_throttle =
        \<lparr>rt_hmac = demo_digest, rt_secret_key = ''k'', rt_ip_max_requests = 10, rt_ip_window = 900,
         rt_account_max_requests = 3, rt_account_window = 900, rt_ip_requests = (\<lambda>_. []),
         rt_account_requests = (\<lambda>_. [])\<rparr>,
      app_events = []\<rparr>"

definition demo_users :: "user_auth_record list" where
  "demo_users = [\<lparr>uar_user = demo_user, uar_hashed_password = ''correct horse battery''\<rparr>]"

definition demo_request :: "string option \<Rightarrow> string option \<Rightarrow> auth_request" where
  "demo_request bearer refresh =
     \<lparr>rq_client_host = Some ''10.0.0.1'', rq_bearer = bearer, rq_refresh_cookie = refresh,
      rq_csrf_cookie = Some (create_csrf_token demo_sec ''nonce'' 8),
      rq_csrf_header = Some (create_csrf_token demo_sec ''nonce'' 8)\<rparr>"

lemma demo_sec_contract: "jwt_contract (sec_jwt demo_sec) public_of"
  by (simp add: demo_sec_def token_table_contract jwt_header_def payload_get_def)

section \<open>Properties\<close>

text \<open>
  Claim C29. Whatever requests arrive, in whatever order and with whatever
  draws, starting from empty tables: identifiers, e-mails, current refresh-token identifiers and
  token digests stay unique, e-mails stay normalised, every session and reset token belongs to an
  existing user, and no user ever has more than one usable reset token.
\<close>

theorem auth_tables_wellformed:
  assumes "app_db app = \<lparr>db_users = [], db_sessions = [], db_reset_tokens = []\<rparr>"
  shows "let db = app_db (fold (auth_exec dep) calls app)
    in auth_db_inv db \<and> (\<forall>u. length (active_reset_tokens u db) \<le> 1)"
proof -
  have "auth_db_inv (app_db app)" and "one_active_reset (app_db app)"
    by (simp_all add: assms auth_db_inv_def unique_key_def one_active_reset_def active_reset_tokens_def)
  then show ?thesis
    using wellformed.keep_run [of app calls dep] one_active.keep_run [of app calls dep]
    by (simp add: one_active_reset_def Let_def)
qed

text \<open>
  Claim C30. A revoked session stays revoked through every further sequence
  of requests, and no refresh, logout or resolution of any token, at any time, succeeds for it.
\<close>

theorem revoked_session_is_final:
  assumes "session_revoked i (app_db app)"
  shows "let db = app_db (fold (auth_exec dep) calls app)
    in session_revoked i db \<and>
       (\<forall>sec d token ck hdr r. fst (rotate_refresh_token_with_csrf sec d token ck hdr db) = Inr r \<longrightarrow>
          rot_session_id r \<noteq> i) \<and>
       (\<forall>sec d token ck hdr u j. fst (revoke_refresh_session_with_csrf sec d token ck hdr db) = Inr (u, j) \<longrightarrow>
          j \<noteq> i) \<and>
       (\<forall>sec d token ck hdr r. resolve_refresh_token_with_csrf sec d token ck hdr db = Inr r \<longrightarrow>
          ses_id (rrs_session r) \<noteq> i)"
proof -
  let ?db = "app_db (fold (auth_exec dep) calls app)"
  have rev: "session_revoked i ?db" using revoked.keep_run [OF assms] by simp
  have dead: "ses_id s \<noteq> i" if "session_get_by_id k ?db = Some s" and "require_usable_session s c now = None"
    for k s c now
    using that usable_not_revoked [OF rev] session_get_by_id_id by blast
  have "rot_session_id r \<noteq> i" if "fst (rotate_refresh_token_with_csrf sec d token ck hdr ?db) = Inr r"
    for sec d token ck hdr r
  proof -
    have "rotate_refresh_token_with_csrf sec d token ck hdr ?db =
        (Inr r, snd (rotate_refresh_token_with_csrf sec d token ck hdr ?db))"
      using that by (simp add: prod_eq_iff)
    then show ?thesis by (elim rotate_Inr) (metis dead)
  qed
  moreover have "j \<noteq> i" if "fst (revoke_refresh_session_with_csrf sec d token ck hdr ?db) = Inr (u, j)"
    for sec d token ck hdr u j
    using that dead [unfolded session_get_by_id_def]
    by (auto simp: revoke_refresh_session_with_csrf_def session_get_by_id_for_update_def
        split: sum.splits option.splits if_splits)
  moreover have "ses_id (rrs_session r) \<noteq> i" if "resolve_refresh_token_with_csrf sec d token ck hdr ?db = Inr r"
    for sec d token ck hdr r
  proof -
    have "\<exists>c. session_get_by_id (rc_session_id c) ?db = Some (rrs_session r) \<and>
        require_usable_session (rrs_session r) c (dr_now d) = None"
      using that by (auto simp: resolve_refresh_token_with_csrf_def split: sum.splits option.splits if_splits)
    then show ?thesis using dead by blast
  qed
  ultimately show ?thesis using rev by (simp add: Let_def)
qed

text \<open>
  Presenting a refresh token that is no longer current for a live
  session of its user, with a valid CSRF pair, is answered 401 with both cookies cleared, and the
  revocation of the whole session is committed although the answer is an error.
\<close>

theorem refresh_reuse_revokes:
  assumes "get_cookie (rq_refresh_cookie req) = Some token"
    and "decode_refresh_token_with_csrf (dep_security dep) d token (get_cookie (rq_csrf_cookie req))
           (rq_csrf_header req) = Inr c"
    and "session_get_by_id (rc_session_id c) (app_db app) = Some s"
    and "require_usable_session s c (dr_now d) = None" and "ses_current_jti s \<noteq> rc_token_id c"
  shows "let (reply, app') = auth_serve dep (Refresh d req) app
    in rp_status reply = 401 \<and> rp_refresh_cookie reply = CookieCleared \<and> rp_csrf_cookie reply = CookieCleared \<and>
       rp_access_token reply = None \<and> session_revoked (rc_session_id c) (app_db app') \<and>
       app_events app' = app_events app @
         [\<lparr>ev_event = ''auth.refresh.reuse_detected'', ev_outcome = ''blocked'',
           ev_reason = Some ''refresh_token_reuse''\<rparr>]"
proof -
  have id: "ses_id s = rc_session_id c" using session_get_by_id_id [OF assms(3)] .
  have look: "session_get_by_id_for_update (rc_session_id c) (app_db app) = Some s"
    using assms(3) by (simp add: session_get_by_id_def session_get_by_id_for_update_def)
  have "rotate_refresh_token_with_csrf (dep_security dep) d token (get_cookie (rq_csrf_cookie req))
      (rq_csrf_header req) (app_db app) =
    (Inl (RefreshTokenReuseError (ses_user_id s) (ses_id s)),
     session_revoke (ses_id s) (dr_now d) ''refresh_token_reuse'' (app_db app))"
    by (simp add: rotate_refresh_token_with_csrf_def assms(2,4,5) look)
  then show ?thesis
    using session_revoke_revokes [OF assms(3)] assms(1)
    by (simp add: auth_serve_def unit_of_work_def refresh_access_token_def clear_auth_cookies_def plain_reply_def
        emit_def id)
qed

lemma stable_claims_minted:
  assumes "jwt_contract (sec_jwt sec) public_of" and "jwt_encode (sec_jwt sec) cs sk alg hdr = Some tok"
  shows "stable_claims sec tok"
  unfolding stable_claims_def
proof (intro allI impI)
  fix t t' c c'
  assume "decode_refresh_token sec t tok = Inr c" and "decode_refresh_token sec t' tok = Inr c'"
  then show "c = c'"
    unfolding decode_refresh_token_def
    by (auto dest!: jwt_contract_claims [OF assms] split: sum.splits if_splits json.splits option.splits)
qed

text \<open>
  Claim C31. A refresh token works once: after a successful refresh, the
  same token is refused however many requests of any kind come between, as long as no later
  refresh draws its identifier again and its claims do not change with the time of reading.
\<close>

theorem refresh_token_single_use:
  assumes "auth_serve dep (Refresh d req) app = (reply, app1)" and "rp_status reply = 200"
    and "rq_refresh_cookie req = Some token" and "stable_claims (dep_security dep) token"
    and "decode_refresh_token (dep_security dep) (dr_decode_now d) token = Inr c"
    and "\<And>call. call \<in> insert (Refresh d req) (set calls) \<Longrightarrow> drawn_refresh_id call \<noteq> Some (rc_token_id c)"
    and "rq_refresh_cookie req2 = Some token"
  shows "rp_status (fst (auth_serve dep (Refresh d2 req2) (fold (auth_exec dep) calls app1))) \<noteq> 200"
proof
  let ?app = "fold (auth_exec dep) calls app1"
  assume again: "rp_status (fst (auth_serve dep (Refresh d2 req2) ?app)) = 200"
  obtain r db' where "rotate_refresh_token_with_csrf (dep_security dep) d token (get_cookie (rq_csrf_cookie req))
      (rq_csrf_header req) (app_db app) = (Inr r, db')" and db': "app_db app1 = db'"
    using refresh_200 [OF assms(1,2)] assms(3) get_cookie_Some by (metis option.inject)
  then obtain c1 s where c1: "decode_refresh_token_with_csrf (dep_security dep) d token
      (get_cookie (rq_csrf_cookie req)) (rq_csrf_header req) = Inr c1"
    and s: "session_get_by_id (rc_session_id c1) (app_db app) = Some s"
    and upd: "session_update_current_token (ses_id s) (dr_refresh_id d) (dr_now d) (app_db app) = (Inr (), db')"
    by (elim rotate_Inr) blast
  have c: "c1 = c" using decode_with_csrf_Inr [OF c1] assms(5) by simp
  have "dr_refresh_id d \<noteq> rc_token_id c" using assms(6) [of "Refresh d req"] by simp
  then have "token_superseded (rc_session_id c) (rc_token_id c) (app_db app1)"
    using s upd session_get_by_id_id [OF s] unfolding db' c
    by (auto simp: token_superseded_def row_with_def session_update_current_token_def session_get_by_id_def
        lookup_by_update_where split: if_splits option.splits)
  then have sup: "token_superseded (rc_session_id c) (rc_token_id c) (app_db ?app)"
    using assms(6) by (intro superseded.keep_run) auto
  obtain r2 db2 where "rotate_refresh_token_with_csrf (dep_security dep) d2 token (get_cookie (rq_csrf_cookie req2))
      (rq_csrf_header req2) (app_db ?app) = (Inr r2, db2)"
    using refresh_200 [OF surjective_pairing again] assms(7) get_cookie_Some by (metis option.inject)
  then obtain c2 s2 where c2: "decode_refresh_token_with_csrf (dep_security dep) d2 token
      (get_cookie (rq_csrf_cookie req2)) (rq_csrf_header req2) = Inr c2"
    and s2: "session_get_by_id (rc_session_id c2) (app_db ?app) = Some s2" and cur: "ses_current_jti s2 = rc_token_id c2"
    by (elim rotate_Inr) blast
  have "c2 = c" using assms(4,5) decode_with_csrf_Inr [OF c2] by (auto simp: stable_claims_def)
  then show False
    using sup s2 cur by (simp add: token_superseded_def row_with_def session_get_by_id_def)
qed

section \<open>Witnesses\<close>

theorem auth_tables_wellformed_witness:
  "auth_db_inv (app_db (fold (auth_exec demo_dep)
     [Register (1000000, 1000000) 7 0 '' A@b.c '' ''correct horse battery'',
      Register (1000000, 1000000) 8 0 ''a@b.c'' ''correct horse battery''] (demo_app [] [])))"
  using auth_tables_wellformed [of "demo_app [] []" demo_dep
      "[Register (1000000, 1000000) 7 0 '' A@b.c '' ''correct horse battery'',
        Register (1000000, 1000000) 8 0 ''a@b.c'' ''correct horse battery'']"]
  by (simp add: Let_def) (simp add: demo_app_def)

definition demo_revoked :: auth_app where
  "demo_revoked = auth_exec demo_dep (LogoutAll (demo_draws 10) (demo_request (Some ''ttt'') None))
     (demo_app demo_users [demo_session 9])"

lemma demo_revoked_session: "session_revoked 8 (app_db demo_revoked)"
proof -
  have "map (\<lambda>s. (ses_id s, ses_revoked_at s)) (db_sessions (app_db demo_revoked)) = [(8, Some 2000000)]"
    by code_simp
  then show ?thesis
    by (auto simp: session_revoked_def row_with_def session_is_revoked_def lookup_by_Cons map_eq_Cons_conv)
qed

theorem revoked_session_is_final_witness:
  "session_revoked 8 (app_db (fold (auth_exec demo_dep)
     [Refresh (demo_draws 10) (demo_request None (Some ''t''))] demo_revoked))"
  using revoked_session_is_final [OF demo_revoked_session, of demo_dep
      "[Refresh (demo_draws 10) (demo_request None (Some ''t''))]"]
  by (simp add: Let_def)

lemma demo_get_refresh: "get_cookie (rq_refresh_cookie (demo_request None (Some ''t''))) = Some ''t''"
  by (simp add: demo_request_def get_cookie_def)

definition demo_refresh_token_claims :: refresh_token_claims where
  "demo_refresh_token_claims =
     \<lparr>rc_user_id = 7, rc_session_id = 8, rc_token_id = 9, rc_expires_at = 604801000000\<rparr>"

theorem refresh_reuse_revokes_witness:
  "rp_status (fst (auth_serve demo_dep (Refresh (demo_draws 11) (demo_request None (Some ''t'')))
     (demo_app demo_users [demo_session 10]))) = 401"
proof -
  have "decode_refresh_token_with_csrf (dep_security demo_dep) (demo_draws 11) ''t''
      (get_cookie (rq_csrf_cookie (demo_request None (Some ''t''))))
      (rq_csrf_header (demo_request None (Some ''t''))) = Inr demo_refresh_token_claims"
    by code_simp
  moreover have "session_get_by_id (rc_session_id demo_refresh_token_claims)
      (app_db (demo_app demo_users [demo_session 10])) = Some (demo_session 10)"
    by code_simp
  moreover have "require_usable_session (demo_session 10) demo_refresh_token_claims (dr_now (demo_draws 11)) = None"
    by code_simp
  moreover have "ses_current_jti (demo_session 10) \<noteq> rc_token_id demo_refresh_token_claims"
    by code_simp
  ultimately show ?thesis
    using refresh_reuse_revokes [OF demo_get_refresh] by (fastforce simp: Let_def split_beta)
qed

theorem refresh_token_single_use_witness:
  "rp_status (fst (auth_serve demo_dep (Refresh (demo_draws 13) (demo_request None (Some ''t'')))
     (auth_exec demo_dep (Refresh (demo_draws 10) (demo_request None (Some ''t'')))
       (demo_app demo_users [demo_session 9])))) \<noteq> 200"
proof -
  let ?call = "Refresh (demo_draws 10) (demo_request None (Some ''t''))"
  let ?app = "demo_app demo_users [demo_session 9]"
  have "auth_serve demo_dep ?call ?app =
      (fst (auth_serve demo_dep ?call ?app), auth_exec demo_dep ?call ?app)"
    by (simp add: auth_exec_def)
  moreover have "rp_status (fst (auth_serve demo_dep ?call ?app)) = 200"
    by code_simp
  moreover have "stable_claims (dep_security demo_dep) ''t''"
    by (rule stable_claims_minted [of _ "\<lambda>k. k" "demo_claims ! 0" "''x''" JWT_ALGORITHM jwt_header])
      (simp_all add: demo_dep_def demo_sec_contract, simp add: demo_sec_def token_table_lib_def demo_claims_def)
  moreover have "decode_refresh_token (dep_security demo_dep) (dr_decode_now (demo_draws 10)) ''t'' =
      Inr demo_refresh_token_claims"
    by code_simp
  moreover have "(10::uuid) \<noteq> rc_token_id demo_refresh_token_claims" by code_simp
  ultimately show ?thesis
    using refresh_token_single_use [of demo_dep "demo_draws 10" "demo_request None (Some ''t'')" ?app
        "fst (auth_serve demo_dep ?call ?app)" "auth_exec demo_dep ?call ?app" "''t''"
        demo_refresh_token_claims "[]" "demo_request None (Some ''t'')" "demo_draws 13"]
    by (simp add: demo_draws_def) (simp add: demo_request_def)
qed

end
