(* ===== verification/Auth_Guarantees.thy ===== *)
theory Auth_Guarantees
  imports Auth_Properties
begin

text \<open>
  What single requests of the authentication endpoints do: changing and resetting a password,
  asking for a reset, signing in, and what a failed request leaves behind.
\<close>

section \<open>Replacing a credential\<close>

text \<open>
  The user's password hash becomes \<open>h\<close>, every session of the user is revoked, and the rows of
  other users and of their sessions are what they were.
\<close>

definition credential_replaced :: "uuid \<Rightarrow> string \<Rightarrow> auth_db \<Rightarrow> auth_db \<Rightarrow> bool" where
  "credential_replaced u h db db' \<longleftrightarrow>
     (\<exists>r t. lookup_by user_key u (db_users db) = Some r \<and>
        lookup_by user_key u (db_users db') =
          Some \<lparr>uar_user = (uar_user r)\<lparr>usr_updated_at := t\<rparr>, uar_hashed_password = h\<rparr>) \<and>
     filter (\<lambda>r. user_key r \<noteq> u) (db_users db') = filter (\<lambda>r. user_key r \<noteq> u) (db_users db) \<and>
     (\<forall>s \<in> set (db_sessions db'). ses_user_id s = u \<longrightarrow> session_is_revoked s) \<and>
     map ses_id (db_sessions db') = map ses_id (db_sessions db) \<and>
     filter (\<lambda>s. ses_user_id s \<noteq> u) (db_sessions db') = filter (\<lambda>s. ses_user_id s \<noteq> u) (db_sessions db)"

lemma session_revoke_all_effect:
  assumes "session_revoke_all_for_user u t reason db = (n, db')"
  shows "\<forall>s \<in> set (db_sessions db'). ses_user_id s = u \<longrightarrow> session_is_revoked s"
    and "map ses_id (db_sessions db') = map ses_id (db_sessions db)"
    and "filter (\<lambda>s. ses_user_id s \<noteq> u) (db_sessions db') = filter (\<lambda>s. ses_user_id s \<noteq> u) (db_sessions db)"
    and "db_users db' = db_users db" and "db_reset_tokens db' = db_reset_tokens db"
proof -
  have db': "db' = db\<lparr>db_sessions := update_where (\<lambda>s. ses_user_id s = u \<and> ses_revoked_at s = None)
      (\<lambda>s. s\<lparr>ses_revoked_at := Some t, ses_revocation_reason := Some reason\<rparr>) (db_sessions db)\<rparr>"
    using assms by (simp add: session_revoke_all_for_user_def Let_def)
  show "\<forall>s \<in> set (db_sessions db'). ses_user_id s = u \<longrightarrow> session_is_revoked s"
    by (simp add: db' ball_update_where session_is_revoked_def)
  show "map ses_id (db_sessions db') = map ses_id (db_sessions db)"
    by (simp add: db' map_key_update_where)
  show "filter (\<lambda>s. ses_user_id s \<noteq> u) (db_sessions db') = filter (\<lambda>s. ses_user_id s \<noteq> u) (db_sessions db)"
    unfolding db' by simp (rule filter_update_where, simp)
  show "db_users db' = db_users db" and "db_reset_tokens db' = db_reset_tokens db"
    by (simp_all add: db')
qed

lemma update_password_effect:
  assumes "unique_key user_key (db_users db)"
    and "update_password_hash_if_current now u h h' db = (True, db')"
  obtains r where "lookup_by user_key u (db_users db) = Some r" and "uar_hashed_password r = h"
    and "lookup_by user_key u (db_users db') =
           Some \<lparr>uar_user = (uar_user r)\<lparr>usr_updated_at := now\<rparr>, uar_hashed_password = h'\<rparr>"
    and "filter (\<lambda>r. user_key r \<noteq> u) (db_users db') = filter (\<lambda>r. user_key r \<noteq> u) (db_users db)"
    and "db_sessions db' = db_sessions db" and "db_reset_tokens db' = db_reset_tokens db"
proof -
  have one: "count_where (\<lambda>r. user_key r = u \<and> uar_hashed_password r = h) (db_users db) = 1"
    and db': "db' = db\<lparr>db_users := update_where (\<lambda>r. user_key r = u \<and> uar_hashed_password r = h)
      (\<lambda>r. r\<lparr>uar_hashed_password := h', uar_user := (uar_user r)\<lparr>usr_updated_at := now\<rparr>\<rparr>) (db_users db)\<rparr>"
    using assms(2) by (simp_all add: update_password_hash_if_current_def Let_def)
  obtain r where r: "lookup_by user_key u (db_users db) = Some r" "uar_hashed_password r = h"
    using one unfolding count_where_unique [OF assms(1)] by (auto split: option.splits if_splits)
  have look: "lookup_by user_key u (db_users db') =
      Some \<lparr>uar_user = (uar_user r)\<lparr>usr_updated_at := now\<rparr>, uar_hashed_password = h'\<rparr>"
    using r lookup_by_SomeD [OF r(1)] by (simp add: db' lookup_by_update_where)
  have same: "filter (\<lambda>r. user_key r \<noteq> u) (db_users db') = filter (\<lambda>r. user_key r \<noteq> u) (db_users db)"
    by (auto simp: db' intro!: filter_update_where)
  show ?thesis by (rule that [OF r look same]) (simp_all add: db')
qed

lemma credential_replaced_by_updates:
  assumes "unique_key user_key (db_users db)"
    and "update_password_hash_if_current now u h h' db = (True, db1)"
    and "db_users db2 = db_users db1" and "db_sessions db2 = db_sessions db1"
    and "session_revoke_all_for_user u t reason db2 = (n, db')"
  shows "credential_replaced u h' db db'"
proof (rule update_password_effect [OF assms(1,2)])
qed (use session_revoke_all_effect [OF assms(5)] in \<open>auto simp: credential_replaced_def assms(3,4)\<close>)

section \<open>What a successful request has passed\<close>

lemma change_password_204:
  assumes "auth_serve dep (ChangePassword d req tok pw) app = (reply, app')" and "rp_status reply = 204"
  obtains u n where "get_current_user (dep_security dep) d req app = (Inr u, app)"
    and "change_password (dep_security dep) d u tok pw (app_db app) =
           (Inr \<lparr>pcr_user_id = usr_id u, pcr_revoked_sessions = n\<rparr>, app_db app')"
proof -
  obtain res app1 where cur: "get_current_user (dep_security dep) d req app = (res, app1)" by fastforce
  show ?thesis
  proof (cases res)
    case (Inl e)
    then have "e = http_exception 401 ACCESS_CREDENTIALS_INVALID"
      using cur by (auto simp: get_current_user_def split: option.splits sum.splits)
    then show ?thesis
      using assms cur Inl by (auto simp: auth_serve_def unit_of_work_def change_current_user_password_def
          http_exception_def plain_reply_def)
  next
    case (Inr u)
    then have app1: "app1 = app" using cur get_current_user_Inr by blast
    obtain r db1 where ch: "change_password (dep_security dep) d u tok pw (app_db app) = (r, db1)" by fastforce
    have "(\<exists>c. r = Inr c) \<and> app_db app' = db1"
      using assms cur Inr app1 ch
      by (auto simp: auth_serve_def unit_of_work_def change_current_user_password_def http_exception_def
          unhandled_def plain_reply_def clear_auth_cookies_def split: sum.splits auth_error.splits)
    moreover have "pcr_user_id c = usr_id u" if "r = Inr c" for c
      using ch that by (auto simp: change_password_def Let_def split: option.splits sum.splits if_splits prod.splits)
    ultimately show ?thesis
      using that [of u] cur Inr app1 ch by (metis (full_types) password_change_result.surjective old.unit.exhaust)
  qed
qed

lemma change_password_Inr:
  assumes "change_password sec d u tok pw db = (Inr c, db')"
  obtains r cl db1 n where "get_auth_record_by_email (py_identifier (usr_email u)) db = Some r"
    and "user_key r = usr_id u" and "decode_reauthentication_token sec (dr_decode_now d) tok = Inr cl"
    and "ra_user_id cl = usr_id u"
    and "reauthentication_credential_matches sec (uar_hashed_password r) (ra_credential_fingerprint cl)"
    and "validate_new_password pw = None" and "\<not> verify_password sec pw (uar_hashed_password r)"
    and "update_password_hash_if_current (dr_update_now d) (usr_id u) (uar_hashed_password r)
           (hash_password sec (dr_salt d) pw) db = (True, db1)"
    and "session_revoke_all_for_user (usr_id u) (dr_now d) ''password_changed'' db1 = (n, db')"
  using assms
  by (auto simp: change_password_def service_decode_reauthentication_token_def Let_def py_identifier_def
      split: option.splits sum.splits if_splits prod.splits)

lemma confirm_reset_204:
  assumes "auth_serve dep (ConfirmReset d tok pw) app = (reply, app')" and "rp_status reply = 204"
  obtains c where "confirm_reset (dep_security dep) d tok pw (app_db app) = (Inr c, app_db app')"
  using assms
  by (auto simp: auth_serve_def unit_of_work_def confirm_password_reset_def http_exception_def
      unhandled_def plain_reply_def clear_auth_cookies_def
      split: sum.splits prod.splits password_reset_error.splits)

lemma confirm_reset_Inr:
  assumes "confirm_reset sec d tok pw db = (Inr c, db')"
  obtains t u r where "reset_token_get_by_digest_for_update (digest_token sec tok) db = Some t"
    and "require_usable_token t (pd_now d) = None"
    and "user_get_by_id (prt_user_id t) db = Some u" and "usr_is_active u"
    and "get_auth_record_by_email (py_identifier (usr_email u)) db = Some r" and "user_key r = usr_id u"
    and "prt_credential_fingerprint t = create_reauthentication_fingerprint sec (uar_hashed_password r)"
    and "validate_new_password pw = None" and "\<not> verify_password sec pw (uar_hashed_password r)"
    and "consume_reset sec d t u (uar_hashed_password r) pw db = (Inr c, db')"
  using assms
  by (auto simp: confirm_reset_def py_identifier_def split: option.splits if_splits)

lemma consume_reset_Inr:
  assumes "consume_reset sec d t u current pw db = (Inr c, db')"
  obtains db1 db2 m db3 n where
      "update_password_hash_if_current (pd_update_now d) (usr_id u) current (hash_password sec (pd_salt d) pw) db =
         (True, db1)"
    and "reset_token_mark_used (prt_id t) (pd_now d) db1 = (True, db2)"
    and "reset_token_invalidate_active_for_user (usr_id u) (pd_now d) (Some (prt_id t)) db2 = (m, db3)"
    and "session_revoke_all_for_user (usr_id u) (pd_now d) ''password_reset'' db3 = (n, db')"
  using assms
  by (auto simp: consume_reset_def Let_def split: prod.splits if_splits)

lemma confirm_reset_spends:
  assumes "confirm_reset sec d tok pw db = (Inr c, db')"
  shows "reset_token_spent (digest_token sec tok) db'"
proof -
  obtain t u current where t: "reset_token_get_by_digest_for_update (digest_token sec tok) db = Some t"
    and ok: "require_usable_token t (pd_now d) = None"
    and con: "consume_reset sec d t u current pw db = (Inr c, db')"
    using assms by (elim confirm_reset_Inr) blast
  obtain db1 db2 m db3 n where 1: "update_password_hash_if_current (pd_update_now d) (usr_id u) current
        (hash_password sec (pd_salt d) pw) db = (True, db1)"
    and 2: "reset_token_mark_used (prt_id t) (pd_now d) db1 = (True, db2)"
    and 3: "reset_token_invalidate_active_for_user (usr_id u) (pd_now d) (Some (prt_id t)) db2 = (m, db3)"
    and 4: "session_revoke_all_for_user (usr_id u) (pd_now d) ''password_reset'' db3 = (n, db')"
    using con by (rule consume_reset_Inr)
  have "db_reset_tokens db1 = db_reset_tokens db"
    using 1 by (auto simp: update_password_hash_if_current_def Let_def)
  then have "reset_token_spent (digest_token sec tok) db2"
    using t ok 2 by (auto simp: reset_token_spent_def row_with_def reset_token_get_by_digest_for_update_def
        reset_token_mark_used_def Let_def lookup_by_update_where token_is_spent_def require_usable_token_def
        split: if_splits)
  then have "reset_token_spent (digest_token sec tok) db3"
    using reset_token_spent_kept(3) [of _ db2 "usr_id u" "pd_now d" "Some (prt_id t)"] 3 by simp
  then show ?thesis
    using session_revoke_all_effect(5) [OF 4] reset_token_spent_tokens by blast
qed

lemma spent_not_confirmed:
  "reset_token_spent (digest_token sec tok) db \<Longrightarrow> confirm_reset sec d tok pw db \<noteq> (Inr c, db')"
  by (auto simp: reset_token_spent_def row_with_def token_is_spent_def reset_token_get_by_digest_for_update_def
      require_usable_token_def elim!: confirm_reset_Inr split: if_splits)

lemma no_active_after_consume:
  assumes "reset_token_mark_used i now db1 = (b, db2)"
    and "reset_token_invalidate_active_for_user u now (Some i) db2 = (m, db3)"
  shows "active_reset_tokens u db3 = []"
proof -
  have "db_reset_tokens db3 =
      update_where (\<lambda>t. prt_user_id t = u \<and> prt_used_at t = None \<and> prt_invalidated_at t = None \<and> Some (prt_id t) \<noteq> Some i)
        (\<lambda>t. t\<lparr>prt_invalidated_at := Some now\<rparr>)
        (update_where (\<lambda>t. prt_id t = i \<and> prt_used_at t = None \<and> prt_invalidated_at t = None)
          (\<lambda>t. t\<lparr>prt_used_at := Some now\<rparr>) (db_reset_tokens db1))"
    using assms by (auto simp: reset_token_mark_used_def reset_token_invalidate_active_for_user_def Let_def)
  then have "\<forall>t \<in> set (db_reset_tokens db3).
      \<not> (prt_user_id t = u \<and> prt_used_at t = None \<and> prt_invalidated_at t = None)"
    by (simp only: ball_update_where) auto
  then show ?thesis by (simp add: active_reset_tokens_def filter_empty_conv)
qed

text \<open>Issuing a reset token that does not collide, for an active account: exactly one usable token.\<close>

lemma request_reset_issues:
  assumes "get_auth_record_by_email (py_identifier email) db = Some r" and "usr_is_active (uar_user r)"
    and "lookup_by prt_id (pd_token_id d) (db_reset_tokens db) = None"
    and "lookup_by prt_token_digest (digest_token sec (pd_raw_token d)) (db_reset_tokens db) = None"
  obtains db' where "request_reset sec d ttl email db =
      (Inr (Some \<lparr>pri_user_id = user_key r, pri_email = user_email_key r, pri_raw_token = pd_raw_token d,
         pri_expires_at = pd_now d + ttl\<rparr>), db')"
    and "length (active_reset_tokens (user_key r) db') = 1"
    and "db_users db' = db_users db" and "db_sessions db' = db_sessions db"
proof -
  let ?db1 = "snd (reset_token_invalidate_active_for_user (user_key r) (pd_now d) None db)"
  let ?t = "\<lparr>prt_id = pd_token_id d, prt_user_id = user_key r, prt_token_digest = digest_token sec (pd_raw_token d),
    prt_credential_fingerprint = create_reauthentication_fingerprint sec (uar_hashed_password r),
    prt_created_at = pd_now d, prt_expires_at = pd_now d + ttl, prt_used_at = None, prt_invalidated_at = None\<rparr>"
  have "lookup_by user_key (user_key r) (db_users ?db1) \<noteq> None"
    using assms(1) by (auto simp: get_auth_record_by_email_def reset_token_invalidate_active_for_user_def Let_def
        lookup_by_None_iff dest: lookup_by_SomeD)
  then have new: "reset_token_create ?t ?db1 = (Inr ?t, ?db1\<lparr>db_reset_tokens := db_reset_tokens ?db1 @ [?t]\<rparr>)"
    using assms(3,4)
    by (simp add: reset_token_create_def reset_token_invalidate_active_for_user_def Let_def del: not_None_eq)
  have "request_reset sec d ttl email db =
      (Inr (Some \<lparr>pri_user_id = user_key r, pri_email = user_email_key r, pri_raw_token = pd_raw_token d,
         pri_expires_at = pd_now d + ttl\<rparr>), ?db1\<lparr>db_reset_tokens := db_reset_tokens ?db1 @ [?t]\<rparr>)"
    using assms(1,2) new by (simp add: request_reset_def Let_def split_beta py_identifier_def)
  moreover have "length (active_reset_tokens (user_key r) (?db1\<lparr>db_reset_tokens := db_reset_tokens ?db1 @ [?t]\<rparr>)) = 1"
    using active_after_invalidate [of "user_key r" "pd_now d" db] by (simp add: active_reset_tokens_def)
  moreover have "db_users ?db1 = db_users db" and "db_sessions ?db1 = db_sessions db"
    by (simp_all add: reset_token_invalidate_active_for_user_def Let_def)
  ultimately show ?thesis using that by simp
qed

lemma returned_below_400:
  assumes "auth_handler dep call app = (Returned r, app')"
  shows "rp_status r < 400 \<or> (\<exists>d req. call = Refresh d req)"
proof (cases call)
  case (Register now i salt email pw)
  then show ?thesis using assms
    by (auto simp: register_account_def Let_def unhandled_def plain_reply_def
        split: sum.splits prod.splits create_user_error.splits)
next
  case (Login d t t' req name pw)
  then show ?thesis using assms
    by (auto simp: login_for_access_token_def Let_def http_exception_def unhandled_def plain_reply_def
        split: sum.splits prod.splits if_splits)
next
  case (Reauthenticate d req pw)
  then show ?thesis using assms
    by (auto simp: reauthenticate_current_user_def get_current_user_def http_exception_def unhandled_def plain_reply_def
        split: sum.splits prod.splits option.splits auth_error.splits)
next
  case (ChangePassword d req tok pw)
  then show ?thesis using assms
    by (auto simp: change_current_user_password_def get_current_user_def http_exception_def unhandled_def
        plain_reply_def clear_auth_cookies_def split: sum.splits prod.splits option.splits auth_error.splits)
next
  case (RequestReset d t req email)
  then show ?thesis using assms
    by (auto simp: request_password_reset_def Let_def unhandled_def password_reset_delivery_error_handler_def plain_reply_def
        split: sum.splits prod.splits option.splits if_splits)
next
  case (ConfirmReset d tok pw)
  then show ?thesis using assms
    by (auto simp: confirm_password_reset_def http_exception_def unhandled_def plain_reply_def clear_auth_cookies_def
        split: sum.splits prod.splits password_reset_error.splits)
next
  case (Logout d req)
  then show ?thesis using assms
    by (auto simp: logout_def Let_def http_exception_def unhandled_def plain_reply_def clear_auth_cookies_def
        split: sum.splits prod.splits option.splits auth_error.splits)
next
  case (LogoutAll d req)
  then show ?thesis using assms
    by (auto simp: logout_all_def get_current_user_def http_exception_def unhandled_def plain_reply_def
        clear_auth_cookies_def split: sum.splits prod.splits option.splits)
next
  case (Me d req)
  then show ?thesis using assms
    by (auto simp: read_current_user_def get_current_user_def http_exception_def plain_reply_def
        split: sum.splits prod.splits option.splits)
qed simp

lemma reuse_only_from_rotation [simp]:
  "decode_refresh_token_with_csrf sec d token ck hdr \<noteq> Inl (RefreshTokenReuseError u i)"
  "require_usable_session s c now \<noteq> Some (RefreshTokenReuseError u i)"
  "resolve_active_user v db \<noteq> Inl (RefreshTokenReuseError u i)"
  by (auto simp: decode_refresh_token_with_csrf_def validate_csrf_def require_usable_session_def
      resolve_active_user_def require_active_user_def split: sum.splits option.splits if_splits)

lemma rotate_reuse:
  assumes "rotate_refresh_token_with_csrf sec d token ck hdr db = (Inl (RefreshTokenReuseError u i), db')"
  obtains s where "session_get_by_id (ses_id s) db = Some s" and "\<not> session_is_revoked s"
    and "db' = session_revoke (ses_id s) (dr_now d) ''refresh_token_reuse'' db"
proof -
  obtain c where c: "decode_refresh_token_with_csrf sec d token ck hdr = Inr c"
    using assms by (cases "decode_refresh_token_with_csrf sec d token ck hdr")
      (auto simp: rotate_refresh_token_with_csrf_def)
  obtain s where s: "session_get_by_id (rc_session_id c) db = Some s"
    using assms c by (cases "session_get_by_id (rc_session_id c) db")
      (auto simp: rotate_refresh_token_with_csrf_def session_get_by_id_for_update_def session_get_by_id_def)
  then have look: "session_get_by_id_for_update (rc_session_id c) db = Some s"
    by (simp add: session_get_by_id_for_update_def session_get_by_id_def)
  have usable: "require_usable_session s c (dr_now d) = None"
    using assms c look by (cases "require_usable_session s c (dr_now d)")
      (auto simp: rotate_refresh_token_with_csrf_def)
  have "ses_current_jti s \<noteq> rc_token_id c"
    using assms c look usable
    by (auto simp: rotate_refresh_token_with_csrf_def split: sum.splits prod.splits option.splits)
  then have db': "db' = session_revoke (ses_id s) (dr_now d) ''refresh_token_reuse'' db"
    using assms c look usable by (auto simp: rotate_refresh_token_with_csrf_def)
  have "\<not> session_is_revoked s"
    using usable by (auto simp: require_usable_session_def session_is_revoked_def split: if_splits)
  moreover have "session_get_by_id (ses_id s) db = Some s" using s session_get_by_id_id [OF s] by simp
  ultimately show ?thesis using db' by (intro that)
qed

lemma refresh_returned_error:
  assumes "refresh_access_token sec d req app = (Returned r, app')" and "400 \<le> rp_status r"
  shows "rp_status r = 401 \<and> (\<exists>s. session_get_by_id (ses_id s) (app_db app) = Some s \<and> \<not> session_is_revoked s \<and>
    app_db app' = session_revoke (ses_id s) (dr_now d) ''refresh_token_reuse'' (app_db app))"
  using assms
  by (auto simp: refresh_access_token_def http_exception_def unhandled_def plain_reply_def clear_auth_cookies_def
      split: sum.splits prod.splits option.splits auth_error.splits elim!: rotate_reuse)

lemma created_csrf_validates:
  assumes "sec_hmac_sha256 sec (sec_csrf_secret_key sec) (uuid_str i @ '':'' @ nonce) \<noteq> []"
    and "nonce \<noteq> []" and "CHR ''.'' \<notin> set nonce"
  shows "validate_csrf sec i (get_cookie (Some (create_csrf_token sec nonce i))) (Some (create_csrf_token sec nonce i)) = None"
proof -
  have "get_cookie (Some (create_csrf_token sec nonce i)) = Some (create_csrf_token sec nonce i)"
    using assms(2) by (cases nonce) (simp_all add: create_csrf_token_def get_cookie_def)
  moreover have "validate_csrf_token sec i (create_csrf_token sec nonce i)"
    using assms py_partition_append [OF assms(3), of "csrf_signature sec i nonce"]
    by (simp add: validate_csrf_token_def create_csrf_token_def csrf_signature_def)
  ultimately show ?thesis by (simp add: validate_csrf_def)
qed

lemma login_200:
  assumes "auth_serve dep (Login d t t' req name pw) app = (reply, app')" and "rp_status reply = 200"
  obtains u res age where "authenticate (dep_security dep) name pw (app_db app) = Inr u"
    and "issue_authentication_result (dep_security dep) d u (app_db app) = (Inr res, app_db app')"
    and "ltd_allowed (fst (lt_begin_attempt t (client_address req) name (app_login_throttle app)))"
    and "reply = plain_reply 200\<lparr>rp_access_token := Some (res_access_token res),
           rp_refresh_cookie := CookieSet (res_refresh_token res) (Some age),
           rp_csrf_cookie := CookieSet (res_csrf_token res) None\<rparr>"
  using assms
  by (auto simp: auth_serve_def unit_of_work_def login_for_access_token_def Let_def http_exception_def unhandled_def
      plain_reply_def split: sum.splits prod.splits if_splits)

lemma authenticate_Inr:
  "authenticate sec name pw db = Inr u \<Longrightarrow>
     \<exists>r. get_auth_record_by_email (py_identifier name) db = Some r \<and> u = uar_user r \<and> usr_is_active u \<and>
         verify_password sec pw (uar_hashed_password r)"
  by (auto simp: authenticate_def py_identifier_def split: option.splits if_splits)

definition new_session :: "security \<Rightarrow> auth_draws \<Rightarrow> user \<Rightarrow> auth_session" where
  "new_session sec d u =
     \<lparr>ses_id = dr_session_id d, ses_user_id = usr_id u, ses_current_jti = dr_refresh_id d,
      ses_created_at = dr_now d, ses_last_used_at = dr_now d,
      ses_expires_at = dr_now d + timedelta_days (sec_refresh_token_expire_days sec),
      ses_revoked_at = None, ses_revocation_reason = None\<rparr>"

lemma issue_Inr:
  assumes "issue_authentication_result sec d u db = (Inr res, db')"
  shows "usr_is_active u \<and> db' = db\<lparr>db_sessions := db_sessions db @ [new_session sec d u]\<rparr> \<and>
    lookup_by ses_id (dr_session_id d) (db_sessions db) = None \<and>
    create_access_token sec (dr_access_now d) (dr_access_id d) (usr_id u) None = Some (res_access_token res) \<and>
    create_refresh_token sec (dr_refresh_now d) (usr_id u) (dr_session_id d) (dr_refresh_id d)
      (dr_now d + timedelta_days (sec_refresh_token_expire_days sec)) = Some (res_refresh_token res) \<and>
    res_csrf_token res = create_csrf_token sec (dr_nonce d) (dr_session_id d)"
  using assms
  by (auto simp: issue_authentication_result_def session_create_def require_active_user_def new_session_def Let_def
      split: option.splits sum.splits prod.splits if_splits)

section \<open>Properties\<close>

text \<open>
  A password change that is answered 204 was asked by the user of
  a valid access token, with a reauthentication proof of that user bound to the current hash and a
  new password of 15 to 128 characters that differs from the current one. It stores the new hash
  for that user alone, revokes all the user's sessions and nobody else's, and clears both cookies.
\<close>

theorem password_change_effects:
  assumes "auth_db_inv (app_db app)"
    and "auth_serve dep (ChangePassword d req tok pw) app = (reply, app')" and "rp_status reply = 204"
  shows "\<exists>bearer u r cl. get_cookie (rq_bearer req) = Some bearer \<and>
     resolve_access_token (dep_security dep) d bearer (app_db app) = Inr u \<and>
     lookup_by user_key (usr_id u) (db_users (app_db app)) = Some r \<and>
     decode_reauthentication_token (dep_security dep) (dr_decode_now d) tok = Inr cl \<and> ra_user_id cl = usr_id u \<and>
     reauthentication_credential_matches (dep_security dep) (uar_hashed_password r) (ra_credential_fingerprint cl) \<and>
     15 \<le> length pw \<and> length pw \<le> 128 \<and> \<not> verify_password (dep_security dep) pw (uar_hashed_password r) \<and>
     credential_replaced (usr_id u) (hash_password (dep_security dep) (dr_salt d) pw) (app_db app) (app_db app') \<and>
     db_reset_tokens (app_db app') = db_reset_tokens (app_db app) \<and>
     rp_refresh_cookie reply = CookieCleared \<and> rp_csrf_cookie reply = CookieCleared"
proof -
  have uniq: "unique_key user_key (db_users (app_db app))" using assms(1) by (simp add: auth_db_inv_def)
  obtain u n where cur: "get_current_user (dep_security dep) d req app = (Inr u, app)"
    and "change_password (dep_security dep) d u tok pw (app_db app) =
           (Inr \<lparr>pcr_user_id = usr_id u, pcr_revoked_sessions = n\<rparr>, app_db app')"
    by (rule change_password_204 [OF assms(2,3)])
  from this(2) obtain r cl db1 n' where r: "user_key r = usr_id u"
      "get_auth_record_by_email (py_identifier (usr_email u)) (app_db app) = Some r"
    and cl: "decode_reauthentication_token (dep_security dep) (dr_decode_now d) tok = Inr cl" "ra_user_id cl = usr_id u"
      "reauthentication_credential_matches (dep_security dep) (uar_hashed_password r) (ra_credential_fingerprint cl)"
    and pw: "validate_new_password pw = None" "\<not> verify_password (dep_security dep) pw (uar_hashed_password r)"
    and upd: "update_password_hash_if_current (dr_update_now d) (usr_id u) (uar_hashed_password r)
           (hash_password (dep_security dep) (dr_salt d) pw) (app_db app) = (True, db1)"
    and rev: "session_revoke_all_for_user (usr_id u) (dr_now d) ''password_changed'' db1 = (n', app_db app')"
    by (elim change_password_Inr) blast
  have row: "lookup_by user_key (usr_id u) (db_users (app_db app)) = Some r"
    using r lookup_by_unique [OF uniq] by (auto simp: get_auth_record_by_email_def dest: lookup_by_SomeD)
  have "db_reset_tokens (app_db app') = db_reset_tokens (app_db app)"
    using session_revoke_all_effect(5) [OF rev] update_password_effect [OF uniq upd] by metis
  moreover have "rp_refresh_cookie reply = CookieCleared \<and> rp_csrf_cookie reply = CookieCleared"
    using assms(2,3) cur
    by (auto simp: auth_serve_def unit_of_work_def change_current_user_password_def http_exception_def unhandled_def
        plain_reply_def clear_auth_cookies_def split: sum.splits auth_error.splits prod.splits)
  moreover obtain bearer where "get_cookie (rq_bearer req) = Some bearer"
      "resolve_access_token (dep_security dep) d bearer (app_db app) = Inr u"
    using cur by (auto simp: get_current_user_def split: option.splits sum.splits)
  ultimately show ?thesis
    using row cl pw credential_replaced_by_updates [OF uniq upd refl refl rev]
    by (auto simp: validate_new_password_def PASSWORD_MIN_LENGTH_def PASSWORD_MAX_LENGTH_def split: if_splits)
qed

text \<open>
  Claim C32. A confirmed reset presented a stored credential, unused, not
  invalidated, unexpired and bound to the current hash of an active user, and a new password of 15
  to 128 characters that differs from the current one. It stores the new hash for that user alone,
  revokes all the user's sessions and nobody else's, and leaves the user no usable reset token.
\<close>

theorem password_reset_effects:
  assumes "auth_db_inv (app_db app)"
    and "auth_serve dep (ConfirmReset d tok pw) app = (reply, app')" and "rp_status reply = 204"
  shows "\<exists>t r. lookup_by prt_token_digest (sec_sha256 (dep_security dep) tok) (db_reset_tokens (app_db app)) = Some t \<and>
     prt_used_at t = None \<and> prt_invalidated_at t = None \<and> pd_now d < prt_expires_at t \<and>
     lookup_by user_key (prt_user_id t) (db_users (app_db app)) = Some r \<and> usr_is_active (uar_user r) \<and>
     prt_credential_fingerprint t =
       create_reauthentication_fingerprint (dep_security dep) (uar_hashed_password r) \<and>
     15 \<le> length pw \<and> length pw \<le> 128 \<and> \<not> verify_password (dep_security dep) pw (uar_hashed_password r) \<and>
     credential_replaced (prt_user_id t) (hash_password (dep_security dep) (pd_salt d) pw) (app_db app) (app_db app') \<and>
     active_reset_tokens (prt_user_id t) (app_db app') = []"
proof -
  let ?sec = "dep_security dep" and ?db = "app_db app"
  have uniq: "unique_key user_key (db_users ?db)" using assms(1) by (simp add: auth_db_inv_def)
  obtain c where "confirm_reset ?sec d tok pw ?db = (Inr c, app_db app')"
    by (rule confirm_reset_204 [OF assms(2,3)])
  then obtain t u r where t: "reset_token_get_by_digest_for_update (digest_token ?sec tok) ?db = Some t"
      "require_usable_token t (pd_now d) = None"
    and u: "user_get_by_id (prt_user_id t) ?db = Some u" "usr_is_active u"
    and r: "get_auth_record_by_email (py_identifier (usr_email u)) ?db = Some r" "user_key r = usr_id u"
    and fp: "prt_credential_fingerprint t = create_reauthentication_fingerprint ?sec (uar_hashed_password r)"
    and pw: "validate_new_password pw = None" "\<not> verify_password ?sec pw (uar_hashed_password r)"
    and con: "consume_reset ?sec d t u (uar_hashed_password r) pw ?db = (Inr c, app_db app')"
    by (elim confirm_reset_Inr) blast
  obtain db1 db2 m db3 n where 1: "update_password_hash_if_current (pd_update_now d) (usr_id u)
        (uar_hashed_password r) (hash_password ?sec (pd_salt d) pw) ?db = (True, db1)"
    and 2: "reset_token_mark_used (prt_id t) (pd_now d) db1 = (True, db2)"
    and 3: "reset_token_invalidate_active_for_user (usr_id u) (pd_now d) (Some (prt_id t)) db2 = (m, db3)"
    and 4: "session_revoke_all_for_user (usr_id u) (pd_now d) ''password_reset'' db3 = (n, app_db app')"
    using con by (rule consume_reset_Inr)
  have id: "usr_id u = prt_user_id t" using u(1) by (auto simp: user_get_by_id_def dest: lookup_by_SomeD)
  have row: "lookup_by user_key (prt_user_id t) (db_users ?db) = Some r"
    using r id lookup_by_unique [OF uniq] by (auto simp: get_auth_record_by_email_def dest: lookup_by_SomeD)
  have "db_users db3 = db_users db1" and "db_sessions db3 = db_sessions db1"
    using 2 3 by (auto simp: reset_token_mark_used_def reset_token_invalidate_active_for_user_def Let_def)
  from credential_replaced_by_updates [OF uniq 1 this 4]
  have "credential_replaced (prt_user_id t) (hash_password ?sec (pd_salt d) pw) ?db (app_db app')"
    by (simp add: id)
  moreover have "active_reset_tokens (prt_user_id t) (app_db app') = []"
    using no_active_after_consume [OF 2 3] session_revoke_all_effect(5) [OF 4] id active_reset_frame by metis
  moreover have "usr_is_active (uar_user r)" using u row by (simp add: user_get_by_id_def)
  ultimately show ?thesis
    using t row fp pw by (auto simp: validate_new_password_def PASSWORD_MIN_LENGTH_def PASSWORD_MAX_LENGTH_def
        reset_token_get_by_digest_for_update_def digest_token_def require_usable_token_def split: if_splits)
qed

text \<open>
  Claim C33. A reset credential works once: after a confirmed reset, the same
  credential is refused whatever requests of any kind come between, and the refused request
  changes no table.
\<close>

theorem reset_token_single_use:
  assumes "auth_serve dep (ConfirmReset d tok pw) app = (reply, app1)" and "rp_status reply = 204"
  shows "let app2 = fold (auth_exec dep) calls app1; (reply3, app3) = auth_serve dep (ConfirmReset d' tok pw') app2
    in rp_status reply3 \<noteq> 204 \<and> app_db app3 = app_db app2"
proof -
  obtain c where "confirm_reset (dep_security dep) d tok pw (app_db app) = (Inr c, app_db app1)"
    by (rule confirm_reset_204 [OF assms])
  then have "reset_token_spent (digest_token (dep_security dep) tok) (app_db (fold (auth_exec dep) calls app1))"
    by (intro spent.keep_run confirm_reset_spends) auto
  from spent_not_confirmed [OF this]
  obtain e db where "confirm_reset (dep_security dep) d' tok pw' (app_db (fold (auth_exec dep) calls app1)) = (Inl e, db)"
    by (metis prod.collapse sum.exhaust_sel sum.collapse)
  then show ?thesis
    by (cases e) (auto simp: auth_serve_def unit_of_work_def confirm_password_reset_def http_exception_def
        unhandled_def plain_reply_def Let_def)
qed

text \<open>
  Claim C35. The answer to a reset request does not depend on whether the account exists, nor on
  whether the mail could be delivered: with fresh draws it is 202 when the limiter allows it and
  429 with the limiter's wait otherwise. Tables change only for the active account of the address
  whose mail was delivered, which then has exactly one usable reset token; a failed delivery leaves
  them as they were and shows in the security log alone.
\<close>

theorem reset_request_hides_accounts:
  assumes "lookup_by prt_id (pd_token_id d) (db_reset_tokens (app_db app)) = None"
    and "lookup_by prt_token_digest (sec_sha256 (dep_security dep) (pd_raw_token d))
           (db_reset_tokens (app_db app)) = None"
  shows "let (decision, rt) = rt_check_and_record t (client_address req) email (app_reset_throttle app);
             (reply, app') = auth_serve dep (RequestReset d t req email) app;
             account = lookup_by user_email_key (py_identifier email) (db_users (app_db app));
             delivers = (\<lambda>r. dep_deliver dep \<lparr>pri_user_id = user_key r, pri_email = user_email_key r,
                           pri_raw_token = pd_raw_token d, pri_expires_at = pd_now d + dep_reset_ttl dep\<rparr>)
    in reply = (if rtd_allowed decision then plain_reply 202
                else plain_reply 429\<lparr>rp_error_code := Some PASSWORD_RESET_THROTTLED,
                       rp_retry_after := rtd_retry_after decision\<rparr>) \<and>
       app_reset_throttle app' = rt \<and>
       (case account of
          Some r \<Rightarrow> if rtd_allowed decision \<and> usr_is_active (uar_user r) \<and> delivers r
                    then length (active_reset_tokens (user_key r) (app_db app')) = 1
                    else app_db app' = app_db app
        | None \<Rightarrow> app_db app' = app_db app) \<and>
       map ev_event (app_events app') = map ev_event (app_events app) @
         [if \<not> rtd_allowed decision then ''auth.password_reset.throttled''
          else case account of
            Some r \<Rightarrow> if usr_is_active (uar_user r) \<and> \<not> delivers r then ''auth.password_reset.delivery_failed''
                      else ''auth.password_reset.requested''
          | None \<Rightarrow> ''auth.password_reset.requested'']"
proof -
  obtain decision rt where dec: "rt_check_and_record t (client_address req) email (app_reset_throttle app) =
      (decision, rt)" by fastforce
  show ?thesis
  proof (cases "lookup_by user_email_key (py_identifier email) (db_users (app_db app))")
    case None
    then have "request_reset (dep_security dep) d (dep_reset_ttl dep) email (app_db app) = (Inr None, app_db app)"
      by (simp add: request_reset_def get_auth_record_by_email_def py_identifier_def)
    then show ?thesis
      using None by (simp add: dec auth_serve_def unit_of_work_def request_password_reset_def emit_def)
  next
    case (Some r)
    then have r: "get_auth_record_by_email (py_identifier email) (app_db app) = Some r"
      by (simp add: get_auth_record_by_email_def)
    show ?thesis
    proof (cases "usr_is_active (uar_user r)")
      case True
      let ?i = "\<lparr>pri_user_id = user_key r, pri_email = user_email_key r, pri_raw_token = pd_raw_token d,
         pri_expires_at = pd_now d + dep_reset_ttl dep\<rparr>"
      obtain db' where "request_reset (dep_security dep) d (dep_reset_ttl dep) email (app_db app) = (Inr (Some ?i), db')"
        and "length (active_reset_tokens (user_key r) db') = 1"
        by (rule request_reset_issues [OF r True assms(1) assms(2) [folded digest_token_def]])
      then show ?thesis
        using Some True
        by (cases "dep_deliver dep ?i")
          (simp_all add: dec auth_serve_def unit_of_work_def request_password_reset_def emit_def
            password_reset_delivery_error_handler_def)
    next
      case False
      then have "request_reset (dep_security dep) d (dep_reset_ttl dep) email (app_db app) = (Inr None, app_db app)"
        using r by (simp add: request_reset_def py_identifier_def)
      then show ?thesis
        using Some False by (simp add: dec auth_serve_def unit_of_work_def request_password_reset_def emit_def)
    qed
  qed
qed

text \<open>
  Claim C36. A request answered with an error leaves every table as it
  was, with one exception: the refresh that presents a superseded token of a live session, whose
  session, and nothing else, is then revoked.
\<close>

theorem failed_requests_write_nothing:
  assumes "auth_serve dep call app = (reply, app')" and "400 \<le> rp_status reply"
  shows "app_db app' = app_db app \<or>
    (\<exists>d req s. call = Refresh d req \<and> rp_status reply = 401 \<and>
       session_get_by_id (ses_id s) (app_db app) = Some s \<and> \<not> session_is_revoked s \<and>
       app_db app' = session_revoke (ses_id s) (dr_now d) ''refresh_token_reuse'' (app_db app))"
proof (cases "auth_handler dep call app")
  case (Pair ex app1)
  show ?thesis
  proof (cases ex)
    case (Raised r)
    then show ?thesis using assms(1) Pair by (auto simp: auth_serve_def unit_of_work_def)
  next
    case (Returned r)
    then have r: "reply = r" "app' = app1" using assms(1) Pair by (auto simp: auth_serve_def unit_of_work_def)
    then obtain d req where call: "call = Refresh d req"
      using returned_below_400 [OF Pair [unfolded Returned]] assms(2) by fastforce
    show ?thesis
      using refresh_returned_error [OF Pair [unfolded Returned call auth_handler.simps]] assms(2) call r by fastforce
  qed
qed

text \<open>
  A login answered 200 was let through by the throttle and named,
  in any spelling of case and surrounding space, the e-mail of an active user whose stored hash
  verifies the password. It adds one live session of that user, whose lifetime is the configured
  number of days, and nothing else; any other answer leaves the tables as they were.
\<close>

theorem login_requires_credentials:
  shows "let (reply, app') = auth_serve dep (Login d t t' req name pw) app;
             decision = fst (lt_begin_attempt t (client_address req) name (app_login_throttle app))
    in if rp_status reply = 200
       then \<exists>r. lookup_by user_email_key (py_identifier name) (db_users (app_db app)) = Some r \<and>
              ltd_allowed decision \<and> usr_is_active (uar_user r) \<and>
              verify_password (dep_security dep) pw (uar_hashed_password r) \<and>
              session_get_by_id (dr_session_id d) (app_db app) = None \<and>
              app_db app' = (app_db app)\<lparr>db_sessions :=
                db_sessions (app_db app) @ [new_session (dep_security dep) d (uar_user r)]\<rparr>
       else app_db app' = app_db app"
proof -
  obtain reply app' where serve: "auth_serve dep (Login d t t' req name pw) app = (reply, app')" by fastforce
  show ?thesis
  proof (cases "rp_status reply = 200")
    case True
    obtain u res where u: "authenticate (dep_security dep) name pw (app_db app) = Inr u"
      and iss: "issue_authentication_result (dep_security dep) d u (app_db app) = (Inr res, app_db app')"
      and "ltd_allowed (fst (lt_begin_attempt t (client_address req) name (app_login_throttle app)))"
      by (rule login_200 [OF serve True])
    then show ?thesis
      using True serve authenticate_Inr [OF u] issue_Inr [OF iss]
      by (auto simp: get_auth_record_by_email_def session_get_by_id_def Let_def)
  next
    case False
    then have "app_db app' = app_db app"
      using serve by (auto simp: auth_serve_def unit_of_work_def login_for_access_token_def Let_def
          http_exception_def unhandled_def plain_reply_def split: sum.splits prod.splits if_splits)
    then show ?thesis using False serve by (simp add: Let_def)
  qed
qed

text \<open>
  Claim C34. The cookies of a successful login can be used: a refresh that sends
  them back while the session lasts is answered 200 with a new access token and a new refresh
  cookie. The session keeps its owner and its absolute expiry, and its current identifier becomes
  the one the refresh drew. PyJWT is assumed to keep its contract and to sign the two new tokens,
  the HMAC not to be empty, and the new identifier not to be current for another session.
\<close>

theorem login_then_refresh:
  fixes d d2 dep
  defines "sec \<equiv> dep_security dep"
  defines "expiry \<equiv> dr_now d + timedelta_days (sec_refresh_token_expire_days sec)"
  assumes "jwt_contract (sec_jwt sec) (\<lambda>k. k)" and "\<And>m. sec_hmac_sha256 sec (sec_csrf_secret_key sec) m \<noteq> []"
    and "auth_db_inv (app_db app)"
    and "auth_serve dep (Login d t t' req name pw) app = (reply, app1)" and "rp_status reply = 200"
    and "authenticate sec name pw (app_db app) = Inr u"
    and "rp_refresh_cookie reply = CookieSet token age" and "rp_csrf_cookie reply = CookieSet csrf no_age"
    and "rq_refresh_cookie req2 = Some token" and "rq_csrf_cookie req2 = Some csrf" and "rq_csrf_header req2 = Some csrf"
    and "token \<noteq> []" and "dr_nonce d \<noteq> []" and "CHR ''.'' \<notin> set (dr_nonce d)"
    and "0 \<le> expiry" and "expiry < timedelta_seconds 253402300000"
    and "whole_second (dr_refresh_now d) \<le> dr_decode_now d2" and "dr_decode_now d2 < whole_second expiry"
    and "dr_now d2 < expiry"
    and "whole_second (dr_refresh_now d2) \<le> dr_cookie_decode_now d2" and "dr_cookie_decode_now d2 < whole_second expiry"
    and "create_refresh_token sec (dr_refresh_now d2) (usr_id u) (dr_session_id d) (dr_refresh_id d2) expiry = Some token2"
    and "create_access_token sec (dr_access_now d2) (dr_access_id d2) (usr_id u) None = Some access2"
    and "\<forall>s \<in> set (db_sessions (app_db app)). ses_current_jti s \<noteq> dr_refresh_id d2"
  shows "\<exists>reply2 app2 age2 s. auth_serve dep (Refresh d2 req2) app1 = (reply2, app2) \<and> rp_status reply2 = 200 \<and>
    rp_access_token reply2 = Some access2 \<and> rp_refresh_cookie reply2 = CookieSet token2 age2 \<and>
    session_get_by_id (dr_session_id d) (app_db app2) = Some s \<and> ses_current_jti s = dr_refresh_id d2 \<and>
    ses_user_id s = usr_id u \<and> ses_expires_at s = expiry \<and> \<not> session_is_revoked s"
proof -
  let ?db = "app_db app" and ?db1 = "app_db app1" and ?s = "new_session sec d u"
  obtain u' res age' where "authenticate (dep_security dep) name pw ?db = Inr u'"
    and "issue_authentication_result (dep_security dep) d u' ?db = (Inr res, ?db1)"
    and "reply = plain_reply 200\<lparr>rp_access_token := Some (res_access_token res),
           rp_refresh_cookie := CookieSet (res_refresh_token res) (Some age'),
           rp_csrf_cookie := CookieSet (res_csrf_token res) None\<rparr>"
    by (rule login_200 [OF assms(6,7)])
  then have iss: "issue_authentication_result sec d u ?db = (Inr res, ?db1)"
    and tok: "token = res_refresh_token res" and csrf: "csrf = res_csrf_token res"
    using assms(8-10) by (simp_all add: sec_def)
  note iss = issue_Inr [OF iss]
  have db1: "?db1 = ?db\<lparr>db_sessions := db_sessions ?db @ [?s]\<rparr>" using iss by simp
  have row: "lookup_by ses_id (dr_session_id d) (db_sessions ?db1) = Some ?s"
    using iss by (simp add: db1 lookup_by_append lookup_by_Cons new_session_def)
  have dec: "decode_refresh_token sec (dr_decode_now d2) token =
      Inr \<lparr>rc_user_id = usr_id u, rc_session_id = dr_session_id d, rc_token_id = dr_refresh_id d,
        rc_expires_at = whole_second expiry\<rparr>"
    using refresh_token_roundtrip [OF assms(3), of "dr_refresh_now d" "usr_id u" "dr_session_id d" "dr_refresh_id d"
        expiry token "dr_decode_now d2"] iss assms(17-20) by (simp add: tok expiry_def)
  have cookie: "get_cookie (Some token) = Some token" using assms(14) by (cases token) (simp_all add: get_cookie_def)
  have "csrf = create_csrf_token sec (dr_nonce d) (dr_session_id d)" using iss csrf by simp
  then have decc: "decode_refresh_token_with_csrf sec d2 token (get_cookie (rq_csrf_cookie req2)) (rq_csrf_header req2) =
      Inr \<lparr>rc_user_id = usr_id u, rc_session_id = dr_session_id d, rc_token_id = dr_refresh_id d,
        rc_expires_at = whole_second expiry\<rparr>"
    using dec created_csrf_validates [OF assms(4,15,16)] assms(12,13) by (simp add: decode_refresh_token_with_csrf_def)
  have usable: "require_usable_session ?s \<lparr>rc_user_id = usr_id u, rc_session_id = dr_session_id d,
      rc_token_id = dr_refresh_id d, rc_expires_at = whole_second expiry\<rparr> (dr_now d2) = None"
    using assms(21) by (simp add: require_usable_session_def new_session_def expiry_def)
  let ?db2 = "?db1\<lparr>db_sessions := update_where (\<lambda>s. ses_id s = dr_session_id d)
    (\<lambda>s. s\<lparr>ses_current_jti := dr_refresh_id d2, ses_last_used_at := dr_now d2\<rparr>) (db_sessions ?db1)\<rparr>"
  have upd: "session_update_current_token (dr_session_id d) (dr_refresh_id d2) (dr_now d2) ?db1 = (Inr (), ?db2)"
    using assms(26) by (auto simp: session_update_current_token_def db1 new_session_def)
  have user: "resolve_active_user (usr_id u) ?db1 = Inr u"
    using authenticate_Inr [OF assms(8)] assms(5) db1 lookup_by_unique [of user_key "db_users ?db"]
    by (auto simp: resolve_active_user_def require_active_user_def user_get_by_id_def auth_db_inv_def
        get_auth_record_by_email_def dest: lookup_by_SomeD)
  have rot: "rotate_refresh_token_with_csrf sec d2 token (get_cookie (rq_csrf_cookie req2)) (rq_csrf_header req2) ?db1 =
      (Inr \<lparr>rot_access_token = access2, rot_refresh_token = token2, rot_user = u, rot_session_id = dr_session_id d,
         rot_previous_refresh_token_id = dr_refresh_id d, rot_refresh_token_id = dr_refresh_id d2\<rparr>, ?db2)"
    using row usable user upd assms(24,25)
    by (simp add: rotate_refresh_token_with_csrf_def decc session_get_by_id_for_update_def)
      (simp add: new_session_def expiry_def)
  obtain max_age where "refresh_cookie_max_age sec (dr_cookie_decode_now d2) (dr_cookie_now d2) token2 = Inr max_age"
    using refresh_token_roundtrip [OF assms(3,24,17,18), of "dr_cookie_decode_now d2"] assms(22,23)
    by (simp add: refresh_cookie_max_age_def)
  then have "auth_serve dep (Refresh d2 req2) app1 =
      (plain_reply 200\<lparr>rp_access_token := Some access2, rp_refresh_cookie := CookieSet token2 (Some max_age)\<rparr>,
       emit ''auth.refresh.succeeded'' ''success'' None (app1\<lparr>app_db := ?db2\<rparr>))"
    using rot cookie assms(11)
    by (simp add: auth_serve_def unit_of_work_def refresh_access_token_def sec_def [symmetric])
  moreover have "session_get_by_id (dr_session_id d) ?db2 =
      Some (?s\<lparr>ses_current_jti := dr_refresh_id d2, ses_last_used_at := dr_now d2\<rparr>)"
    using row by (simp add: session_get_by_id_def lookup_by_update_where new_session_def)
  ultimately show ?thesis
    by (simp add: plain_reply_def new_session_def session_is_revoked_def expiry_def)
qed

section \<open>Witnesses\<close>

definition demo_app1 :: auth_app where
  "demo_app1 = demo_app demo_users [demo_session 9]"

lemma demo_app1_inv: "auth_db_inv (app_db demo_app1)"
  by code_simp

definition demo_change :: auth_call where
  "demo_change = ChangePassword (demo_draws 10) (demo_request (Some ''ttt'') None) ''tttt'' ''another battery'' "

lemma demo_changed: "rp_status (fst (auth_serve demo_dep demo_change demo_app1)) = 204"
  by code_simp

theorem password_change_effects_witness:
  "\<exists>u. credential_replaced u ''another battery'' (app_db demo_app1) (app_db (auth_exec demo_dep demo_change demo_app1))"
  using demo_changed password_change_effects [OF demo_app1_inv, of demo_dep "demo_draws 10" "demo_request (Some ''ttt'') None"
      "''tttt''" "''another battery''", OF prod.collapse [symmetric]]
  by (auto simp: demo_change_def auth_exec_def demo_dep_def demo_sec_def demo_security_def hash_password_def)

definition demo_reset_draws :: reset_draws where
  "demo_reset_draws = \<lparr>pd_now = 2000000, pd_update_now = 2000000, pd_raw_token = ''raw'', pd_token_id = 30, pd_salt = 0\<rparr>"

definition demo_app2 :: auth_app where
  "demo_app2 = auth_exec demo_dep (RequestReset demo_reset_draws 0 (demo_request None None) '' A@b.c'') demo_app1"

lemma demo_app2_inv: "auth_db_inv (app_db demo_app2)"
  by code_simp

lemma demo_confirmed: "rp_status (fst (auth_serve demo_dep (ConfirmReset demo_reset_draws ''raw'' ''another battery'') demo_app2)) = 204"
  by code_simp

theorem password_reset_effects_witness:
  "\<exists>u. credential_replaced u ''another battery'' (app_db demo_app2)
      (app_db (auth_exec demo_dep (ConfirmReset demo_reset_draws ''raw'' ''another battery'') demo_app2))"
  using password_reset_effects [OF demo_app2_inv prod.collapse [symmetric] demo_confirmed]
  by (auto simp: auth_exec_def demo_dep_def demo_sec_def demo_security_def hash_password_def)

theorem reset_token_single_use_witness:
  "rp_status (fst (auth_serve demo_dep (ConfirmReset demo_reset_draws ''raw'' ''yet another battery'')
     (auth_exec demo_dep (ConfirmReset demo_reset_draws ''raw'' ''another battery'') demo_app2))) \<noteq> 204"
  using reset_token_single_use [OF prod.collapse [symmetric] demo_confirmed, of "[]" demo_reset_draws
      "''yet another battery''"]
  by (simp add: auth_exec_def Let_def split_beta)

theorem reset_request_hides_accounts_witness:
  "rp_status (fst (auth_serve demo_dep (RequestReset demo_reset_draws 0 (demo_request None None) ''a@b.c'') demo_app1)) =
   rp_status (fst (auth_serve demo_dep (RequestReset demo_reset_draws 0 (demo_request None None) ''no@b.c'') demo_app1))"
proof -
  have fresh: "lookup_by prt_id (pd_token_id demo_reset_draws) (db_reset_tokens (app_db demo_app1)) = None"
    "lookup_by prt_token_digest (sec_sha256 (dep_security demo_dep) (pd_raw_token demo_reset_draws))
       (db_reset_tokens (app_db demo_app1)) = None"
    by (simp_all add: demo_dep_def demo_app1_def demo_app_def)
  have "rtd_allowed (fst (rt_check_and_record 0 (client_address (demo_request None None)) email
      (app_reset_throttle demo_app1)))" for email
    by (simp add: demo_app1_def demo_app_def rt_check_and_record_def rt_prune_def prune_def Let_def)
  then show ?thesis
    using reset_request_hides_accounts [OF fresh, of 0 "demo_request None None" "''a@b.c''"]
      reset_request_hides_accounts [OF fresh, of 0 "demo_request None None" "''no@b.c''"]
    by (simp add: Let_def split_beta)
qed

theorem failed_requests_write_nothing_witness:
  "app_db (auth_exec demo_dep (Me (demo_draws 10) (demo_request None None)) demo_app1) = app_db demo_app1"
proof -
  have "400 \<le> rp_status (fst (auth_serve demo_dep (Me (demo_draws 10) (demo_request None None)) demo_app1))"
    by code_simp
  from failed_requests_write_nothing [OF prod.collapse [symmetric] this] show ?thesis by (simp add: auth_exec_def)
qed

definition demo_app0 :: auth_app where
  "demo_app0 = demo_app demo_users []"

lemma demo_app0_inv: "auth_db_inv (app_db demo_app0)"
  by code_simp

definition demo_login :: auth_call where
  "demo_login = Login (demo_draws 9) 0 0 (demo_request None None) '' A@b.c'' ''correct horse battery'' "

definition demo_cookies :: auth_request where
  "demo_cookies = \<lparr>rq_client_host = None, rq_bearer = None, rq_refresh_cookie = Some ''ttttt'',
     rq_csrf_cookie = Some (create_csrf_token demo_sec ''nonce'' 20),
     rq_csrf_header = Some (create_csrf_token demo_sec ''nonce'' 20)\<rparr>"

definition reply_cookies :: "auth_reply \<Rightarrow> int \<times> cookie_change \<times> cookie_change" where
  "reply_cookies r = (rp_status r, rp_refresh_cookie r, rp_csrf_cookie r)"

lemma demo_login_reply:
  "reply_cookies (fst (auth_serve demo_dep demo_login demo_app0)) =
     (200, CookieSet ''ttttt'' (Some 604800), CookieSet (create_csrf_token demo_sec ''nonce'' 20) None)"
  by code_simp

theorem login_then_refresh_witness:
  "rp_status (fst (auth_serve demo_dep (Refresh (demo_draws 10) demo_cookies) (auth_exec demo_dep demo_login demo_app0))) = 200"
proof -
  have login: "auth_serve demo_dep (Login (demo_draws 9) 0 0 (demo_request None None) '' A@b.c'' ''correct horse battery'')
      demo_app0 = (fst (auth_serve demo_dep demo_login demo_app0), auth_exec demo_dep demo_login demo_app0)"
    by (simp add: demo_login_def auth_exec_def)
  have reply: "rp_status (fst (auth_serve demo_dep demo_login demo_app0)) = 200"
    "rp_refresh_cookie (fst (auth_serve demo_dep demo_login demo_app0)) = CookieSet ''ttttt'' (Some 604800)"
    "rp_csrf_cookie (fst (auth_serve demo_dep demo_login demo_app0)) =
       CookieSet (create_csrf_token demo_sec ''nonce'' 20) None"
    using demo_login_reply by (simp_all add: reply_cookies_def)
  have user: "authenticate (dep_security demo_dep) '' A@b.c'' ''correct horse battery'' (app_db demo_app0) = Inr demo_user"
    by code_simp
  have signed: "create_refresh_token (dep_security demo_dep) 2000000 7 20 10 604802000000 = Some ''tttttt''"
    "create_access_token (dep_security demo_dep) 2000000 11 7 None = Some ''ttt''"
    by code_simp+
  have hmac: "sec_hmac_sha256 (dep_security demo_dep) (sec_csrf_secret_key (dep_security demo_dep)) m \<noteq> []" for m
    by (simp add: demo_dep_def demo_sec_def demo_security_def demo_digest_def)
  have lib: "jwt_contract (sec_jwt (dep_security demo_dep)) (\<lambda>k. k)"
    by (simp add: demo_dep_def demo_sec_contract)
  have days: "sec_refresh_token_expire_days (dep_security demo_dep) = 7"
    by (simp add: demo_dep_def demo_sec_def demo_security_def)
  show ?thesis
    using login_then_refresh [OF lib hmac demo_app0_inv login reply(1) user reply(2,3), of demo_cookies "demo_draws 10"
        "''tttttt''" "''ttt''"] signed
    by (simp add: days demo_cookies_def demo_draws_def demo_user_def whole_second_def us_per_second_def timedelta_days_def
        timedelta_seconds_def demo_app0_def demo_app_def)
      fastforce
qed

end
