(* ===== verification/Py_Datetime.thy ===== *)
theory Py_Datetime
  imports Py_Values
begin

text \<open>
  \<open>datetime.isoformat()\<close> of a UTC instant, as the publishers and the task execution table write it:
  the proleptic Gregorian date of a number of days, the time of day, microseconds when they are not
  zero, and the offset; and the decimal text of an integer.
\<close>

definition digit_char :: "int \<Rightarrow> char" where
  "digit_char d = ''0123456789'' ! nat (d mod 10)"

fun decimal_padded :: "nat \<Rightarrow> int \<Rightarrow> string" where
  "decimal_padded 0 n = []"
| "decimal_padded (Suc w) n = decimal_padded w (n div 10) @ [digit_char n]"

text \<open>\<open>str(n)\<close> of an integer.\<close>

fun decimal :: "nat \<Rightarrow> string" where
  "decimal n = (if n < 10 then [digit_char (int n)] else decimal (n div 10) @ [digit_char (int n)])"

declare decimal.simps [simp del]

definition int_text :: "int \<Rightarrow> string" where
  "int_text n = (if n < 0 then CHR ''-'' # decimal (nat (- n)) else decimal (nat n))"

definition digit_value :: "char \<Rightarrow> nat" where
  "digit_value c = of_char c - 48"

lemma digit_char_value: "digit_value (digit_char (int n)) = n mod 10" "digit_char (int n) \<in> set ''0123456789''"
proof -
  have "n mod 10 = 0 \<or> n mod 10 = 1 \<or> n mod 10 = 2 \<or> n mod 10 = 3 \<or> n mod 10 = 4 \<or> n mod 10 = 5 \<or>
      n mod 10 = 6 \<or> n mod 10 = 7 \<or> n mod 10 = 8 \<or> n mod 10 = 9" by presburger
  moreover have "nat (int n mod 10) = n mod 10" by (simp add: nat_mod_distrib)
  ultimately show "digit_value (digit_char (int n)) = n mod 10" "digit_char (int n) \<in> set ''0123456789''"
    by (auto simp: digit_char_def digit_value_def)
qed

lemma decimal_value: "foldl (\<lambda>a c. a * 10 + digit_value c) 0 (decimal n) = n"
proof (induction n rule: decimal.induct)
  case (1 n)
  then show ?case
    by (cases "n < 10") (simp_all add: decimal.simps [of n] digit_char_value)
qed

lemma decimal_inj: "decimal m = decimal n \<longleftrightarrow> m = n"
  using decimal_value by metis

lemma decimal_chars:
  assumes "\<And>k. digit_char (int k) \<in> D"
  shows "set (decimal n) \<subseteq> D"
proof (induction n rule: decimal.induct)
  case (1 n)
  then show ?case using assms [of n] by (cases "n < 10") (simp_all add: decimal.simps [of n])
qed

lemma decimal_no_colon: "CHR '':'' \<notin> set (decimal n)"
  using decimal_chars [OF digit_char_value(2), of n] by auto

definition civil_of_days :: "int \<Rightarrow> int \<times> int \<times> int" where
  "civil_of_days days =
     (let z = days + 719468; era = z div 146097; doe = z mod 146097;
          yoe = (doe - doe div 1460 + doe div 36524 - doe div 146096) div 365;
          doy = doe - (365 * yoe + yoe div 4 - yoe div 100);
          mp = (5 * doy + 2) div 153;
          d = doy - (153 * mp + 2) div 5 + 1;
          m = (if mp < 10 then mp + 3 else mp - 9)
      in (yoe + era * 400 + (if m \<le> 2 then 1 else 0), m, d))"

definition iso_micros :: "int \<Rightarrow> string" where
  "iso_micros us = (if us = 0 then [] else ''.'' @ decimal_padded 6 us)"

definition iso_with :: "string \<Rightarrow> instant \<Rightarrow> string" where
  "iso_with offset t =
     (let seconds = t div us_per_second; (y, m, d) = civil_of_days (seconds div 86400); s = seconds mod 86400
      in decimal_padded 4 y @ ''-'' @ decimal_padded 2 m @ ''-'' @ decimal_padded 2 d @ ''T'' @
         decimal_padded 2 (s div 3600) @ '':'' @ decimal_padded 2 (s div 60 mod 60) @ '':'' @
         decimal_padded 2 (s mod 60) @ iso_micros (t mod us_per_second) @ offset)"

definition isoformat :: "instant \<Rightarrow> string" where
  "isoformat t = iso_with ''+00:00'' t"

lemma decimal_padded_length [simp]: "length (decimal_padded w n) = w"
  by (induction w arbitrary: n) auto

lemma isoformat_epoch: "isoformat 0 = ''1970-01-01T00:00:00+00:00''"
  by code_simp

lemma isoformat_leap_day: "isoformat 1709164800000001 = ''2024-02-29T00:00:00.000001+00:00''"
  by code_simp

end
