(* ===== verification/Outbox.thy ===== *)
theory Outbox
  imports Py_Datetime Incident_Domain
begin

text \<open>
  The two transactional outboxes of the Incident Service: the rows and statements of
  \<open>sqlalchemy_incident_task_outbox_repository.py\<close> and
  \<open>sqlalchemy_incident_task_completion_outbox_repository.py\<close> (under
  \<open>src/incident-service/app/repositories\<close>), whose relay parts differ only in the message. A row is
  its message with its publication columns; \<open>key\<close> reads the message's primary key.
  \<open>locked\<close> is the set of rows other transactions hold: SKIP LOCKED passes over them. Rows with the
  same \<open>created_at\<close> are taken in table order.
\<close>

section \<open>Messages\<close>

definition TASK_SCHEMA_VERSION :: string where "TASK_SCHEMA_VERSION = ''1.0''"
definition INCIDENT_PROCESSING_TASK_TYPE :: string where
  "INCIDENT_PROCESSING_TASK_TYPE = ''incident.processing.requested''"
definition EVENT_SCHEMA_VERSION :: string where "EVENT_SCHEMA_VERSION = ''1.0''"
definition INCIDENT_TASK_COMPLETED_EVENT_TYPE :: string where
  "INCIDENT_TASK_COMPLETED_EVENT_TYPE = ''incident.task.completed''"

record task_message =
  tom_id :: uuid
  tom_task_id :: uuid
  tom_incident_id :: uuid
  tom_schema_version :: string
  tom_task_type :: string
  tom_idempotency_key :: string
  tom_correlation_id :: string
  tom_causation_id :: "string option"
  tom_payload :: payload
  tom_metadata :: payload
  tom_created_at :: instant

record completion_message =
  com_id :: uuid
  com_event_id :: uuid
  com_incident_id :: uuid
  com_task_id :: uuid
  com_correlation_id :: string
  com_schema_version :: string
  com_event_type :: string
  com_status :: incident_status
  com_acknowledged_at :: "instant option"
  com_occurred_at :: instant

section \<open>Rows and statements\<close>

datatype publication_status = PENDING | PUBLISHED

record 'm outbox_row =
  obr_message :: 'm
  obr_status :: publication_status
  obr_attempts :: nat
  obr_created_at :: instant
  obr_updated_at :: instant
  obr_published_at :: "instant option"
  obr_last_error :: "string option"

type_synonym 'm outbox = "'m outbox_row list"

datatype outbox_error =
    OutboxNotFoundError
  | OutboxCollisionError
  | OutboxIntegrityError string

definition pending_row :: "'m \<Rightarrow> instant \<Rightarrow> 'm outbox_row" where
  "pending_row message created_at =
     \<lparr>obr_message = message, obr_status = PENDING, obr_attempts = 0, obr_created_at = created_at,
      obr_updated_at = created_at, obr_published_at = None, obr_last_error = None\<rparr>"

definition task_outbox_create :: "task_message \<Rightarrow> task_message outbox \<Rightarrow> outbox_error + task_message outbox" where
  "task_outbox_create m rows =
     (if \<exists>r \<in> set rows. tom_id (obr_message r) = tom_id m then Inl (OutboxIntegrityError ''incident_task_outbox.id'')
      else if \<exists>r \<in> set rows. tom_task_id (obr_message r) = tom_task_id m
      then Inl (OutboxIntegrityError ''incident_task_outbox.task_id'')
      else if \<exists>r \<in> set rows. tom_idempotency_key (obr_message r) = tom_idempotency_key m
      then Inl (OutboxIntegrityError ''incident_task_outbox.idempotency_key'')
      else Inr (rows @ [pending_row m (tom_created_at m)]))"

text \<open>INSERT ... ON CONFLICT (task_id) DO NOTHING: the other keys still raise.\<close>

definition completion_outbox_create ::
    "completion_message \<Rightarrow> completion_message outbox \<Rightarrow>
     (outbox_error + completion_message) \<times> completion_message outbox" where
  "completion_outbox_create m rows =
     (case lookup_by (\<lambda>r. com_task_id (obr_message r)) (com_task_id m) rows of
        Some existing \<Rightarrow>
          (if com_incident_id (obr_message existing) \<noteq> com_incident_id m \<or>
              com_correlation_id (obr_message existing) \<noteq> com_correlation_id m
           then Inl OutboxCollisionError else Inr (obr_message existing), rows)
      | None \<Rightarrow>
          if \<exists>r \<in> set rows. com_id (obr_message r) = com_id m
          then (Inl (OutboxIntegrityError ''incident_task_completion_outbox.id''), rows)
          else if \<exists>r \<in> set rows. com_event_id (obr_message r) = com_event_id m
          then (Inl (OutboxIntegrityError ''incident_task_completion_outbox.event_id''), rows)
          else (Inr m, rows @ [pending_row m (com_occurred_at m)]))"

definition publishable :: "instant \<Rightarrow> 'm outbox_row \<Rightarrow> bool" where
  "publishable retry_before r \<longleftrightarrow>
     obr_status r = PENDING \<and> (obr_attempts r = 0 \<or> obr_updated_at r \<le> retry_before)"

definition lock_next_publishable ::
    "('m \<Rightarrow> uuid) \<Rightarrow> uuid set \<Rightarrow> instant \<Rightarrow> 'm outbox \<Rightarrow> 'm outbox_row option" where
  "lock_next_publishable key locked retry_before rows =
     (case sort_key obr_created_at
             (filter (\<lambda>r. publishable retry_before r \<and> key (obr_message r) \<notin> locked) rows) of
        [] \<Rightarrow> None | r # _ \<Rightarrow> Some r)"

definition mark_published ::
    "('m \<Rightarrow> uuid) \<Rightarrow> uuid \<Rightarrow> instant \<Rightarrow> 'm outbox \<Rightarrow> outbox_error + 'm outbox" where
  "mark_published key i published_at rows =
     (case lookup_by (\<lambda>r. key (obr_message r)) i rows of
        None \<Rightarrow> Inl OutboxNotFoundError
      | Some _ \<Rightarrow> Inr (update_where (\<lambda>r. key (obr_message r) = i)
          (\<lambda>r. r\<lparr>obr_status := PUBLISHED, obr_attempts := obr_attempts r + 1,
             obr_published_at := Some published_at, obr_updated_at := published_at,
             obr_last_error := None\<rparr>) rows))"

definition mark_publish_failed ::
    "('m \<Rightarrow> uuid) \<Rightarrow> uuid \<Rightarrow> instant \<Rightarrow> string \<Rightarrow> 'm outbox \<Rightarrow> outbox_error + 'm outbox" where
  "mark_publish_failed key i failed_at error rows =
     (case lookup_by (\<lambda>r. key (obr_message r)) i rows of
        None \<Rightarrow> Inl OutboxNotFoundError
      | Some _ \<Rightarrow> Inr (update_where (\<lambda>r. key (obr_message r) = i)
          (\<lambda>r. r\<lparr>obr_status := PENDING, obr_attempts := obr_attempts r + 1,
             obr_updated_at := failed_at, obr_last_error := Some (take 2000 error)\<rparr>) rows))"

section \<open>The repository as the relay sees it\<close>

text \<open>
  \<open>IncidentTaskOutboxRelayRepository\<close> and its completion twin: the three operations the relay calls.
\<close>

record 'm relay_repository =
  rpo_lock_next :: "uuid set \<Rightarrow> instant \<Rightarrow> 'm outbox \<Rightarrow> 'm outbox_row option"
  rpo_mark_published :: "uuid \<Rightarrow> instant \<Rightarrow> 'm outbox \<Rightarrow> outbox_error + 'm outbox"
  rpo_mark_failed :: "uuid \<Rightarrow> instant \<Rightarrow> string \<Rightarrow> 'm outbox \<Rightarrow> outbox_error + 'm outbox"

definition task_relay_repository :: "task_message relay_repository" where
  "task_relay_repository = \<lparr>rpo_lock_next = lock_next_publishable tom_id,
     rpo_mark_published = mark_published tom_id, rpo_mark_failed = mark_publish_failed tom_id\<rparr>"

definition completion_relay_repository :: "completion_message relay_repository" where
  "completion_relay_repository = \<lparr>rpo_lock_next = lock_next_publishable com_id,
     rpo_mark_published = mark_published com_id, rpo_mark_failed = mark_publish_failed com_id\<rparr>"

section \<open>Publishing to SQS\<close>

text \<open>
  What the SQS client answers to \<open>send_message\<close>: an error it raises, or a response whose
  \<open>MessageId\<close> is a JSON value. \<open>json.dumps\<close> with sorted keys is left to the codec; the body is the
  object and its keys.
\<close>

datatype sqs_answer = SqsError | SqsResponse json

record sqs_request =
  sqs_queue_url :: string
  sqs_body :: payload
  sqs_attributes :: "(string \<times> string) list"

definition new_sqs_publisher :: "string \<Rightarrow> string + string" where
  "new_sqs_publisher queue_url =
     (let resolved = py_strip queue_url in if resolved = [] then Inl ''queue_url must not be empty.'' else Inr resolved)"

definition build_task_envelope :: "task_message \<Rightarrow> payload" where
  "build_task_envelope m =
     [(''task_id'', JStr (uuid_str (tom_task_id m))), (''kind'', JStr ''task''),
      (''task_type'', JStr (tom_task_type m)), (''schema_version'', JStr (tom_schema_version m)),
      (''created_at'', JStr (isoformat (tom_created_at m))), (''producer'', JStr ''incident-service''),
      (''correlation_id'', JStr (tom_correlation_id m)),
      (''causation_id'', (case tom_causation_id m of None \<Rightarrow> JNull | Some c \<Rightarrow> JStr c)),
      (''idempotency_key'', JStr (tom_idempotency_key m)), (''payload'', JObj (tom_payload m)),
      (''metadata'', JObj (tom_metadata m))]"

definition task_sqs_request :: "string \<Rightarrow> task_message \<Rightarrow> sqs_request" where
  "task_sqs_request queue_url m =
     \<lparr>sqs_queue_url = queue_url, sqs_body = build_task_envelope m,
      sqs_attributes = [(''task_type'', tom_task_type m), (''schema_version'', tom_schema_version m),
        (''correlation_id'', tom_correlation_id m)]\<rparr>"

definition completion_timestamp :: "instant \<Rightarrow> string" where
  "completion_timestamp t = iso_with ''Z'' t"

definition build_completion_event :: "completion_message \<Rightarrow> payload" where
  "build_completion_event m =
     [(''schema_version'', JStr (com_schema_version m)), (''event_type'', JStr (com_event_type m)),
      (''event_id'', JStr (uuid_str (com_event_id m))), (''incident_id'', JStr (uuid_str (com_incident_id m))),
      (''task_id'', JStr (uuid_str (com_task_id m))), (''correlation_id'', JStr (com_correlation_id m)),
      (''status'', JStr (status_value (com_status m))),
      (''acknowledged_at'', (case com_acknowledged_at m of None \<Rightarrow> JNull | Some t \<Rightarrow> JStr (completion_timestamp t))),
      (''occurred_at'', JStr (completion_timestamp (com_occurred_at m)))]"

definition completion_sqs_request :: "string \<Rightarrow> completion_message \<Rightarrow> sqs_request" where
  "completion_sqs_request queue_url m =
     \<lparr>sqs_queue_url = queue_url, sqs_body = build_completion_event m,
      sqs_attributes = [(''event_type'', com_event_type m), (''schema_version'', com_schema_version m),
        (''correlation_id'', com_correlation_id m), (''incident_id'', uuid_str (com_incident_id m)),
        (''task_id'', uuid_str (com_task_id m))]\<rparr>"

text \<open>The publishers' reading of the answer: a receipt with a non-empty identifier, or their error's text.\<close>

definition task_publish_receipt :: "sqs_answer \<Rightarrow> string + string" where
  "task_publish_receipt answer =
     (case answer of
        SqsError \<Rightarrow> Inl ''Amazon SQS task publication failed.''
      | SqsResponse (JStr (c # cs)) \<Rightarrow> Inr (c # cs)
      | SqsResponse _ \<Rightarrow> Inl ''Amazon SQS did not return a MessageId.'')"

definition completion_publish_receipt :: "sqs_answer \<Rightarrow> string + string" where
  "completion_publish_receipt answer =
     (case answer of
        SqsError \<Rightarrow> Inl ''Amazon SQS completion-event publication failed.''
      | SqsResponse (JStr (c # cs)) \<Rightarrow> Inr (c # cs)
      | SqsResponse _ \<Rightarrow> Inl ''Amazon SQS did not return a MessageId for the completion event.'')"

end
