(* ===== verification/Incident_Store.thy ===== *)
theory Incident_Store
  imports Outbox
begin

text \<open>
  The tables of the Incident Service and the statements of \<open>sqlalchemy_incident_repository.py\<close> on the
  incidents (\<open>src/incident-service/app/repositories\<close>). The outboxes are those of \<open>Outbox\<close>. Rows with
  equal \<open>created_at\<close> are listed in table order. ILIKE is matched as PostgreSQL documents it: \<open>%\<close> any
  text, \<open>_\<close> any character, a backslash the next character itself; the search text is not escaped.
\<close>

record incident_db =
  idb_incidents :: "incident list"
  idb_tasks :: "task_message outbox"
  idb_completions :: "completion_message outbox"

datatype incident_db_error =
    IncidentIntegrityError string
  | IncidentLookupError

section \<open>Searching\<close>

fun like_match :: "string \<Rightarrow> string \<Rightarrow> bool" where
  "like_match [] s = (s = [])"
| "like_match (p # ps) [] = (p = CHR ''%'' \<and> like_match ps [])"
| "like_match (p # ps) (c # cs) =
     (if p = CHR ''%'' then like_match ps (c # cs) \<or> like_match (p # ps) cs
      else if p = CHR ''_'' then like_match ps cs
      else if p = char_of (92 :: nat)
      then (case ps of [] \<Rightarrow> False | q # qs \<Rightarrow> q = c \<and> like_match qs cs)
      else p = c \<and> like_match ps cs)"

definition ilike :: "string \<Rightarrow> string \<Rightarrow> bool" where
  "ilike pattern s = like_match (py_lower pattern) (py_lower s)"

definition search_matches :: "string option \<Rightarrow> incident \<Rightarrow> bool" where
  "search_matches search i =
     (case search of
        None \<Rightarrow> True | Some [] \<Rightarrow> True
      | Some q \<Rightarrow> let pattern = ''%'' @ py_strip q @ ''%''
                  in ilike pattern (inc_title i) \<or> ilike pattern (inc_summary i) \<or> ilike pattern (inc_assignee i))"

definition page :: "nat \<Rightarrow> nat \<Rightarrow> 'a list \<Rightarrow> 'a list" where
  "page offset limit xs = take limit (drop offset xs)"

definition incident_list ::
    "string option \<Rightarrow> uuid option \<Rightarrow> incident_severity option \<Rightarrow> incident_status option \<Rightarrow> nat \<Rightarrow> nat \<Rightarrow>
     incident list \<Rightarrow> incident list" where
  "incident_list search service_id severity status offset limit rows =
     page offset limit (sort_key (\<lambda>i. - inc_created_at i)
       (filter (\<lambda>i. search_matches search i \<and> (\<forall>s \<in> set_option service_id. inc_service_id i = s) \<and>
          (\<forall>s \<in> set_option severity. inc_severity i = s) \<and> (\<forall>s \<in> set_option status. inc_status i = s)) rows))"

definition incident_list_by_service :: "uuid \<Rightarrow> nat \<Rightarrow> nat \<Rightarrow> incident list \<Rightarrow> incident list" where
  "incident_list_by_service service_id offset limit rows =
     page offset limit (sort_key (\<lambda>i. - inc_created_at i) (filter (\<lambda>i. inc_service_id i = service_id) rows))"

section \<open>Reading and writing one incident\<close>

definition incident_get_by_id :: "uuid \<Rightarrow> incident list \<Rightarrow> incident option" where
  "incident_get_by_id i rows = lookup_by inc_id i rows"

definition incident_insert :: "incident \<Rightarrow> incident list \<Rightarrow> incident_db_error + incident list" where
  "incident_insert i rows =
     (if lookup_by inc_id (inc_id i) rows \<noteq> None then Inl (IncidentIntegrityError ''incidents.id'')
      else Inr (rows @ [i]))"

definition incident_replace :: "incident \<Rightarrow> incident list \<Rightarrow> incident_db_error + incident list" where
  "incident_replace i rows =
     (case lookup_by inc_id (inc_id i) rows of
        None \<Rightarrow> Inl IncidentLookupError
      | Some _ \<Rightarrow> Inr (update_where (\<lambda>r. inc_id r = inc_id i) (\<lambda>_. i) rows))"

definition incident_remove :: "uuid \<Rightarrow> incident list \<Rightarrow> incident list" where
  "incident_remove i rows = delete_where (\<lambda>r. inc_id r = i) rows"

lemma incident_insert_Inr:
  "incident_insert i rows = Inr rows' \<longleftrightarrow> lookup_by inc_id (inc_id i) rows = None \<and> rows' = rows @ [i]"
  by (auto simp: incident_insert_def)

lemma incident_replace_Inr:
  "incident_replace i rows = Inr rows' \<longleftrightarrow>
     lookup_by inc_id (inc_id i) rows \<noteq> None \<and> rows' = update_where (\<lambda>r. inc_id r = inc_id i) (\<lambda>_. i) rows"
  by (auto simp: incident_replace_def split: option.splits)

lemma update_where_const_key:
  "key x = k \<Longrightarrow> map key (update_where (\<lambda>r. key r = k) (\<lambda>_. x) rows) = map key rows"
  by (induction rows) (auto simp: update_where_def)

lemma lookup_update_where_const:
  "key x = k \<Longrightarrow> lookup_by key j (update_where (\<lambda>r. key r = k) (\<lambda>_. x) rows) =
     (if j = k then map_option (\<lambda>_. x) (lookup_by key k rows) else lookup_by key j rows)"
  by (induction rows) (auto simp: update_where_def lookup_by_Cons)

end
