(* ===== verification/Service_Catalog_Client.thy ===== *)
theory Service_Catalog_Client
  imports Incident_Gateway
begin

text \<open>
  The Incident Service's view of the core backend's service catalog:
  \<open>gateways/http_service_catalog_gateway.py\<close> under \<open>src/incident-service/app\<close>, with the errors of
  \<open>services/exceptions.py\<close>. The token provider's answer and the HTTP client's answer are arguments of
  the types the backend's gateway uses (\<open>token_result\<close>, \<open>transport_result\<close>).
\<close>

datatype incident_service_error =
    IncidentNotFound string
  | UnknownServiceReference string
  | ServiceCatalogUnavailable string
  | IncidentUnhandled

record service_catalog_gateway =
  scg_core_backend_url :: string
  scg_core_backend_audience :: string

record catalog_env =
  cte_create_token :: "string \<Rightarrow> service_scope list \<Rightarrow> token_result"
  cte_transport :: "outbound_request \<Rightarrow> transport_result"

definition new_http_service_catalog_gateway :: "string \<Rightarrow> string \<Rightarrow> string + service_catalog_gateway" where
  "new_http_service_catalog_gateway url audience =
     (let normalized_audience = py_strip audience
      in if normalized_audience = [] then Inl ''core_backend_audience must not be empty.''
         else Inr \<lparr>scg_core_backend_url = rev (dropWhile (\<lambda>c. c = CHR ''/'') (rev url)),
                scg_core_backend_audience = normalized_audience\<rparr>)"

definition catalog_unavailable :: "uuid \<Rightarrow> incident_service_error" where
  "catalog_unavailable service_id =
     ServiceCatalogUnavailable (''Service Catalog validation is unavailable. Could not validate Service '' @
       uuid_str service_id @ ''.'')"

definition catalog_request :: "service_catalog_gateway \<Rightarrow> uuid \<Rightarrow> string \<Rightarrow> outbound_request" where
  "catalog_request gw service_id token =
     \<lparr>orq_method = ''GET'',
      orq_url = scg_core_backend_url gw @ ''/internal/services/'' @ uuid_str service_id @ ''/exists'',
      orq_headers = [(''Authorization'', ''Bearer '' @ token)], orq_params = None, orq_json = None\<rparr>"

definition catalog_answer :: "uuid \<Rightarrow> http_response \<Rightarrow> incident_service_error + bool" where
  "catalog_answer service_id r =
     (if status_code r \<noteq> 200 then Inl (catalog_unavailable service_id)
      else case body_json r of
        Some (JObj members) \<Rightarrow>
          (case payload_get members ''exists'' of JBool b \<Rightarrow> Inr b | _ \<Rightarrow> Inl (catalog_unavailable service_id))
      | _ \<Rightarrow> Inl (catalog_unavailable service_id))"

definition catalog_service_exists ::
    "service_catalog_gateway \<Rightarrow> catalog_env \<Rightarrow> uuid \<Rightarrow> incident_service_error + bool" where
  "catalog_service_exists gw env service_id =
     (case cte_create_token env (scg_core_backend_audience gw) [SERVICES_READ] of
        TokenIdentityError \<Rightarrow> Inl (catalog_unavailable service_id)
      | TokenNotText \<Rightarrow> Inl (catalog_unavailable service_id)
      | TokenOther _ \<Rightarrow> Inl IncidentUnhandled
      | TokenReturned token \<Rightarrow>
          if token = [] then Inl (catalog_unavailable service_id)
          else (case cte_transport env (catalog_request gw service_id token) of
                  TimedOut \<Rightarrow> Inl (catalog_unavailable service_id)
                | TransportError \<Rightarrow> Inl (catalog_unavailable service_id)
                | TransportOther _ \<Rightarrow> Inl IncidentUnhandled
                | Responded r \<Rightarrow> catalog_answer service_id r))"

lemma catalog_answer_Inr:
  "catalog_answer service_id r = Inr b \<longleftrightarrow>
     status_code r = 200 \<and> (\<exists>members. body_json r = Some (JObj members) \<and> payload_get members ''exists'' = JBool b)"
  by (auto simp: catalog_answer_def split: option.splits json.splits if_splits)

text \<open>A verdict is only ever read off a 200 answer to a request that carried a token.\<close>

lemma catalog_service_exists_Inr:
  "catalog_service_exists gw env service_id = Inr b \<longleftrightarrow>
     (\<exists>token r. cte_create_token env (scg_core_backend_audience gw) [SERVICES_READ] = TokenReturned token \<and>
        token \<noteq> [] \<and> cte_transport env (catalog_request gw service_id token) = Responded r \<and>
        catalog_answer service_id r = Inr b)"
  by (auto simp: catalog_service_exists_def split: token_result.splits transport_result.splits)

end
