(* ===== verification/Incident_Service.thy ===== *)
theory Incident_Service
  imports Incident_Store Service_Catalog_Client
begin

text \<open>
  The extracted Incident Service: \<open>services/incident_service.py\<close>,
  \<open>services/incident_task_processing_service.py\<close>, the endpoints of \<open>api/routes/incidents.py\<close>, the
  authentication dependencies of \<open>api/dependencies.py\<close> and the unit of work of \<open>db/session.py\<close>, all
  under \<open>src/incident-service/app\<close>.

  A request carries what the code draws while serving it: clock readings and UUIDs (\<open>incident_draws\<close>)
  and the catalog's answers (\<open>exists\<close>). The lock of a database transaction makes a request one step.
  The bearer text is \<open>None\<close> when \<open>HTTPBearer\<close> finds no bearer credential.
\<close>

section \<open>The application service\<close>

record incident_draws =
  idr_incident_id :: uuid
  idr_now :: instant
  idr_task_id :: uuid
  idr_outbox_id :: uuid
  idr_correlation_id :: uuid
  idr_resolved_now :: instant
  idr_updated_now :: instant

type_synonym service_exists = "uuid \<Rightarrow> incident_service_error + bool"

definition ensure_service_exists :: "service_exists \<Rightarrow> uuid \<Rightarrow> incident_service_error option" where
  "ensure_service_exists exists service_id =
     (case exists service_id of
        Inl e \<Rightarrow> Some e
      | Inr True \<Rightarrow> None
      | Inr False \<Rightarrow> Some (UnknownServiceReference (''Service '' @ uuid_str service_id @ '' does not exist.'')))"

definition incident_service_list ::
    "string option \<Rightarrow> uuid option \<Rightarrow> incident_severity option \<Rightarrow> incident_status option \<Rightarrow> nat \<Rightarrow> nat \<Rightarrow>
     (incident_db, incident_service_error, incident list) operation" where
  "incident_service_list search service_id severity status offset limit db =
     (Inr (incident_list search service_id severity status offset limit (idb_incidents db)), db)"

definition incident_service_get :: "uuid \<Rightarrow> (incident_db, incident_service_error, incident) operation" where
  "incident_service_get i db =
     (case incident_get_by_id i (idb_incidents db) of
        None \<Rightarrow> (Inl (IncidentNotFound (''Incident '' @ uuid_str i @ '' was not found.'')), db)
      | Some incident \<Rightarrow> (Inr incident, db))"

definition new_incident :: "incident_draws \<Rightarrow> incident_create \<Rightarrow> incident" where
  "new_incident d p =
     \<lparr>inc_id = idr_incident_id d, inc_title = crt_title p, inc_service_id = crt_service_id p,
      inc_severity = crt_severity p, inc_status = crt_status p, inc_summary = crt_summary p,
      inc_assignee = crt_assignee p,
      inc_started_at = (case crt_started_at p of None \<Rightarrow> idr_now d | Some t \<Rightarrow> t),
      inc_resolved_at = (if crt_status p = Status_RESOLVED then Some (idr_now d) else None),
      inc_created_at = idr_now d, inc_updated_at = idr_now d, inc_source = crt_source p,
      inc_customer_impacting = crt_customer_impacting p, inc_acknowledged_at = crt_acknowledged_at p,
      inc_reported_by_email = crt_reported_by_email p\<rparr>"

definition task_idempotency_key :: "uuid \<Rightarrow> string" where
  "task_idempotency_key i = ''incident:'' @ uuid_str i @ '':process:v1''"

definition creation_task :: "incident_draws \<Rightarrow> string option \<Rightarrow> incident \<Rightarrow> task_message" where
  "creation_task d correlation_id i =
     \<lparr>tom_id = idr_outbox_id d, tom_task_id = idr_task_id d, tom_incident_id = inc_id i,
      tom_schema_version = TASK_SCHEMA_VERSION, tom_task_type = INCIDENT_PROCESSING_TASK_TYPE,
      tom_idempotency_key = task_idempotency_key (inc_id i),
      tom_correlation_id = (case correlation_id of Some (c # cs) \<Rightarrow> c # cs | _ \<Rightarrow> uuid_str (idr_correlation_id d)),
      tom_causation_id = None, tom_payload = [(''incident_id'', JStr (uuid_str (inc_id i)))],
      tom_metadata = [(''source'', JStr ''incident-service''), (''operation'', JStr ''incident.create'')],
      tom_created_at = idr_now d\<rparr>"

definition incident_service_create ::
    "service_exists \<Rightarrow> incident_draws \<Rightarrow> incident_create \<Rightarrow> string option \<Rightarrow>
     (incident_db, incident_service_error, incident) operation" where
  "incident_service_create exists d p correlation_id db =
     (case ensure_service_exists exists (crt_service_id p) of
        Some e \<Rightarrow> (Inl e, db)
      | None \<Rightarrow>
          let incident = new_incident d p
          in case incident_insert incident (idb_incidents db) of
               Inl _ \<Rightarrow> (Inl IncidentUnhandled, db)
             | Inr rows \<Rightarrow>
                 let db1 = db\<lparr>idb_incidents := rows\<rparr>
                 in case task_outbox_create (creation_task d correlation_id incident) (idb_tasks db1) of
                      Inl _ \<Rightarrow> (Inl IncidentUnhandled, db1)
                    | Inr tasks \<Rightarrow> (Inr incident, db1\<lparr>idb_tasks := tasks\<rparr>))"

definition given :: "'a option \<Rightarrow> 'a \<Rightarrow> 'a" where
  "given new old = (case new of None \<Rightarrow> old | Some x \<Rightarrow> x)"

definition resolve_timestamp ::
    "instant \<Rightarrow> incident \<Rightarrow> incident_update \<Rightarrow> incident_status \<Rightarrow> instant option" where
  "resolve_timestamp now existing p updated_status =
     (if updated_status \<noteq> Status_RESOLVED then None
      else case upd_resolved_at p of
        Some t \<Rightarrow> Some t
      | None \<Rightarrow> (case inc_resolved_at existing of Some t \<Rightarrow> Some t | None \<Rightarrow> Some now))"

definition updated_incident :: "incident_draws \<Rightarrow> incident \<Rightarrow> incident_update \<Rightarrow> incident" where
  "updated_incident d existing p =
     (let status = given (upd_status p) (inc_status existing)
      in existing\<lparr>inc_title := given (upd_title p) (inc_title existing),
           inc_service_id := given (upd_service_id p) (inc_service_id existing),
           inc_severity := given (upd_severity p) (inc_severity existing),
           inc_status := status,
           inc_summary := given (upd_summary p) (inc_summary existing),
           inc_assignee := given (upd_assignee p) (inc_assignee existing),
           inc_source := given (upd_source p) (inc_source existing),
           inc_customer_impacting := given (upd_customer_impacting p) (inc_customer_impacting existing),
           inc_acknowledged_at := (if ''acknowledged_at'' \<in> set (upd_fields_set p) then upd_acknowledged_at p
                                   else inc_acknowledged_at existing),
           inc_started_at := given (upd_started_at p) (inc_started_at existing),
           inc_resolved_at := resolve_timestamp (idr_resolved_now d) existing p status,
           inc_updated_at := idr_updated_now d\<rparr>)"

definition incident_service_update ::
    "service_exists \<Rightarrow> incident_draws \<Rightarrow> uuid \<Rightarrow> incident_update \<Rightarrow>
     (incident_db, incident_service_error, incident) operation" where
  "incident_service_update exists d i p db =
     (case incident_service_get i db of
        (Inl e, db) \<Rightarrow> (Inl e, db)
      | (Inr existing, db) \<Rightarrow>
          (case (case upd_service_id p of
                   Some s \<Rightarrow> if s \<noteq> inc_service_id existing then ensure_service_exists exists s else None
                 | None \<Rightarrow> None) of
             Some e \<Rightarrow> (Inl e, db)
           | None \<Rightarrow>
               let updated = updated_incident d existing p
               in case incident_replace updated (idb_incidents db) of
                    Inl _ \<Rightarrow> (Inl IncidentUnhandled, db)
                  | Inr rows \<Rightarrow> (Inr updated, db\<lparr>idb_incidents := rows\<rparr>)))"

definition incident_service_delete :: "uuid \<Rightarrow> (incident_db, incident_service_error, unit) operation" where
  "incident_service_delete i db =
     (case incident_service_get i db of
        (Inl e, db) \<Rightarrow> (Inl e, db)
      | (Inr _, db) \<Rightarrow> (Inr (), db\<lparr>idb_incidents := incident_remove i (idb_incidents db)\<rparr>))"

definition incident_service_list_for_service ::
    "service_exists \<Rightarrow> uuid \<Rightarrow> nat \<Rightarrow> nat \<Rightarrow> (incident_db, incident_service_error, incident list) operation" where
  "incident_service_list_for_service exists service_id offset limit db =
     (case ensure_service_exists exists service_id of
        Some e \<Rightarrow> (Inl e, db)
      | None \<Rightarrow> (Inr (incident_list_by_service service_id offset limit (idb_incidents db)), db))"

section \<open>Asynchronous processing\<close>

record processing_result =
  prs_incident_id :: uuid
  prs_status :: incident_status
  prs_changed :: bool
  prs_acknowledged_at :: "instant option"

definition process_incident ::
    "instant \<Rightarrow> instant \<Rightarrow> uuid \<Rightarrow> (incident_db, incident_service_error, processing_result) operation" where
  "process_incident acknowledged_now updated_now i db =
     (case incident_get_by_id i (idb_incidents db) of
        None \<Rightarrow> (Inl (IncidentNotFound (''Incident '' @ uuid_str i @ '' was not found.'')), db)
      | Some existing \<Rightarrow>
          let target_status = (if inc_status existing = Status_OPEN then Status_INVESTIGATING else inc_status existing);
              target_acknowledged_at =
                (if inc_status existing \<in> {Status_OPEN, Status_INVESTIGATING} \<and> inc_acknowledged_at existing = None
                 then Some acknowledged_now else inc_acknowledged_at existing)
          in if target_status = inc_status existing \<and> target_acknowledged_at = inc_acknowledged_at existing
             then (Inr \<lparr>prs_incident_id = inc_id existing, prs_status = inc_status existing, prs_changed = False,
                     prs_acknowledged_at = inc_acknowledged_at existing\<rparr>, db)
             else let updated = existing\<lparr>inc_status := target_status, inc_acknowledged_at := target_acknowledged_at,
                        inc_updated_at := updated_now\<rparr>
                  in case incident_replace updated (idb_incidents db) of
                       Inl _ \<Rightarrow> (Inl IncidentUnhandled, db)
                     | Inr rows \<Rightarrow>
                         (Inr \<lparr>prs_incident_id = inc_id updated, prs_status = inc_status updated, prs_changed = True,
                            prs_acknowledged_at = inc_acknowledged_at updated\<rparr>, db\<lparr>idb_incidents := rows\<rparr>))"

end
