(* ===== verification/Request_Context.thy ===== *)
theory Request_Context
  imports Py_Values
begin

text \<open>
  Request identifiers: \<open>core/request_context.py\<close>, the same file in \<open>src/backend/app\<close> and
  \<open>src/incident-service/app\<close>, which \<open>middleware/request_correlation.py\<close> binds around every request. The context
  variable of a request is the identifier bound for it.
\<close>

definition ascii_alphanumeric :: "char \<Rightarrow> bool" where
  "ascii_alphanumeric c \<longleftrightarrow>
     (let n = (of_char c :: nat) in 48 \<le> n \<and> n \<le> 57 \<or> 65 \<le> n \<and> n \<le> 90 \<or> 97 \<le> n \<and> n \<le> 122)"

definition request_id_char :: "char \<Rightarrow> bool" where
  "request_id_char c \<longleftrightarrow> ascii_alphanumeric c \<or> c \<in> set ''._:-''"

fun valid_request_id :: "string \<Rightarrow> bool" where
  "valid_request_id [] = False"
| "valid_request_id (c # cs) = (ascii_alphanumeric c \<and> length cs \<le> 127 \<and> list_all request_id_char cs)"

definition resolve_request_id :: "uuid \<Rightarrow> string option \<Rightarrow> string" where
  "resolve_request_id generated supplied =
     (case supplied of
        Some s \<Rightarrow> if valid_request_id s then s else uuid_str generated
      | None \<Rightarrow> uuid_str generated)"

lemma uuid_chars_safe: "\<forall>c \<in> set ''0123456789abcdef-''. request_id_char c"
  by code_simp

lemma hex_chars_alphanumeric: "\<forall>c \<in> set ''0123456789abcdef''. ascii_alphanumeric c"
  by code_simp

lemma length_uuid_hex: "length (uuid_hex u) = 32"
  by (simp add: uuid_hex_def)

lemma length_uuid_str: "length (uuid_str u) = 36"
  by (simp add: uuid_str_def Let_def length_uuid_hex)

lemma hd_uuid_hex: "hd (uuid_hex u) \<in> set ''0123456789abcdef''"
proof -
  have "uuid_hex u \<noteq> []" using length_uuid_hex [of u] by (metis list.size(3) zero_neq_numeral)
  then have "hd (uuid_hex u) \<in> set (uuid_hex u)" by simp
  also have "\<dots> \<subseteq> set ''0123456789abcdef''" unfolding uuid_hex_def by (rule hex_fixed_set)
  finally show ?thesis .
qed

lemma hd_uuid_str: "hd (uuid_str u) \<in> set ''0123456789abcdef''"
proof -
  have "uuid_hex u \<noteq> []" using length_uuid_hex [of u] by (metis list.size(3) zero_neq_numeral)
  then obtain c cs where c: "uuid_hex u = c # cs" by (cases "uuid_hex u") auto
  then have "hd (uuid_str u) = hd (uuid_hex u)" by (simp add: uuid_str_def Let_def)
  then show ?thesis using hd_uuid_hex by simp
qed

lemma valid_request_id_uuid: "valid_request_id (uuid_str u)"
proof (cases "uuid_str u")
  case Nil
  then show ?thesis using length_uuid_str [of u] by simp
next
  case (Cons c cs)
  have "hd (uuid_str u) = c" using Cons by simp
  then have "ascii_alphanumeric c" using hd_uuid_str [of u] hex_chars_alphanumeric by blast
  moreover have "list_all request_id_char cs"
    unfolding list_all_iff
  proof
    fix x assume "x \<in> set cs"
    then have "x \<in> set (uuid_str u)" using Cons by simp
    then have "x \<in> set ''0123456789abcdef-''" by (rule subsetD [OF uuid_str_set])
    then show "request_id_char x" by (rule bspec [OF uuid_chars_safe])
  qed
  moreover have "length cs \<le> 127" using length_uuid_str [of u] Cons by simp
  ultimately show ?thesis by (simp add: Cons)
qed

text \<open>Whatever a caller sends, the bound identifier is a safe token of at most 128 characters.\<close>

lemma resolve_request_id_valid: "valid_request_id (resolve_request_id generated supplied)"
  by (simp add: resolve_request_id_def valid_request_id_uuid split: option.splits)

lemma valid_request_id_nonempty: "valid_request_id s \<Longrightarrow> s \<noteq> []"
  by (cases s) auto

end
