(* ===== verification/Incident_Routes.thy ===== *)
theory Incident_Routes
  imports Incident_Service Request_Context
begin

text \<open>
  The HTTP boundary of the Incident Service: the endpoints of \<open>api/routes/incidents.py\<close>, the
  authentication and scope dependencies of \<open>api/dependencies.py\<close> with the metrics and security events they
  record, and the unit of work of \<open>db/session.py\<close>. FastAPI solves the service-identity dependency
  before it validates the request, and validates before it runs the endpoint. Audit records survive a
  rollback. A reply keeps the status, the incidents of the body, the \<open>detail\<close> text and whether
  \<open>WWW-Authenticate: Bearer\<close> is set.
\<close>

section \<open>Audit records\<close>

datatype audit_record =
    AuthenticationMetric string string
  | AuthorizationMetric string string
  | AuthenticationEvent string string
  | AuthorizationEvent string string

fun failure_reason_value :: "service_auth_failure_reason \<Rightarrow> string" where
  "failure_reason_value MALFORMED_CREDENTIAL = ''malformed_credential''"
| "failure_reason_value INVALID_ALGORITHM = ''invalid_algorithm''"
| "failure_reason_value INVALID_TOKEN_TYPE = ''invalid_token_type''"
| "failure_reason_value MISSING_KEY_ID = ''missing_key_id''"
| "failure_reason_value UNKNOWN_KEY = ''unknown_key''"
| "failure_reason_value INVALID_SIGNATURE = ''invalid_signature''"
| "failure_reason_value INVALID_ISSUER = ''invalid_issuer''"
| "failure_reason_value INVALID_AUDIENCE = ''invalid_audience''"
| "failure_reason_value INVALID_CLAIM_CONTRACT = ''invalid_claim_contract''"
| "failure_reason_value INVALID_TOKEN_USE = ''invalid_token_use''"
| "failure_reason_value INVALID_LIFETIME = ''invalid_lifetime''"
| "failure_reason_value INVALID_SCOPE_CONTRACT = ''invalid_scope_contract''"

definition SERVICE_AUTHENTICATION_REASONS :: "string list" where
  "SERVICE_AUTHENTICATION_REASONS =
     [''authenticated'', ''missing_credential'', ''malformed_credential'', ''invalid_algorithm'',
      ''invalid_token_type'', ''missing_key_id'', ''unknown_key'', ''invalid_signature'', ''invalid_issuer'',
      ''invalid_audience'', ''invalid_claim_contract'', ''invalid_token_use'', ''invalid_lifetime'',
      ''invalid_scope_contract'']"

definition SERVICE_AUTHORIZATION_SCOPES :: "string list" where
  "SERVICE_AUTHORIZATION_SCOPES = [''incidents:read'', ''incidents:write'', ''services:read'']"

text \<open>Each raises \<open>ValueError\<close> (\<open>None\<close>) on a label outside its list.\<close>

definition record_service_authentication :: "string \<Rightarrow> string \<Rightarrow> audit_record list \<Rightarrow> audit_record list option" where
  "record_service_authentication outcome reason entries =
     (if outcome \<notin> set [''success'', ''failure''] then None
      else if reason \<notin> set SERVICE_AUTHENTICATION_REASONS then None
      else Some (entries @ [AuthenticationMetric outcome reason]))"

definition record_service_authorization :: "string \<Rightarrow> string \<Rightarrow> audit_record list \<Rightarrow> audit_record list option" where
  "record_service_authorization outcome scope entries =
     (if outcome \<notin> set [''granted'', ''denied''] then None
      else if scope \<notin> set SERVICE_AUTHORIZATION_SCOPES then None
      else Some (entries @ [AuthorizationMetric outcome scope]))"

definition emit_authentication :: "string \<Rightarrow> string \<Rightarrow> audit_record list \<Rightarrow> audit_record list option" where
  "emit_authentication outcome reason entries =
     (if outcome \<notin> set [''success'', ''failure''] then None
      else if reason \<notin> set SERVICE_AUTHENTICATION_REASONS then None
      else Some (entries @ [AuthenticationEvent outcome reason]))"

definition emit_authorization :: "string \<Rightarrow> string \<Rightarrow> audit_record list \<Rightarrow> audit_record list option" where
  "emit_authorization outcome scope entries =
     (if outcome \<notin> set [''success'', ''blocked''] then None
      else if scope \<notin> set SERVICE_AUTHORIZATION_SCOPES then None
      else Some (entries @ [AuthorizationEvent outcome scope]))"

section \<open>Replies and service authentication\<close>

record incident_reply =
  irp_status :: int
  irp_incidents :: "incident list"
  irp_detail :: string
  irp_challenge :: bool

definition incident_success :: "int \<Rightarrow> incident list \<Rightarrow> incident_reply" where
  "incident_success status incidents =
     \<lparr>irp_status = status, irp_incidents = incidents, irp_detail = [], irp_challenge = False\<rparr>"

definition incident_failure :: "int \<Rightarrow> string \<Rightarrow> incident_reply" where
  "incident_failure status detail =
     \<lparr>irp_status = status, irp_incidents = [], irp_detail = detail, irp_challenge = False\<rparr>"

definition service_authentication_error :: incident_reply where
  "service_authentication_error = (incident_failure 401 ''Invalid service credentials.'')\<lparr>irp_challenge := True\<rparr>"

definition internal_error :: incident_reply where
  "internal_error = incident_failure 500 ''Internal Server Error''"

text \<open>Two records in a row; the second is not reached when the first raises.\<close>

definition audit ::
    "(audit_record list \<Rightarrow> audit_record list option) \<Rightarrow> (audit_record list \<Rightarrow> audit_record list option) \<Rightarrow>
     incident_reply + 'a \<Rightarrow> audit_record list \<Rightarrow> (incident_reply + 'a) \<times> audit_record list" where
  "audit first second result entries =
     (case first entries of
        None \<Rightarrow> (Inl internal_error, entries)
      | Some entries1 \<Rightarrow> (case second entries1 of None \<Rightarrow> (Inl internal_error, entries1) | Some entries2 \<Rightarrow> (result, entries2)))"

definition authenticate_service ::
    "('sk, 'pk) jwt_lib \<Rightarrow> 'pk service_token_verifier \<Rightarrow> instant \<Rightarrow> clock_reading \<Rightarrow> string option \<Rightarrow>
     audit_record list \<Rightarrow> (incident_reply + service_principal) \<times> audit_record list" where
  "authenticate_service lib stv lib_now clock bearer entries =
     (case bearer of
        None \<Rightarrow> audit (record_service_authentication ''failure'' ''missing_credential'')
                  (emit_authentication ''failure'' ''missing_credential'') (Inl service_authentication_error) entries
      | Some token \<Rightarrow>
          (case verify_token lib stv lib_now clock token of
             Inl (ServiceAuthenticationError reason) \<Rightarrow>
               audit (record_service_authentication ''failure'' (failure_reason_value reason))
                 (emit_authentication ''failure'' (failure_reason_value reason)) (Inl service_authentication_error) entries
           | Inl _ \<Rightarrow> (Inl internal_error, entries)
           | Inr caller \<Rightarrow>
               audit (record_service_authentication ''success'' ''authenticated'')
                 (emit_authentication ''success'' ''authenticated'') (Inr caller) entries))"

definition require_service_scope ::
    "service_scope \<Rightarrow> service_principal \<Rightarrow> audit_record list \<Rightarrow>
     (incident_reply + service_principal) \<times> audit_record list" where
  "require_service_scope required caller entries =
     (if required \<notin> set (sp_scopes caller)
      then audit (record_service_authorization ''denied'' (scope_value required))
             (emit_authorization ''blocked'' (scope_value required))
             (Inl (incident_failure 403 ''Insufficient service permissions.'')) entries
      else audit (record_service_authorization ''granted'' (scope_value required))
             (emit_authorization ''success'' (scope_value required)) (Inr caller) entries)"

section \<open>The endpoints\<close>

datatype incident_endpoint =
    ListIncidents "string option" "uuid option" "incident_severity option" "incident_status option" int int
  | GetIncident uuid
  | CreateIncident incident_create
  | UpdateIncident uuid incident_update
  | DeleteIncident uuid

fun endpoint_scope :: "incident_endpoint \<Rightarrow> service_scope" where
  "endpoint_scope (ListIncidents _ _ _ _ _ _) = INCIDENTS_READ"
| "endpoint_scope (GetIncident _) = INCIDENTS_READ"
| "endpoint_scope _ = INCIDENTS_WRITE"

fun endpoint_valid :: "incident_endpoint \<Rightarrow> bool" where
  "endpoint_valid (ListIncidents _ _ _ _ offset limit) = (0 \<le> offset \<and> 1 \<le> limit \<and> limit \<le> 100)"
| "endpoint_valid (CreateIncident p) = incident_create_valid p"
| "endpoint_valid (UpdateIncident _ p) = incident_update_valid p"
| "endpoint_valid _ = True"

definition list_incidents ::
    "string option \<Rightarrow> uuid option \<Rightarrow> incident_severity option \<Rightarrow> incident_status option \<Rightarrow> int \<Rightarrow> int \<Rightarrow>
     (incident_db, incident_reply, incident_reply) operation" where
  "list_incidents search service_id severity status offset limit db =
     (case incident_service_list search service_id severity status (nat offset) (nat limit) db of
        (Inl _, db') \<Rightarrow> (Inl internal_error, db')
      | (Inr incidents, db') \<Rightarrow> (Inr (incident_success 200 incidents), db'))"

definition get_incident :: "uuid \<Rightarrow> (incident_db, incident_reply, incident_reply) operation" where
  "get_incident i db =
     (case incident_service_get i db of
        (Inl (IncidentNotFound detail), db') \<Rightarrow> (Inl (incident_failure 404 detail), db')
      | (Inl _, db') \<Rightarrow> (Inl internal_error, db')
      | (Inr incident, db') \<Rightarrow> (Inr (incident_success 200 [incident]), db'))"

definition create_incident ::
    "service_exists \<Rightarrow> incident_draws \<Rightarrow> string option \<Rightarrow> incident_create \<Rightarrow>
     (incident_db, incident_reply, incident_reply) operation" where
  "create_incident exists d request_id p db =
     (case incident_service_create exists d p request_id db of
        (Inl (UnknownServiceReference detail), db') \<Rightarrow> (Inl (incident_failure 404 detail), db')
      | (Inl (ServiceCatalogUnavailable detail), db') \<Rightarrow> (Inl (incident_failure 503 detail), db')
      | (Inl _, db') \<Rightarrow> (Inl internal_error, db')
      | (Inr incident, db') \<Rightarrow> (Inr (incident_success 201 [incident]), db'))"

definition update_incident ::
    "service_exists \<Rightarrow> incident_draws \<Rightarrow> uuid \<Rightarrow> incident_update \<Rightarrow>
     (incident_db, incident_reply, incident_reply) operation" where
  "update_incident exists d i p db =
     (case incident_service_update exists d i p db of
        (Inl (IncidentNotFound detail), db') \<Rightarrow> (Inl (incident_failure 404 detail), db')
      | (Inl (UnknownServiceReference detail), db') \<Rightarrow> (Inl (incident_failure 400 detail), db')
      | (Inl (ServiceCatalogUnavailable detail), db') \<Rightarrow> (Inl (incident_failure 503 detail), db')
      | (Inl IncidentUnhandled, db') \<Rightarrow> (Inl internal_error, db')
      | (Inr incident, db') \<Rightarrow> (Inr (incident_success 200 [incident]), db'))"

definition delete_incident :: "uuid \<Rightarrow> (incident_db, incident_reply, incident_reply) operation" where
  "delete_incident i db =
     (case incident_service_delete i db of
        (Inl (IncidentNotFound detail), db') \<Rightarrow> (Inl (incident_failure 404 detail), db')
      | (Inl _, db') \<Rightarrow> (Inl internal_error, db')
      | (Inr _, db') \<Rightarrow> (Inr (incident_success 204 []), db'))"

section \<open>Serving a request\<close>

record ('sk, 'pk) incident_deployment =
  idp_lib :: "('sk, 'pk) jwt_lib"
  idp_verifier :: "'pk service_token_verifier"

record incident_request =
  irq_bearer :: "string option"
  irq_request_id :: "string option"
  irq_generated_id :: uuid
  irq_lib_now :: instant
  irq_clock :: clock_reading
  irq_draws :: incident_draws
  irq_exists :: service_exists
  irq_endpoint :: incident_endpoint

record incident_app =
  iap_db :: incident_db
  iap_log :: "audit_record list"

definition incident_handler :: "incident_request \<Rightarrow> (incident_db, incident_reply, incident_reply) operation" where
  "incident_handler q =
     (case irq_endpoint q of
        ListIncidents search service_id severity status offset limit \<Rightarrow>
          list_incidents search service_id severity status offset limit
      | GetIncident i \<Rightarrow> get_incident i
      | CreateIncident p \<Rightarrow>
          create_incident (irq_exists q) (irq_draws q)
            (Some (resolve_request_id (irq_generated_id q) (irq_request_id q))) p
      | UpdateIncident i p \<Rightarrow> update_incident (irq_exists q) (irq_draws q) i p
      | DeleteIncident i \<Rightarrow> delete_incident i)"

definition incident_principal ::
    "('sk, 'pk) incident_deployment \<Rightarrow> incident_request \<Rightarrow> audit_record list \<Rightarrow>
     (incident_reply + service_principal) \<times> audit_record list" where
  "incident_principal dep q entries =
     (case authenticate_service (idp_lib dep) (idp_verifier dep) (irq_lib_now q) (irq_clock q) (irq_bearer q) entries of
        (Inl reply, entries') \<Rightarrow> (Inl reply, entries')
      | (Inr caller, entries') \<Rightarrow> require_service_scope (endpoint_scope (irq_endpoint q)) caller entries')"

definition incident_serve ::
    "('sk, 'pk) incident_deployment \<Rightarrow> incident_request \<Rightarrow> incident_app \<Rightarrow> incident_reply \<times> incident_app" where
  "incident_serve dep q app =
     (case incident_principal dep q (iap_log app) of
        (Inl reply, entries') \<Rightarrow> (reply, app\<lparr>iap_log := entries'\<rparr>)
      | (Inr _, entries') \<Rightarrow>
          if \<not> endpoint_valid (irq_endpoint q) then (incident_failure 422 [], app\<lparr>iap_log := entries'\<rparr>)
          else (case transaction (incident_handler q) (iap_db app) of
                  (Inl reply, db') \<Rightarrow> (reply, \<lparr>iap_db = db', iap_log = entries'\<rparr>)
                | (Inr reply, db') \<Rightarrow> (reply, \<lparr>iap_db = db', iap_log = entries'\<rparr>)))"

end
