(* ===== verification/Outbox_Relay.thy ===== *)
theory Outbox_Relay
  imports Outbox
begin

text \<open>
  The relays that publish the outboxes: \<open>services/incident_outbox_relay_service.py\<close>,
  \<open>services/incident_task_completion_outbox_relay_service.py\<close> and the transaction around them in
  \<open>workers/incident_outbox_relay.py\<close> and \<open>workers/incident_task_completion_outbox_relay.py\<close>.

  One attempt reads the clock twice (\<open>now\<close>, then \<open>after\<close> the client answered), asks the repository
  for a row no other transaction holds (\<open>locked\<close>), hands its message to SQS, marks the row and
  commits. A commit that fails (\<open>commit_ok = False\<close>) rolls the row back after the message was sent.
  \<open>sent\<close> is the list of messages handed to SQS.
\<close>

section \<open>One attempt\<close>

datatype relay_outcome = NoPending | PublicationFailed | Published

record outbox_relay_result =
  orr_outcome :: relay_outcome
  orr_task_id :: "string option"
  orr_correlation_id :: "string option"
  orr_sqs_message_id :: "string option"
  orr_publish_attempt :: "nat option"
  orr_error :: "string option"

record completion_relay_result = outbox_relay_result +
  crr_event_id :: "string option"
  crr_incident_id :: "string option"

record relay_attempt =
  rla_locked :: "uuid set"
  rla_now :: instant
  rla_after :: instant
  rla_answer :: sqs_answer
  rla_commit_ok :: bool

definition new_relay_service :: "int \<Rightarrow> string + int" where
  "new_relay_service retry_seconds =
     (if retry_seconds \<le> 0 then Inl ''retry_seconds must be greater than zero.'' else Inr retry_seconds)"

text \<open>
  The part the two services share: what they found and how publication went, the table as marked,
  and the message handed to the publisher.
\<close>

datatype 'm relay_report = ReportIdle | ReportFailed 'm nat string | ReportPublished 'm nat string

definition relay_core ::
    "'m relay_repository \<Rightarrow> ('m \<Rightarrow> uuid) \<Rightarrow> (sqs_answer \<Rightarrow> string + string) \<Rightarrow> int \<Rightarrow> relay_attempt \<Rightarrow>
     'm outbox \<Rightarrow> (outbox_error + 'm relay_report) \<times> 'm outbox \<times> 'm list" where
  "relay_core repository key receipt retry_seconds a rows =
     (case rpo_lock_next repository (rla_locked a) (rla_now a - timedelta_seconds retry_seconds) rows of
        None \<Rightarrow> (Inr ReportIdle, rows, [])
      | Some record \<Rightarrow>
          let message = obr_message record; attempt_number = obr_attempts record + 1
          in case receipt (rla_answer a) of
               Inl error \<Rightarrow>
                 (case rpo_mark_failed repository (key message) (rla_after a) error rows of
                    Inl e \<Rightarrow> (Inl e, rows, [message])
                  | Inr rows' \<Rightarrow> (Inr (ReportFailed message attempt_number error), rows', [message]))
             | Inr message_id \<Rightarrow>
                 (case rpo_mark_published repository (key message) (rla_after a) rows of
                    Inl e \<Rightarrow> (Inl e, rows, [message])
                  | Inr rows' \<Rightarrow> (Inr (ReportPublished message attempt_number message_id), rows', [message])))"

definition relay_once ::
    "int \<Rightarrow> relay_attempt \<Rightarrow> task_message outbox \<Rightarrow>
     (outbox_error + outbox_relay_result) \<times> task_message outbox \<times> task_message list" where
  "relay_once retry_seconds a rows =
     (case relay_core task_relay_repository tom_id task_publish_receipt retry_seconds a rows of
        (Inl e, rows', sent) \<Rightarrow> (Inl e, rows', sent)
      | (Inr report, rows', sent) \<Rightarrow>
          (Inr (case report of
             ReportIdle \<Rightarrow> \<lparr>orr_outcome = NoPending, orr_task_id = None, orr_correlation_id = None,
               orr_sqs_message_id = None, orr_publish_attempt = None, orr_error = None\<rparr>
           | ReportFailed m n error \<Rightarrow> \<lparr>orr_outcome = PublicationFailed,
               orr_task_id = Some (uuid_str (tom_task_id m)), orr_correlation_id = Some (tom_correlation_id m),
               orr_sqs_message_id = None, orr_publish_attempt = Some n, orr_error = Some error\<rparr>
           | ReportPublished m n message_id \<Rightarrow> \<lparr>orr_outcome = Published,
               orr_task_id = Some (uuid_str (tom_task_id m)), orr_correlation_id = Some (tom_correlation_id m),
               orr_sqs_message_id = Some message_id, orr_publish_attempt = Some n, orr_error = None\<rparr>), rows', sent))"

definition completion_relay_once ::
    "int \<Rightarrow> relay_attempt \<Rightarrow> completion_message outbox \<Rightarrow>
     (outbox_error + completion_relay_result) \<times> completion_message outbox \<times> completion_message list" where
  "completion_relay_once retry_seconds a rows =
     (case relay_core completion_relay_repository com_id completion_publish_receipt retry_seconds a rows of
        (Inl e, rows', sent) \<Rightarrow> (Inl e, rows', sent)
      | (Inr report, rows', sent) \<Rightarrow>
          (Inr (case report of
             ReportIdle \<Rightarrow> \<lparr>orr_outcome = NoPending, orr_task_id = None, orr_correlation_id = None,
               orr_sqs_message_id = None, orr_publish_attempt = None, orr_error = None,
               crr_event_id = None, crr_incident_id = None\<rparr>
           | ReportFailed m n error \<Rightarrow> \<lparr>orr_outcome = PublicationFailed,
               orr_task_id = Some (uuid_str (com_task_id m)), orr_correlation_id = Some (com_correlation_id m),
               orr_sqs_message_id = None, orr_publish_attempt = Some n, orr_error = Some error,
               crr_event_id = Some (uuid_str (com_event_id m)), crr_incident_id = Some (uuid_str (com_incident_id m))\<rparr>
           | ReportPublished m n message_id \<Rightarrow> \<lparr>orr_outcome = Published,
               orr_task_id = Some (uuid_str (com_task_id m)), orr_correlation_id = Some (com_correlation_id m),
               orr_sqs_message_id = Some message_id, orr_publish_attempt = Some n, orr_error = None,
               crr_event_id = Some (uuid_str (com_event_id m)), crr_incident_id = Some (uuid_str (com_incident_id m))\<rparr>),
           rows', sent))"

section \<open>The worker's transaction\<close>

record 'm relay_state =
  rls_rows :: "'m outbox"
  rls_sent :: "'m list"

definition relay_transaction ::
    "('m outbox \<Rightarrow> (outbox_error + 'r) \<times> 'm outbox \<times> 'm list) \<Rightarrow> bool \<Rightarrow> 'm relay_state \<Rightarrow>
     'r option \<times> 'm relay_state" where
  "relay_transaction once commit_ok s =
     (case once (rls_rows s) of
        (Inr result, rows', sent) \<Rightarrow>
          if commit_ok then (Some result, \<lparr>rls_rows = rows', rls_sent = rls_sent s @ sent\<rparr>)
          else (None, s\<lparr>rls_sent := rls_sent s @ sent\<rparr>)
      | (Inl e, rows', sent) \<Rightarrow> (None, s\<lparr>rls_sent := rls_sent s @ sent\<rparr>))"

definition relay_one ::
    "int \<Rightarrow> relay_attempt \<Rightarrow> task_message relay_state \<Rightarrow> outbox_relay_result option \<times> task_message relay_state" where
  "relay_one retry_seconds a s = relay_transaction (relay_once retry_seconds a) (rla_commit_ok a) s"

definition completion_relay_one ::
    "int \<Rightarrow> relay_attempt \<Rightarrow> completion_message relay_state \<Rightarrow>
     completion_relay_result option \<times> completion_message relay_state" where
  "completion_relay_one retry_seconds a s =
     relay_transaction (completion_relay_once retry_seconds a) (rla_commit_ok a) s"

text \<open>\<open>main\<close> without \<open>--once\<close>: the worker's loop over the attempts the world offers it.\<close>

definition relay_run :: "int \<Rightarrow> relay_attempt list \<Rightarrow> task_message relay_state \<Rightarrow> task_message relay_state" where
  "relay_run retry_seconds attempts s = fold (\<lambda>a s. snd (relay_one retry_seconds a s)) attempts s"

definition completion_relay_run ::
    "int \<Rightarrow> relay_attempt list \<Rightarrow> completion_message relay_state \<Rightarrow> completion_message relay_state" where
  "completion_relay_run retry_seconds attempts s =
     fold (\<lambda>a s. snd (completion_relay_one retry_seconds a s)) attempts s"

section \<open>The repository's laws, and what the relay makes of them\<close>

definition publish_row :: "instant \<Rightarrow> 'm outbox_row \<Rightarrow> 'm outbox_row" where
  "publish_row t r = r\<lparr>obr_status := PUBLISHED, obr_attempts := obr_attempts r + 1,
     obr_published_at := Some t, obr_updated_at := t, obr_last_error := None\<rparr>"

definition fail_row :: "instant \<Rightarrow> string \<Rightarrow> 'm outbox_row \<Rightarrow> 'm outbox_row" where
  "fail_row t e r = r\<lparr>obr_status := PENDING, obr_attempts := obr_attempts r + 1,
     obr_updated_at := t, obr_last_error := Some (take 2000 e)\<rparr>"

lemma marked_row_simps [simp]:
  "obr_message (publish_row t r) = obr_message r" "obr_status (publish_row t r) = PUBLISHED"
  "obr_created_at (publish_row t r) = obr_created_at r"
  "obr_message (fail_row t e r) = obr_message r" "obr_status (fail_row t e r) = PENDING"
  "obr_created_at (fail_row t e r) = obr_created_at r"
  by (simp_all add: publish_row_def fail_row_def)

text \<open>A step of a relay, seen from the table: what it may send and how it may change rows.\<close>

definition relay_effect :: "'m outbox \<Rightarrow> 'm outbox \<Rightarrow> 'm list \<Rightarrow> bool" where
  "relay_effect rows rows' new \<longleftrightarrow>
     map obr_message rows' = map obr_message rows \<and>
     (\<forall>m \<in> set new. \<exists>r \<in> set rows. obr_message r = m \<and> obr_status r = PENDING) \<and>
     (\<forall>r \<in> set rows. obr_status r = PUBLISHED \<longrightarrow> r \<in> set rows') \<and>
     (\<forall>r \<in> set rows'. obr_status r = PUBLISHED \<longrightarrow> r \<in> set rows \<or> obr_message r \<in> set new)"

lemma relay_effect_refl: "relay_effect rows rows []"
  by (simp add: relay_effect_def)

lemma relay_effect_sent_only:
  "r \<in> set rows \<Longrightarrow> obr_status r = PENDING \<Longrightarrow> relay_effect rows rows [obr_message r]"
  by (auto simp: relay_effect_def)

lemma distinct_messages_eq:
  "distinct (map obr_message rows) \<Longrightarrow> r \<in> set rows \<Longrightarrow> r' \<in> set rows \<Longrightarrow>
     obr_message r = obr_message r' \<Longrightarrow> r = r'"
  by (induction rows) (auto simp: image_iff)

lemma relay_effect_trans:
  assumes "relay_effect rows rows1 new1" and "relay_effect rows1 rows2 new2" and "distinct (map obr_message rows)"
  shows "relay_effect rows rows2 (new1 @ new2)"
proof -
  have same: "map obr_message rows1 = map obr_message rows" using assms(1) by (simp add: relay_effect_def)
  have "\<exists>r \<in> set rows. obr_message r = m \<and> obr_status r = PENDING" if m: "m \<in> set new2" for m
  proof -
    obtain r1 where r1: "r1 \<in> set rows1" "obr_message r1 = m" "obr_status r1 = PENDING"
      using assms(2) m unfolding relay_effect_def by blast
    then have "m \<in> set (map obr_message rows)" unfolding same [symmetric] by auto
    then obtain r where r: "r \<in> set rows" "obr_message r = m" by auto
    have "obr_status r = PENDING"
    proof (rule ccontr)
      assume "obr_status r \<noteq> PENDING"
      then have "r \<in> set rows1" and "obr_status r = PUBLISHED"
        using assms(1) r publication_status.exhaust unfolding relay_effect_def by blast+
      then show False
        using distinct_messages_eq [of rows1 r r1] r r1 assms(3) same by auto
    qed
    with r show ?thesis by blast
  qed
  then show ?thesis using assms(1,2) unfolding relay_effect_def by (auto; blast)
qed

definition unique_messages :: "('m \<Rightarrow> uuid) \<Rightarrow> 'm outbox \<Rightarrow> bool" where
  "unique_messages key rows \<longleftrightarrow> unique_key (\<lambda>r. key (obr_message r)) rows"

definition relay_step ::
    "'m relay_repository \<Rightarrow> ('m \<Rightarrow> uuid) \<Rightarrow> (sqs_answer \<Rightarrow> string + string) \<Rightarrow> int \<Rightarrow> relay_attempt \<Rightarrow>
     'm relay_state \<Rightarrow> 'm relay_state" where
  "relay_step repository key receipt retry a s =
     snd (relay_transaction (relay_core repository key receipt retry a) (rla_commit_ok a) s)"

locale relay_laws =
  fixes repository :: "'m relay_repository" and key :: "'m \<Rightarrow> uuid"
  assumes lock_Some: "rpo_lock_next repository locked t rows = Some r \<Longrightarrow>
      r \<in> set rows \<and> publishable t r \<and> key (obr_message r) \<notin> locked"
    and lock_oldest: "rpo_lock_next repository locked t rows = Some r \<Longrightarrow> r' \<in> set rows \<Longrightarrow> publishable t r' \<Longrightarrow>
      key (obr_message r') \<notin> locked \<Longrightarrow> obr_created_at r \<le> obr_created_at r'"
    and lock_None: "rpo_lock_next repository locked t rows = None \<Longrightarrow> r \<in> set rows \<Longrightarrow> publishable t r \<Longrightarrow>
      key (obr_message r) \<in> locked"
    and published: "r \<in> set rows \<Longrightarrow> rpo_mark_published repository (key (obr_message r)) t rows =
      Inr (update_where (\<lambda>x. key (obr_message x) = key (obr_message r)) (publish_row t) rows)"
    and failed: "r \<in> set rows \<Longrightarrow> rpo_mark_failed repository (key (obr_message r)) t e rows =
      Inr (update_where (\<lambda>x. key (obr_message x) = key (obr_message r)) (fail_row t e) rows)"
begin

lemma unique_distinct: "unique_messages key rows \<Longrightarrow> distinct (map obr_message rows)"
  unfolding unique_messages_def unique_key_def by (induction rows) auto

lemma unique_same: "map obr_message rows' = map obr_message rows \<Longrightarrow> unique_messages key rows \<Longrightarrow> unique_messages key rows'"
  unfolding unique_messages_def unique_key_def by (metis (no_types, lifting) list.map_comp map_eq_conv comp_def)

lemma marked_effect:
  assumes "unique_messages key rows" and "r \<in> set rows" and "obr_status r = PENDING"
    and "\<And>x. obr_message (f x) = obr_message x"
  shows "relay_effect rows (update_where (\<lambda>x. key (obr_message x) = key (obr_message r)) f rows) [obr_message r]"
proof -
  have only: "x = r" if "x \<in> set rows" "key (obr_message x) = key (obr_message r)" for x
    using that assms(1,2) lookup_by_unique [of "\<lambda>r. key (obr_message r)" rows] unfolding unique_messages_def
    by (metis option.inject)
  have "map obr_message (update_where (\<lambda>x. key (obr_message x) = key (obr_message r)) f rows) = map obr_message rows"
    using assms(4) by (rule map_key_update_where)
  moreover have "x \<in> set (update_where (\<lambda>x. key (obr_message x) = key (obr_message r)) f rows)"
    if "x \<in> set rows" "obr_status x = PUBLISHED" for x
  proof -
    have "key (obr_message x) \<noteq> key (obr_message r)" using only that assms(3) by fastforce
    then show ?thesis using that(1) unfolding set_update_where by (intro image_eqI [of _ _ x]) simp_all
  qed
  moreover have "x \<in> set rows \<or> obr_message x = obr_message r"
    if "x \<in> set (update_where (\<lambda>x. key (obr_message x) = key (obr_message r)) f rows)" for x
    using that only assms(4) by (auto simp: set_update_where split: if_splits)
  ultimately show ?thesis using assms(2,3) unfolding relay_effect_def by auto
qed

lemma core_effect:
  assumes "unique_messages key rows" and "relay_core repository key receipt retry a rows = (res, rows', new)"
  shows "relay_effect rows rows' new \<and> relay_effect rows rows new"
proof (cases "rpo_lock_next repository (rla_locked a) (rla_now a - timedelta_seconds retry) rows")
  case None
  then show ?thesis using assms(2) relay_effect_refl by (simp add: relay_core_def)
next
  case (Some r)
  then have r: "r \<in> set rows" "obr_status r = PENDING" using lock_Some by (auto simp: publishable_def)
  show ?thesis
    using assms(2) Some marked_effect [OF assms(1) r] relay_effect_sent_only [OF r]
    by (auto simp: relay_core_def published [OF r(1)] failed [OF r(1)] Let_def split: sum.splits)
qed

lemma step_effect:
  assumes "unique_messages key (rls_rows s)"
  obtains new where "relay_effect (rls_rows s) (rls_rows (relay_step repository key receipt retry a s)) new"
    and "rls_sent (relay_step repository key receipt retry a s) = rls_sent s @ new"
proof -
  obtain res rows' new where core: "relay_core repository key receipt retry a (rls_rows s) = (res, rows', new)"
    by (metis prod_cases3)
  show ?thesis
    using core_effect [OF assms core] core
    by (intro that [of new]) (auto simp: relay_step_def relay_transaction_def split: sum.splits)
qed

lemma run_effect:
  assumes "unique_messages key (rls_rows s)"
  shows "\<exists>new. relay_effect (rls_rows s) (rls_rows (fold (relay_step repository key receipt retry) attempts s)) new \<and>
    rls_sent (fold (relay_step repository key receipt retry) attempts s) = rls_sent s @ new"
  using assms
proof (induction attempts arbitrary: s)
  case Nil
  show ?case using relay_effect_refl by (intro exI [of _ "[]"]) simp
next
  case (Cons a as)
  obtain new where new: "relay_effect (rls_rows s) (rls_rows (relay_step repository key receipt retry a s)) new"
    "rls_sent (relay_step repository key receipt retry a s) = rls_sent s @ new" by (rule step_effect [OF Cons.prems])
  then have "unique_messages key (rls_rows (relay_step repository key receipt retry a s))"
    using unique_same Cons.prems by (simp add: relay_effect_def)
  from Cons.IH [OF this] obtain new2 where
    "relay_effect (rls_rows (relay_step repository key receipt retry a s)) (rls_rows (fold (relay_step repository key receipt retry) (a # as) s)) new2"
    "rls_sent (fold (relay_step repository key receipt retry) (a # as) s) = rls_sent s @ new @ new2"
    using new(2) by auto
  then show ?case
    using relay_effect_trans [OF new(1) _ unique_distinct [OF Cons.prems]] by blast
qed

text \<open>An attempt that nothing disturbs: no row locked elsewhere, SQS accepts, the commit succeeds.\<close>

lemma step_undisturbed:
  assumes "rla_locked a = {}" and "rla_commit_ok a" and "receipt (rla_answer a) = Inr message_id"
    and "unique_messages key (rls_rows s)"
    and "\<forall>r \<in> set (rls_rows s). obr_status r = PENDING \<longrightarrow> publishable (rla_now a - timedelta_seconds retry) r"
  shows "(\<forall>r \<in> set (rls_rows s). obr_status r = PUBLISHED) \<and> relay_step repository key receipt retry a s = s \<or>
    (\<exists>r \<in> set (rls_rows s). obr_status r = PENDING \<and>
       (\<forall>x \<in> set (rls_rows s). obr_status x = PENDING \<longrightarrow> obr_created_at r \<le> obr_created_at x) \<and>
       relay_step repository key receipt retry a s =
         \<lparr>rls_rows = update_where (\<lambda>x. key (obr_message x) = key (obr_message r)) (publish_row (rla_after a)) (rls_rows s),
          rls_sent = rls_sent s @ [obr_message r]\<rparr>)"
proof (cases "rpo_lock_next repository (rla_locked a) (rla_now a - timedelta_seconds retry) (rls_rows s)")
  case None
  then have "obr_status r = PUBLISHED" if "r \<in> set (rls_rows s)" for r
    using lock_None [OF None that] assms(1,5) that publication_status.exhaust by auto
  moreover have "relay_step repository key receipt retry a s = s"
    using None assms(2) by (simp add: relay_step_def relay_transaction_def relay_core_def)
  ultimately show ?thesis by blast
next
  case (Some r)
  then have r: "r \<in> set (rls_rows s)" "obr_status r = PENDING" using lock_Some by (auto simp: publishable_def)
  moreover have "obr_created_at r \<le> obr_created_at x" if "x \<in> set (rls_rows s)" "obr_status x = PENDING" for x
    using lock_oldest [OF Some that(1)] assms(1,5) that by simp
  moreover have "relay_step repository key receipt retry a s =
      \<lparr>rls_rows = update_where (\<lambda>x. key (obr_message x) = key (obr_message r)) (publish_row (rla_after a)) (rls_rows s),
       rls_sent = rls_sent s @ [obr_message r]\<rparr>"
    using Some assms(2,3) published [OF r(1)]
    by (simp add: relay_step_def relay_transaction_def relay_core_def Let_def)
  ultimately show ?thesis by blast
qed

lemma pending_after_publish:
  fixes t :: instant
  assumes "unique_messages key rows" and "r \<in> set rows" and "obr_status r = PENDING"
  defines "rows1 \<equiv> update_where (\<lambda>x. key (obr_message x) = key (obr_message r)) (publish_row t) rows"
  shows "filter (\<lambda>x. obr_status x = PENDING) rows1 =
      filter (\<lambda>x. obr_status x = PENDING \<and> key (obr_message x) \<noteq> key (obr_message r)) rows"
    and "length (filter (\<lambda>x. obr_status x = PENDING) rows1) < length (filter (\<lambda>x. obr_status x = PENDING) rows)"
proof -
  show eq: "filter (\<lambda>x. obr_status x = PENDING) rows1 =
      filter (\<lambda>x. obr_status x = PENDING \<and> key (obr_message x) \<noteq> key (obr_message r)) rows"
    unfolding rows1_def by (induction rows) (auto simp: update_where_def)
  have "filter (\<lambda>x. key (obr_message x) \<noteq> key (obr_message r)) (filter (\<lambda>x. obr_status x = PENDING) rows) =
      filter (\<lambda>x. obr_status x = PENDING \<and> key (obr_message x) \<noteq> key (obr_message r)) rows"
    by (simp add: conj_commute)
  then show "length (filter (\<lambda>x. obr_status x = PENDING) rows1) < length (filter (\<lambda>x. obr_status x = PENDING) rows)"
    using assms(2,3) length_filter_less [of r "filter (\<lambda>x. obr_status x = PENDING) rows"
        "\<lambda>x. key (obr_message x) \<noteq> key (obr_message r)"]
    unfolding eq by auto
qed

lemma run_drains:
  assumes "unique_messages key (rls_rows s)"
    and "\<forall>r \<in> set (rls_rows s). obr_created_at r = created (obr_message r)"
    and "\<forall>a \<in> set attempts. rla_locked a = {} \<and> rla_commit_ok a \<and> isl (receipt (rla_answer a)) = False \<and>
           (\<forall>r \<in> set (rls_rows s). obr_status r = PENDING \<longrightarrow> publishable (rla_now a - timedelta_seconds retry) r)"
    and "length (filter (\<lambda>r. obr_status r = PENDING) (rls_rows s)) \<le> length attempts"
  defines "s' \<equiv> fold (relay_step repository key receipt retry) attempts s"
  shows "(\<forall>r \<in> set (rls_rows s'). obr_status r = PUBLISHED) \<and>
    (\<exists>new. rls_sent s' = rls_sent s @ new \<and> distinct new \<and> sorted (map created new) \<and>
       set new = obr_message ` {r \<in> set (rls_rows s). obr_status r = PENDING})"
  using assms(1-4) unfolding s'_def
proof (induction attempts arbitrary: s)
  case Nil
  then have "\<forall>r \<in> set (rls_rows s). obr_status r \<noteq> PENDING" by (simp add: filter_empty_conv)
  then show ?case using publication_status.exhaust by (auto intro!: exI [of _ "[]"])
next
  case (Cons a as)
  let ?s1 = "relay_step repository key receipt retry a s"
  obtain message_id where a: "rla_locked a = {}" "rla_commit_ok a" "receipt (rla_answer a) = Inr message_id"
    using Cons.prems(3) by (cases "receipt (rla_answer a)") auto
  have pub: "\<forall>r \<in> set (rls_rows s). obr_status r = PENDING \<longrightarrow> publishable (rla_now a - timedelta_seconds retry) r"
    using Cons.prems(3) by simp
  from step_undisturbed [where s = s and receipt = receipt, OF a Cons.prems(1) pub] consider
      (idle) "\<forall>r \<in> set (rls_rows s). obr_status r = PUBLISHED" "?s1 = s"
    | (one) r where "r \<in> set (rls_rows s)" "obr_status r = PENDING"
        "\<forall>x \<in> set (rls_rows s). obr_status x = PENDING \<longrightarrow> obr_created_at r \<le> obr_created_at x"
        "?s1 = \<lparr>rls_rows = update_where (\<lambda>x. key (obr_message x) = key (obr_message r)) (publish_row (rla_after a)) (rls_rows s),
          rls_sent = rls_sent s @ [obr_message r]\<rparr>"
    by blast
  then show ?case
  proof cases
    case idle
    then have none: "filter (\<lambda>r. obr_status r = PENDING) (rls_rows s) = []" by (simp add: filter_empty_conv)
    show ?thesis using Cons.IH [OF Cons.prems(1,2)] Cons.prems(3) idle(2) none by simp
  next
    case one
    let ?rows1 = "rls_rows ?s1"
    note pend = pending_after_publish [OF Cons.prems(1) one(1,2), where t = "rla_after a"]
    have rows1: "?rows1 = update_where (\<lambda>x. key (obr_message x) = key (obr_message r)) (publish_row (rla_after a)) (rls_rows s)"
      using one(4) by simp
    have still': "{x \<in> set ?rows1. obr_status x = PENDING} =
        {x \<in> set (rls_rows s). obr_status x = PENDING \<and> key (obr_message x) \<noteq> key (obr_message r)}"
      using arg_cong [OF pend(1), of set] unfolding rows1 by simp
    have still: "x \<in> set (rls_rows s) \<and> obr_status x = PENDING \<and> key (obr_message x) \<noteq> key (obr_message r)"
      if "x \<in> set ?rows1" "obr_status x = PENDING" for x
      using that still' by blast
    have "map obr_message ?rows1 = map obr_message (rls_rows s)" unfolding rows1 by (simp add: map_key_update_where)
    then have uniq: "unique_messages key ?rows1" using unique_same Cons.prems(1) by blast
    have "\<forall>x \<in> set ?rows1. obr_created_at x = created (obr_message x)"
      using Cons.prems(2) unfolding rows1 by (auto simp: set_update_where)
    from Cons.IH [OF uniq this] obtain new where
        done1: "\<forall>r \<in> set (rls_rows (fold (relay_step repository key receipt retry) as ?s1)). obr_status r = PUBLISHED"
      and new: "rls_sent (fold (relay_step repository key receipt retry) as ?s1) = rls_sent ?s1 @ new" "distinct new"
        "sorted (map created new)" "set new = obr_message ` {r \<in> set ?rows1. obr_status r = PENDING}"
      using Cons.prems(3,4) still pend(2) unfolding rows1 [symmetric] by fastforce
    have set_new: "set (obr_message r # new) = obr_message ` {r \<in> set (rls_rows s). obr_status r = PENDING}"
      using new(4) one(1,2) lookup_by_unique [of "\<lambda>r. key (obr_message r)" "rls_rows s"] Cons.prems(1)
      unfolding still' unique_messages_def by (auto simp: image_iff) (metis option.inject)
    have "obr_message r \<notin> set new" unfolding new(4) still' by auto
    moreover have "created (obr_message r) \<le> created m" if "m \<in> set new" for m
      using that one(1,3) Cons.prems(2) unfolding new(4) still' by auto
    ultimately show ?thesis
      using done1 new(1-3) set_new one(4) by (intro conjI exI [of _ "obr_message r # new"]) auto
  qed
qed

end

section \<open>Both repositories meet the laws\<close>

lemma lock_next_Some:
  assumes "lock_next_publishable key locked t rows = Some r"
  shows "r \<in> set rows \<and> publishable t r \<and> key (obr_message r) \<notin> locked"
    and "r' \<in> set rows \<Longrightarrow> publishable t r' \<Longrightarrow> key (obr_message r') \<notin> locked \<Longrightarrow> obr_created_at r \<le> obr_created_at r'"
proof -
  let ?ok = "filter (\<lambda>r. publishable t r \<and> key (obr_message r) \<notin> locked) rows"
  obtain rest where sorted: "sort_key obr_created_at ?ok = r # rest"
    using assms by (auto simp: lock_next_publishable_def split: list.splits)
  then have set: "set ?ok = set (r # rest)" using set_sort [of obr_created_at ?ok] by simp
  have "r \<in> set ?ok" unfolding set by simp
  then show "r \<in> set rows \<and> publishable t r \<and> key (obr_message r) \<notin> locked" by simp
  have min: "\<forall>x \<in> set (r # rest). obr_created_at r \<le> obr_created_at x"
    using sorted_sort_key [of obr_created_at ?ok] unfolding sorted by auto
  show "obr_created_at r \<le> obr_created_at r'"
    if "r' \<in> set rows" "publishable t r'" "key (obr_message r') \<notin> locked"
  proof -
    have "r' \<in> set ?ok" using that by simp
    then show ?thesis using min unfolding set by blast
  qed
qed

lemma lock_next_None:
  assumes "lock_next_publishable key locked t rows = None" and "r \<in> set rows" and "publishable t r"
  shows "key (obr_message r) \<in> locked"
proof -
  have "sort_key obr_created_at (filter (\<lambda>r. publishable t r \<and> key (obr_message r) \<notin> locked) rows) = []"
    using assms(1) by (auto simp: lock_next_publishable_def split: list.splits)
  then have "filter (\<lambda>r. publishable t r \<and> key (obr_message r) \<notin> locked) rows = []"
    using set_sort [of obr_created_at "filter (\<lambda>r. publishable t r \<and> key (obr_message r) \<notin> locked) rows"]
    by (simp del: set_sort)
  then show ?thesis using assms(2,3) by (auto simp: filter_empty_conv)
qed

lemma mark_found:
  assumes "r \<in> set rows"
  shows "mark_published key (key (obr_message r)) t rows =
      Inr (update_where (\<lambda>x. key (obr_message x) = key (obr_message r)) (publish_row t) rows)"
    and "mark_publish_failed key (key (obr_message r)) t e rows =
      Inr (update_where (\<lambda>x. key (obr_message x) = key (obr_message r)) (fail_row t e) rows)"
proof -
  have "lookup_by (\<lambda>r. key (obr_message r)) (key (obr_message r)) rows \<noteq> None"
    using assms unfolding lookup_by_None_iff by blast
  then show "mark_published key (key (obr_message r)) t rows =
      Inr (update_where (\<lambda>x. key (obr_message x) = key (obr_message r)) (publish_row t) rows)"
    and "mark_publish_failed key (key (obr_message r)) t e rows =
      Inr (update_where (\<lambda>x. key (obr_message x) = key (obr_message r)) (fail_row t e) rows)"
    by (auto simp: mark_published_def mark_publish_failed_def publish_row_def [abs_def] fail_row_def [abs_def])
qed

interpretation tasks: relay_laws task_relay_repository tom_id
  by unfold_locales
    (simp_all add: task_relay_repository_def lock_next_Some lock_next_None mark_found)

interpretation completions: relay_laws completion_relay_repository com_id
  by unfold_locales
    (simp_all add: completion_relay_repository_def lock_next_Some lock_next_None mark_found)

lemma relay_transaction_map:
  assumes "\<And>rows. once' rows = (case once rows of (res, rows', sent) \<Rightarrow> (map_sum id f res, rows', sent))"
  shows "snd (relay_transaction once' commit_ok s) = snd (relay_transaction once commit_ok s)"
  unfolding relay_transaction_def assms by (auto split: prod.splits sum.splits)

lemma relay_run_steps:
  "relay_run retry attempts s = fold (relay_step task_relay_repository tom_id task_publish_receipt retry) attempts s"
  "completion_relay_run retry attempts s' =
     fold (relay_step completion_relay_repository com_id completion_publish_receipt retry) attempts s'"
proof -
  have "snd (relay_one retry a s) = relay_step task_relay_repository tom_id task_publish_receipt retry a s" for a s
    by (auto simp: relay_one_def relay_step_def relay_transaction_def relay_once_def split: prod.splits sum.splits)
  then show "relay_run retry attempts s =
      fold (relay_step task_relay_repository tom_id task_publish_receipt retry) attempts s"
    by (simp add: relay_run_def)
  have "snd (completion_relay_one retry a s) =
      relay_step completion_relay_repository com_id completion_publish_receipt retry a s" for a s
    by (auto simp: completion_relay_one_def relay_step_def relay_transaction_def completion_relay_once_def
        split: prod.splits sum.splits)
  then show "completion_relay_run retry attempts s' =
      fold (relay_step completion_relay_repository com_id completion_publish_receipt retry) attempts s'"
    by (simp add: completion_relay_run_def)
qed

section \<open>Properties\<close>


text \<open>
  Claim C13. Once nothing disturbs the relay, as many attempts as there are pending
  rows empty the outbox: every row is published, and the pending messages have been sent once each,
  in the order of their creation. An attempt is undisturbed when no row is locked elsewhere, SQS
  answers with a message identifier, the commit succeeds and the retry delay of every pending row
  has passed.
\<close>

theorem outbox_drains:
  assumes "unique_messages tom_id (rls_rows s)"
    and "\<forall>r \<in> set (rls_rows s). obr_created_at r = tom_created_at (obr_message r)"
    and "\<forall>a \<in> set attempts. rla_locked a = {} \<and> rla_commit_ok a \<and> (\<exists>c cs. rla_answer a = SqsResponse (JStr (c # cs))) \<and>
           (\<forall>r \<in> set (rls_rows s). obr_status r = PENDING \<and> obr_attempts r \<noteq> 0 \<longrightarrow>
              obr_updated_at r + timedelta_seconds retry \<le> rla_now a)"
    and "length (filter (\<lambda>r. obr_status r = PENDING) (rls_rows s)) \<le> length attempts"
  shows "(\<forall>r \<in> set (rls_rows (relay_run retry attempts s)). obr_status r = PUBLISHED) \<and>
    (\<exists>new. rls_sent (relay_run retry attempts s) = rls_sent s @ new \<and> distinct new \<and>
       sorted (map tom_created_at new) \<and>
       set new = obr_message ` {r \<in> set (rls_rows s). obr_status r = PENDING})"
  unfolding relay_run_steps
  using assms by (intro tasks.run_drains)
    (auto simp: publishable_def task_publish_receipt_def isl_def algebra_simps)

section \<open>Witnesses\<close>

definition demo_message :: "uuid \<Rightarrow> instant \<Rightarrow> task_message" where
  "demo_message i created = \<lparr>tom_id = i, tom_task_id = i + 100, tom_incident_id = i + 200,
     tom_schema_version = TASK_SCHEMA_VERSION, tom_task_type = INCIDENT_PROCESSING_TASK_TYPE,
     tom_idempotency_key = uuid_str i, tom_correlation_id = ''c'', tom_causation_id = None,
     tom_payload = [], tom_metadata = [], tom_created_at = created\<rparr>"

definition demo_outbox :: "task_message relay_state" where
  "demo_outbox = \<lparr>rls_rows = [pending_row (demo_message 1 2000) 2000, pending_row (demo_message 2 1000) 1000],
     rls_sent = []\<rparr>"

definition demo_attempt :: relay_attempt where
  "demo_attempt = \<lparr>rla_locked = {}, rla_now = 5000, rla_after = 6000, rla_answer = SqsResponse (JStr ''m''),
     rla_commit_ok = True\<rparr>"

lemma demo_outbox_unique: "unique_messages tom_id (rls_rows demo_outbox)"
  by (simp add: unique_messages_def unique_key_def demo_outbox_def pending_row_def demo_message_def)


theorem outbox_drains_witness:
  "map obr_status (rls_rows (relay_run 15 [demo_attempt, demo_attempt] demo_outbox)) = [PUBLISHED, PUBLISHED]"
proof -
  have "map obr_message (rls_rows (relay_run 15 [demo_attempt, demo_attempt] demo_outbox)) = map obr_message (rls_rows demo_outbox)"
    using tasks.run_effect [OF demo_outbox_unique] unfolding relay_run_steps relay_effect_def by blast
  then have "length (rls_rows (relay_run 15 [demo_attempt, demo_attempt] demo_outbox)) = 2"
    by (auto simp: demo_outbox_def dest: map_eq_imp_length_eq)
  then obtain a b where "rls_rows (relay_run 15 [demo_attempt, demo_attempt] demo_outbox) = [a, b]"
    by (auto simp: numeral_2_eq_2 length_Suc_conv)
  with outbox_drains [OF demo_outbox_unique, of "[demo_attempt, demo_attempt]" 15] show ?thesis
    by (simp add: demo_outbox_def pending_row_def demo_message_def demo_attempt_def)
qed

end
