(* ===== verification/Task_Execution.thy ===== *)
theory Task_Execution
  imports Py_Datetime "HOL-Library.List_Lexorder" "HOL-Library.Char_ord"
begin

text \<open>
  The DynamoDB table of asynchronous task executions: the record the task worker accepts
  (\<open>execution_state.py\<close> of the Lambda under \<open>src/lambdas/task-worker/src/task_worker\<close>) and the operations the
  reconciler performs on it (\<open>repositories/dynamodb_incident_task_execution_repository.py\<close> under
  \<open>src/incident-service/app\<close>).

  A table is the list of its items, one per \<open>task_id\<close>; an optional attribute is \<open>None\<close> when absent, and a
  condition on an absent attribute is false, as DynamoDB documents. \<open>dynamo_fault\<close> is what goes wrong with a
  call: nothing, an error before the write, or an error the client sees although the write was done. The
  status index lists items by status in the order of \<open>created_at\<close>; it is read through a \<open>view\<close> of the table
  that may be stale.
\<close>

section \<open>Items\<close>

datatype execution_status = READY_FOR_INCIDENT_SERVICE | INCIDENT_SERVICE_PROCESSING | SUCCEEDED | FAILED

fun execution_status_value :: "execution_status \<Rightarrow> string" where
  "execution_status_value READY_FOR_INCIDENT_SERVICE = ''READY_FOR_INCIDENT_SERVICE''"
| "execution_status_value INCIDENT_SERVICE_PROCESSING = ''INCIDENT_SERVICE_PROCESSING''"
| "execution_status_value SUCCEEDED = ''SUCCEEDED''"
| "execution_status_value FAILED = ''FAILED''"

record execution_item =
  xit_task_id :: string
  xit_incident_id :: string
  xit_task_type :: string
  xit_schema_version :: string
  xit_producer :: string
  xit_idempotency_key :: string
  xit_correlation_id :: string
  xit_status :: execution_status
  xit_payload :: payload
  xit_created_at :: string
  xit_accepted_at :: string
  xit_updated_at :: string
  xit_reconciliation_attempts :: nat
  xit_expiration :: int
  xit_causation_id :: "string option"
  xit_metadata :: "payload option"
  xit_lease_expires_at :: "int option"
  xit_reconciliation_started_at :: "string option"
  xit_reconciliation_token :: "string option"
  xit_last_error :: "string option"
  xit_completed_at :: "string option"
  xit_failed_at :: "string option"
  xit_result :: "payload option"

type_synonym execution_table = "execution_item list"

text \<open>The members of a validated task envelope the store reads.\<close>

record task_envelope =
  env_task_id :: string
  env_task_type :: string
  env_schema_version :: string
  env_created_at :: string
  env_producer :: string
  env_correlation_id :: string
  env_causation_id :: "string option"
  env_idempotency_key :: string
  env_payload :: payload
  env_metadata :: "payload option"

datatype dynamo_fault = Healthy | LostBefore | LostAfter

datatype execution_error =
    TaskExecutionCollisionError "string list"
  | ExecutionStateOwnershipLostError
  | DynamoClientError
  | MalformedExecutionItem

section \<open>Accepting a task\<close>

definition accepted_item :: "instant \<Rightarrow> int \<Rightarrow> int \<Rightarrow> task_envelope \<Rightarrow> string \<Rightarrow> execution_item" where
  "accepted_item now now_epoch expiration_seconds t incident_id =
     \<lparr>xit_task_id = env_task_id t, xit_incident_id = incident_id, xit_task_type = env_task_type t,
      xit_schema_version = env_schema_version t, xit_producer = env_producer t,
      xit_idempotency_key = env_idempotency_key t, xit_correlation_id = env_correlation_id t,
      xit_status = READY_FOR_INCIDENT_SERVICE, xit_payload = env_payload t,
      xit_created_at = env_created_at t, xit_accepted_at = isoformat now, xit_updated_at = isoformat now,
      xit_reconciliation_attempts = 0, xit_expiration = now_epoch + expiration_seconds,
      xit_causation_id = env_causation_id t, xit_metadata = env_metadata t,
      xit_lease_expires_at = None, xit_reconciliation_started_at = None, xit_reconciliation_token = None,
      xit_last_error = None, xit_completed_at = None, xit_failed_at = None, xit_result = None\<rparr>"

definition validate_existing_record :: "execution_item \<Rightarrow> task_envelope \<Rightarrow> string \<Rightarrow> string list" where
  "validate_existing_record x t incident_id =
     sort (map fst (filter (\<lambda>(f, differs). differs)
       [(''task_id'', xit_task_id x \<noteq> env_task_id t), (''incident_id'', xit_incident_id x \<noteq> incident_id),
        (''task_type'', xit_task_type x \<noteq> env_task_type t),
        (''idempotency_key'', xit_idempotency_key x \<noteq> env_idempotency_key t),
        (''correlation_id'', xit_correlation_id x \<noteq> env_correlation_id t)]))"

text \<open>\<open>True\<close>: a new record; \<open>False\<close>: the same execution is there already.\<close>

definition accept_incident_processing_task ::
    "instant \<Rightarrow> int \<Rightarrow> int \<Rightarrow> dynamo_fault \<Rightarrow> bool \<Rightarrow> task_envelope \<Rightarrow> string \<Rightarrow> execution_table \<Rightarrow>
     (execution_error + bool) \<times> execution_table" where
  "accept_incident_processing_task now now_epoch expiration_seconds put_fault get_ok t incident_id rows =
     (if put_fault = LostBefore then (Inl DynamoClientError, rows)
      else case lookup_by xit_task_id (env_task_id t) rows of
        None \<Rightarrow>
          let rows' = rows @ [accepted_item now now_epoch expiration_seconds t incident_id]
          in (if put_fault = LostAfter then Inl DynamoClientError else Inr True, rows')
      | Some existing \<Rightarrow>
          if put_fault = LostAfter \<or> \<not> get_ok then (Inl DynamoClientError, rows)
          else case validate_existing_record existing t incident_id of
            [] \<Rightarrow> (Inr False, rows)
          | mismatched \<Rightarrow> (Inl (TaskExecutionCollisionError mismatched), rows))"

section \<open>The reconciler's view\<close>

record incident_task_execution =
  ite_task_id :: string
  ite_incident_id :: uuid
  ite_task_type :: string
  ite_correlation_id :: string
  ite_created_at :: string
  ite_status :: execution_status
  ite_reconciliation_attempts :: nat
  ite_lease_expires_at :: "int option"
  ite_reconciliation_token :: "string option"

definition execution_to_domain :: "execution_item \<Rightarrow> execution_error + incident_task_execution" where
  "execution_to_domain x =
     (case uuid_parse (xit_incident_id x) of
        None \<Rightarrow> Inl MalformedExecutionItem
      | Some incident_id \<Rightarrow> Inr
          \<lparr>ite_task_id = xit_task_id x, ite_incident_id = incident_id, ite_task_type = xit_task_type x,
           ite_correlation_id = xit_correlation_id x, ite_created_at = xit_created_at x,
           ite_status = xit_status x, ite_reconciliation_attempts = xit_reconciliation_attempts x,
           ite_lease_expires_at = xit_lease_expires_at x,
           ite_reconciliation_token = xit_reconciliation_token x\<rparr>)"

text \<open>The first failure of \<open>[f(x) for x in xs]\<close>, or the list.\<close>

fun sum_map :: "('a \<Rightarrow> 'e + 'b) \<Rightarrow> 'a list \<Rightarrow> 'e + 'b list" where
  "sum_map f [] = Inr []"
| "sum_map f (x # xs) =
     (case f x of Inl e \<Rightarrow> Inl e | Inr y \<Rightarrow> (case sum_map f xs of Inl e \<Rightarrow> Inl e | Inr ys \<Rightarrow> Inr (y # ys)))"

lemma sum_map_length: "sum_map f xs = Inr ys \<Longrightarrow> length ys = length xs"
  by (induction xs arbitrary: ys) (auto split: sum.splits)

definition status_index :: "execution_status \<Rightarrow> execution_table \<Rightarrow> execution_item list" where
  "status_index st view = sort_key xit_created_at (filter (\<lambda>x. xit_status x = st) view)"

definition query_status :: "execution_status \<Rightarrow> nat \<Rightarrow> execution_table \<Rightarrow> execution_item list" where
  "query_status st limit view = take limit (status_index st view)"

definition lease_expired :: "int \<Rightarrow> execution_item \<Rightarrow> bool" where
  "lease_expired now_epoch x \<longleftrightarrow> (case xit_lease_expires_at x of None \<Rightarrow> False | Some l \<Rightarrow> l \<le> now_epoch)"

text \<open>DynamoDB applies \<open>Limit\<close> to the items it reads, before the filter expression.\<close>

definition query_expired_processing :: "int \<Rightarrow> nat \<Rightarrow> execution_table \<Rightarrow> execution_item list" where
  "query_expired_processing now_epoch limit view =
     filter (lease_expired now_epoch) (take limit (status_index INCIDENT_SERVICE_PROCESSING view))"

definition list_reconcilable ::
    "int \<Rightarrow> nat \<Rightarrow> execution_table \<Rightarrow> execution_error + incident_task_execution list" where
  "list_reconcilable now_epoch limit view =
     (let ready_items = query_status READY_FOR_INCIDENT_SERVICE limit view;
          remaining = int limit - int (length ready_items);
          processing_items = (if remaining > 0 then query_expired_processing now_epoch (nat remaining) view else [])
      in sum_map execution_to_domain (take limit (sort_key xit_created_at (ready_items @ processing_items))))"

section \<open>Claims and fenced updates\<close>

definition claimable :: "int \<Rightarrow> execution_item \<Rightarrow> bool" where
  "claimable now_epoch x \<longleftrightarrow>
     xit_status x = READY_FOR_INCIDENT_SERVICE \<or>
     xit_status x = INCIDENT_SERVICE_PROCESSING \<and> lease_expired now_epoch x"

definition claim_item :: "instant \<Rightarrow> int \<Rightarrow> string \<Rightarrow> execution_item \<Rightarrow> execution_item" where
  "claim_item now lease token x =
     x\<lparr>xit_status := INCIDENT_SERVICE_PROCESSING, xit_reconciliation_started_at := Some (isoformat now),
       xit_reconciliation_token := Some token, xit_lease_expires_at := Some lease,
       xit_updated_at := isoformat now, xit_reconciliation_attempts := xit_reconciliation_attempts x + 1\<rparr>"

definition claim_execution ::
    "int \<Rightarrow> instant \<Rightarrow> uuid \<Rightarrow> int \<Rightarrow> dynamo_fault \<Rightarrow> string \<Rightarrow> execution_table \<Rightarrow>
     (execution_error + incident_task_execution option) \<times> execution_table" where
  "claim_execution now_epoch now token lease_seconds fault task_id rows =
     (if fault = LostBefore then (Inl DynamoClientError, rows)
      else case lookup_by xit_task_id task_id rows of
        None \<Rightarrow> (if fault = LostAfter then Inl DynamoClientError else Inr None, rows)
      | Some x \<Rightarrow>
          if \<not> claimable now_epoch x then (if fault = LostAfter then Inl DynamoClientError else Inr None, rows)
          else
            let claimed = claim_item now (now_epoch + lease_seconds) (uuid_str token) x;
                rows' = update_where (\<lambda>y. xit_task_id y = task_id) (\<lambda>_. claimed) rows
            in (if fault = LostAfter then Inl DynamoClientError
                else case execution_to_domain claimed of Inl e \<Rightarrow> Inl e | Inr execution \<Rightarrow> Inr (Some execution), rows'))"

definition owned_by :: "string \<Rightarrow> execution_item \<Rightarrow> bool" where
  "owned_by token x \<longleftrightarrow>
     xit_status x = INCIDENT_SERVICE_PROCESSING \<and> xit_reconciliation_token x = Some token"

definition update_owned_execution ::
    "dynamo_fault \<Rightarrow> incident_task_execution \<Rightarrow> (execution_item \<Rightarrow> execution_item) \<Rightarrow> execution_table \<Rightarrow>
     (execution_error + unit) \<times> execution_table" where
  "update_owned_execution fault execution f rows =
     (case ite_reconciliation_token execution of
        None \<Rightarrow> (Inl ExecutionStateOwnershipLostError, rows)
      | Some token \<Rightarrow>
          if fault = LostBefore then (Inl DynamoClientError, rows)
          else case lookup_by xit_task_id (ite_task_id execution) rows of
            None \<Rightarrow> (Inl (if fault = LostAfter then DynamoClientError else ExecutionStateOwnershipLostError), rows)
          | Some x \<Rightarrow>
              if \<not> owned_by token x
              then (Inl (if fault = LostAfter then DynamoClientError else ExecutionStateOwnershipLostError), rows)
              else (if fault = LostAfter then Inl DynamoClientError else Inr (),
                    update_where (\<lambda>y. xit_task_id y = ite_task_id execution) f rows))"

definition release_claim :: "execution_item \<Rightarrow> execution_item" where
  "release_claim x =
     x\<lparr>xit_lease_expires_at := None, xit_reconciliation_started_at := None, xit_reconciliation_token := None\<rparr>"

definition succeeded_item :: "instant \<Rightarrow> payload \<Rightarrow> execution_item \<Rightarrow> execution_item" where
  "succeeded_item now result x =
     (release_claim x)\<lparr>xit_status := SUCCEEDED, xit_completed_at := Some (isoformat now),
       xit_updated_at := isoformat now, xit_result := Some result, xit_last_error := None\<rparr>"

definition retryable_item :: "instant \<Rightarrow> string \<Rightarrow> execution_item \<Rightarrow> execution_item" where
  "retryable_item now error x =
     (release_claim x)\<lparr>xit_status := READY_FOR_INCIDENT_SERVICE, xit_updated_at := isoformat now,
       xit_last_error := Some (take 1000 error)\<rparr>"

definition failed_item :: "instant \<Rightarrow> string \<Rightarrow> execution_item \<Rightarrow> execution_item" where
  "failed_item now error x =
     (release_claim x)\<lparr>xit_status := FAILED, xit_failed_at := Some (isoformat now),
       xit_updated_at := isoformat now, xit_last_error := Some (take 1000 error)\<rparr>"

definition mark_succeeded ::
    "instant \<Rightarrow> dynamo_fault \<Rightarrow> incident_task_execution \<Rightarrow> payload \<Rightarrow> execution_table \<Rightarrow>
     (execution_error + unit) \<times> execution_table" where
  "mark_succeeded now fault execution result rows =
     update_owned_execution fault execution (succeeded_item now result) rows"

definition mark_retryable_failure ::
    "instant \<Rightarrow> dynamo_fault \<Rightarrow> incident_task_execution \<Rightarrow> string \<Rightarrow> execution_table \<Rightarrow>
     (execution_error + unit) \<times> execution_table" where
  "mark_retryable_failure now fault execution error rows =
     update_owned_execution fault execution (retryable_item now error) rows"

definition mark_failed ::
    "instant \<Rightarrow> dynamo_fault \<Rightarrow> incident_task_execution \<Rightarrow> string \<Rightarrow> execution_table \<Rightarrow>
     (execution_error + unit) \<times> execution_table" where
  "mark_failed now fault execution error rows =
     update_owned_execution fault execution (failed_item now error) rows"

text \<open>DynamoDB's time to live: an item past its expiration may be removed at any time.\<close>

definition expire_item :: "int \<Rightarrow> string \<Rightarrow> execution_table \<Rightarrow> execution_table" where
  "expire_item now_epoch task_id rows =
     delete_where (\<lambda>x. xit_task_id x = task_id \<and> xit_expiration x < now_epoch) rows"

section \<open>What an operation does to the table\<close>

text \<open>The attributes no update of an existing item touches.\<close>

definition same_task :: "execution_item \<Rightarrow> execution_item \<Rightarrow> bool" where
  "same_task x y \<longleftrightarrow>
     xit_task_id y = xit_task_id x \<and> xit_incident_id y = xit_incident_id x \<and> xit_task_type y = xit_task_type x \<and>
     xit_correlation_id y = xit_correlation_id x \<and> xit_idempotency_key y = xit_idempotency_key x \<and>
     xit_created_at y = xit_created_at x \<and> xit_payload y = xit_payload x \<and> xit_expiration y = xit_expiration x"

lemma item_simps [simp]:
  "same_task x x"
  "same_task x (claim_item now lease token x)"
  "same_task x (succeeded_item now result x)"
  "same_task x (retryable_item now error x)"
  "same_task x (failed_item now error x)"
  "xit_status (claim_item now lease token x) = INCIDENT_SERVICE_PROCESSING"
  "xit_reconciliation_token (claim_item now lease token x) = Some token"
  "xit_lease_expires_at (claim_item now lease token x) = Some lease"
  "xit_reconciliation_attempts (claim_item now lease token x) = xit_reconciliation_attempts x + 1"
  "xit_status (succeeded_item now result x) = SUCCEEDED"
  "xit_result (succeeded_item now result x) = Some result"
  "xit_status (retryable_item now error x) = READY_FOR_INCIDENT_SERVICE"
  "xit_status (failed_item now error x) = FAILED"
  "xit_reconciliation_token (succeeded_item now result x) = None"
  "xit_reconciliation_token (retryable_item now error x) = None"
  "xit_reconciliation_token (failed_item now error x) = None"
  by (simp_all add: same_task_def claim_item_def succeeded_item_def retryable_item_def failed_item_def release_claim_def)

lemma same_task_id: "same_task x y \<Longrightarrow> xit_task_id y = xit_task_id x"
  by (simp add: same_task_def)

lemma item_task_id [simp]:
  "xit_task_id (claim_item now lease token x) = xit_task_id x"
  "xit_task_id (succeeded_item now result x) = xit_task_id x"
  "xit_task_id (retryable_item now error x) = xit_task_id x"
  "xit_task_id (failed_item now error x) = xit_task_id x"
  by (auto intro: same_task_id)

end
