(* ===== verification/Reconciler.thy ===== *)
theory Reconciler
  imports Incident_Service Task_Execution
begin

text \<open>
  The reconciler of \<open>workers/incident_task_reconciler.py\<close> under \<open>src/incident-service/app\<close>: one PostgreSQL transaction
  that processes the incident and writes the completion event, and the cycle that claims, processes and
  marks task executions.

  A cycle's faults are arguments: \<open>database_fault\<close> for the transaction, \<open>dynamo_fault\<close> for each DynamoDB call,
  and whether the process dies before it can mark the execution (\<open>dies\<close>). An exception the cycle does
  not catch ends it (\<open>None\<close>).
\<close>

section \<open>The PostgreSQL transaction\<close>

datatype database_fault = NoDatabaseFault | DatabaseError | CommitUnknown

record processing_draws =
  pdr_acknowledged_now :: instant
  pdr_updated_now :: instant
  pdr_occurred_at :: instant
  pdr_outbox_id :: uuid
  pdr_event_id :: uuid
  pdr_fault :: database_fault

datatype processor_exit =
    Processed processing_result
  | IncidentMissing string
  | RetryableProcessing string
  | ProcessorRaised

definition completion_for ::
    "processing_draws \<Rightarrow> uuid \<Rightarrow> incident_task_execution \<Rightarrow> processing_result \<Rightarrow> completion_message" where
  "completion_for d task_id execution r =
     \<lparr>com_id = pdr_outbox_id d, com_event_id = pdr_event_id d, com_incident_id = prs_incident_id r,
      com_task_id = task_id, com_correlation_id = ite_correlation_id execution,
      com_schema_version = EVENT_SCHEMA_VERSION, com_event_type = INCIDENT_TASK_COMPLETED_EVENT_TYPE,
      com_status = prs_status r, com_acknowledged_at = prs_acknowledged_at r,
      com_occurred_at = pdr_occurred_at d\<rparr>"

definition retryable_message :: string where
  "retryable_message = ''PostgreSQL Incident task processing and completion-event persistence failed.''"

text \<open>\<open>DatabaseError\<close>: some statement fails and the transaction rolls back; \<open>CommitUnknown\<close>: it commits, but the client sees an error.\<close>

definition process_incident_with_postgres ::
    "processing_draws \<Rightarrow> incident_task_execution \<Rightarrow> incident_db \<Rightarrow> processor_exit \<times> incident_db" where
  "process_incident_with_postgres d execution db =
     (case uuid_parse (ite_task_id execution) of
        None \<Rightarrow> (ProcessorRaised, db)
      | Some task_id \<Rightarrow>
          if pdr_fault d = DatabaseError then (RetryableProcessing retryable_message, db)
          else case process_incident (pdr_acknowledged_now d) (pdr_updated_now d) (ite_incident_id execution) db of
            (Inl (IncidentNotFound detail), _) \<Rightarrow> (IncidentMissing detail, db)
          | (Inl _, _) \<Rightarrow> (ProcessorRaised, db)
          | (Inr r, db1) \<Rightarrow>
              (case completion_outbox_create (completion_for d task_id execution r) (idb_completions db1) of
                 (Inl (OutboxIntegrityError _), _) \<Rightarrow> (RetryableProcessing retryable_message, db)
               | (Inl _, _) \<Rightarrow> (ProcessorRaised, db)
               | (Inr _, completions) \<Rightarrow>
                   (if pdr_fault d = CommitUnknown then RetryableProcessing retryable_message else Processed r,
                    db1\<lparr>idb_completions := completions\<rparr>)))"

section \<open>Marking the outcome\<close>

datatype reconciliation_outcome = OutcomeSucceeded | OutcomeRetryable | OutcomePermanent

definition success_result :: "processing_result \<Rightarrow> payload" where
  "success_result r =
     [(''incident_id'', JStr (uuid_str (prs_incident_id r))), (''incident_status'', JStr (status_value (prs_status r))),
      (''business_changed'', JBool (prs_changed r)),
      (''acknowledged_at'', JStr (case prs_acknowledged_at r of Some t \<Rightarrow> isoformat t | None \<Rightarrow> []))]"

text \<open>
  The marks swallow a lost claim and a client error. The result of \<open>mark_succeeded\<close> decides the outcome;
  the exception \<open>MalformedExecutionItem\<close> cannot occur there.
\<close>

definition mark_outcome ::
    "instant \<Rightarrow> dynamo_fault \<Rightarrow> incident_task_execution \<Rightarrow> processor_exit \<Rightarrow> execution_table \<Rightarrow>
     reconciliation_outcome option \<times> execution_table" where
  "mark_outcome now fault execution exit rows =
     (case exit of
        IncidentMissing error \<Rightarrow> (Some OutcomePermanent, snd (mark_failed now fault execution error rows))
      | RetryableProcessing error \<Rightarrow> (Some OutcomeRetryable, snd (mark_retryable_failure now fault execution error rows))
      | ProcessorRaised \<Rightarrow> (None, rows)
      | Processed r \<Rightarrow>
          (case mark_succeeded now fault execution (success_result r) rows of
             (Inl _, rows') \<Rightarrow> (Some OutcomeRetryable, rows')
           | (Inr _, rows') \<Rightarrow> (Some OutcomeSucceeded, rows')))"

record cycle_draws =
  cyd_now_epoch :: int
  cyd_claim_now :: instant
  cyd_token :: uuid
  cyd_claim_fault :: dynamo_fault
  cyd_processing :: processing_draws
  cyd_dies :: bool
  cyd_mark_now :: instant
  cyd_mark_fault :: dynamo_fault

record reconciler_world =
  rcw_db :: incident_db
  rcw_table :: execution_table

definition reconcile_claimed ::
    "cycle_draws \<Rightarrow> incident_task_execution \<Rightarrow> reconciler_world \<Rightarrow>
     reconciliation_outcome option \<times> reconciler_world" where
  "reconcile_claimed d execution w =
     (case process_incident_with_postgres (cyd_processing d) execution (rcw_db w) of
        (exit, db) \<Rightarrow>
          if cyd_dies d then (None, w\<lparr>rcw_db := db\<rparr>)
          else (case mark_outcome (cyd_mark_now d) (cyd_mark_fault d) execution exit (rcw_table w) of
                  (outcome, rows) \<Rightarrow> (outcome, \<lparr>rcw_db = db, rcw_table = rows\<rparr>)))"

section \<open>The cycle\<close>

record reconciliation_summary =
  rsm_discovered :: nat
  rsm_claimed :: nat
  rsm_succeeded :: nat
  rsm_retryable_failures :: nat
  rsm_permanent_failures :: nat
  rsm_skipped :: nat

definition count_outcome :: "reconciliation_outcome \<Rightarrow> reconciliation_summary \<Rightarrow> reconciliation_summary" where
  "count_outcome outcome s =
     (case outcome of
        OutcomeSucceeded \<Rightarrow> s\<lparr>rsm_succeeded := rsm_succeeded s + 1\<rparr>
      | OutcomeRetryable \<Rightarrow> s\<lparr>rsm_retryable_failures := rsm_retryable_failures s + 1\<rparr>
      | OutcomePermanent \<Rightarrow> s\<lparr>rsm_permanent_failures := rsm_permanent_failures s + 1\<rparr>)"

fun reconcile_candidates ::
    "int \<Rightarrow> (incident_task_execution \<times> cycle_draws) list \<Rightarrow> reconciliation_summary \<Rightarrow> reconciler_world \<Rightarrow>
     reconciliation_summary option \<times> reconciler_world" where
  "reconcile_candidates lease_seconds [] s w = (Some s, w)"
| "reconcile_candidates lease_seconds ((candidate, d) # rest) s w =
     (case claim_execution (cyd_now_epoch d) (cyd_claim_now d) (cyd_token d) lease_seconds (cyd_claim_fault d)
             (ite_task_id candidate) (rcw_table w) of
        (Inl _, rows) \<Rightarrow> (None, w\<lparr>rcw_table := rows\<rparr>)
      | (Inr None, rows) \<Rightarrow>
          reconcile_candidates lease_seconds rest (s\<lparr>rsm_skipped := rsm_skipped s + 1\<rparr>) (w\<lparr>rcw_table := rows\<rparr>)
      | (Inr (Some execution), rows) \<Rightarrow>
          (case reconcile_claimed d execution (w\<lparr>rcw_table := rows\<rparr>) of
             (None, w') \<Rightarrow> (None, w')
           | (Some outcome, w') \<Rightarrow>
               reconcile_candidates lease_seconds rest
                 (count_outcome outcome (s\<lparr>rsm_claimed := rsm_claimed s + 1\<rparr>)) w'))"

text \<open>\<open>view\<close> is what the status index shows; \<open>draws\<close> gives the draws of each candidate in turn.\<close>

definition reconcile_once ::
    "int \<Rightarrow> nat \<Rightarrow> int \<Rightarrow> execution_table \<Rightarrow> (nat \<Rightarrow> cycle_draws) \<Rightarrow> reconciler_world \<Rightarrow>
     reconciliation_summary option \<times> reconciler_world" where
  "reconcile_once now_epoch batch_size lease_seconds view draws w =
     (case list_reconcilable now_epoch batch_size view of
        Inl _ \<Rightarrow> (None, w)
      | Inr candidates \<Rightarrow>
          reconcile_candidates lease_seconds (zip candidates (map draws [0..<length candidates]))
            \<lparr>rsm_discovered = length candidates, rsm_claimed = 0, rsm_succeeded = 0, rsm_retryable_failures = 0,
             rsm_permanent_failures = 0, rsm_skipped = 0\<rparr> w)"

end
