(* ===== verification/Incident_Invariants.thy ===== *)
theory Incident_Invariants
  imports Incident_Routes Outbox_Relay Reconciler
begin

text \<open>
  The invariant of the Incident Service's tables and its preservation by every operation that writes
  them: requests, the reconciler's transaction and the relays. An incident carries a resolution time
  exactly while it is resolved and respects the declared lengths; every incident has its processing
  task in the outbox, and no two tasks share an identifier or an incident; no two completion events
  share a task.
\<close>

section \<open>The invariant\<close>

definition incident_ok :: "incident \<Rightarrow> bool" where
  "incident_ok i \<longleftrightarrow>
     (inc_resolved_at i \<noteq> None \<longleftrightarrow> inc_status i = Status_RESOLVED) \<and>
     length_within 1 200 (inc_title i) \<and> length_within 1 2000 (inc_summary i) \<and>
     length_within 1 120 (inc_assignee i) \<and> length_within 1 80 (inc_source i)"

definition task_message_ok :: "task_message \<Rightarrow> bool" where
  "task_message_ok m \<longleftrightarrow>
     tom_idempotency_key m = task_idempotency_key (tom_incident_id m) \<and>
     tom_payload m = [(''incident_id'', JStr (uuid_str (tom_incident_id m)))] \<and>
     tom_task_type m = INCIDENT_PROCESSING_TASK_TYPE \<and> tom_schema_version m = TASK_SCHEMA_VERSION \<and>
     tom_metadata m = [(''source'', JStr ''incident-service''), (''operation'', JStr ''incident.create'')] \<and>
     tom_causation_id m = None \<and> valid_request_id (tom_correlation_id m)"

definition completion_message_ok :: "completion_message \<Rightarrow> bool" where
  "completion_message_ok m \<longleftrightarrow>
     com_status m \<noteq> Status_OPEN \<and> (com_status m = Status_INVESTIGATING \<longrightarrow> com_acknowledged_at m \<noteq> None)"

definition task_messages :: "incident_db \<Rightarrow> task_message list" where
  "task_messages db = map obr_message (idb_tasks db)"

definition completion_messages :: "incident_db \<Rightarrow> completion_message list" where
  "completion_messages db = map obr_message (idb_completions db)"

definition tasks_ok :: "incident list \<Rightarrow> task_message list \<Rightarrow> bool" where
  "tasks_ok incidents ms \<longleftrightarrow>
     distinct (map tom_id ms) \<and> distinct (map tom_task_id ms) \<and> distinct (map tom_incident_id ms) \<and>
     (\<forall>m \<in> set ms. task_message_ok m) \<and>
     (\<forall>i \<in> set incidents. inc_id i \<in> set (map tom_incident_id ms))"

definition completions_ok :: "completion_message list \<Rightarrow> bool" where
  "completions_ok ms \<longleftrightarrow>
     distinct (map com_id ms) \<and> distinct (map com_task_id ms) \<and> (\<forall>m \<in> set ms. completion_message_ok m)"

definition incident_db_ok :: "incident_db \<Rightarrow> bool" where
  "incident_db_ok db \<longleftrightarrow>
     unique_key inc_id (idb_incidents db) \<and> (\<forall>i \<in> set (idb_incidents db). incident_ok i) \<and>
     tasks_ok (idb_incidents db) (task_messages db) \<and> completions_ok (completion_messages db)"

section \<open>Identifiers\<close>

lemma task_idempotency_key_inj: "task_idempotency_key i = task_idempotency_key j \<longleftrightarrow> i = j"
  by (simp add: task_idempotency_key_def uuid_str_inj)

section \<open>The service's operations\<close>

lemma incident_service_get_cases:
  "incident_service_get i db = (res, db') \<Longrightarrow> db' = db \<and>
     (case res of Inl e \<Rightarrow> lookup_by inc_id i (idb_incidents db) = None \<and>
                    e = IncidentNotFound (''Incident '' @ uuid_str i @ '' was not found.'')
      | Inr x \<Rightarrow> lookup_by inc_id i (idb_incidents db) = Some x)"
  by (auto simp: incident_service_get_def incident_get_by_id_def split: option.splits)

lemma ensure_service_exists_None: "ensure_service_exists exists s = None \<longleftrightarrow> exists s = Inr True"
  by (auto simp: ensure_service_exists_def split: sum.splits bool.splits)

lemma in_map_key: "x \<in> set (map f (map g rows)) \<longleftrightarrow> (\<exists>r \<in> set rows. f (g r) = x)"
  by auto

lemma task_outbox_create_Inr:
  "task_outbox_create m rows = Inr rows' \<longleftrightarrow>
     tom_id m \<notin> set (map tom_id (map obr_message rows)) \<and> tom_task_id m \<notin> set (map tom_task_id (map obr_message rows)) \<and>
     tom_idempotency_key m \<notin> set (map tom_idempotency_key (map obr_message rows)) \<and>
     rows' = rows @ [pending_row m (tom_created_at m)]"
  unfolding task_outbox_create_def in_map_key by auto

lemma ensure_service_exists_Some: "exists s = Inr True \<Longrightarrow> ensure_service_exists exists s \<noteq> Some e"
  by (simp add: ensure_service_exists_def)

lemma incident_service_create_Inr:
  "incident_service_create exists d p c db = (Inr i, db') \<longleftrightarrow>
     exists (crt_service_id p) = Inr True \<and> i = new_incident d p \<and>
     lookup_by inc_id (inc_id i) (idb_incidents db) = None \<and>
     task_outbox_create (creation_task d c i) (idb_tasks db) = Inr (idb_tasks db') \<and>
     db' = db\<lparr>idb_incidents := idb_incidents db @ [i], idb_tasks := idb_tasks db'\<rparr>"
  by (auto simp: incident_service_create_def Let_def incident_insert_def ensure_service_exists_None
      ensure_service_exists_Some split: option.splits sum.splits)

lemma updated_incident_keeps [simp]:
  "inc_id (updated_incident d x p) = inc_id x"
  "inc_created_at (updated_incident d x p) = inc_created_at x"
  "inc_reported_by_email (updated_incident d x p) = inc_reported_by_email x"
  by (simp_all add: updated_incident_def Let_def)

lemma incident_service_update_Inr:
  "incident_service_update exists d i p db = (Inr x, db') \<longleftrightarrow>
     (\<exists>existing. lookup_by inc_id i (idb_incidents db) = Some existing \<and>
        (\<forall>s. upd_service_id p = Some s \<longrightarrow> s \<noteq> inc_service_id existing \<longrightarrow> exists s = Inr True) \<and>
        x = updated_incident d existing p \<and>
        db' = db\<lparr>idb_incidents := update_where (\<lambda>r. inc_id r = i) (\<lambda>_. x) (idb_incidents db)\<rparr>)"
proof -
  have "inc_id existing = i" if "lookup_by inc_id i (idb_incidents db) = Some existing" for existing
    using lookup_by_SomeD [OF that] by simp
  then show ?thesis
    by (auto simp: incident_service_update_def incident_service_get_def incident_get_by_id_def Let_def
        incident_replace_def ensure_service_exists_None ensure_service_exists_Some
        split: option.splits sum.splits if_splits)
qed

lemma incident_service_delete_Inr:
  "incident_service_delete i db = (Inr u, db') \<longleftrightarrow>
     lookup_by inc_id i (idb_incidents db) \<noteq> None \<and>
     db' = db\<lparr>idb_incidents := delete_where (\<lambda>r. inc_id r = i) (idb_incidents db)\<rparr>"
  by (auto simp: incident_service_delete_def incident_service_get_def incident_get_by_id_def incident_remove_def
      split: option.splits)

lemma new_incident_ok: "incident_create_valid p \<Longrightarrow> incident_ok (new_incident d p)"
  by (simp add: incident_ok_def new_incident_def incident_create_valid_def)

lemma given_length: "pred_option P new \<Longrightarrow> P old \<Longrightarrow> P (given new old)"
  by (cases new) (simp_all add: given_def)

lemma updated_incident_ok: "incident_update_valid p \<Longrightarrow> incident_ok x \<Longrightarrow> incident_ok (updated_incident d x p)"
  unfolding incident_ok_def updated_incident_def incident_update_valid_def
  by (auto simp: Let_def resolve_timestamp_def intro: given_length split: option.splits)

lemma new_incident_id [simp]: "inc_id (new_incident d p) = idr_incident_id d"
  by (simp add: new_incident_def)

lemma creation_task_simps [simp]:
  "tom_incident_id (creation_task d c i) = inc_id i"
  "tom_id (creation_task d c i) = idr_outbox_id d"
  "tom_task_id (creation_task d c i) = idr_task_id d"
  "tom_idempotency_key (creation_task d c i) = task_idempotency_key (inc_id i)"
  by (simp_all add: creation_task_def)

lemma creation_task_ok: "valid_request_id c \<Longrightarrow> task_message_ok (creation_task d (Some c) i)"
  by (cases c) (simp_all add: task_message_ok_def creation_task_def)

section \<open>Preservation\<close>

lemma pending_row_message [simp]: "obr_message (pending_row m t) = m"
  by (simp add: pending_row_def)

lemma incident_ids_replace:
  "lookup_by inc_id i rows = Some old \<Longrightarrow> inc_id new = i \<Longrightarrow> incident_ok new \<Longrightarrow>
     unique_key inc_id rows \<and> (\<forall>x \<in> set rows. incident_ok x) \<and> tasks_ok rows ms \<Longrightarrow>
     (let rows' = update_where (\<lambda>r. inc_id r = i) (\<lambda>_. new) rows
      in unique_key inc_id rows' \<and> (\<forall>x \<in> set rows'. incident_ok x) \<and> tasks_ok rows' ms)"
  using lookup_by_SomeD [of inc_id i rows old]
  by (auto simp: Let_def unique_key_def update_where_const_key ball_update_where tasks_ok_def; metis)

lemma create_keeps_ok:
  assumes ok: "incident_db_ok db" and valid: "incident_create_valid p" "valid_request_id c"
    and run: "incident_service_create exists d p (Some c) db = (Inr i, db')"
  shows "incident_db_ok db'"
proof -
  let ?m = "creation_task d (Some c) i"
  from run have i: "i = new_incident d p" and fresh: "lookup_by inc_id (inc_id i) (idb_incidents db) = None"
    and rows: "task_outbox_create ?m (idb_tasks db) = Inr (idb_tasks db')"
    and db': "idb_incidents db' = idb_incidents db @ [i]" "idb_completions db' = idb_completions db"
    unfolding incident_service_create_Inr by (auto dest: arg_cong [of _ _ idb_incidents] arg_cong [of _ _ idb_completions])
  have tasks: "task_messages db' = task_messages db @ [?m]"
    using rows unfolding task_outbox_create_Inr by (simp add: task_messages_def)
  have "tom_idempotency_key ?m \<notin> tom_idempotency_key ` set (task_messages db)"
    using rows unfolding task_outbox_create_Inr task_messages_def by auto
  then have "inc_id i \<notin> tom_incident_id ` set (task_messages db)"
    using ok by (auto simp: incident_db_ok_def tasks_ok_def task_message_ok_def image_iff)
  moreover have "tom_id ?m \<notin> tom_id ` set (task_messages db)" "tom_task_id ?m \<notin> tom_task_id ` set (task_messages db)"
    using rows unfolding task_outbox_create_Inr task_messages_def by auto
  ultimately have "tasks_ok (idb_incidents db') (task_messages db')"
    using ok creation_task_ok [OF valid(2)] by (simp add: incident_db_ok_def tasks_ok_def tasks db')
  moreover have "unique_key inc_id (idb_incidents db')"
    using ok fresh by (simp add: db' unique_key_snoc incident_db_ok_def)
  ultimately show ?thesis
    using ok new_incident_ok [OF valid(1), of d] by (auto simp: incident_db_ok_def db' i completion_messages_def)
qed

lemma update_keeps_ok:
  assumes ok: "incident_db_ok db" and valid: "incident_update_valid p"
    and run: "incident_service_update exists d i p db = (Inr x, db')"
  shows "incident_db_ok db'"
proof -
  obtain old where old: "lookup_by inc_id i (idb_incidents db) = Some old" and x: "x = updated_incident d old p"
    and db': "db' = db\<lparr>idb_incidents := update_where (\<lambda>r. inc_id r = i) (\<lambda>_. x) (idb_incidents db)\<rparr>"
    using run unfolding incident_service_update_Inr by blast
  have "old \<in> set (idb_incidents db)" and "inc_id old = i" using lookup_by_SomeD [OF old] by auto
  then have "incident_ok x" and "inc_id x = i"
    using ok updated_incident_ok [OF valid] by (auto simp: x incident_db_ok_def)
  then show ?thesis
    using incident_ids_replace [OF old, of x "task_messages db"] ok
    by (simp add: db' incident_db_ok_def task_messages_def completion_messages_def Let_def)
qed

lemma delete_keeps_ok:
  assumes ok: "incident_db_ok db" and run: "incident_service_delete i db = (Inr u, db')"
  shows "incident_db_ok db'"
  using ok run unfolding incident_service_delete_Inr
  by (auto simp: incident_db_ok_def tasks_ok_def task_messages_def completion_messages_def set_delete_where)

lemma incident_unchanged_field:
  "inc_status x = st \<Longrightarrow> x\<lparr>inc_status := st\<rparr> = x"
  "inc_acknowledged_at x = t \<Longrightarrow> x\<lparr>inc_acknowledged_at := t\<rparr> = x"
  by auto

lemma process_incident_cases:
  assumes "process_incident t1 t2 i db = (res, db')"
  shows "(case res of
     Inl e \<Rightarrow> db' = db \<and> lookup_by inc_id i (idb_incidents db) = None \<and>
       e = IncidentNotFound (''Incident '' @ uuid_str i @ '' was not found.'')
   | Inr r \<Rightarrow> \<exists>x. lookup_by inc_id i (idb_incidents db) = Some x \<and> prs_incident_id r = i \<and>
       prs_status r = (if inc_status x = Status_OPEN then Status_INVESTIGATING else inc_status x) \<and>
       prs_acknowledged_at r = (if inc_status x \<in> {Status_OPEN, Status_INVESTIGATING} \<and> inc_acknowledged_at x = None
          then Some t1 else inc_acknowledged_at x) \<and>
       prs_changed r = (inc_status x = Status_OPEN \<or> inc_status x = Status_INVESTIGATING \<and> inc_acknowledged_at x = None) \<and>
       db' = (if prs_changed r then db\<lparr>idb_incidents := update_where (\<lambda>y. inc_id y = i)
            (\<lambda>_. x\<lparr>inc_status := prs_status r, inc_acknowledged_at := prs_acknowledged_at r, inc_updated_at := t2\<rparr>)
            (idb_incidents db)\<rparr> else db))"
proof (cases "lookup_by inc_id i (idb_incidents db)")
  case None
  then show ?thesis using assms by (auto simp: process_incident_def incident_get_by_id_def)
next
  case (Some x)
  then have "inc_id x = i" using lookup_by_SomeD by fastforce
  with Some show ?thesis
    using assms by (auto simp: process_incident_def incident_get_by_id_def Let_def incident_replace_def
        incident_unchanged_field intro!: exI [of _ x] split: if_splits)
qed

lemma process_keeps_ok:
  assumes ok: "incident_db_ok db" and run: "process_incident t1 t2 i db = (Inr r, db')"
  shows "incident_db_ok db' \<and> completion_messages db' = completion_messages db"
proof -
  obtain x where x: "lookup_by inc_id i (idb_incidents db) = Some x"
    and st: "prs_status r = (if inc_status x = Status_OPEN then Status_INVESTIGATING else inc_status x)"
    and db': "db' = (if prs_changed r then db\<lparr>idb_incidents := update_where (\<lambda>y. inc_id y = i)
            (\<lambda>_. x\<lparr>inc_status := prs_status r, inc_acknowledged_at := prs_acknowledged_at r, inc_updated_at := t2\<rparr>)
            (idb_incidents db)\<rparr> else db)"
    using process_incident_cases [OF run] by auto
  have "x \<in> set (idb_incidents db)" "inc_id x = i" using lookup_by_SomeD [OF x] by auto
  then have "incident_ok x" using ok by (simp add: incident_db_ok_def)
  then have "incident_ok (x\<lparr>inc_status := prs_status r, inc_acknowledged_at := prs_acknowledged_at r, inc_updated_at := t2\<rparr>)"
    by (auto simp: incident_ok_def st)
  then show ?thesis
    using incident_ids_replace [OF x, of "x\<lparr>inc_status := prs_status r, inc_acknowledged_at := prs_acknowledged_at r,
        inc_updated_at := t2\<rparr>" "task_messages db"] ok \<open>inc_id x = i\<close>
    by (simp add: db' incident_db_ok_def task_messages_def completion_messages_def Let_def)
qed

lemma completion_create_ok:
  assumes ok: "completions_ok (map obr_message rows)" and m: "completion_message_ok m"
    and run: "completion_outbox_create m rows = (Inr kept, rows')"
  shows "completions_ok (map obr_message rows') \<and> kept \<in> set (map obr_message rows') \<and>
    set (map obr_message rows) \<subseteq> set (map obr_message rows') \<and>
    com_task_id kept = com_task_id m \<and> com_incident_id kept = com_incident_id m \<and>
    com_correlation_id kept = com_correlation_id m"
proof (cases "lookup_by (\<lambda>r. com_task_id (obr_message r)) (com_task_id m) rows")
  case None
  then have "com_task_id m \<notin> com_task_id ` obr_message ` set rows"
    by (auto simp: lookup_by_None_iff image_iff)
  with None show ?thesis
    using ok m run by (auto simp: completion_outbox_create_def completions_ok_def image_iff split: if_splits; metis)
next
  case (Some r)
  then show ?thesis
    using ok run lookup_by_SomeD [OF Some] by (auto simp: completion_outbox_create_def split: if_splits)
qed

lemma process_with_postgres_ok:
  assumes ok: "incident_db_ok db" and run: "process_incident_with_postgres d e db = (exit, db')"
  shows "incident_db_ok db' \<and> set (completion_messages db) \<subseteq> set (completion_messages db') \<and>
    (\<forall>r. exit = Processed r \<longrightarrow> prs_incident_id r = ite_incident_id e \<and>
       (\<exists>u m. uuid_parse (ite_task_id e) = Some u \<and> m \<in> set (completion_messages db') \<and> com_task_id m = u \<and>
          com_incident_id m = ite_incident_id e \<and> com_correlation_id m = ite_correlation_id e))"
proof (cases "db' = db \<and> (\<forall>r. exit \<noteq> Processed r)")
  case True
  then show ?thesis using ok by auto
next
  case False
  obtain u where u: "uuid_parse (ite_task_id e) = Some u"
    using run False by (auto simp: process_incident_with_postgres_def split: option.splits)
  obtain res db1 where p: "process_incident (pdr_acknowledged_now d) (pdr_updated_now d) (ite_incident_id e) db = (res, db1)"
    by (metis surj_pair)
  obtain r where r: "res = Inr r"
    using run False p u by (auto simp: process_incident_with_postgres_def split: sum.splits if_splits incident_service_error.splits)
  obtain cres completions where c: "completion_outbox_create (completion_for d u e r) (idb_completions db1) = (cres, completions)"
    by (metis surj_pair)
  obtain kept where kept: "cres = Inr kept"
    using run False p u r c
    by (auto simp: process_incident_with_postgres_def split: sum.splits if_splits outbox_error.splits)
  have db': "db' = db1\<lparr>idb_completions := completions\<rparr>"
    and exit: "exit = RetryableProcessing retryable_message \<or> exit = Processed r"
    using run False p u r c kept by (auto simp: process_incident_with_postgres_def split: if_splits)
  note ok1 = process_keeps_ok [OF ok p [unfolded r]]
  have info: "prs_incident_id r = ite_incident_id e" "completion_message_ok (completion_for d u e r)"
    using process_incident_cases [OF p] unfolding r
    by (auto simp: completion_message_ok_def completion_for_def split: if_splits)
  have "completions_ok (map obr_message (idb_completions db1))"
    using ok1 unfolding incident_db_ok_def completion_messages_def by blast
  from completion_create_ok [OF this info(2) c [unfolded kept]]
  have new: "completions_ok (map obr_message completions)" "kept \<in> set (map obr_message completions)"
    "set (map obr_message (idb_completions db1)) \<subseteq> set (map obr_message completions)"
    "com_task_id kept = u" "com_incident_id kept = ite_incident_id e" "com_correlation_id kept = ite_correlation_id e"
    using info(1) by (auto simp: completion_for_def)
  have "incident_db_ok db'"
    using ok1 new(1) by (simp add: db' incident_db_ok_def task_messages_def completion_messages_def)
  moreover have "completion_messages db' = map obr_message completions"
    and "set (completion_messages db) \<subseteq> set (map obr_message completions)"
    using new(3) ok1 unfolding db' completion_messages_def by simp_all
  ultimately show ?thesis using new exit u info(1) by auto
qed

lemma incident_handler_ok:
  assumes ok: "incident_db_ok db" and valid: "endpoint_valid (irq_endpoint q)"
    and run: "incident_handler q db = (Inr reply, db')"
  shows "incident_db_ok db'"
proof (cases "irq_endpoint q")
  case (ListIncidents search service_id severity status offset limit)
  then show ?thesis using run ok
    by (auto simp: incident_handler_def list_incidents_def incident_service_list_def)
next
  case (GetIncident i)
  then show ?thesis using run ok
    by (auto simp: incident_handler_def get_incident_def incident_service_get_def
        split: option.splits prod.splits sum.splits incident_service_error.splits)
next
  case (CreateIncident p)
  let ?c = "resolve_request_id (irq_generated_id q) (irq_request_id q)"
  obtain i where "incident_service_create (irq_exists q) (irq_draws q) p (Some ?c) db = (Inr i, db')"
    using CreateIncident run
    by (auto simp: incident_handler_def create_incident_def split: prod.splits sum.splits incident_service_error.splits)
  then show ?thesis
    using create_keeps_ok [OF ok _ resolve_request_id_valid] valid CreateIncident by simp
next
  case (UpdateIncident i p)
  then obtain x where "incident_service_update (irq_exists q) (irq_draws q) i p db = (Inr x, db')"
    using run by (auto simp: incident_handler_def update_incident_def split: prod.splits sum.splits incident_service_error.splits)
  then show ?thesis using update_keeps_ok [OF ok] valid UpdateIncident by simp
next
  case (DeleteIncident i)
  then obtain u where "incident_service_delete i db = (Inr u, db')"
    using run by (auto simp: incident_handler_def delete_incident_def split: prod.splits sum.splits incident_service_error.splits)
  then show ?thesis by (rule delete_keeps_ok [OF ok])
qed

lemma incident_handler_completions:
  "incident_handler q db = (Inr reply, db') \<Longrightarrow> idb_completions db' = idb_completions db"
  by (auto simp: incident_handler_def list_incidents_def incident_service_list_def get_incident_def
      incident_service_get_def create_incident_def update_incident_def delete_incident_def
      incident_service_delete_Inr incident_service_update_Inr
      dest!: iffD1 [OF incident_service_create_Inr] arg_cong [of _ _ idb_completions]
      split: incident_endpoint.splits option.splits prod.splits sum.splits incident_service_error.splits)

text \<open>A request commits what its handler wrote, or changes nothing.\<close>

lemma incident_serve_db:
  assumes "incident_serve dep q app = (reply, app')"
  shows "iap_db app' = iap_db app \<or>
    endpoint_valid (irq_endpoint q) \<and> incident_handler q (iap_db app) = (Inr reply, iap_db app')"
  using assms by (auto simp: incident_serve_def transaction_def split: prod.splits sum.splits if_splits)

lemma incident_serve_ok:
  assumes "incident_db_ok (iap_db app)" and "incident_serve dep q app = (reply, app')"
  shows "incident_db_ok (iap_db app') \<and> completion_messages (iap_db app') = completion_messages (iap_db app)"
  using incident_serve_db [OF assms(2)] incident_handler_ok [OF assms(1)] incident_handler_completions assms(1)
  by (metis completion_messages_def)

lemma relays_keep_ok:
  assumes "incident_db_ok db"
    and "map obr_message tasks = map obr_message (idb_tasks db)"
    and "map obr_message completions = map obr_message (idb_completions db)"
  shows "incident_db_ok (db\<lparr>idb_tasks := tasks, idb_completions := completions\<rparr>)"
  using assms by (simp add: incident_db_ok_def task_messages_def completion_messages_def)

end
