(* ===== verification/Incident_Guarantees.thy ===== *)
theory Incident_Guarantees
  imports Incident_Invariants
begin

text \<open>
  Properties of the Incident Service's HTTP boundary and of asynchronous processing: who may read and
  write, what every refusal leaves behind, what creation and update do on each branch, paging, and the
  idempotence of processing.
\<close>

section \<open>Authentication\<close>

lemma verify_token_error:
  assumes "verify_token lib stv lib_now (Aware now) token = Inl e"
  shows "\<exists>reason. e = ServiceAuthenticationError reason"
proof -
  have dates: "\<exists>reason. x = ServiceAuthenticationError reason" if "numeric_date p k = Inl x" for p k x
    using that by (auto split: option.splits)
  have scopes: "\<exists>reason. x = ServiceAuthenticationError reason" if "token_scopes p = Inl x" for p x
    using that by (auto simp: token_scopes_def Let_def split: json.splits if_splits)
  have lifetime: "\<exists>reason. x = ServiceAuthenticationError reason"
    if "check_lifetime skew (Aware now) a b c = Some x" for skew a b c x
    using that by (auto simp: check_lifetime_def split: if_splits)
  have payload: "\<exists>reason. x = ServiceAuthenticationError reason" if "principal_from_payload stv (Aware now) p = Inl x" for p x
    using that unfolding principal_from_payload_def
    by (auto simp del: numeric_date.simps split: json.splits if_splits option.splits sum.splits
        dest: dates scopes lifetime)
  show ?thesis
    using assms unfolding verify_token_def
    by (auto split: if_splits option.splits json.splits sum.splits dest: payload)
qed

lemma failure_reason_supported: "failure_reason_value reason \<in> set SERVICE_AUTHENTICATION_REASONS"
  by (cases reason) (simp_all add: SERVICE_AUTHENTICATION_REASONS_def)

lemma scope_supported: "scope_value scope \<in> set SERVICE_AUTHORIZATION_SCOPES"
  by (cases scope) (simp_all add: SERVICE_AUTHORIZATION_SCOPES_def)

lemma audit_authentication_failure:
  "audit (record_service_authentication ''failure'' (failure_reason_value reason))
     (emit_authentication ''failure'' (failure_reason_value reason)) result entries =
   (result, entries @ [AuthenticationMetric ''failure'' (failure_reason_value reason),
      AuthenticationEvent ''failure'' (failure_reason_value reason)])"
  using failure_reason_supported [of reason]
  by (simp add: audit_def record_service_authentication_def emit_authentication_def)

lemma audit_missing_credential:
  "audit (record_service_authentication ''failure'' ''missing_credential'')
     (emit_authentication ''failure'' ''missing_credential'') result entries =
   (result, entries @ [AuthenticationMetric ''failure'' ''missing_credential'',
      AuthenticationEvent ''failure'' ''missing_credential''])"
  by (simp add: audit_def record_service_authentication_def emit_authentication_def SERVICE_AUTHENTICATION_REASONS_def)

lemma audit_authenticated:
  "audit (record_service_authentication ''success'' ''authenticated'')
     (emit_authentication ''success'' ''authenticated'') result entries =
   (result, entries @ [AuthenticationMetric ''success'' ''authenticated'', AuthenticationEvent ''success'' ''authenticated''])"
  by (simp add: audit_def record_service_authentication_def emit_authentication_def SERVICE_AUTHENTICATION_REASONS_def)

lemma require_service_scope_eq:
  "require_service_scope scope caller entries =
     (if scope \<in> set (sp_scopes caller)
      then (Inr caller, entries @ [AuthorizationMetric ''granted'' (scope_value scope),
              AuthorizationEvent ''success'' (scope_value scope)])
      else (Inl (incident_failure 403 ''Insufficient service permissions.''),
            entries @ [AuthorizationMetric ''denied'' (scope_value scope),
              AuthorizationEvent ''blocked'' (scope_value scope)]))"
  using scope_supported [of scope]
  by (simp add: require_service_scope_def audit_def record_service_authorization_def emit_authorization_def)

lemmas audit_simps = audit_authentication_failure audit_missing_credential audit_authenticated require_service_scope_eq

text \<open>The credential a request presents, as the verifier sees it.\<close>

definition presented ::
    "('sk, 'pk) incident_deployment \<Rightarrow> incident_request \<Rightarrow> service_identity_error + service_principal" where
  "presented dep q =
     (case irq_bearer q of
        None \<Rightarrow> Inl (ServiceAuthenticationError MALFORMED_CREDENTIAL)
      | Some token \<Rightarrow> verify_token (idp_lib dep) (idp_verifier dep) (irq_lib_now q) (irq_clock q) token)"

definition may_proceed :: "('sk, 'pk) incident_deployment \<Rightarrow> incident_request \<Rightarrow> bool" where
  "may_proceed dep q \<longleftrightarrow>
     (\<exists>caller. irq_bearer q \<noteq> None \<and> presented dep q = Inr caller \<and>
        endpoint_scope (irq_endpoint q) \<in> set (sp_scopes caller))"

lemma incident_principal_Inr:
  "incident_principal dep q entries = (Inr caller, entries') \<Longrightarrow> may_proceed dep q"
  by (auto simp: incident_principal_def authenticate_service_def presented_def may_proceed_def audit_simps
      split: option.splits sum.splits service_identity_error.splits prod.splits if_splits)

lemma incident_principal_proceeds:
  "may_proceed dep q \<Longrightarrow> \<exists>caller entries'. incident_principal dep q entries = (Inr caller, entries')"
  by (auto simp: incident_principal_def authenticate_service_def presented_def may_proceed_def audit_simps
      split: option.splits)

lemma incident_serve_proceeds:
  assumes "may_proceed dep q" and "endpoint_valid (irq_endpoint q)"
  shows "fst (incident_serve dep q app) = (case fst (incident_handler q (iap_db app)) of Inl r \<Rightarrow> r | Inr r \<Rightarrow> r) \<and>
    iap_db (snd (incident_serve dep q app)) =
      (case incident_handler q (iap_db app) of (Inl _, _) \<Rightarrow> iap_db app | (Inr _, db) \<Rightarrow> db)"
proof -
  obtain caller entries' where "incident_principal dep q (iap_log app) = (Inr caller, entries')"
    using incident_principal_proceeds [OF assms(1)] by blast
  then show ?thesis
    using assms(2) by (auto simp: incident_serve_def transaction_def split: prod.splits sum.splits)
qed

section \<open>Properties\<close>

text \<open>
  Claim C10. A request that changes the tables, or whose reply carries incidents, presented a bearer token
  the verifier accepts and that grants the scope of its endpoint: writing for everything that changes
  the tables, reading for the listings and lookups.
\<close>

theorem incident_access_control:
  assumes "incident_serve dep q app = (reply, app')"
    and "iap_db app' \<noteq> iap_db app \<or> irp_incidents reply \<noteq> [] \<or> irp_status reply < 400"
  shows "\<exists>token caller. irq_bearer q = Some token \<and>
    verify_token (idp_lib dep) (idp_verifier dep) (irq_lib_now q) (irq_clock q) token = Inr caller \<and>
    endpoint_scope (irq_endpoint q) \<in> set (sp_scopes caller) \<and>
    (iap_db app' \<noteq> iap_db app \<longrightarrow> INCIDENTS_WRITE \<in> set (sp_scopes caller))"
proof -
  have refused: "irp_incidents r = [] \<and> 400 \<le> irp_status r" if "incident_principal dep q entries = (Inl r, entries')" for r entries entries'
    using that by (auto simp: incident_principal_def authenticate_service_def audit_simps incident_failure_def
        service_authentication_error_def internal_error_def
        split: option.splits sum.splits service_identity_error.splits prod.splits if_splits)
  have "may_proceed dep q"
    using assms refused incident_principal_Inr
    by (fastforce simp: incident_serve_def split: prod.splits sum.splits)
  moreover have "endpoint_scope (irq_endpoint q) = INCIDENTS_WRITE" if "iap_db app' \<noteq> iap_db app"
    using incident_serve_db [OF assms(1)] that
    by (cases "irq_endpoint q") (auto simp: incident_handler_def list_incidents_def incident_service_list_def
        get_incident_def incident_service_get_def
        split: option.splits prod.splits sum.splits incident_service_error.splits)
  ultimately show ?thesis
    by (auto simp: may_proceed_def presented_def split: option.splits)
qed

text \<open>
  Claim C11. Every refusal is clean: a reply with an error status leaves the tables as they were. A missing or
  untrusted credential is answered 401 with a challenge and one metric and one security event that name the reason, and
  never with an internal error; a trusted one without the scope 403; an invalid request 422.
\<close>

theorem incident_refusals:
  "(400 \<le> irp_status (fst (incident_serve dep q app)) \<longrightarrow> iap_db (snd (incident_serve dep q app)) = iap_db app) \<and>
   (irq_bearer q = None \<longrightarrow>
      incident_serve dep q app = (service_authentication_error, app\<lparr>iap_log := iap_log app @
        [AuthenticationMetric ''failure'' ''missing_credential'', AuthenticationEvent ''failure'' ''missing_credential'']\<rparr>)) \<and>
   (\<forall>now e. irq_bearer q \<noteq> None \<and> irq_clock q = Aware now \<and> presented dep q = Inl e \<longrightarrow>
      (\<exists>reason. e = ServiceAuthenticationError reason \<and>
         incident_serve dep q app = (service_authentication_error, app\<lparr>iap_log := iap_log app @
           [AuthenticationMetric ''failure'' (failure_reason_value reason),
            AuthenticationEvent ''failure'' (failure_reason_value reason)]\<rparr>))) \<and>
   (\<forall>caller. irq_bearer q \<noteq> None \<and> presented dep q = Inr caller \<and> endpoint_scope (irq_endpoint q) \<notin> set (sp_scopes caller) \<longrightarrow>
      irp_status (fst (incident_serve dep q app)) = 403) \<and>
   (may_proceed dep q \<and> \<not> endpoint_valid (irq_endpoint q) \<longrightarrow> irp_status (fst (incident_serve dep q app)) = 422)"
proof (intro conjI)
  have ok: "irp_status r < 400" if "incident_handler q db = (Inr r, db')" for r db db'
    using that by (auto simp: incident_handler_def list_incidents_def get_incident_def create_incident_def
        update_incident_def delete_incident_def incident_success_def
        split: incident_endpoint.splits prod.splits sum.splits incident_service_error.splits)
  show "400 \<le> irp_status (fst (incident_serve dep q app)) \<longrightarrow> iap_db (snd (incident_serve dep q app)) = iap_db app"
    using incident_serve_db [of dep q app "fst (incident_serve dep q app)" "snd (incident_serve dep q app)"] ok
    by fastforce
  show "irq_bearer q = None \<longrightarrow> incident_serve dep q app = (service_authentication_error, app\<lparr>iap_log := iap_log app @
        [AuthenticationMetric ''failure'' ''missing_credential'', AuthenticationEvent ''failure'' ''missing_credential'']\<rparr>)"
    by (simp add: incident_serve_def incident_principal_def authenticate_service_def audit_simps)
  show "\<forall>now e. irq_bearer q \<noteq> None \<and> irq_clock q = Aware now \<and> presented dep q = Inl e \<longrightarrow>
      (\<exists>reason. e = ServiceAuthenticationError reason \<and>
         incident_serve dep q app = (service_authentication_error, app\<lparr>iap_log := iap_log app @
           [AuthenticationMetric ''failure'' (failure_reason_value reason),
            AuthenticationEvent ''failure'' (failure_reason_value reason)]\<rparr>))"
    by (auto simp: presented_def incident_serve_def incident_principal_def authenticate_service_def audit_simps
        dest!: verify_token_error)
  show "\<forall>caller. irq_bearer q \<noteq> None \<and> presented dep q = Inr caller \<and>
      endpoint_scope (irq_endpoint q) \<notin> set (sp_scopes caller) \<longrightarrow> irp_status (fst (incident_serve dep q app)) = 403"
    by (auto simp: presented_def incident_serve_def incident_principal_def authenticate_service_def audit_simps
        incident_failure_def)
  show "may_proceed dep q \<and> \<not> endpoint_valid (irq_endpoint q) \<longrightarrow> irp_status (fst (incident_serve dep q app)) = 422"
    using incident_principal_proceeds [of dep q "iap_log app"]
    by (auto simp: incident_serve_def incident_failure_def)
qed

text \<open>
  Claim C14. Creating an incident, on every branch: an unknown service is answered 404, an unavailable
  catalog 503, and nothing is written; otherwise, with identifiers not used before, the answer is 201 with
  the new incident, which is stored beside exactly one new pending task that carries its
  identifier, the request's correlation identifier and the incident's idempotency key.
\<close>

theorem incident_creation:
  assumes "may_proceed dep q" and "irq_endpoint q = CreateIncident p" and "incident_create_valid p"
  shows "(case irq_exists q (crt_service_id p) of
      Inl (ServiceCatalogUnavailable detail) \<Rightarrow>
        fst (incident_serve dep q app) = incident_failure 503 detail \<and> iap_db (snd (incident_serve dep q app)) = iap_db app
    | Inl _ \<Rightarrow> 400 \<le> irp_status (fst (incident_serve dep q app)) \<and> iap_db (snd (incident_serve dep q app)) = iap_db app
    | Inr False \<Rightarrow>
        fst (incident_serve dep q app) =
          incident_failure 404 (''Service '' @ uuid_str (crt_service_id p) @ '' does not exist.'') \<and>
        iap_db (snd (incident_serve dep q app)) = iap_db app
    | Inr True \<Rightarrow>
        (let i = new_incident (irq_draws q) p;
             m = creation_task (irq_draws q) (Some (resolve_request_id (irq_generated_id q) (irq_request_id q))) i
         in lookup_by inc_id (inc_id i) (idb_incidents (iap_db app)) = None \<and>
            tom_id m \<notin> set (map tom_id (task_messages (iap_db app))) \<and>
            tom_task_id m \<notin> set (map tom_task_id (task_messages (iap_db app))) \<and>
            tom_idempotency_key m \<notin> set (map tom_idempotency_key (task_messages (iap_db app))) \<longrightarrow>
            fst (incident_serve dep q app) = incident_success 201 [i] \<and>
            iap_db (snd (incident_serve dep q app)) = (iap_db app)\<lparr>idb_incidents := idb_incidents (iap_db app) @ [i],
              idb_tasks := idb_tasks (iap_db app) @ [pending_row m (tom_created_at m)]\<rparr>))"
proof -
  let ?d = "irq_draws q" and ?c = "Some (resolve_request_id (irq_generated_id q) (irq_request_id q))"
  have served: "fst (incident_serve dep q app) =
      (case fst (create_incident (irq_exists q) ?d ?c p (iap_db app)) of Inl r \<Rightarrow> r | Inr r \<Rightarrow> r) \<and>
    iap_db (snd (incident_serve dep q app)) =
      (case create_incident (irq_exists q) ?d ?c p (iap_db app) of (Inl _, _) \<Rightarrow> iap_db app | (Inr _, db) \<Rightarrow> db)"
    using incident_serve_proceeds [OF assms(1), of app] assms(2,3) by (simp add: incident_handler_def)
  show ?thesis
  proof (cases "irq_exists q (crt_service_id p)")
    case (Inl e)
    then have "incident_service_create (irq_exists q) ?d p ?c (iap_db app) = (Inl e, iap_db app)"
      by (simp add: incident_service_create_def ensure_service_exists_def)
    with Inl served show ?thesis
      by (cases e) (simp_all add: create_incident_def incident_failure_def internal_error_def)
  next
    case (Inr b)
    show ?thesis
    proof (cases b)
      case False
      then have "incident_service_create (irq_exists q) ?d p ?c (iap_db app) =
          (Inl (UnknownServiceReference (''Service '' @ uuid_str (crt_service_id p) @ '' does not exist.'')), iap_db app)"
        using Inr by (simp add: incident_service_create_def ensure_service_exists_def)
      with Inr False served show ?thesis by (simp add: create_incident_def)
    next
      case True
      let ?i = "new_incident ?d p"
      let ?m = "creation_task ?d ?c ?i"
      have "create_incident (irq_exists q) ?d ?c p (iap_db app) = (Inr (incident_success 201 [?i]),
          (iap_db app)\<lparr>idb_incidents := idb_incidents (iap_db app) @ [?i],
            idb_tasks := idb_tasks (iap_db app) @ [pending_row ?m (tom_created_at ?m)]\<rparr>)"
        if fresh: "lookup_by inc_id (inc_id ?i) (idb_incidents (iap_db app)) = None"
          "tom_id ?m \<notin> set (map tom_id (task_messages (iap_db app)))"
          "tom_task_id ?m \<notin> set (map tom_task_id (task_messages (iap_db app)))"
          "tom_idempotency_key ?m \<notin> set (map tom_idempotency_key (task_messages (iap_db app)))"
      proof -
        have "task_outbox_create ?m (idb_tasks (iap_db app)) = Inr (idb_tasks (iap_db app) @ [pending_row ?m (tom_created_at ?m)])"
          using fresh(2-4) unfolding task_outbox_create_Inr task_messages_def by blast
        then show ?thesis
          using True Inr fresh(1)
          by (simp add: create_incident_def incident_service_create_def ensure_service_exists_def incident_insert_def Let_def)
      qed
      with Inr True served show ?thesis by (simp add: Let_def)
    qed
  qed
qed

lemma updated_incident_fields:
  "inc_title (updated_incident d x p) = given (upd_title p) (inc_title x)"
  "inc_service_id (updated_incident d x p) = given (upd_service_id p) (inc_service_id x)"
  "inc_status (updated_incident d x p) = given (upd_status p) (inc_status x)"
  "given (upd_status p) (inc_status x) = Status_RESOLVED \<Longrightarrow> upd_resolved_at p = None \<Longrightarrow>
     inc_resolved_at (updated_incident d x p) = Some (given (inc_resolved_at x) (idr_resolved_now d))"
  "given (upd_status p) (inc_status x) \<noteq> Status_RESOLVED \<Longrightarrow> inc_resolved_at (updated_incident d x p) = None"
  by (simp_all add: updated_incident_def resolve_timestamp_def given_def Let_def split: option.splits)

text \<open>
  Updating an incident, on every branch: an unknown incident is answered 404; moving it
  to another service fails closed, 400 when the catalog does not know the service and 503 when it cannot say;
  otherwise 200 with the updated incident, stored in place of the old one and alone changed. A field the request
  gives replaces the old value and every other field is kept; the identifier, the creation time and the reporter never change;
  entering the resolved state sets a resolution time, staying resolved keeps it unless the request
  gives one, and leaving the resolved state clears it.
\<close>

theorem incident_update_outcome:
  assumes "may_proceed dep q" and "irq_endpoint q = UpdateIncident i p" and "incident_update_valid p"
  shows "(case lookup_by inc_id i (idb_incidents (iap_db app)) of
      None \<Rightarrow> irp_status (fst (incident_serve dep q app)) = 404 \<and> iap_db (snd (incident_serve dep q app)) = iap_db app
    | Some old \<Rightarrow>
        if (\<exists>s. upd_service_id p = Some s \<and> s \<noteq> inc_service_id old \<and> irq_exists q s \<noteq> Inr True)
        then 400 \<le> irp_status (fst (incident_serve dep q app)) \<and> iap_db (snd (incident_serve dep q app)) = iap_db app \<and>
          (irq_exists q (the (upd_service_id p)) = Inr False \<longrightarrow> irp_status (fst (incident_serve dep q app)) = 400) \<and>
          (\<forall>detail. irq_exists q (the (upd_service_id p)) = Inl (ServiceCatalogUnavailable detail) \<longrightarrow>
             irp_status (fst (incident_serve dep q app)) = 503)
        else \<exists>new. fst (incident_serve dep q app) = incident_success 200 [new] \<and>
          iap_db (snd (incident_serve dep q app)) = (iap_db app)\<lparr>idb_incidents :=
            update_where (\<lambda>r. inc_id r = i) (\<lambda>_. new) (idb_incidents (iap_db app))\<rparr> \<and>
          inc_id new = i \<and> inc_created_at new = inc_created_at old \<and>
          inc_reported_by_email new = inc_reported_by_email old \<and>
          inc_title new = given (upd_title p) (inc_title old) \<and>
          inc_service_id new = given (upd_service_id p) (inc_service_id old) \<and>
          inc_status new = given (upd_status p) (inc_status old) \<and>
          (inc_status new = Status_RESOLVED \<and> upd_resolved_at p = None \<longrightarrow>
             inc_resolved_at new = Some (given (inc_resolved_at old) (idr_resolved_now (irq_draws q)))) \<and>
          (inc_status new \<noteq> Status_RESOLVED \<longrightarrow> inc_resolved_at new = None))"
proof -
  let ?d = "irq_draws q"
  have served: "fst (incident_serve dep q app) =
      (case fst (update_incident (irq_exists q) ?d i p (iap_db app)) of Inl r \<Rightarrow> r | Inr r \<Rightarrow> r) \<and>
    iap_db (snd (incident_serve dep q app)) =
      (case update_incident (irq_exists q) ?d i p (iap_db app) of (Inl _, _) \<Rightarrow> iap_db app | (Inr _, db) \<Rightarrow> db)"
    using incident_serve_proceeds [OF assms(1), of app] assms(2,3) by (simp add: incident_handler_def)
  show ?thesis
  proof (cases "lookup_by inc_id i (idb_incidents (iap_db app))")
    case None
    then show ?thesis using served
      by (simp add: update_incident_def incident_service_update_def incident_service_get_def incident_get_by_id_def
          incident_failure_def)
  next
    case (Some old)
    show ?thesis
    proof (cases "\<exists>s. upd_service_id p = Some s \<and> s \<noteq> inc_service_id old \<and> irq_exists q s \<noteq> Inr True")
      case True
      then obtain s where s: "upd_service_id p = Some s" "s \<noteq> inc_service_id old" "irq_exists q s \<noteq> Inr True" by blast
      have "update_incident (irq_exists q) ?d i p (iap_db app) =
          (Inl (case irq_exists q s of Inl (ServiceCatalogUnavailable detail) \<Rightarrow> incident_failure 503 detail
            | Inl (IncidentNotFound detail) \<Rightarrow> incident_failure 404 detail
            | Inl (UnknownServiceReference detail) \<Rightarrow> incident_failure 400 detail
            | Inl IncidentUnhandled \<Rightarrow> internal_error
            | Inr _ \<Rightarrow> incident_failure 400 (''Service '' @ uuid_str s @ '' does not exist.'')), iap_db app)"
        using s Some by (auto simp: update_incident_def incident_service_update_def incident_service_get_def
            incident_get_by_id_def ensure_service_exists_def split: sum.splits incident_service_error.splits bool.splits)
      then show ?thesis using True Some s served
        by (auto simp: incident_failure_def internal_error_def split: sum.splits incident_service_error.splits)
    next
      case False
      then have run: "incident_service_update (irq_exists q) ?d i p (iap_db app) = (Inr (updated_incident ?d old p),
          (iap_db app)\<lparr>idb_incidents := update_where (\<lambda>r. inc_id r = i) (\<lambda>_. updated_incident ?d old p) (idb_incidents (iap_db app))\<rparr>)"
        unfolding incident_service_update_Inr using Some by auto
      have "inc_id old = i" using lookup_by_SomeD [OF Some] by simp
      then show ?thesis
        unfolding Some option.case(2) if_not_P [OF False]
        using served by (intro exI [of _ "updated_incident ?d old p"] conjI impI)
          (simp_all add: run update_incident_def updated_incident_fields)
    qed
  qed
qed

text \<open>
  Asynchronous processing moves an open incident to investigation and acknowledges it, never
  moves an incident back, and touches no other incident; processing the incident again changes nothing
  and reports the same state as unchanged.
\<close>

theorem processing_idempotent:
  assumes "process_incident t1 t2 i db = (Inr r, db1)"
  shows "(\<exists>x. lookup_by inc_id i (idb_incidents db) = Some x \<and>
      (\<exists>y. lookup_by inc_id i (idb_incidents db1) = Some y \<and>
        inc_status y = (if inc_status x = Status_OPEN then Status_INVESTIGATING else inc_status x) \<and>
        (inc_status x \<in> {Status_MONITORING, Status_RESOLVED} \<longrightarrow> y = x) \<and>
        (inc_acknowledged_at x \<noteq> None \<longrightarrow> inc_acknowledged_at y = inc_acknowledged_at x) \<and>
        prs_status r = inc_status y \<and> prs_acknowledged_at r = inc_acknowledged_at y)) \<and>
    (\<forall>j. j \<noteq> i \<longrightarrow> lookup_by inc_id j (idb_incidents db1) = lookup_by inc_id j (idb_incidents db)) \<and>
    (\<forall>t3 t4. process_incident t3 t4 i db1 = (Inr (r\<lparr>prs_changed := False\<rparr>), db1))"
proof -
  obtain x where x: "lookup_by inc_id i (idb_incidents db) = Some x" and id: "prs_incident_id r = i"
    and st: "prs_status r = (if inc_status x = Status_OPEN then Status_INVESTIGATING else inc_status x)"
    and ack: "prs_acknowledged_at r = (if inc_status x \<in> {Status_OPEN, Status_INVESTIGATING} \<and> inc_acknowledged_at x = None
          then Some t1 else inc_acknowledged_at x)"
    and ch: "prs_changed r = (inc_status x = Status_OPEN \<or> inc_status x = Status_INVESTIGATING \<and> inc_acknowledged_at x = None)"
    and db1: "db1 = (if prs_changed r then db\<lparr>idb_incidents := update_where (\<lambda>y. inc_id y = i)
            (\<lambda>_. x\<lparr>inc_status := prs_status r, inc_acknowledged_at := prs_acknowledged_at r, inc_updated_at := t2\<rparr>)
            (idb_incidents db)\<rparr> else db)"
    using process_incident_cases [OF assms, unfolded sum.case] by blast
  let ?y = "if prs_changed r then x\<lparr>inc_status := prs_status r, inc_acknowledged_at := prs_acknowledged_at r, inc_updated_at := t2\<rparr> else x"
  have xi: "inc_id x = i" using lookup_by_SomeD [OF x] by simp
  have look: "lookup_by inc_id j (idb_incidents db1) = (if j = i then Some ?y else lookup_by inc_id j (idb_incidents db))" for j
    using x xi by (simp add: db1 lookup_update_where_const)
  have y: "inc_status ?y = prs_status r" "inc_acknowledged_at ?y = prs_acknowledged_at r" "inc_id ?y = i"
    using st ack ch xi by auto
  have settled: "prs_status r \<noteq> Status_OPEN" "prs_status r = Status_INVESTIGATING \<Longrightarrow> prs_acknowledged_at r \<noteq> None"
    using st ack by (auto split: if_splits)
  have "process_incident t3 t4 i db1 = (Inr (r\<lparr>prs_changed := False\<rparr>), db1)" for t3 t4
  proof -
    obtain res db2 where run: "process_incident t3 t4 i db1 = (res, db2)" by (metis surj_pair)
    obtain r2 where r2: "res = Inr r2"
      using process_incident_cases [OF run] look [of i] by (cases res) auto
    have "prs_incident_id r2 = i \<and> prs_status r2 = prs_status r \<and> prs_acknowledged_at r2 = prs_acknowledged_at r \<and>
        \<not> prs_changed r2 \<and> db2 = db1"
      using process_incident_cases [OF run] look [of i] y settled unfolding r2 by (auto split: if_splits)
    then show ?thesis using run r2 id by (cases r2; cases r) simp
  qed
  then show ?thesis
    using x look [of i] look y st ack ch by (auto split: if_splits)
qed

lemma pages_concat: "concat (map (\<lambda>k. page (k * limit) limit xs) [0..<pages]) = take (pages * limit) xs"
proof (induction pages)
  case (Suc pages)
  have "take (pages * limit) xs @ take limit (drop (pages * limit) xs) = take (Suc pages * limit) xs"
    by (metis add.commute mult_Suc take_add)
  with Suc show ?case by (simp add: page_def)
qed simp

text \<open>
  Paging neither loses nor repeats an incident: the pages of one size, put together, are the incidents
  that match the filters, newest first, each page no longer than its limit.
\<close>

theorem incident_pages:
  assumes "0 < limit" and "length rows \<le> pages * limit"
  shows "concat (map (\<lambda>k. incident_list search service severity status (k * limit) limit rows) [0..<pages]) =
      sort_key (\<lambda>i. - inc_created_at i) (filter (\<lambda>i. search_matches search i \<and>
        (\<forall>s \<in> set_option service. inc_service_id i = s) \<and> (\<forall>s \<in> set_option severity. inc_severity i = s) \<and>
        (\<forall>s \<in> set_option status. inc_status i = s)) rows) \<and>
    (\<forall>k. length (incident_list search service severity status (k * limit) limit rows) \<le> limit)"
proof -
  have "length (filter P rows) \<le> pages * limit" for P
    using assms(2) length_filter_le order_trans by blast
  then show ?thesis
    unfolding incident_list_def pages_concat by (simp add: page_def)
qed

section \<open>Witnesses\<close>

definition demo_write_lib :: "(unit, unit) jwt_lib" where
  "demo_write_lib =
     one_token_lib (service_claims demo_provider 1000000123 7 ''incident-service'' [INCIDENTS_WRITE])
       SERVICE_TOKEN_ALGORITHM (service_header demo_provider)"

definition demo_deployment :: "(unit, unit) incident_deployment" where
  "demo_deployment = \<lparr>idp_lib = demo_write_lib, idp_verifier = demo_verifier\<rparr>"

definition demo_principal :: service_principal where
  "demo_principal = \<lparr>sp_issuer = ''core-backend'', sp_subject = ''core-backend'', sp_audience = ''incident-service'',
     sp_token_id = 7, sp_issued_at = 1000000000, sp_not_before = 1000000000,
     sp_expires_at = 1060000000, sp_scopes = [INCIDENTS_WRITE]\<rparr>"

lemma demo_write_verify:
  "verify_token demo_write_lib demo_verifier 0 (Aware 1010000000) ''t'' = Inr demo_principal"
  by (simp add: verify_token_def principal_from_payload_def check_lifetime_def token_scopes_def
      utc_datetime_def service_claims_def service_header_def verifier_options_def jwt_accepts_def
      payload_get_def [of "_ # _"] py_split_def char_space_def service_scope_of_def demo_write_lib_def
      service_token_constants demo_service_defs timedelta_seconds_def us_per_second_def demo_principal_def)

definition demo_create :: incident_create where
  "demo_create = \<lparr>crt_title = ''t'', crt_service_id = 2, crt_severity = SEV_1, crt_status = Status_RESOLVED,
     crt_summary = ''s'', crt_assignee = ''a'', crt_started_at = None, crt_source = ''manual'',
     crt_customer_impacting = False, crt_acknowledged_at = None, crt_reported_by_email = None\<rparr>"

definition demo_patch :: incident_update where
  "demo_patch = \<lparr>upd_title = Some ''new'', upd_service_id = None, upd_severity = None, upd_status = Some Status_OPEN,
     upd_summary = None, upd_assignee = None, upd_source = None, upd_customer_impacting = None,
     upd_acknowledged_at = None, upd_started_at = None, upd_resolved_at = None, upd_fields_set = [''title'', ''status'']\<rparr>"

definition demo_service_draws :: incident_draws where
  "demo_service_draws = \<lparr>idr_incident_id = 1, idr_now = 0, idr_task_id = 3, idr_outbox_id = 4, idr_correlation_id = 5,
     idr_resolved_now = 7, idr_updated_now = 8\<rparr>"

definition demo_incident_request :: "incident_endpoint \<Rightarrow> incident_request" where
  "demo_incident_request endpoint = \<lparr>irq_bearer = Some ''t'', irq_request_id = Some ''r'', irq_generated_id = 6, irq_lib_now = 0,
     irq_clock = Aware 1010000000, irq_draws = demo_service_draws, irq_exists = (\<lambda>_. Inr True), irq_endpoint = endpoint\<rparr>"

definition demo_incident_app :: incident_app where
  "demo_incident_app = \<lparr>iap_db = \<lparr>idb_incidents = [], idb_tasks = [], idb_completions = []\<rparr>, iap_log = []\<rparr>"

definition demo_old :: incident where
  "demo_old = new_incident demo_service_draws demo_create"

lemma demo_may_proceed:
  "endpoint_scope endpoint = INCIDENTS_WRITE \<Longrightarrow> may_proceed demo_deployment (demo_incident_request endpoint)"
  by (simp add: may_proceed_def presented_def demo_incident_request_def demo_deployment_def demo_write_verify demo_principal_def)

lemma demo_create_valid: "incident_create_valid demo_create"
  by (simp add: incident_create_valid_def demo_create_def length_within_def)

lemma demo_patch_valid: "incident_update_valid demo_patch"
  by (simp add: incident_update_valid_def demo_patch_def length_within_def)

theorem incident_creation_witness:
  "fst (incident_serve demo_deployment (demo_incident_request (CreateIncident demo_create)) demo_incident_app) =
     incident_success 201 [demo_old] \<and>
   length (idb_tasks (iap_db (snd (incident_serve demo_deployment (demo_incident_request (CreateIncident demo_create)) demo_incident_app)))) = 1"
  using incident_creation [OF demo_may_proceed _ demo_create_valid, of "CreateIncident demo_create" demo_incident_app]
  by (simp add: demo_incident_request_def demo_incident_app_def task_messages_def demo_old_def Let_def)

theorem incident_update_outcome_witness:
  "let out = incident_serve demo_deployment (demo_incident_request (UpdateIncident 1 demo_patch))
       (demo_incident_app\<lparr>iap_db := (iap_db demo_incident_app)\<lparr>idb_incidents := [demo_old]\<rparr>\<rparr>)
   in irp_status (fst out) = 200 \<and> inc_resolved_at demo_old = Some 0 \<and>
      map inc_resolved_at (idb_incidents (iap_db (snd out))) = [None]"
proof -
  have "lookup_by inc_id 1 [demo_old] = Some demo_old"
    by (simp add: lookup_by_Cons demo_old_def demo_service_draws_def)
  moreover have "upd_service_id demo_patch = None" "inc_id demo_old = 1" "upd_status demo_patch = Some Status_OPEN"
    "inc_resolved_at demo_old = Some 0"
    by (simp_all add: demo_patch_def demo_old_def new_incident_def demo_service_draws_def demo_create_def)
  ultimately show ?thesis
    using incident_update_outcome [OF demo_may_proceed _ demo_patch_valid, of "UpdateIncident 1 demo_patch" 1
        "demo_incident_app\<lparr>iap_db := (iap_db demo_incident_app)\<lparr>idb_incidents := [demo_old]\<rparr>\<rparr>"]
    by (auto simp: demo_incident_request_def given_def update_where_def incident_success_def Let_def)
qed

theorem incident_access_control_witness:
  "\<exists>token caller. verify_token demo_write_lib demo_verifier 0 (Aware 1010000000) token = Inr caller \<and>
     INCIDENTS_WRITE \<in> set (sp_scopes caller)"
proof -
  let ?q = "demo_incident_request (CreateIncident demo_create)"
  obtain reply app where serve: "incident_serve demo_deployment ?q demo_incident_app = (reply, app)" by (metis surj_pair)
  have "irp_incidents reply = [demo_old]"
    using incident_serve_proceeds [OF demo_may_proceed, of "CreateIncident demo_create" demo_incident_app] demo_create_valid serve
    by (auto simp: incident_handler_def create_incident_def incident_service_create_def ensure_service_exists_def
        incident_insert_def task_outbox_create_def demo_incident_request_def demo_incident_app_def Let_def incident_success_def demo_old_def)
  then show ?thesis
    using incident_access_control [OF serve] by (auto simp: demo_incident_request_def demo_deployment_def)
qed

theorem incident_refusals_witness:
  "irp_status (fst (incident_serve demo_deployment ((demo_incident_request (GetIncident 1))\<lparr>irq_bearer := None\<rparr>) demo_incident_app)) = 401 \<and>
   irp_status (fst (incident_serve demo_deployment (demo_incident_request (GetIncident 1)) demo_incident_app)) = 403"
proof -
  have "presented demo_deployment (demo_incident_request (GetIncident 1)) = Inr demo_principal"
    by (simp add: presented_def demo_incident_request_def demo_deployment_def demo_write_verify)
  then show ?thesis
    using incident_refusals [of demo_deployment "(demo_incident_request (GetIncident 1))\<lparr>irq_bearer := None\<rparr>" demo_incident_app]
      incident_refusals [of demo_deployment "demo_incident_request (GetIncident 1)" demo_incident_app]
    by (auto simp: service_authentication_error_def incident_failure_def demo_incident_request_def demo_principal_def)
qed

theorem processing_idempotent_witness:
  "\<exists>r db. process_incident 10 11 1 \<lparr>idb_incidents = [demo_old\<lparr>inc_status := Status_OPEN\<rparr>], idb_tasks = [], idb_completions = []\<rparr> = (Inr r, db) \<and>
     process_incident 12 13 1 db = (Inr (r\<lparr>prs_changed := False\<rparr>), db)"
proof -
  obtain r db where run: "process_incident 10 11 1 \<lparr>idb_incidents = [demo_old\<lparr>inc_status := Status_OPEN\<rparr>],
      idb_tasks = [], idb_completions = []\<rparr> = (Inr r, db)"
    by (simp add: process_incident_def incident_get_by_id_def lookup_by_Cons incident_replace_def demo_old_def
        demo_service_draws_def Let_def)
  with processing_idempotent [OF run] show ?thesis by blast
qed

theorem incident_pages_witness:
  "concat (map (\<lambda>k. incident_list None None None None (k * 1) 1 [demo_old, demo_old\<lparr>inc_created_at := 5\<rparr>]) [0..<2]) =
     [demo_old\<lparr>inc_created_at := 5\<rparr>, demo_old]"
  using incident_pages [of 1 "[demo_old, demo_old\<lparr>inc_created_at := 5\<rparr>]" 2 None None None None]
  by (simp add: search_matches_def demo_old_def new_incident_def demo_service_draws_def)

end
