(* ===== verification/Authorization.thy ===== *)
theory Authorization
  imports Auth_Store
begin

text \<open>
  Role-based permissions of the core backend: \<open>domain/authorization.py\<close>,
  \<open>services/authorization_service.py\<close> and the dependency \<open>require_permission\<close> of
  \<open>api/dependencies.py\<close> (\<open>src/backend/app\<close>). \<open>ROLE_PERMISSIONS\<close> is the function \<open>role_permissions\<close>.
\<close>

datatype permission =
    SERVICE_READ | SERVICE_CREATE | SERVICE_UPDATE | SERVICE_DELETE
  | SERVICE_DEPENDENCY_READ | SERVICE_DEPENDENCY_WRITE
  | INCIDENT_READ | INCIDENT_CREATE | INCIDENT_UPDATE | INCIDENT_DELETE

fun permission_value :: "permission \<Rightarrow> string" where
  "permission_value SERVICE_READ = ''service:read''"
| "permission_value SERVICE_CREATE = ''service:create''"
| "permission_value SERVICE_UPDATE = ''service:update''"
| "permission_value SERVICE_DELETE = ''service:delete''"
| "permission_value SERVICE_DEPENDENCY_READ = ''service_dependency:read''"
| "permission_value SERVICE_DEPENDENCY_WRITE = ''service_dependency:write''"
| "permission_value INCIDENT_READ = ''incident:read''"
| "permission_value INCIDENT_CREATE = ''incident:create''"
| "permission_value INCIDENT_UPDATE = ''incident:update''"
| "permission_value INCIDENT_DELETE = ''incident:delete''"

fun role_permissions :: "user_role \<Rightarrow> permission set" where
  "role_permissions VIEWER = {SERVICE_READ, SERVICE_DEPENDENCY_READ, INCIDENT_READ}"
| "role_permissions OPERATOR =
     {SERVICE_READ, SERVICE_CREATE, SERVICE_UPDATE, SERVICE_DEPENDENCY_READ, SERVICE_DEPENDENCY_WRITE,
      INCIDENT_READ, INCIDENT_CREATE, INCIDENT_UPDATE}"
| "role_permissions ADMIN =
     {SERVICE_READ, SERVICE_CREATE, SERVICE_UPDATE, SERVICE_DELETE, SERVICE_DEPENDENCY_READ,
      SERVICE_DEPENDENCY_WRITE, INCIDENT_READ, INCIDENT_CREATE, INCIDENT_UPDATE, INCIDENT_DELETE}"

definition has_permission :: "user \<Rightarrow> permission \<Rightarrow> bool" where
  "has_permission u p \<longleftrightarrow> p \<in> role_permissions (usr_role u)"

datatype authorization_error = PermissionDeniedError string

definition require_permission :: "user \<Rightarrow> permission \<Rightarrow> authorization_error option" where
  "require_permission u p =
     (if \<not> has_permission u p
      then Some (PermissionDeniedError (''User role '' @ [CHR 0x27] @ user_role_value (usr_role u) @ [CHR 0x27] @
        '' does not have permission '' @ [CHR 0x27] @ permission_value p @ [CHR 0x27] @ ''.''))
      else None)"

lemma require_permission_None [simp]: "require_permission u p = None \<longleftrightarrow> has_permission u p"
  by (simp add: require_permission_def)

text \<open>A viewer may do what every account may do, an administrator everything.\<close>

lemma viewer_least: "role_permissions VIEWER \<subseteq> role_permissions r"
  by (cases r) auto

lemma admin_all: "p \<in> role_permissions ADMIN"
  by (cases p) auto

end
