(* ===== verification/Service_Catalog.thy ===== *)
theory Service_Catalog
  imports Authorization Incident_Store
begin

text \<open>
  The core backend's service catalog: \<open>domain/service.py\<close>, \<open>schemas/service.py\<close>,
  \<open>services/service_service.py\<close> and \<open>repositories/sqlalchemy_service_repository.py\<close> on the tables of
  \<open>models/service.py\<close> and \<open>models/incident.py\<close> (\<open>src/backend/app\<close>).

  A service is a row with its dependency names in the order they were assigned; the list of incidents
  the dataclass carries is always empty and left out. A column \<open>String(n)\<close> is PostgreSQL's
  \<open>varchar(n)\<close>: longer text is an error unless the excess is spaces, which are cut. The collation that
  orders names is the parameter \<open>collation\<close>. A PATCH field is \<open>None\<close> when it was left out,
  \<open>Some None\<close> when it was sent as \<open>null\<close>. Deleting a service deletes its incidents
  (\<open>ON DELETE CASCADE\<close>).
\<close>

section \<open>Data and schemas\<close>

datatype service_status = HEALTHY | DEGRADED | CRITICAL

fun service_status_value :: "service_status \<Rightarrow> string" where
  "service_status_value HEALTHY = ''Healthy''"
| "service_status_value DEGRADED = ''Degraded''"
| "service_status_value CRITICAL = ''Critical''"

record catalog_service =
  svc_id :: uuid
  svc_name :: string
  svc_owner :: string
  svc_status :: service_status
  svc_uptime :: string
  svc_latency_ms :: int
  svc_description :: string
  svc_region :: string
  svc_version :: string
  svc_last_deployed_at :: instant
  svc_dependencies :: "string list"

record service_create =
  csv_name :: string
  csv_owner :: string
  csv_status :: service_status
  csv_uptime :: string
  csv_latency_ms :: int
  csv_description :: string
  csv_region :: string
  csv_version :: string
  csv_last_deployed_at :: instant
  csv_dependencies :: "string list"

record service_update =
  usv_name :: "string option option"
  usv_owner :: "string option option"
  usv_status :: "service_status option option"
  usv_uptime :: "string option option"
  usv_latency_ms :: "int option option"
  usv_description :: "string option option"
  usv_region :: "string option option"
  usv_version :: "string option option"
  usv_last_deployed_at :: "instant option option"
  usv_dependencies :: "string list option option"

definition strip_required_strings :: "string \<Rightarrow> string option" where
  "strip_required_strings value = (let cleaned = py_strip value in if cleaned = [] then None else Some cleaned)"

definition validate_service_create :: "service_create \<Rightarrow> service_create option" where
  "validate_service_create p =
     (case (strip_required_strings (csv_name p), strip_required_strings (csv_owner p),
            strip_required_strings (csv_region p), strip_required_strings (csv_version p)) of
        (Some name, Some owner, Some region, Some version) \<Rightarrow>
          if csv_latency_ms p < 0 then None
          else Some (p\<lparr>csv_name := name, csv_owner := owner, csv_region := region, csv_version := version\<rparr>)
      | _ \<Rightarrow> None)"

fun strip_optional_strings :: "string option option \<Rightarrow> string option option option" where
  "strip_optional_strings (Some (Some value)) =
     (let cleaned = py_strip value in if cleaned = [] then None else Some (Some (Some cleaned)))"
| "strip_optional_strings field = Some field"

definition validate_service_update :: "service_update \<Rightarrow> service_update option" where
  "validate_service_update p =
     (case (strip_optional_strings (usv_name p), strip_optional_strings (usv_owner p),
            strip_optional_strings (usv_region p), strip_optional_strings (usv_version p)) of
        (Some name, Some owner, Some region, Some version) \<Rightarrow>
          if (case usv_latency_ms p of Some (Some ms) \<Rightarrow> ms < 0 | _ \<Rightarrow> False) then None
          else Some (p\<lparr>usv_name := name, usv_owner := owner, usv_region := region, usv_version := version\<rparr>)
      | _ \<Rightarrow> None)"

section \<open>The tables\<close>

record catalog_db =
  cdb_services :: "catalog_service list"
  cdb_incidents :: "incident list"

datatype catalog_error =
    ServiceNotFoundError string
  | ServiceNameConflictError string
  | CatalogUnhandled

definition varchar :: "nat \<Rightarrow> string \<Rightarrow> string option" where
  "varchar n s =
     (if length s \<le> n then Some s
      else if list_all (\<lambda>c. c = CHR '' '') (drop n s) then Some (take n s) else None)"

fun varchars :: "nat \<Rightarrow> string list \<Rightarrow> string list option" where
  "varchars n [] = Some []"
| "varchars n (s # ss) =
     (case (varchar n s, varchars n ss) of (Some t, Some ts) \<Rightarrow> Some (t # ts) | _ \<Rightarrow> None)"

text \<open>The row PostgreSQL stores for a service, or \<open>None\<close> when a column type or constraint refuses it.\<close>

definition stored_service :: "catalog_service \<Rightarrow> catalog_service option" where
  "stored_service s =
     (case (varchar 120 (svc_name s), varchar 120 (svc_owner s), varchar 30 (svc_uptime s),
            varchar 80 (svc_region s), varchar 50 (svc_version s), varchars 120 (svc_dependencies s)) of
        (Some name, Some owner, Some uptime, Some region, Some version, Some dependencies) \<Rightarrow>
          if 0 \<le> svc_latency_ms s \<and> svc_latency_ms s < 2 ^ 31 \<and> distinct dependencies
          then Some (s\<lparr>svc_name := name, svc_owner := owner, svc_uptime := uptime, svc_region := region,
                      svc_version := version, svc_dependencies := dependencies\<rparr>)
          else None
      | _ \<Rightarrow> None)"

section \<open>The repository\<close>

definition service_search_matches :: "string option \<Rightarrow> catalog_service \<Rightarrow> bool" where
  "service_search_matches search s =
     (case search of
        None \<Rightarrow> True | Some [] \<Rightarrow> True
      | Some q \<Rightarrow> let pattern = ''%'' @ py_strip q @ ''%''
                  in ilike pattern (svc_name s) \<or> ilike pattern (svc_owner s) \<or> ilike pattern (svc_description s))"

definition service_list ::
    "(string \<Rightarrow> 'k::linorder) \<Rightarrow> string option \<Rightarrow> service_status option \<Rightarrow> nat \<Rightarrow> nat \<Rightarrow>
     catalog_service list \<Rightarrow> catalog_service list" where
  "service_list collation search status offset limit rows =
     page offset limit (sort_key (\<lambda>s. collation (svc_name s))
       (filter (\<lambda>s. service_search_matches search s \<and> (\<forall>v \<in> set_option status. svc_status s = v)) rows))"

definition service_get_by_id :: "uuid \<Rightarrow> catalog_service list \<Rightarrow> catalog_service option" where
  "service_get_by_id i rows = lookup_by svc_id i rows"

definition service_get_by_name :: "string \<Rightarrow> catalog_service list \<Rightarrow> catalog_service option" where
  "service_get_by_name name rows = lookup_by svc_name name rows"

definition service_insert :: "catalog_service \<Rightarrow> catalog_service list \<Rightarrow> catalog_service list option" where
  "service_insert s rows =
     (case stored_service s of
        None \<Rightarrow> None
      | Some row \<Rightarrow>
          if lookup_by svc_id (svc_id row) rows \<noteq> None \<or> lookup_by svc_name (svc_name row) rows \<noteq> None
          then None else Some (rows @ [row]))"

definition service_replace :: "catalog_service \<Rightarrow> catalog_service list \<Rightarrow> catalog_service list option" where
  "service_replace s rows =
     (if lookup_by svc_id (svc_id s) rows = None then None
      else case stored_service s of
        None \<Rightarrow> None
      | Some row \<Rightarrow>
          if \<exists>r \<in> set rows. svc_id r \<noteq> svc_id s \<and> svc_name r = svc_name row then None
          else Some (update_where (\<lambda>r. svc_id r = svc_id s) (\<lambda>_. row) rows))"

definition service_remove :: "uuid \<Rightarrow> catalog_db \<Rightarrow> catalog_db" where
  "service_remove i db =
     db\<lparr>cdb_services := delete_where (\<lambda>s. svc_id s = i) (cdb_services db),
        cdb_incidents := delete_where (\<lambda>x. inc_service_id x = i) (cdb_incidents db)\<rparr>"

section \<open>The application service\<close>

definition list_services_op ::
    "(string \<Rightarrow> 'k::linorder) \<Rightarrow> string option \<Rightarrow> service_status option \<Rightarrow> nat \<Rightarrow> nat \<Rightarrow>
     (catalog_db, catalog_error, catalog_service list) operation" where
  "list_services_op collation search status offset limit db =
     (Inr (service_list collation search status offset limit (cdb_services db)), db)"

definition service_not_found :: "uuid \<Rightarrow> catalog_error" where
  "service_not_found i = ServiceNotFoundError (''Service '' @ uuid_str i @ '' was not found.'')"

definition service_service_get :: "uuid \<Rightarrow> (catalog_db, catalog_error, catalog_service) operation" where
  "service_service_get i db =
     (case service_get_by_id i (cdb_services db) of
        None \<Rightarrow> (Inl (service_not_found i), db)
      | Some s \<Rightarrow> (Inr s, db))"

definition new_service :: "uuid \<Rightarrow> service_create \<Rightarrow> catalog_service" where
  "new_service i p =
     \<lparr>svc_id = i, svc_name = csv_name p, svc_owner = csv_owner p, svc_status = csv_status p,
      svc_uptime = csv_uptime p, svc_latency_ms = csv_latency_ms p, svc_description = csv_description p,
      svc_region = csv_region p, svc_version = csv_version p, svc_last_deployed_at = csv_last_deployed_at p,
      svc_dependencies = csv_dependencies p\<rparr>"

definition service_service_create ::
    "uuid \<Rightarrow> service_create \<Rightarrow> (catalog_db, catalog_error, catalog_service) operation" where
  "service_service_create fresh_id p db =
     (case service_get_by_name (csv_name p) (cdb_services db) of
        Some _ \<Rightarrow> (Inl (ServiceNameConflictError
          (''A service named '' @ [CHR 0x27] @ csv_name p @ [CHR 0x27] @ '' already exists.'')), db)
      | None \<Rightarrow>
          (case service_insert (new_service fresh_id p) (cdb_services db) of
             None \<Rightarrow> (Inl CatalogUnhandled, db)
           | Some rows \<Rightarrow> (Inr (new_service fresh_id p), db\<lparr>cdb_services := rows\<rparr>)))"

definition sent_null :: "'a option option \<Rightarrow> bool" where
  "sent_null field \<longleftrightarrow> field = Some None"

definition changed :: "'a option option \<Rightarrow> 'a \<Rightarrow> 'a" where
  "changed field old = (case field of Some (Some new) \<Rightarrow> new | _ \<Rightarrow> old)"

definition updated_service :: "catalog_service \<Rightarrow> service_update \<Rightarrow> catalog_service" where
  "updated_service existing p =
     existing\<lparr>svc_name := changed (usv_name p) (svc_name existing),
       svc_owner := changed (usv_owner p) (svc_owner existing),
       svc_status := changed (usv_status p) (svc_status existing),
       svc_uptime := changed (usv_uptime p) (svc_uptime existing),
       svc_latency_ms := changed (usv_latency_ms p) (svc_latency_ms existing),
       svc_description := changed (usv_description p) (svc_description existing),
       svc_region := changed (usv_region p) (svc_region existing),
       svc_version := changed (usv_version p) (svc_version existing),
       svc_last_deployed_at := changed (usv_last_deployed_at p) (svc_last_deployed_at existing),
       svc_dependencies := changed (usv_dependencies p) (svc_dependencies existing)\<rparr>"

text \<open>
  An explicit \<open>null\<close> reaches \<open>replace\<close>: the columns are NOT NULL and the dependencies are iterated, so
  the flush (or the assignment) raises an exception no handler catches.
\<close>

definition update_sends_null :: "service_update \<Rightarrow> bool" where
  "update_sends_null p \<longleftrightarrow>
     sent_null (usv_name p) \<or> sent_null (usv_owner p) \<or> sent_null (usv_status p) \<or> sent_null (usv_uptime p) \<or>
     sent_null (usv_latency_ms p) \<or> sent_null (usv_description p) \<or> sent_null (usv_region p) \<or>
     sent_null (usv_version p) \<or> sent_null (usv_last_deployed_at p) \<or> sent_null (usv_dependencies p)"

definition name_taken :: "uuid \<Rightarrow> service_update \<Rightarrow> catalog_service list \<Rightarrow> bool" where
  "name_taken i p rows =
     (case usv_name p of
        Some (Some name) \<Rightarrow> (case service_get_by_name name rows of None \<Rightarrow> False | Some other \<Rightarrow> svc_id other \<noteq> i)
      | _ \<Rightarrow> False)"

definition service_service_update ::
    "uuid \<Rightarrow> service_update \<Rightarrow> (catalog_db, catalog_error, catalog_service) operation" where
  "service_service_update i p db =
     (case service_get_by_id i (cdb_services db) of
        None \<Rightarrow> (Inl (service_not_found i), db)
      | Some existing \<Rightarrow>
          if name_taken i p (cdb_services db)
          then (Inl (ServiceNameConflictError
            (''A service named '' @ [CHR 0x22] @ changed (usv_name p) [] @ [CHR 0x22] @ '' already exists.'')), db)
          else if update_sends_null p then (Inl CatalogUnhandled, db)
          else (case service_replace (updated_service existing p) (cdb_services db) of
                  None \<Rightarrow> (Inl CatalogUnhandled, db)
                | Some rows \<Rightarrow> (Inr (updated_service existing p), db\<lparr>cdb_services := rows\<rparr>)))"

definition service_service_delete :: "uuid \<Rightarrow> (catalog_db, catalog_error, unit) operation" where
  "service_service_delete i db =
     (case service_service_get i db of
        (Inl e, db') \<Rightarrow> (Inl e, db')
      | (Inr _, db') \<Rightarrow> (Inr (), service_remove i db'))"

end
