(* ===== verification/Local_Incidents.thy ===== *)
theory Local_Incidents
  imports Service_Catalog Incident_Invariants
begin

text \<open>
  Incident Management inside the core backend, used when \<open>incident_gateway_mode\<close> is not \<open>http\<close>:
  \<open>repositories/sqlalchemy_incident_repository.py\<close>, \<open>services/incident_service.py\<close>,
  \<open>gateways/local_service_catalog_gateway.py\<close> and \<open>gateways/local_incident_gateway.py\<close> of
  \<open>src/backend/app\<close>. Its statements are those of \<open>Incident_Store\<close>; its table also has a foreign key to
  the services. \<open>incident_gateway\<close> is the protocol of \<open>gateways/incident_gateway.py\<close>, with the HTTP
  adapter of \<open>Incident_Gateway\<close> as its other implementation. A request's clock readings and UUID are
  the fields \<open>idr_incident_id\<close>, \<open>idr_now\<close>, \<open>idr_resolved_now\<close>, \<open>idr_updated_now\<close> of \<open>incident_draws\<close>.
\<close>

section \<open>The protocol\<close>

record 'w incident_gateway =
  igw_list :: "string option \<Rightarrow> uuid option \<Rightarrow> incident_severity option \<Rightarrow> incident_status option \<Rightarrow>
    int \<Rightarrow> int \<Rightarrow> ('w, gateway_exception, incident list) operation"
  igw_get_by_id :: "uuid \<Rightarrow> ('w, gateway_exception, incident) operation"
  igw_create :: "incident_create \<Rightarrow> ('w, gateway_exception, incident) operation"
  igw_update :: "uuid \<Rightarrow> incident_update \<Rightarrow> ('w, gateway_exception, incident) operation"
  igw_delete :: "uuid \<Rightarrow> ('w, gateway_exception, unit) operation"
  igw_list_for_service :: "uuid \<Rightarrow> int \<Rightarrow> int \<Rightarrow> ('w, gateway_exception, incident list) operation"

section \<open>The repository\<close>

definition local_repository_create :: "incident \<Rightarrow> (catalog_db, gateway_exception, incident) operation" where
  "local_repository_create i db =
     (if service_get_by_id (inc_service_id i) (cdb_services db) = None
      then (Inl (OtherException ''IntegrityError''), db)
      else case incident_insert i (cdb_incidents db) of
             Inl _ \<Rightarrow> (Inl (OtherException ''IntegrityError''), db)
           | Inr rows \<Rightarrow> (Inr i, db\<lparr>cdb_incidents := rows\<rparr>))"

definition local_repository_update :: "incident \<Rightarrow> (catalog_db, gateway_exception, incident) operation" where
  "local_repository_update i db =
     (case incident_replace i (cdb_incidents db) of
        Inl _ \<Rightarrow> (Inl (OtherException ''LookupError''), db)
      | Inr rows \<Rightarrow>
          if service_get_by_id (inc_service_id i) (cdb_services db) = None
          then (Inl (OtherException ''IntegrityError''), db)
          else (Inr i, db\<lparr>cdb_incidents := rows\<rparr>))"

definition local_repository_delete :: "uuid \<Rightarrow> catalog_db \<Rightarrow> catalog_db" where
  "local_repository_delete i db = db\<lparr>cdb_incidents := incident_remove i (cdb_incidents db)\<rparr>"

section \<open>The service\<close>

definition local_service_exists :: "uuid \<Rightarrow> catalog_db \<Rightarrow> bool" where
  "local_service_exists service_id db \<longleftrightarrow> service_get_by_id service_id (cdb_services db) \<noteq> None"

definition local_ensure_service_exists :: "uuid \<Rightarrow> catalog_db \<Rightarrow> gateway_exception option" where
  "local_ensure_service_exists service_id db =
     (if \<not> local_service_exists service_id db
      then Some (IncidentServiceReferenceError (''Service '' @ uuid_str service_id @ '' does not exist.''))
      else None)"

definition local_incident_list ::
    "string option \<Rightarrow> uuid option \<Rightarrow> incident_severity option \<Rightarrow> incident_status option \<Rightarrow> int \<Rightarrow> int \<Rightarrow>
     (catalog_db, gateway_exception, incident list) operation" where
  "local_incident_list search service_id severity status offset limit db =
     (Inr (incident_list search service_id severity status (nat offset) (nat limit) (cdb_incidents db)), db)"

definition local_incident_get :: "uuid \<Rightarrow> (catalog_db, gateway_exception, incident) operation" where
  "local_incident_get i db =
     (case incident_get_by_id i (cdb_incidents db) of
        None \<Rightarrow> (Inl (IncidentNotFoundError (''Incident '' @ uuid_str i @ '' was not found.'')), db)
      | Some x \<Rightarrow> (Inr x, db))"

definition local_new_incident :: "incident_draws \<Rightarrow> incident_create \<Rightarrow> incident" where
  "local_new_incident d p =
     \<lparr>inc_id = idr_incident_id d, inc_title = crt_title p, inc_service_id = crt_service_id p,
      inc_severity = crt_severity p, inc_status = crt_status p, inc_summary = crt_summary p,
      inc_assignee = crt_assignee p,
      inc_started_at = (case crt_started_at p of None \<Rightarrow> idr_now d | Some t \<Rightarrow> t),
      inc_resolved_at = (if crt_status p = Status_RESOLVED then Some (idr_now d) else None),
      inc_created_at = idr_now d, inc_updated_at = idr_now d, inc_source = ''manual'',
      inc_customer_impacting = False, inc_acknowledged_at = None,
      inc_reported_by_email = crt_reported_by_email p\<rparr>"

definition local_incident_create ::
    "incident_draws \<Rightarrow> incident_create \<Rightarrow> (catalog_db, gateway_exception, incident) operation" where
  "local_incident_create d p db =
     (case local_ensure_service_exists (crt_service_id p) db of
        Some e \<Rightarrow> (Inl e, db)
      | None \<Rightarrow> local_repository_create (local_new_incident d p) db)"

definition local_resolved_at :: "instant \<Rightarrow> incident \<Rightarrow> incident_status \<Rightarrow> instant option" where
  "local_resolved_at now existing updated_status =
     (if inc_status existing \<noteq> Status_RESOLVED \<and> updated_status = Status_RESOLVED then Some now
      else if inc_status existing = Status_RESOLVED \<and> updated_status \<noteq> Status_RESOLVED then None
      else inc_resolved_at existing)"

definition local_updated_incident :: "incident_draws \<Rightarrow> incident \<Rightarrow> incident_update \<Rightarrow> incident" where
  "local_updated_incident d existing p =
     (let status = given (upd_status p) (inc_status existing)
      in existing\<lparr>inc_title := given (upd_title p) (inc_title existing),
           inc_service_id := given (upd_service_id p) (inc_service_id existing),
           inc_severity := given (upd_severity p) (inc_severity existing),
           inc_status := status,
           inc_summary := given (upd_summary p) (inc_summary existing),
           inc_assignee := given (upd_assignee p) (inc_assignee existing),
           inc_started_at := given (upd_started_at p) (inc_started_at existing),
           inc_resolved_at := local_resolved_at (idr_resolved_now d) existing status,
           inc_updated_at := idr_updated_now d\<rparr>)"

definition local_incident_update ::
    "incident_draws \<Rightarrow> uuid \<Rightarrow> incident_update \<Rightarrow> (catalog_db, gateway_exception, incident) operation" where
  "local_incident_update d i p db =
     (case local_incident_get i db of
        (Inl e, db) \<Rightarrow> (Inl e, db)
      | (Inr existing, db) \<Rightarrow>
          (case Option.bind (upd_service_id p) (\<lambda>s. local_ensure_service_exists s db) of
             Some e \<Rightarrow> (Inl e, db)
           | None \<Rightarrow> local_repository_update (local_updated_incident d existing p) db))"

definition local_incident_delete :: "uuid \<Rightarrow> (catalog_db, gateway_exception, unit) operation" where
  "local_incident_delete i db =
     (case local_incident_get i db of
        (Inl e, db) \<Rightarrow> (Inl e, db)
      | (Inr _, db) \<Rightarrow> (Inr (), local_repository_delete i db))"

definition local_incident_list_for_service ::
    "uuid \<Rightarrow> int \<Rightarrow> int \<Rightarrow> (catalog_db, gateway_exception, incident list) operation" where
  "local_incident_list_for_service service_id offset limit db =
     (if \<not> local_service_exists service_id db then (Inl (IncidentNotFoundError (uuid_str service_id)), db)
      else (Inr (incident_list_by_service service_id (nat offset) (nat limit) (cdb_incidents db)), db))"

section \<open>The adapters\<close>

definition local_incident_gateway :: "incident_draws \<Rightarrow> catalog_db incident_gateway" where
  "local_incident_gateway d =
     \<lparr>igw_list = local_incident_list, igw_get_by_id = local_incident_get,
      igw_create = local_incident_create d, igw_update = local_incident_update d,
      igw_delete = local_incident_delete, igw_list_for_service = local_incident_list_for_service\<rparr>"

definition http_incident_gateway ::
    "incident_codec \<Rightarrow> gateway_config \<Rightarrow> gateway_env \<Rightarrow> gateway_world incident_gateway" where
  "http_incident_gateway codec cfg env =
     \<lparr>igw_list = gateway_list codec cfg env, igw_get_by_id = gateway_get_by_id codec cfg env,
      igw_create = gateway_create codec cfg env, igw_update = gateway_update codec cfg env,
      igw_delete = gateway_delete cfg env, igw_list_for_service = gateway_list_for_service codec cfg env\<rparr>"

end
