(* ===== verification/Backend_Routes.thy ===== *)
theory Backend_Routes
  imports Local_Incidents Auth_Routes
begin

text \<open>
  The core backend's authenticated application routes (\<open>api/routes/services.py\<close>, \<open>incidents.py\<close>,
  \<open>overview.py\<close>, \<open>internal_services.py\<close>, \<open>api/incident_gateway_errors.py\<close>,
  \<open>services/overview_service.py\<close>, \<open>require_permission\<close> and \<open>get_incident_gateway\<close> of
  \<open>api/dependencies.py\<close>, under \<open>src/backend/app\<close>).

  The world of a request is the database (\<open>bkw_catalog\<close>), which a raised exception rolls back, and what
  the incident gateway keeps in the process (\<open>bkw_gateway\<close>), which it does not. A handler returns
  \<open>Inl\<close> the reply of a raised exception or \<open>Inr\<close> the reply of a normal return. An exception no handler
  catches is the reply 500. Bodies are the parsed request models; the response body is the domain value.
\<close>

section \<open>Replies\<close>

record overview =
  ovw_total_services :: nat
  ovw_healthy_services :: nat
  ovw_degraded_services :: nat
  ovw_critical_services :: nat
  ovw_active_incidents :: "nat option"
  ovw_customer_impacting_incidents :: "nat option"
  ovw_services :: "catalog_service list"
  ovw_incidents :: "incident list"
  ovw_incident_data_available :: bool

record backend_reply =
  brp_status :: int
  brp_services :: "catalog_service list"
  brp_incidents :: "incident list"
  brp_overview :: "overview option"
  brp_detail :: string
  brp_retry_after :: "int option"

definition reply_of :: "int \<Rightarrow> catalog_service list \<Rightarrow> incident list \<Rightarrow> backend_reply" where
  "reply_of status services incidents =
     \<lparr>brp_status = status, brp_services = services, brp_incidents = incidents, brp_overview = None,
      brp_detail = [], brp_retry_after = None\<rparr>"

definition failure :: "int \<Rightarrow> string \<Rightarrow> backend_reply" where
  "failure status detail = (reply_of status [] [])\<lparr>brp_detail := detail\<rparr>"

definition server_error :: backend_reply where
  "server_error = failure 500 ''Internal Server Error''"

section \<open>The world and the gateway in use\<close>

record 'g backend_world =
  bkw_catalog :: catalog_db
  bkw_gateway :: 'g

definition on_catalog :: "(catalog_db, 'e, 'a) operation \<Rightarrow> ('g backend_world, 'e, 'a) operation" where
  "on_catalog m w = (case m (bkw_catalog w) of (r, db) \<Rightarrow> (r, w\<lparr>bkw_catalog := db\<rparr>))"

definition on_gateway :: "('g, 'e, 'a) operation \<Rightarrow> ('g backend_world, 'e, 'a) operation" where
  "on_gateway m w = (case m (bkw_gateway w) of (r, g) \<Rightarrow> (r, w\<lparr>bkw_gateway := g\<rparr>))"

definition local_gateway :: "incident_draws \<Rightarrow> 'g backend_world incident_gateway" where
  "local_gateway d =
     (let gw = local_incident_gateway d
      in \<lparr>igw_list = \<lambda>search service_id severity status offset limit.
            on_catalog (igw_list gw search service_id severity status offset limit),
          igw_get_by_id = \<lambda>i. on_catalog (igw_get_by_id gw i),
          igw_create = \<lambda>p. on_catalog (igw_create gw p),
          igw_update = \<lambda>i p. on_catalog (igw_update gw i p),
          igw_delete = \<lambda>i. on_catalog (igw_delete gw i),
          igw_list_for_service = \<lambda>i offset limit. on_catalog (igw_list_for_service gw i offset limit)\<rparr>)"

definition remote_gateway :: "'g incident_gateway \<Rightarrow> 'g backend_world incident_gateway" where
  "remote_gateway gw =
     \<lparr>igw_list = \<lambda>search service_id severity status offset limit.
        on_gateway (igw_list gw search service_id severity status offset limit),
      igw_get_by_id = \<lambda>i. on_gateway (igw_get_by_id gw i),
      igw_create = \<lambda>p. on_gateway (igw_create gw p),
      igw_update = \<lambda>i p. on_gateway (igw_update gw i p),
      igw_delete = \<lambda>i. on_gateway (igw_delete gw i),
      igw_list_for_service = \<lambda>i offset limit. on_gateway (igw_list_for_service gw i offset limit)\<rparr>"

definition get_incident_gateway ::
    "string \<Rightarrow> incident_codec \<Rightarrow> gateway_config \<Rightarrow> gateway_env \<Rightarrow> incident_draws \<Rightarrow>
     gateway_world backend_world incident_gateway" where
  "get_incident_gateway incident_gateway_mode codec cfg env d =
     (if incident_gateway_mode = ''http'' then remote_gateway (http_incident_gateway codec cfg env)
      else local_gateway d)"

section \<open>Errors\<close>

text \<open>\<open>None\<close> for an exception that is not an \<open>IncidentGatewayError\<close>.\<close>

fun incident_gateway_http_exception :: "gateway_exception \<Rightarrow> backend_reply option" where
  "incident_gateway_http_exception (IncidentGatewayCircuitOpenError seconds_left) =
     Some ((failure 503 ''Incident service is unavailable.'')\<lparr>brp_retry_after := Some seconds_left\<rparr>)"
| "incident_gateway_http_exception (IncidentGatewayUnavailableError _) =
     Some (failure 503 ''Incident service is unavailable.'')"
| "incident_gateway_http_exception (IncidentGatewayProtocolError _) =
     Some (failure 502 ''Incident service returned an invalid response.'')"
| "incident_gateway_http_exception _ = None"

definition answer ::
    "(gateway_exception \<Rightarrow> backend_reply option) \<Rightarrow> ('a \<Rightarrow> backend_reply) \<Rightarrow>
     (gateway_exception + 'a) \<times> 'w \<Rightarrow> (backend_reply + backend_reply) \<times> 'w" where
  "answer handler success outcome =
     (case outcome of
        (Inr x, w) \<Rightarrow> (Inr (success x), w)
      | (Inl e, w) \<Rightarrow>
          (case handler e of
             Some reply \<Rightarrow> (Inl reply, w)
           | None \<Rightarrow> (case incident_gateway_http_exception e of
                         Some reply \<Rightarrow> (Inl reply, w)
                       | None \<Rightarrow> (Inl server_error, w))))"

fun incident_missing :: "gateway_exception \<Rightarrow> backend_reply option" where
  "incident_missing (IncidentNotFoundError detail) = Some (failure 404 detail)"
| "incident_missing _ = None"

fun reference_missing :: "gateway_exception \<Rightarrow> backend_reply option" where
  "reference_missing (IncidentServiceReferenceError detail) = Some (failure 404 detail)"
| "reference_missing _ = None"

fun update_refused :: "gateway_exception \<Rightarrow> backend_reply option" where
  "update_refused (IncidentNotFoundError detail) = Some (failure 404 detail)"
| "update_refused (IncidentServiceReferenceError detail) = Some (failure 400 detail)"
| "update_refused _ = None"

fun catalog_failure :: "catalog_error \<Rightarrow> backend_reply" where
  "catalog_failure (ServiceNotFoundError detail) = failure 404 detail"
| "catalog_failure (ServiceNameConflictError detail) = failure 409 detail"
| "catalog_failure CatalogUnhandled = server_error"

definition catalog_answer_of ::
    "('a \<Rightarrow> backend_reply) \<Rightarrow> (catalog_error + 'a) \<times> 'w \<Rightarrow> (backend_reply + backend_reply) \<times> 'w" where
  "catalog_answer_of success outcome =
     (case outcome of (Inr x, w) \<Rightarrow> (Inr (success x), w) | (Inl e, w) \<Rightarrow> (Inl (catalog_failure e), w))"

section \<open>Incident routes\<close>

type_synonym 'g route = "('g backend_world, backend_reply, backend_reply) operation"

definition public_list_incidents ::
    "'g backend_world incident_gateway \<Rightarrow> string option \<Rightarrow> uuid option \<Rightarrow> incident_severity option \<Rightarrow>
     incident_status option \<Rightarrow> int \<Rightarrow> int \<Rightarrow> 'g route" where
  "public_list_incidents gw search service_id severity status offset limit w =
     answer (\<lambda>_. None) (reply_of 200 []) (igw_list gw search service_id severity status offset limit w)"

definition public_get_incident :: "'g backend_world incident_gateway \<Rightarrow> uuid \<Rightarrow> 'g route" where
  "public_get_incident gw i w = answer incident_missing (\<lambda>x. reply_of 200 [] [x]) (igw_get_by_id gw i w)"

definition public_create_incident ::
    "'g backend_world incident_gateway \<Rightarrow> user \<Rightarrow> incident_create \<Rightarrow> 'g route" where
  "public_create_incident gw current_user payload w =
     (let stamped_payload = payload\<lparr>crt_reported_by_email := Some (usr_email current_user)\<rparr>
      in answer reference_missing (\<lambda>x. reply_of 201 [] [x]) (igw_create gw stamped_payload w))"

definition public_update_incident ::
    "'g backend_world incident_gateway \<Rightarrow> uuid \<Rightarrow> incident_update \<Rightarrow> 'g route" where
  "public_update_incident gw i payload w =
     answer update_refused (\<lambda>x. reply_of 200 [] [x]) (igw_update gw i payload w)"

definition public_delete_incident :: "'g backend_world incident_gateway \<Rightarrow> uuid \<Rightarrow> 'g route" where
  "public_delete_incident gw i w = answer incident_missing (\<lambda>_. reply_of 204 [] []) (igw_delete gw i w)"

section \<open>Service routes\<close>

definition list_services ::
    "(string \<Rightarrow> 'k::linorder) \<Rightarrow> string option \<Rightarrow> service_status option \<Rightarrow> int \<Rightarrow> int \<Rightarrow> 'g route" where
  "list_services collation search status offset limit w =
     catalog_answer_of (\<lambda>services. reply_of 200 services [])
       (on_catalog (list_services_op collation search status (nat offset) (nat limit)) w)"

definition get_service :: "uuid \<Rightarrow> 'g route" where
  "get_service i w = catalog_answer_of (\<lambda>s. reply_of 200 [s] []) (on_catalog (service_service_get i) w)"

definition list_service_incidents ::
    "'g backend_world incident_gateway \<Rightarrow> uuid \<Rightarrow> int \<Rightarrow> int \<Rightarrow> 'g route" where
  "list_service_incidents gw i offset limit w =
     (case on_catalog (service_service_get i) w of
        (Inl e, w1) \<Rightarrow> (Inl (catalog_failure e), w1)
      | (Inr _, w1) \<Rightarrow> answer incident_missing (reply_of 200 []) (igw_list_for_service gw i offset limit w1))"

definition create_service :: "uuid \<Rightarrow> service_create \<Rightarrow> 'g route" where
  "create_service fresh_id payload w =
     catalog_answer_of (\<lambda>s. reply_of 201 [s] []) (on_catalog (service_service_create fresh_id payload) w)"

definition update_service :: "uuid \<Rightarrow> service_update \<Rightarrow> 'g route" where
  "update_service i payload w =
     catalog_answer_of (\<lambda>s. reply_of 200 [s] []) (on_catalog (service_service_update i payload) w)"

definition delete_service :: "uuid \<Rightarrow> 'g route" where
  "delete_service i w = catalog_answer_of (\<lambda>_. reply_of 204 [] []) (on_catalog (service_service_delete i) w)"

section \<open>The overview\<close>

definition OVERVIEW_COLLECTION_LIMIT :: nat where "OVERVIEW_COLLECTION_LIMIT = 100"

definition build_overview :: "catalog_service list \<Rightarrow> incident list option \<Rightarrow> overview" where
  "build_overview services incidents =
     (let active = map_option (filter (\<lambda>i. inc_status i \<noteq> Status_RESOLVED)) incidents
      in \<lparr>ovw_total_services = length services,
          ovw_healthy_services = count_where (\<lambda>s. svc_status s = HEALTHY) services,
          ovw_degraded_services = count_where (\<lambda>s. svc_status s = DEGRADED) services,
          ovw_critical_services = count_where (\<lambda>s. svc_status s = CRITICAL) services,
          ovw_active_incidents = map_option length active,
          ovw_customer_impacting_incidents = map_option (count_where inc_customer_impacting) active,
          ovw_services = services,
          ovw_incidents = (case incidents of None \<Rightarrow> [] | Some is \<Rightarrow> is),
          ovw_incident_data_available = (incidents \<noteq> None)\<rparr>)"

definition get_overview ::
    "(string \<Rightarrow> 'k::linorder) \<Rightarrow> 'g backend_world incident_gateway \<Rightarrow> 'g route" where
  "get_overview collation gw w =
     (case on_catalog (list_services_op collation None None 0 OVERVIEW_COLLECTION_LIMIT) w of
        (Inl e, w1) \<Rightarrow> (Inl (catalog_failure e), w1)
      | (Inr services, w1) \<Rightarrow>
          (case igw_list gw None None None None 0 (int OVERVIEW_COLLECTION_LIMIT) w1 of
             (Inl e, w2) \<Rightarrow>
               (if incident_gateway_http_exception e = None then (Inl server_error, w2)
                else (Inr ((reply_of 200 [] [])\<lparr>brp_overview := Some (build_overview services None)\<rparr>), w2))
           | (Inr incidents, w2) \<Rightarrow>
               (Inr ((reply_of 200 [] [])\<lparr>brp_overview := Some (build_overview services (Some incidents))\<rparr>), w2)))"

section \<open>Serving a public request\<close>

datatype public_endpoint =
    PublicListIncidents "string option" "uuid option" "incident_severity option" "incident_status option" int int
  | PublicGetIncident uuid
  | PublicCreateIncident incident_create
  | PublicUpdateIncident uuid incident_update
  | PublicDeleteIncident uuid
  | ListServices "string option" "service_status option" int int
  | GetService uuid
  | ListServiceIncidents uuid int int
  | CreateService uuid service_create
  | UpdateService uuid service_update
  | DeleteService uuid
  | GetOverview

fun endpoint_permission :: "public_endpoint \<Rightarrow> permission" where
  "endpoint_permission (PublicCreateIncident _) = INCIDENT_CREATE"
| "endpoint_permission (PublicUpdateIncident _ _) = INCIDENT_UPDATE"
| "endpoint_permission (PublicDeleteIncident _) = INCIDENT_DELETE"
| "endpoint_permission (CreateService _ _) = SERVICE_CREATE"
| "endpoint_permission (UpdateService _ _) = SERVICE_UPDATE"
| "endpoint_permission (DeleteService _) = SERVICE_DELETE"
| "endpoint_permission _ = SERVICE_READ"

definition page_valid :: "int \<Rightarrow> int \<Rightarrow> bool" where
  "page_valid offset limit \<longleftrightarrow> 0 \<le> offset \<and> 1 \<le> limit \<and> limit \<le> 100"

text \<open>The handler of an endpoint on its validated input; \<open>None\<close> is the reply 422.\<close>

fun public_handler ::
    "(string \<Rightarrow> 'k::linorder) \<Rightarrow> 'g backend_world incident_gateway \<Rightarrow> user \<Rightarrow> public_endpoint \<Rightarrow> 'g route option" where
  "public_handler collation gw u (PublicListIncidents search service_id severity status offset limit) =
     (if page_valid offset limit
      then Some (public_list_incidents gw search service_id severity status offset limit) else None)"
| "public_handler collation gw u (PublicGetIncident i) = Some (public_get_incident gw i)"
| "public_handler collation gw u (PublicCreateIncident p) =
     (if incident_create_valid p then Some (public_create_incident gw u p) else None)"
| "public_handler collation gw u (PublicUpdateIncident i p) =
     (if incident_update_valid p then Some (public_update_incident gw i p) else None)"
| "public_handler collation gw u (PublicDeleteIncident i) = Some (public_delete_incident gw i)"
| "public_handler collation gw u (ListServices search status offset limit) =
     (if page_valid offset limit then Some (list_services collation search status offset limit) else None)"
| "public_handler collation gw u (GetService i) = Some (get_service i)"
| "public_handler collation gw u (ListServiceIncidents i offset limit) =
     (if page_valid offset limit then Some (list_service_incidents gw i offset limit) else None)"
| "public_handler collation gw u (CreateService fresh_id p) =
     map_option (create_service fresh_id) (validate_service_create p)"
| "public_handler collation gw u (UpdateService i p) = map_option (update_service i) (validate_service_update p)"
| "public_handler collation gw u (DeleteService i) = Some (delete_service i)"
| "public_handler collation gw u GetOverview = Some (get_overview collation gw)"

definition db_unit_of_work :: "'g route \<Rightarrow> 'g backend_world \<Rightarrow> backend_reply \<times> 'g backend_world" where
  "db_unit_of_work handler w =
     (case handler w of
        (Inr reply, w') \<Rightarrow> (reply, w')
      | (Inl reply, w') \<Rightarrow> (reply, w'\<lparr>bkw_catalog := bkw_catalog w\<rparr>))"

fun exit_status :: "handler_exit \<Rightarrow> int" where
  "exit_status (Returned r) = rp_status r"
| "exit_status (Raised r) = rp_status r"

definition permission_dependency ::
    "security \<Rightarrow> auth_draws \<Rightarrow> auth_request \<Rightarrow> permission \<Rightarrow> auth_app \<Rightarrow> (backend_reply + user) \<times> auth_app" where
  "permission_dependency sec d req p app =
     (case get_current_user sec d req app of
        (Inl e, app1) \<Rightarrow> (Inl (failure (exit_status e) ''Could not validate credentials.''), app1)
      | (Inr u, app1) \<Rightarrow>
          (case require_permission u p of
             Some _ \<Rightarrow> (Inl (failure 403 ''You do not have permission to perform this action.''), app1)
           | None \<Rightarrow> (Inr u, app1)))"

definition public_serve ::
    "security \<Rightarrow> (string \<Rightarrow> 'k::linorder) \<Rightarrow> 'g backend_world incident_gateway \<Rightarrow> auth_draws \<Rightarrow> auth_request \<Rightarrow>
     public_endpoint \<Rightarrow> auth_app \<times> 'g backend_world \<Rightarrow> backend_reply \<times> auth_app \<times> 'g backend_world" where
  "public_serve sec collation gw d req ep s =
     (case permission_dependency sec d req (endpoint_permission ep) (fst s) of
        (Inl reply, app1) \<Rightarrow> (reply, app1, snd s)
      | (Inr u, app1) \<Rightarrow>
          (case public_handler collation gw u ep of
             None \<Rightarrow> (failure 422 [], app1, snd s)
           | Some handler \<Rightarrow> (case db_unit_of_work handler (snd s) of (reply, w) \<Rightarrow> (reply, app1, w))))"

end
