(* ===== verification/Catalog_Invariants.thy ===== *)
theory Catalog_Invariants
  imports Backend_Routes
begin

text \<open>
  The invariant of the core backend's service and incident tables and its preservation by every public
  request, whichever incident gateway is configured. The locale \<open>catalog_gateway\<close> is what the routes
  need of a gateway; both gateways of \<open>get_incident_gateway\<close> interpret it.
\<close>

section \<open>The invariant\<close>

definition stripped :: "string \<Rightarrow> bool" where
  "stripped s \<longleftrightarrow> s \<noteq> [] \<and> py_strip s = s"

definition service_texts_stripped :: "catalog_service \<Rightarrow> bool" where
  "service_texts_stripped s \<longleftrightarrow>
     stripped (svc_name s) \<and> stripped (svc_owner s) \<and> stripped (svc_region s) \<and> stripped (svc_version s)"

definition service_ok :: "catalog_service \<Rightarrow> bool" where
  "service_ok s \<longleftrightarrow>
     service_texts_stripped s \<and>
     length (svc_name s) \<le> 120 \<and> length (svc_owner s) \<le> 120 \<and> length (svc_uptime s) \<le> 30 \<and>
     length (svc_region s) \<le> 80 \<and> length (svc_version s) \<le> 50 \<and>
     0 \<le> svc_latency_ms s \<and> svc_latency_ms s < 2 ^ 31 \<and>
     distinct (svc_dependencies s) \<and> (\<forall>t \<in> set (svc_dependencies s). length t \<le> 120)"

definition services_ok :: "catalog_service list \<Rightarrow> bool" where
  "services_ok rows \<longleftrightarrow> unique_key svc_id rows \<and> unique_key svc_name rows \<and> (\<forall>s \<in> set rows. service_ok s)"

definition catalog_ok :: "catalog_db \<Rightarrow> bool" where
  "catalog_ok db \<longleftrightarrow>
     services_ok (cdb_services db) \<and>
     unique_key inc_id (cdb_incidents db) \<and> (\<forall>i \<in> set (cdb_incidents db). incident_ok i) \<and>
     (\<forall>i \<in> set (cdb_incidents db). service_get_by_id (inc_service_id i) (cdb_services db) \<noteq> None)"

section \<open>Column types\<close>

lemma varchar_length: "varchar n s = Some t \<Longrightarrow> length t \<le> n"
  by (auto simp: varchar_def split: if_splits)

lemma varchar_stripped:
  assumes "varchar n s = Some t" and "stripped s"
  shows "t = s"
proof (rule ccontr)
  assume "t \<noteq> s"
  with assms(1) have long: "n < length s" and spaces: "list_all (\<lambda>c. c = CHR '' '') (drop n s)"
    by (auto simp: varchar_def split: if_splits)
  have "last (drop n s) \<in> set (drop n s)" using long by (intro last_in_set) simp
  then have "last s = CHR '' ''" using spaces long by (simp add: list_all_iff)
  moreover have "\<not> char_space (last s)"
    using py_strip_ends [of s] assms(2) by (auto simp: stripped_def)
  ultimately show False by (simp add: char_space_def)
qed

lemma varchars_length: "varchars n ss = Some ts \<Longrightarrow> \<forall>t \<in> set ts. length t \<le> n"
  by (induction ss arbitrary: ts) (auto dest: varchar_length split: option.splits)

lemma stored_service_id: "stored_service s = Some row \<Longrightarrow> svc_id row = svc_id s"
  by (auto simp: stored_service_def split: option.splits if_splits)

lemma stored_service_ok:
  assumes "stored_service s = Some row" and "service_texts_stripped s"
  shows "service_ok row" and "svc_name row = svc_name s"
proof -
  obtain name owner uptime region version dependencies
    where v: "varchar 120 (svc_name s) = Some name" "varchar 120 (svc_owner s) = Some owner"
      "varchar 30 (svc_uptime s) = Some uptime" "varchar 80 (svc_region s) = Some region"
      "varchar 50 (svc_version s) = Some version" "varchars 120 (svc_dependencies s) = Some dependencies"
    and latency: "0 \<le> svc_latency_ms s" "svc_latency_ms s < 2 ^ 31" and "distinct dependencies"
    and row: "row = s\<lparr>svc_name := name, svc_owner := owner, svc_uptime := uptime, svc_region := region,
                     svc_version := version, svc_dependencies := dependencies\<rparr>"
    using assms(1) by (auto simp: stored_service_def split: option.splits if_splits)
  moreover have "name = svc_name s" "owner = svc_owner s" "region = svc_region s" "version = svc_version s"
    using assms(2) v(1,2,4,5) [THEN varchar_stripped] unfolding service_texts_stripped_def by blast+
  ultimately show "service_ok row" and "svc_name row = svc_name s"
    using assms(2) v(1-5) [THEN varchar_length] varchars_length [OF v(6)]
    by (simp_all add: service_ok_def service_texts_stripped_def)
qed

section \<open>Schemas\<close>

lemma strip_required_stripped: "strip_required_strings s = Some t \<Longrightarrow> stripped t"
  by (auto simp: strip_required_strings_def stripped_def Let_def py_strip_idem split: if_splits)

lemma strip_optional_stripped:
  "strip_optional_strings f = Some g \<Longrightarrow> stripped old \<Longrightarrow> stripped (changed g old)"
  by (cases f rule: strip_optional_strings.cases)
    (auto simp: changed_def stripped_def Let_def py_strip_idem split: if_splits)

lemma validated_create_stripped:
  "validate_service_create p0 = Some p \<Longrightarrow> service_texts_stripped (new_service i p)"
  by (auto simp: validate_service_create_def service_texts_stripped_def new_service_def strip_required_stripped
      split: option.splits if_splits)

lemma validated_update_stripped:
  "validate_service_update p0 = Some p \<Longrightarrow> service_texts_stripped s \<Longrightarrow> service_texts_stripped (updated_service s p)"
  by (auto simp: validate_service_update_def service_texts_stripped_def updated_service_def
      intro: strip_optional_stripped split: option.splits if_splits)

section \<open>The catalog's operations\<close>

lemma services_insert_ok:
  assumes "services_ok rows" and "service_insert s rows = Some rows'" and "service_texts_stripped s"
  shows "services_ok rows'"
proof -
  obtain row where "stored_service s = Some row" and "rows' = rows @ [row]"
    and "lookup_by svc_id (svc_id row) rows = None" and "lookup_by svc_name (svc_name row) rows = None"
    using assms(2) by (auto simp: service_insert_def split: option.splits if_splits)
  with assms(1) stored_service_ok(1) [OF _ assms(3)] show ?thesis
    by (auto simp: services_ok_def unique_key_snoc)
qed

lemma unique_key_update_where_const:
  assumes "unique_key k rows" and "\<forall>r \<in> set rows. k r = k x \<longrightarrow> p r"
    and "\<forall>r \<in> set rows. \<forall>r' \<in> set rows. p r \<and> p r' \<longrightarrow> k r = k r'"
  shows "unique_key k (update_where p (\<lambda>_. x) rows)"
  using assms
proof (induction rows)
  case Nil
  then show ?case by (simp add: unique_key_def update_where_def)
next
  case (Cons r rs)
  have fresh: "\<forall>r' \<in> set rs. k r' \<noteq> k r" and uniq: "unique_key k rs"
    using Cons.prems(1) by (auto simp: unique_key_def rev_image_eqI)
  have IH: "unique_key k (update_where p (\<lambda>_. x) rs)"
  proof (rule Cons.IH [OF uniq])
    show "\<forall>r \<in> set rs. k r = k x \<longrightarrow> p r" using Cons.prems(2) by simp
    show "\<forall>r \<in> set rs. \<forall>r' \<in> set rs. p r \<and> p r' \<longrightarrow> k r = k r'"
      using Cons.prems(3) by (blast intro: list.set_intros(2))
  qed
  show ?case
  proof (cases "p r")
    case True
    with Cons.prems(3) fresh have none: "\<forall>r' \<in> set rs. \<not> p r'" by auto
    then have "update_where p (\<lambda>_. x) (r # rs) = x # rs"
      using True by (simp add: update_where_def map_idI)
    moreover have "\<forall>r' \<in> set rs. k r' \<noteq> k x" using none Cons.prems(2) by auto
    ultimately show ?thesis using uniq by (auto simp: unique_key_def)
  next
    case False
    with Cons.prems(2) fresh have "k r \<notin> set (map k (update_where p (\<lambda>_. x) rs))"
      by (auto simp: set_update_where split: if_splits)
    with False IH show ?thesis by (simp add: unique_key_def update_where_def)
  qed
qed

lemma services_replace_ok:
  assumes "services_ok rows" and "service_replace s rows = Some rows'" and "service_texts_stripped s"
  shows "services_ok rows'"
proof -
  obtain row where row: "stored_service s = Some row"
    and free: "\<forall>r \<in> set rows. svc_name r = svc_name row \<longrightarrow> svc_id r = svc_id s"
    and rows': "rows' = update_where (\<lambda>r. svc_id r = svc_id s) (\<lambda>_. row) rows"
    using assms(2) by (auto simp: service_replace_def split: option.splits if_splits)
  note ok = stored_service_ok [OF row assms(3)] and i = stored_service_id [OF row]
  have "unique_key svc_id rows'" using assms(1) i
    by (simp add: services_ok_def unique_key_def rows' update_where_const_key)
  moreover have "unique_key svc_name rows'" unfolding rows'
  proof (rule unique_key_update_where_const)
    show "unique_key svc_name rows" using assms(1) by (simp add: services_ok_def)
    show "\<forall>r \<in> set rows. svc_name r = svc_name row \<longrightarrow> svc_id r = svc_id s" using free ok(2) by simp
    have "unique_key svc_id rows" using assms(1) by (simp add: services_ok_def)
    then have "\<And>r r'. r \<in> set rows \<Longrightarrow> r' \<in> set rows \<Longrightarrow> svc_id r = svc_id r' \<Longrightarrow> r = r'"
      by (auto simp: unique_key_def distinct_map inj_on_def)
    then show "\<forall>r \<in> set rows. \<forall>r' \<in> set rows. svc_id r = svc_id s \<and> svc_id r' = svc_id s \<longrightarrow> svc_name r = svc_name r'"
      by metis
  qed
  ultimately show ?thesis using assms(1) ok(1) by (auto simp: services_ok_def rows' set_update_where)
qed

lemma service_replace_exists:
  assumes "service_replace s rows = Some rows'"
  shows "service_get_by_id i rows' \<noteq> None \<longleftrightarrow> service_get_by_id i rows \<noteq> None"
proof -
  obtain row where "stored_service s = Some row" and "rows' = update_where (\<lambda>r. svc_id r = svc_id s) (\<lambda>_. row) rows"
    using assms by (auto simp: service_replace_def split: option.splits if_splits)
  then show ?thesis
    by (simp add: service_get_by_id_def lookup_update_where_const stored_service_id)
qed

lemma service_insert_exists:
  "service_insert s rows = Some rows' \<Longrightarrow> service_get_by_id i rows \<noteq> None \<Longrightarrow> service_get_by_id i rows' \<noteq> None"
  by (auto simp: service_insert_def service_get_by_id_def lookup_by_append split: option.splits if_splits)

lemma catalog_ok_services:
  assumes "catalog_ok db" and "services_ok rows"
    and "\<And>i. service_get_by_id i (cdb_services db) \<noteq> None \<Longrightarrow> service_get_by_id i rows \<noteq> None"
  shows "catalog_ok (db\<lparr>cdb_services := rows\<rparr>)"
  using assms(1,2) assms(3) unfolding catalog_ok_def by simp

lemma service_create_ok:
  assumes "catalog_ok db" and "validate_service_create p0 = Some p"
  shows "catalog_ok (snd (service_service_create i p db))"
proof -
  have "catalog_ok (db\<lparr>cdb_services := rows\<rparr>)" if "service_insert (new_service i p) (cdb_services db) = Some rows" for rows
    by (rule catalog_ok_services [OF assms(1) services_insert_ok [OF _ that]])
      (use assms that service_insert_exists in \<open>auto simp: catalog_ok_def validated_create_stripped\<close>)
  then show ?thesis using assms(1) by (auto simp: service_service_create_def split: option.splits)
qed

lemma service_update_ok:
  assumes "catalog_ok db" and "validate_service_update p0 = Some p"
  shows "catalog_ok (snd (service_service_update i p db))"
proof -
  have "catalog_ok (db\<lparr>cdb_services := rows\<rparr>)"
    if "service_get_by_id i (cdb_services db) = Some s" and "service_replace (updated_service s p) (cdb_services db) = Some rows"
    for s rows
  proof (rule catalog_ok_services [OF assms(1) services_replace_ok [OF _ that(2)]])
    show "services_ok (cdb_services db)" using assms(1) by (simp add: catalog_ok_def)
    have "s \<in> set (cdb_services db)" using lookup_by_SomeD that(1) unfolding service_get_by_id_def by metis
    then have "service_texts_stripped s" using assms(1) by (auto simp: catalog_ok_def services_ok_def service_ok_def)
    then show "service_texts_stripped (updated_service s p)" by (rule validated_update_stripped [OF assms(2)])
    show "service_get_by_id j (cdb_services db) \<noteq> None \<Longrightarrow> service_get_by_id j rows \<noteq> None" for j
      using service_replace_exists [OF that(2)] by blast
  qed
  then show ?thesis using assms(1) by (auto simp: service_service_update_def split: option.splits)
qed

lemma service_delete_ok:
  assumes "catalog_ok db"
  shows "catalog_ok (snd (service_service_delete i db))"
proof -
  have "catalog_ok (service_remove i db)"
    using assms
    by (fastforce simp: catalog_ok_def services_ok_def service_remove_def set_delete_where service_get_by_id_def
        lookup_by_None_iff)
  then show ?thesis using assms
    by (auto simp: service_service_delete_def service_service_get_def split: option.splits)
qed

section \<open>Local incidents\<close>

lemma local_new_incident_ok: "incident_create_valid p \<Longrightarrow> incident_ok (local_new_incident d p)"
  by (simp add: incident_ok_def local_new_incident_def incident_create_valid_def length_within_def)

lemma local_updated_incident_ok:
  "incident_update_valid p \<Longrightarrow> incident_ok x \<Longrightarrow> incident_ok (local_updated_incident d x p)"
  unfolding incident_ok_def local_updated_incident_def incident_update_valid_def
  by (auto simp: Let_def local_resolved_at_def intro: given_length)

lemma local_create_ok:
  assumes "catalog_ok db" and "incident_create_valid p"
  shows "catalog_ok (snd (local_incident_create d p db))"
  using assms local_new_incident_ok [OF assms(2)]
  by (auto simp: local_incident_create_def local_repository_create_def incident_insert_def catalog_ok_def
      unique_key_snoc split: option.splits)

lemma local_updated_id [simp]: "inc_id (local_updated_incident d x p) = inc_id x"
  by (simp add: local_updated_incident_def Let_def)

lemma local_update_ok:
  assumes "catalog_ok db" and "incident_update_valid p"
  shows "catalog_ok (snd (local_incident_update d i p db))"
proof -
  have "catalog_ok (db\<lparr>cdb_incidents := update_where (\<lambda>r. inc_id r = i) (\<lambda>_. local_updated_incident d x p) (cdb_incidents db)\<rparr>)"
    if x: "lookup_by inc_id i (cdb_incidents db) = Some x"
      and fk: "service_get_by_id (inc_service_id (local_updated_incident d x p)) (cdb_services db) \<noteq> None" for x
  proof -
    have "x \<in> set (cdb_incidents db)" and id: "inc_id x = i" using lookup_by_SomeD [OF x] by auto
    then have "incident_ok (local_updated_incident d x p)"
      using assms by (auto simp: catalog_ok_def intro: local_updated_incident_ok)
    then show ?thesis using assms(1) fk id
      by (auto simp: catalog_ok_def unique_key_def update_where_const_key set_update_where)
  qed
  moreover have "inc_id x = i" if "lookup_by inc_id i (cdb_incidents db) = Some x" for x
    using lookup_by_SomeD [OF that] by simp
  ultimately show ?thesis using assms(1)
    by (auto simp: local_incident_update_def local_incident_get_def incident_get_by_id_def
        local_repository_update_def incident_replace_def split: option.splits)
qed

lemma local_delete_ok: "catalog_ok db \<Longrightarrow> catalog_ok (snd (local_incident_delete i db))"
  by (auto simp: local_incident_delete_def local_incident_get_def local_repository_delete_def incident_remove_def
      catalog_ok_def set_delete_where split: option.splits)

section \<open>Every request keeps the invariant\<close>

text \<open>How the combinators of the routes act on the world.\<close>

lemma snd_answer [simp]: "snd (answer h f r) = snd r"
  by (auto simp: answer_def split: prod.splits sum.splits option.splits)

lemma snd_catalog_answer_of [simp]: "snd (catalog_answer_of f r) = snd r"
  by (auto simp: catalog_answer_of_def split: prod.splits sum.splits)

lemma catalog_on_catalog [simp]: "bkw_catalog (snd (on_catalog m w)) = snd (m (bkw_catalog w))"
  by (simp add: on_catalog_def split: prod.splits)

lemma gateway_on_catalog [simp]: "bkw_gateway (snd (on_catalog m w)) = bkw_gateway w"
  by (simp add: on_catalog_def split: prod.splits)

lemma catalog_on_gateway [simp]: "bkw_catalog (snd (on_gateway m w)) = bkw_catalog w"
  by (simp add: on_gateway_def split: prod.splits)

lemma fst_on_catalog [simp]: "fst (on_catalog m w) = fst (m (bkw_catalog w))"
  by (simp add: on_catalog_def split: prod.splits)

lemma service_service_get_db [simp]: "snd (service_service_get i db) = db"
  by (simp add: service_service_get_def split: option.splits)

lemma list_services_op_db [simp]: "snd (list_services_op collation search status offset limit db) = db"
  by (simp add: list_services_op_def)

lemma db_unit_of_work_catalog:
  "bkw_catalog (snd (db_unit_of_work m w)) \<in> {bkw_catalog w, bkw_catalog (snd (m w))}"
  by (auto simp: db_unit_of_work_def split: prod.splits sum.splits)

text \<open>What the routes need of a gateway: its operations keep the catalog's tables well formed.\<close>

locale catalog_gateway =
  fixes gw :: "'g backend_world incident_gateway"
  assumes keeps_list: "catalog_ok (bkw_catalog w) \<Longrightarrow>
      catalog_ok (bkw_catalog (snd (igw_list gw search service_id severity status offset limit w)))"
    and keeps_get: "catalog_ok (bkw_catalog w) \<Longrightarrow> catalog_ok (bkw_catalog (snd (igw_get_by_id gw i w)))"
    and keeps_create: "catalog_ok (bkw_catalog w) \<Longrightarrow> incident_create_valid p \<Longrightarrow>
      catalog_ok (bkw_catalog (snd (igw_create gw p w)))"
    and keeps_update: "catalog_ok (bkw_catalog w) \<Longrightarrow> incident_update_valid u \<Longrightarrow>
      catalog_ok (bkw_catalog (snd (igw_update gw i u w)))"
    and keeps_delete: "catalog_ok (bkw_catalog w) \<Longrightarrow> catalog_ok (bkw_catalog (snd (igw_delete gw i w)))"
    and keeps_list_for_service: "catalog_ok (bkw_catalog w) \<Longrightarrow>
      catalog_ok (bkw_catalog (snd (igw_list_for_service gw i offset limit w)))"
begin

lemma overview_ok:
  assumes "catalog_ok (bkw_catalog w)"
  shows "catalog_ok (bkw_catalog (snd (get_overview collation gw w)))"
proof -
  obtain r w1 where r: "on_catalog (list_services_op collation None None 0 OVERVIEW_COLLECTION_LIMIT) w = (r, w1)"
    by fastforce
  then have "catalog_ok (bkw_catalog w1)"
    using assms catalog_on_catalog [of "list_services_op collation None None 0 OVERVIEW_COLLECTION_LIMIT" w] by simp
  moreover obtain r2 w2 where "igw_list gw None None None None 0 (int OVERVIEW_COLLECTION_LIMIT) w1 = (r2, w2)"
    by fastforce
  ultimately show ?thesis
    using keeps_list [of w1 None None None None 0 "int OVERVIEW_COLLECTION_LIMIT"] r
    by (auto simp: get_overview_def split: sum.splits)
qed

lemma service_incidents_ok:
  assumes "catalog_ok (bkw_catalog w)"
  shows "catalog_ok (bkw_catalog (snd (list_service_incidents gw i offset limit w)))"
proof -
  obtain r w1 where r: "on_catalog (service_service_get i) w = (r, w1)" by fastforce
  then have "catalog_ok (bkw_catalog w1)"
    using assms catalog_on_catalog [of "service_service_get i" w] by simp
  then show ?thesis by (auto simp: list_service_incidents_def r keeps_list_for_service split: sum.splits)
qed

lemma handler_ok:
  assumes "public_handler collation gw u ep = Some m" and "catalog_ok (bkw_catalog w)"
  shows "catalog_ok (bkw_catalog (snd (m w)))"
  using assms
  by (cases ep)
    (auto simp: public_list_incidents_def public_get_incident_def public_create_incident_def incident_create_valid_def
      public_update_incident_def public_delete_incident_def list_services_def get_service_def create_service_def
      update_service_def delete_service_def keeps_list keeps_get keeps_update keeps_delete
      service_incidents_ok overview_ok service_create_ok service_update_ok service_delete_ok
      intro!: keeps_create split: if_splits)

lemma serve_ok:
  assumes "catalog_ok (bkw_catalog (snd s))"
  shows "catalog_ok (bkw_catalog (snd (snd (public_serve sec collation gw d req ep s))))"
proof -
  have "catalog_ok (bkw_catalog (snd (db_unit_of_work m (snd s))))"
    if "public_handler collation gw u ep = Some m" for u m
    using handler_ok [OF that assms] assms db_unit_of_work_catalog [of m "snd s"] by auto
  then show ?thesis using assms
    by (auto simp: public_serve_def split: prod.splits sum.splits option.splits) (metis snd_conv)+
qed

end

interpretation local_mode: catalog_gateway "local_gateway d" for d
  by unfold_locales
    (simp_all add: local_gateway_def Let_def local_incident_gateway_def local_create_ok local_update_ok local_delete_ok,
     simp_all add: local_incident_list_def local_incident_get_def local_incident_list_for_service_def split: option.splits)

interpretation remote_mode: catalog_gateway "remote_gateway g" for g
  by unfold_locales (simp_all add: remote_gateway_def)

end
