(* ===== verification/Gateway_Equivalence.thy ===== *)
theory Gateway_Equivalence
  imports Catalog_Invariants
begin

text \<open>
  The two deployments of Incident Management compared. \<open>extracted_gateway\<close> is what the core backend
  reaches over an undisturbed network: the extracted Incident Service (\<open>Incident_Service\<close>), each
  call one transaction of its database, with the backend's own catalog answering its questions about
  services. The locale \<open>incident_gateway_simulation\<close> says what two gateways must share for the public
  routes to behave alike; the local gateway and the extracted service interpret it.
\<close>

section \<open>The extracted service as a gateway\<close>

fun service_exception :: "incident_service_error \<Rightarrow> gateway_exception" where
  "service_exception (IncidentNotFound detail) = IncidentNotFoundError detail"
| "service_exception (UnknownServiceReference detail) = IncidentServiceReferenceError detail"
| "service_exception (ServiceCatalogUnavailable detail) = IncidentGatewayUnavailableError detail"
| "service_exception IncidentUnhandled = OtherException ''IntegrityError''"

definition extracted ::
    "(incident_db, incident_service_error, 'a) operation \<Rightarrow> (incident_db backend_world, gateway_exception, 'a) operation" where
  "extracted m w =
     (case transaction m (bkw_gateway w) of
        (Inl e, g) \<Rightarrow> (Inl (service_exception e), w\<lparr>bkw_gateway := g\<rparr>)
      | (Inr x, g) \<Rightarrow> (Inr x, w\<lparr>bkw_gateway := g\<rparr>))"

definition catalog_says :: "'g backend_world \<Rightarrow> service_exists" where
  "catalog_says w = (\<lambda>s. Inr (service_get_by_id s (cdb_services (bkw_catalog w)) \<noteq> None))"

definition extracted_gateway :: "incident_draws \<Rightarrow> string option \<Rightarrow> incident_db backend_world incident_gateway" where
  "extracted_gateway d correlation_id =
     \<lparr>igw_list = \<lambda>search service_id severity status offset limit.
        extracted (incident_service_list search service_id severity status (nat offset) (nat limit)),
      igw_get_by_id = \<lambda>i. extracted (incident_service_get i),
      igw_create = \<lambda>p w. extracted (incident_service_create (catalog_says w) d p correlation_id) w,
      igw_update = \<lambda>i p w. extracted (incident_service_update (catalog_says w) d i p) w,
      igw_delete = \<lambda>i. extracted (incident_service_delete i),
      igw_list_for_service = \<lambda>i offset limit.
        extracted (incident_service_list None (Some i) None None (nat offset) (nat limit))\<rparr>"

section \<open>Simulation of gateways\<close>

text \<open>The same answer; the states stay related after a result and stay where they were after an error.\<close>

definition simulates ::
    "('v \<Rightarrow> 'w \<Rightarrow> bool) \<Rightarrow> 'v \<Rightarrow> 'w \<Rightarrow> ('e + 'a) \<times> 'v \<Rightarrow> ('e + 'a) \<times> 'w \<Rightarrow> bool" where
  "simulates R v w p q \<longleftrightarrow>
     fst p = fst q \<and> (case fst p of Inl _ \<Rightarrow> snd p = v \<and> snd q = w | Inr _ \<Rightarrow> R (snd p) (snd q))"

lemma simulates_answer:
  "simulates R v w p q \<Longrightarrow> simulates R v w (answer h f p) (answer h f q)"
  by (cases p; cases q) (auto simp: simulates_def answer_def split: sum.splits option.splits)

lemma simulates_catalog_answer:
  "simulates R v w p q \<Longrightarrow> simulates R v w (catalog_answer_of f p) (catalog_answer_of f q)"
  by (cases p; cases q) (auto simp: simulates_def catalog_answer_of_def split: sum.splits)

lemma simulates_unit_of_work:
  assumes "simulates R v w (m v) (n w)" and "R v w"
  shows "fst (db_unit_of_work m v) = fst (db_unit_of_work n w) \<and>
    R (snd (db_unit_of_work m v)) (snd (db_unit_of_work n w))"
  using assms by (cases "m v"; cases "n w") (auto simp: simulates_def db_unit_of_work_def split: sum.splits)

text \<open>
  The requests both deployments answer alike: an incident body leaves out the fields the local service
  ignores, and a service is deleted only when it has no incidents.
\<close>

definition plain_create :: "incident_create \<Rightarrow> bool" where
  "plain_create p \<longleftrightarrow> crt_source p = ''manual'' \<and> \<not> crt_customer_impacting p \<and> crt_acknowledged_at p = None"

lemma plain_create_stamped [simp]: "plain_create (p\<lparr>crt_reported_by_email := e\<rparr>) = plain_create p"
  by (simp add: plain_create_def)

definition plain_update :: "incident_update \<Rightarrow> bool" where
  "plain_update p \<longleftrightarrow> upd_source p = None \<and> upd_customer_impacting p = None \<and>
     ''acknowledged_at'' \<notin> set (upd_fields_set p) \<and> upd_resolved_at p = None"

definition without_incidents :: "uuid \<Rightarrow> catalog_db \<Rightarrow> bool" where
  "without_incidents i db \<longleftrightarrow> (\<forall>x \<in> set (cdb_incidents db). inc_service_id x \<noteq> i)"

fun comparable :: "catalog_db \<Rightarrow> public_endpoint \<Rightarrow> bool" where
  "comparable db (PublicCreateIncident p) = plain_create p"
| "comparable db (PublicUpdateIncident i p) = plain_update p"
| "comparable db (DeleteService i) = without_incidents i db"
| "comparable db _ = True"

locale incident_gateway_simulation =
  fixes A :: "'v backend_world incident_gateway" and B :: "'w backend_world incident_gateway"
    and R :: "'v backend_world \<Rightarrow> 'w backend_world \<Rightarrow> bool"
    and fresh :: "'w backend_world \<Rightarrow> bool"
  assumes sim_services: "R v w \<Longrightarrow> cdb_services (bkw_catalog v) = cdb_services (bkw_catalog w)"
    and sim_list: "R v w \<Longrightarrow> simulates R v w (igw_list A search service_id severity status offset limit v)
      (igw_list B search service_id severity status offset limit w)"
    and sim_get: "R v w \<Longrightarrow> simulates R v w (igw_get_by_id A i v) (igw_get_by_id B i w)"
    and sim_create: "R v w \<Longrightarrow> fresh w \<Longrightarrow> plain_create p \<Longrightarrow> incident_create_valid p \<Longrightarrow>
      simulates R v w (igw_create A p v) (igw_create B p w)"
    and sim_update: "R v w \<Longrightarrow> plain_update u \<Longrightarrow> incident_update_valid u \<Longrightarrow>
      simulates R v w (igw_update A i u v) (igw_update B i u w)"
    and sim_delete: "R v w \<Longrightarrow> simulates R v w (igw_delete A i v) (igw_delete B i w)"
    and sim_list_for_service: "R v w \<Longrightarrow> service_get_by_id i (cdb_services (bkw_catalog v)) \<noteq> None \<Longrightarrow>
      simulates R v w (igw_list_for_service A i offset limit v) (igw_list_for_service B i offset limit w)"
    and sim_service_create: "R v w \<Longrightarrow> validate_service_create c0 = Some c \<Longrightarrow>
      simulates R v w (on_catalog (service_service_create i c) v) (on_catalog (service_service_create i c) w)"
    and sim_service_update: "R v w \<Longrightarrow> validate_service_update d0 = Some d \<Longrightarrow>
      simulates R v w (on_catalog (service_service_update i d) v) (on_catalog (service_service_update i d) w)"
    and sim_service_delete: "R v w \<Longrightarrow> without_incidents i (bkw_catalog v) \<Longrightarrow>
      simulates R v w (on_catalog (service_service_delete i) v) (on_catalog (service_service_delete i) w)"
begin

lemma sim_service_incidents:
  assumes "R v w"
  shows "simulates R v w (list_service_incidents A i offset limit v) (list_service_incidents B i offset limit w)"
proof (cases "service_get_by_id i (cdb_services (bkw_catalog v))")
  case None
  then show ?thesis using sim_services [OF assms]
    by (simp add: simulates_def list_service_incidents_def on_catalog_def service_service_get_def)
next
  case (Some s)
  have "simulates R v w (answer incident_missing (reply_of 200 []) (igw_list_for_service A i offset limit v))
      (answer incident_missing (reply_of 200 []) (igw_list_for_service B i offset limit w))"
    by (rule simulates_answer [OF sim_list_for_service [OF assms]]) (simp add: Some)
  then show ?thesis using Some sim_services [OF assms]
    by (simp add: list_service_incidents_def on_catalog_def service_service_get_def)
qed

lemma sim_overview:
  assumes "R v w"
  shows "simulates R v w (get_overview collation A v) (get_overview collation B w)"
proof -
  let ?limit = "int OVERVIEW_COLLECTION_LIMIT"
  have "simulates R v w (igw_list A None None None None 0 ?limit v) (igw_list B None None None None 0 ?limit w)"
    by (rule sim_list [OF assms])
  then show ?thesis using sim_services [OF assms] assms
    by (cases "igw_list A None None None None 0 ?limit v"; cases "igw_list B None None None None 0 ?limit w")
      (auto simp: simulates_def get_overview_def on_catalog_def list_services_op_def split: sum.splits)
qed

lemma sim_service_reads:
  assumes "R v w"
  shows "simulates R v w (list_services collation search status offset limit v)
      (list_services collation search status offset limit w)"
    and "simulates R v w (get_service i v) (get_service i w)"
  using assms sim_services [OF assms]
  by (auto simp: simulates_def list_services_def get_service_def on_catalog_def catalog_answer_of_def
      list_services_op_def service_service_get_def split: option.splits)

lemma handler_sim:
  assumes "R v w" and "fresh w" and "comparable (bkw_catalog v) ep"
    and "public_handler collation A u ep = Some m" and "public_handler collation B u ep = Some n"
  shows "simulates R v w (m v) (n w)"
  using assms(3-5) sim_service_reads [OF assms(1)] sim_service_incidents [OF assms(1)] sim_overview [OF assms(1)]
  by (cases ep)
    (auto simp: public_list_incidents_def public_get_incident_def public_create_incident_def Let_def incident_create_valid_def
      public_update_incident_def public_delete_incident_def create_service_def update_service_def delete_service_def
      intro!: simulates_answer simulates_catalog_answer sim_list [OF assms(1)] sim_get [OF assms(1)]
        sim_create [OF assms(1,2)] sim_update [OF assms(1)] sim_delete [OF assms(1)]
        sim_service_update [OF assms(1)] sim_service_create [OF assms(1)] sim_service_delete [OF assms(1)]
      split: if_splits)

lemma serve_sim:
  assumes "R v w" and "fresh w"
    and "comparable (bkw_catalog v) ep"
  shows "fst (public_serve sec collation A a req ep (app, v)) = fst (public_serve sec collation B a req ep (app, w)) \<and>
    fst (snd (public_serve sec collation A a req ep (app, v))) = fst (snd (public_serve sec collation B a req ep (app, w))) \<and>
    R (snd (snd (public_serve sec collation A a req ep (app, v)))) (snd (snd (public_serve sec collation B a req ep (app, w))))"
proof -
  obtain r app1 where p: "permission_dependency sec a req (endpoint_permission ep) app = (r, app1)" by fastforce
  show ?thesis
  proof (cases r)
    case (Inl reply)
    then show ?thesis using assms(1) by (simp add: public_serve_def p)
  next
    case (Inr u)
    have same: "public_handler collation A u ep = None \<longleftrightarrow> public_handler collation B u ep = None"
      by (cases ep) auto
    show ?thesis
    proof (cases "public_handler collation A u ep")
      case None
      then show ?thesis using same assms(1) Inr by (simp add: public_serve_def p)
    next
      case (Some m)
      with same obtain n where n: "public_handler collation B u ep = Some n" by auto
      have "simulates R v w (m v) (n w)"
        by (rule handler_sim [OF assms Some n])
      from simulates_unit_of_work [of R v w m n, OF this assms(1)] show ?thesis
        by (cases "db_unit_of_work m v"; cases "db_unit_of_work n w") (simp add: public_serve_def p Inr Some n)
    qed
  qed
qed

end

section \<open>The local gateway and the extracted service\<close>

definition aligned :: "'v backend_world \<Rightarrow> incident_db backend_world \<Rightarrow> bool" where
  "aligned v w \<longleftrightarrow>
     catalog_ok (bkw_catalog v) \<and> cdb_services (bkw_catalog v) = cdb_services (bkw_catalog w) \<and>
     cdb_incidents (bkw_catalog v) = idb_incidents (bkw_gateway w)"

text \<open>The identifiers a creation draws are not in use in the task outbox.\<close>

definition fresh_task :: "incident_draws \<Rightarrow> incident_db backend_world \<Rightarrow> bool" where
  "fresh_task d w \<longleftrightarrow>
     (\<forall>r \<in> set (idb_tasks (bkw_gateway w)).
        tom_id (obr_message r) \<noteq> idr_outbox_id d \<and> tom_task_id (obr_message r) \<noteq> idr_task_id d \<and>
        tom_idempotency_key (obr_message r) \<noteq> task_idempotency_key (idr_incident_id d))"

lemma local_new_incident_plain: "plain_create p \<Longrightarrow> local_new_incident d p = new_incident d p"
  by (simp add: plain_create_def local_new_incident_def new_incident_def)

lemma local_updated_incident_plain:
  assumes "plain_update p" and "incident_ok x"
  shows "local_updated_incident d x p = updated_incident d x p"
proof -
  have "local_resolved_at now x status = resolve_timestamp now x p status" for now status
    using assms by (auto simp: local_resolved_at_def resolve_timestamp_def plain_update_def incident_ok_def
        split: option.splits)
  then show ?thesis
    using assms(1) by (simp add: local_updated_incident_def updated_incident_def plain_update_def Let_def given_def)
qed

lemma incident_list_by_service_list:
  "incident_list None (Some i) None None offset limit rows = incident_list_by_service i offset limit rows"
  by (simp add: incident_list_def incident_list_by_service_def search_matches_def)

lemma simulates_error:
  "m (bkw_catalog v) = (Inl (service_exception e), bkw_catalog v) \<Longrightarrow> fst (n (bkw_gateway w)) = Inl e \<Longrightarrow>
     simulates R v w (on_catalog m v) (extracted n w)"
  by (simp add: simulates_def on_catalog_def extracted_def transaction_Inl)

lemma simulates_result:
  "m (bkw_catalog v) = (Inr x, db) \<Longrightarrow> n (bkw_gateway w) = (Inr x, g) \<Longrightarrow>
     R (v\<lparr>bkw_catalog := db\<rparr>) (w\<lparr>bkw_gateway := g\<rparr>) \<Longrightarrow> simulates R v w (on_catalog m v) (extracted n w)"
  by (simp add: simulates_def on_catalog_def extracted_def transaction_Inr)

lemma aligned_after:
  assumes "aligned v w" and "catalog_ok db" and "cdb_services db = cdb_services (bkw_catalog v)"
    and "cdb_incidents db = idb_incidents g"
  shows "aligned (v\<lparr>bkw_catalog := db\<rparr>) (w\<lparr>bkw_gateway := g\<rparr>)"
  using assms by (simp add: aligned_def)

lemma creation_task_created:
  assumes "fresh_task d w"
  shows "\<exists>tasks. task_outbox_create (creation_task d c (new_incident d p)) (idb_tasks (bkw_gateway w)) = Inr tasks"
  using assms unfolding task_outbox_create_Inr by (fastforce simp: fresh_task_def)

lemma create_simulates:
  assumes "aligned v w" and "fresh_task d w" and "plain_create p" and "incident_create_valid p"
  shows "simulates aligned v w (on_catalog (local_incident_create d p) v)
    (extracted (incident_service_create (catalog_says w) d p c) w)"
proof -
  let ?s = "crt_service_id p" and ?i = "new_incident d p" and ?cat = "bkw_catalog v" and ?g = "bkw_gateway w"
  have says: "catalog_says w ?s = Inr (service_get_by_id ?s (cdb_services ?cat) \<noteq> None)"
    and rows: "cdb_incidents ?cat = idb_incidents ?g"
    using assms(1) by (simp_all add: aligned_def catalog_says_def)
  have new: "local_new_incident d p = ?i" "inc_service_id ?i = ?s"
    using assms(3) by (simp_all add: local_new_incident_plain new_incident_def)
  consider "service_get_by_id ?s (cdb_services ?cat) = None"
    | (known) "service_get_by_id ?s (cdb_services ?cat) \<noteq> None" "lookup_by inc_id (inc_id ?i) (idb_incidents ?g) \<noteq> None"
    | (free) "service_get_by_id ?s (cdb_services ?cat) \<noteq> None" "lookup_by inc_id (inc_id ?i) (idb_incidents ?g) = None"
    by blast
  then show ?thesis
  proof cases
    case 1
    then show ?thesis using says
      by (intro simulates_error [where e = "UnknownServiceReference (''Service '' @ uuid_str ?s @ '' does not exist.'')"])
        (simp_all add: local_incident_create_def local_ensure_service_exists_def local_service_exists_def
          incident_service_create_def ensure_service_exists_def)
  next
    case known
    then show ?thesis using says rows new
      by (intro simulates_error [where e = IncidentUnhandled])
        (auto simp: local_incident_create_def local_ensure_service_exists_def local_service_exists_def
          local_repository_create_def incident_insert_def incident_service_create_def ensure_service_exists_def Let_def)
  next
    case free
    obtain tasks where "task_outbox_create (creation_task d c ?i) (idb_tasks ?g) = Inr tasks"
      using creation_task_created [OF assms(2)] by blast
    moreover have "catalog_ok (snd (local_incident_create d p ?cat))"
      using assms(1,4) by (simp add: aligned_def local_create_ok)
    moreover have l: "local_incident_create d p ?cat = (Inr ?i, ?cat\<lparr>cdb_incidents := idb_incidents ?g @ [?i]\<rparr>)"
      using free rows new by (simp add: local_incident_create_def local_ensure_service_exists_def local_service_exists_def
          local_repository_create_def incident_insert_def)
    ultimately show ?thesis using free says assms(1)
      by (intro simulates_result [where m = "local_incident_create d p", OF l, where g = "?g\<lparr>idb_incidents := idb_incidents ?g @ [?i], idb_tasks := tasks\<rparr>"])
        (simp_all add: incident_service_create_def ensure_service_exists_def incident_insert_def Let_def aligned_after)
  qed
qed

lemma update_simulates:
  assumes "aligned v w" and "plain_update p" and "incident_update_valid p"
  shows "simulates aligned v w (on_catalog (local_incident_update d i p) v)
    (extracted (incident_service_update (catalog_says w) d i p) w)"
proof -
  let ?cat = "bkw_catalog v" and ?g = "bkw_gateway w"
  have says: "\<And>s. catalog_says w s = Inr (service_get_by_id s (cdb_services ?cat) \<noteq> None)"
    and rows: "cdb_incidents ?cat = idb_incidents ?g" and ok: "catalog_ok ?cat"
    using assms(1) by (simp_all add: aligned_def catalog_says_def)
  show ?thesis
  proof (cases "lookup_by inc_id i (idb_incidents ?g)")
    case None
    then show ?thesis using rows
      by (intro simulates_error [where e = "IncidentNotFound (''Incident '' @ uuid_str i @ '' was not found.'')"])
        (simp_all add: local_incident_update_def local_incident_get_def incident_get_by_id_def
          incident_service_update_def incident_service_get_def)
  next
    case (Some x)
    then have x: "x \<in> set (cdb_incidents ?cat)" "inc_id x = i" using lookup_by_SomeD rows by metis+
    then have "incident_ok x" and fk: "service_get_by_id (inc_service_id x) (cdb_services ?cat) \<noteq> None"
      using ok by (auto simp: catalog_ok_def)
    then have same: "local_updated_incident d x p = updated_incident d x p"
      using assms(2) local_updated_incident_plain by blast
    have sid: "inc_service_id (updated_incident d x p) = given (upd_service_id p) (inc_service_id x)"
      by (simp add: updated_incident_def Let_def)
    show ?thesis
    proof (cases "\<exists>s. upd_service_id p = Some s \<and> service_get_by_id s (cdb_services ?cat) = None")
      case True
      then obtain s where s: "upd_service_id p = Some s" "service_get_by_id s (cdb_services ?cat) = None" by blast
      then show ?thesis using Some rows says fk
        by (intro simulates_error [where e = "UnknownServiceReference (''Service '' @ uuid_str s @ '' does not exist.'')"])
          (auto simp: local_incident_update_def local_incident_get_def incident_get_by_id_def
            local_ensure_service_exists_def local_service_exists_def
            incident_service_update_def incident_service_get_def ensure_service_exists_def)
    next
      case False
      then have known: "service_get_by_id (given (upd_service_id p) (inc_service_id x)) (cdb_services ?cat) \<noteq> None"
        using fk by (auto simp: given_def split: option.splits)
      let ?rows = "update_where (\<lambda>r. inc_id r = i) (\<lambda>_. updated_incident d x p) (idb_incidents ?g)"
      have l: "local_incident_update d i p ?cat = (Inr (updated_incident d x p), ?cat\<lparr>cdb_incidents := ?rows\<rparr>)"
        using False Some rows known same sid x(2)
        by (auto simp: local_incident_update_def local_incident_get_def incident_get_by_id_def
            local_ensure_service_exists_def local_service_exists_def local_repository_update_def incident_replace_def
            split: option.splits bind_splits)
      have "catalog_ok (snd (local_incident_update d i p ?cat))" using ok assms(3) by (rule local_update_ok)
      moreover have "incident_service_update (catalog_says w) d i p ?g = (Inr (updated_incident d x p), ?g\<lparr>idb_incidents := ?rows\<rparr>)"
        using False Some says by (auto simp: incident_service_update_Inr)
      ultimately show ?thesis using assms(1) l
        by (intro simulates_result [where m = "local_incident_update d i p", OF l, where g = "?g\<lparr>idb_incidents := ?rows\<rparr>"]) (simp_all add: aligned_after)
    qed
  qed
qed

lemma delete_simulates:
  assumes "aligned v w"
  shows "simulates aligned v w (on_catalog (local_incident_delete i) v) (extracted (incident_service_delete i) w)"
proof -
  let ?cat = "bkw_catalog v" and ?g = "bkw_gateway w"
  have rows: "cdb_incidents ?cat = idb_incidents ?g" and ok: "catalog_ok ?cat"
    using assms by (simp_all add: aligned_def)
  show ?thesis
  proof (cases "lookup_by inc_id i (idb_incidents ?g)")
    case None
    then show ?thesis using rows
      by (intro simulates_error [where e = "IncidentNotFound (''Incident '' @ uuid_str i @ '' was not found.'')"])
        (simp_all add: local_incident_delete_def local_incident_get_def incident_get_by_id_def
          incident_service_delete_def incident_service_get_def)
  next
    case (Some x)
    then have l: "local_incident_delete i ?cat =
        (Inr (), ?cat\<lparr>cdb_incidents := delete_where (\<lambda>r. inc_id r = i) (idb_incidents ?g)\<rparr>)"
      using rows by (simp add: local_incident_delete_def local_incident_get_def incident_get_by_id_def
          local_repository_delete_def incident_remove_def)
    have "catalog_ok (snd (local_incident_delete i ?cat))" using ok by (rule local_delete_ok)
    then show ?thesis using assms l Some
      by (intro simulates_result [where m = "local_incident_delete i", OF l, where g = "?g\<lparr>idb_incidents := delete_where (\<lambda>r. inc_id r = i) (idb_incidents ?g)\<rparr>"])
        (simp_all add: aligned_after incident_service_delete_Inr)
  qed
qed

lemma service_create_simulates:
  assumes "aligned v w" and "validate_service_create p0 = Some p"
  shows "simulates aligned v w (on_catalog (service_service_create i p) v) (on_catalog (service_service_create i p) w)"
proof -
  have "catalog_ok (snd (service_service_create i p (bkw_catalog v)))"
    using assms by (simp add: aligned_def service_create_ok)
  then show ?thesis using assms(1)
    by (auto simp: simulates_def on_catalog_def service_service_create_def aligned_def split: option.splits)
qed

lemma service_update_simulates:
  assumes "aligned v w" and "validate_service_update p0 = Some p"
  shows "simulates aligned v w (on_catalog (service_service_update i p) v) (on_catalog (service_service_update i p) w)"
proof -
  have "catalog_ok (snd (service_service_update i p (bkw_catalog v)))"
    using assms by (simp add: aligned_def service_update_ok)
  then show ?thesis using assms(1)
    by (auto simp: simulates_def on_catalog_def service_service_update_def aligned_def split: option.splits)
qed

lemma service_delete_simulates:
  assumes "aligned v w" and "without_incidents i (bkw_catalog v)"
  shows "simulates aligned v w (on_catalog (service_service_delete i) v) (on_catalog (service_service_delete i) w)"
proof -
  have "catalog_ok (snd (service_service_delete i (bkw_catalog v)))"
    using assms(1) by (simp add: aligned_def service_delete_ok)
  moreover have "delete_where (\<lambda>x. inc_service_id x = i) (cdb_incidents (bkw_catalog v)) = cdb_incidents (bkw_catalog v)"
    using assms(2) by (simp add: without_incidents_def delete_where_def filter_id_conv)
  ultimately show ?thesis using assms(1)
    by (auto simp: simulates_def on_catalog_def service_service_delete_def service_service_get_def service_remove_def
        aligned_def split: option.splits)
qed

lemma read_simulates:
  assumes "aligned v w"
  shows "simulates aligned v w (on_catalog (local_incident_list search service_id severity status offset limit) v)
      (extracted (incident_service_list search service_id severity status (nat offset) (nat limit)) w)"
    and "simulates aligned v w (on_catalog (local_incident_get i) v) (extracted (incident_service_get i) w)"
    and "service_get_by_id s (cdb_services (bkw_catalog v)) \<noteq> None \<Longrightarrow>
      simulates aligned v w (on_catalog (local_incident_list_for_service s offset limit) v)
        (extracted (incident_service_list None (Some s) None None (nat offset) (nat limit)) w)"
  using assms
  by (auto simp: simulates_def aligned_def on_catalog_def extracted_def transaction_def local_incident_list_def
      incident_service_list_def local_incident_get_def incident_service_get_def local_incident_list_for_service_def
      local_service_exists_def incident_list_by_service_list split: option.splits)

interpretation deployments: incident_gateway_simulation "local_gateway d" "extracted_gateway d c" aligned "fresh_task d"
  for d c
  by unfold_locales
    (simp_all add: local_gateway_def Let_def local_incident_gateway_def extracted_gateway_def read_simulates
      create_simulates update_simulates delete_simulates service_delete_simulates,
     auto simp: aligned_def intro: service_create_simulates service_update_simulates)

end
