(* ===== verification/Catalog_Exchange.thy ===== *)
theory Catalog_Exchange
  imports Catalog_Invariants Incident_Guarantees
begin

text \<open>
  The core backend's internal catalog endpoint, \<open>api/routes/internal_services.py\<close> with the service
  authentication of \<open>api/dependencies.py\<close> (\<open>src/backend/app\<close>), and the exchange it has with the
  Incident Service's \<open>HttpServiceCatalogGateway\<close>. \<open>HTTPBearer\<close> and the routing of the URL are what
  FastAPI documents: the header's scheme is compared without case, the path parameter is a UUID.
\<close>

section \<open>The endpoint\<close>

definition authenticate_incident_service ::
    "('sk, 'pk) jwt_lib \<Rightarrow> 'pk service_token_verifier \<Rightarrow> instant \<Rightarrow> clock_reading \<Rightarrow> string option \<Rightarrow>
     audit_record list \<Rightarrow> (incident_reply + service_principal) \<times> audit_record list" where
  "authenticate_incident_service lib stv lib_now clock credentials entries =
     (case credentials of
        None \<Rightarrow> audit (record_service_authentication ''failure'' ''missing_credential'')
                  (emit_authentication ''failure'' ''missing_credential'') (Inl service_authentication_error) entries
      | Some token \<Rightarrow>
          (case verify_token lib stv lib_now clock token of
             Inl (ServiceAuthenticationError reason) \<Rightarrow>
               audit (record_service_authentication ''failure'' (failure_reason_value reason))
                 (emit_authentication ''failure'' (failure_reason_value reason)) (Inl service_authentication_error) entries
           | Inl _ \<Rightarrow> (Inl internal_error, entries)
           | Inr caller \<Rightarrow>
               audit (record_service_authentication ''success'' ''authenticated'')
                 (emit_authentication ''success'' ''authenticated'') (Inr caller) entries))"

definition require_services_read ::
    "service_principal \<Rightarrow> audit_record list \<Rightarrow> (incident_reply + service_principal) \<times> audit_record list" where
  "require_services_read caller entries =
     (if SERVICES_READ \<notin> set (sp_scopes caller)
      then audit (record_service_authorization ''denied'' (scope_value SERVICES_READ))
             (emit_authorization ''blocked'' (scope_value SERVICES_READ))
             (Inl (incident_failure 403 ''Insufficient service permissions.'')) entries
      else audit (record_service_authorization ''granted'' (scope_value SERVICES_READ))
             (emit_authorization ''success'' (scope_value SERVICES_READ)) (Inr caller) entries)"

definition internal_service_exists ::
    "('sk, 'pk) incident_deployment \<Rightarrow> instant \<Rightarrow> clock_reading \<Rightarrow> catalog_db \<Rightarrow> string option \<Rightarrow> uuid \<Rightarrow>
     audit_record list \<Rightarrow> (incident_reply + bool) \<times> audit_record list" where
  "internal_service_exists dep lib_now clock db credentials service_id entries =
     (case authenticate_incident_service (idp_lib dep) (idp_verifier dep) lib_now clock credentials entries of
        (Inl reply, entries1) \<Rightarrow> (Inl reply, entries1)
      | (Inr caller, entries1) \<Rightarrow>
          (case require_services_read caller entries1 of
             (Inl reply, entries2) \<Rightarrow> (Inl reply, entries2)
           | (Inr _, entries2) \<Rightarrow> (Inr (service_get_by_id service_id (cdb_services db) \<noteq> None), entries2)))"

section \<open>On the wire\<close>

fun internal_response :: "incident_reply + bool \<Rightarrow> http_response" where
  "internal_response (Inl reply) =
     \<lparr>status_code = irp_status reply, body_json = Some (JObj [(''detail'', JStr (irp_detail reply))])\<rparr>"
| "internal_response (Inr found) = \<lparr>status_code = 200, body_json = Some (JObj [(''exists'', JBool found)])\<rparr>"

definition bearer_credentials :: "(string \<times> string) list \<Rightarrow> string option" where
  "bearer_credentials headers =
     (case map_of headers ''Authorization'' of
        None \<Rightarrow> None
      | Some authorization \<Rightarrow>
          (case py_partition (CHR '' '') authorization of
             None \<Rightarrow> None
           | Some (scheme, credentials) \<Rightarrow>
               if py_lower scheme = ''bearer'' \<and> credentials \<noteq> [] then Some credentials else None))"

definition exists_route :: "string \<Rightarrow> string \<Rightarrow> uuid option" where
  "exists_route base url =
     (let path = base @ ''/internal/services/''; rest = drop (length path) url
      in if take (length path) url = path \<and> drop 36 rest = ''/exists'' then uuid_parse (take 36 rest) else None)"

definition backend_transport ::
    "('sk, 'pk) incident_deployment \<Rightarrow> string \<Rightarrow> instant \<Rightarrow> clock_reading \<Rightarrow> catalog_db \<Rightarrow> audit_record list \<Rightarrow>
     outbound_request \<Rightarrow> transport_result" where
  "backend_transport dep base lib_now clock db entries rq =
     (case exists_route base (orq_url rq) of
        None \<Rightarrow> Responded \<lparr>status_code = 404, body_json = Some (JObj [(''detail'', JStr ''Not Found'')])\<rparr>
      | Some service_id \<Rightarrow>
          Responded (internal_response (fst (internal_service_exists dep lib_now clock db
            (bearer_credentials (orq_headers rq)) service_id entries))))"

definition provider_tokens ::
    "('sk, 'pk) jwt_lib \<Rightarrow> 'sk service_token_provider \<Rightarrow> clock_reading \<Rightarrow> uuid \<Rightarrow> string \<Rightarrow> service_scope list \<Rightarrow>
     token_result" where
  "provider_tokens lib prov clock token_id audience scopes =
     (case create_token lib prov clock token_id audience scopes of
        Inl _ \<Rightarrow> TokenIdentityError | Inr token \<Rightarrow> TokenReturned token)"

section \<open>The exchange\<close>

lemma bearer_credentials_bearer:
  assumes "token \<noteq> []"
  shows "bearer_credentials [(''Authorization'', ''Bearer '' @ token)] = Some token"
proof -
  have "py_lower ''Bearer'' = ''bearer''" by code_simp
  then show ?thesis using assms by (simp add: bearer_credentials_def)
qed

lemma exists_route_catalog: "exists_route base (base @ ''/internal/services/'' @ uuid_str i @ ''/exists'') = Some i"
  by (simp add: exists_route_def length_uuid_str Let_def)

lemma authenticate_incident_service_same:
  "authenticate_incident_service = authenticate_service"
  by (intro ext) (simp add: authenticate_incident_service_def authenticate_service_def)

lemma require_services_read_scope: "require_services_read = require_service_scope SERVICES_READ"
  by (intro ext) (simp add: require_services_read_def require_service_scope_def)

lemma internal_service_exists_eq:
  "fst (internal_service_exists dep lib_now clock db (Some token) i entries) =
     (case verify_token (idp_lib dep) (idp_verifier dep) lib_now clock token of
        Inl (ServiceAuthenticationError _) \<Rightarrow> Inl service_authentication_error
      | Inl _ \<Rightarrow> Inl internal_error
      | Inr caller \<Rightarrow>
          if SERVICES_READ \<in> set (sp_scopes caller) then Inr (service_get_by_id i (cdb_services db) \<noteq> None)
          else Inl (incident_failure 403 ''Insufficient service permissions.''))"
  by (simp add: internal_service_exists_def authenticate_incident_service_same require_services_read_scope
      authenticate_service_def audit_simps split: sum.splits service_identity_error.splits)

lemma catalog_answer_refusal:
  "irp_status reply \<noteq> 200 \<Longrightarrow> catalog_answer i (internal_response (Inl reply)) = Inl (catalog_unavailable i)"
  by (simp add: catalog_answer_def)

lemma catalog_answer_verdict: "catalog_answer i (internal_response (Inr found)) = Inr found"
  by (simp add: catalog_answer_def payload_get_def)

text \<open>
  Claim C6. The Incident Service's question whether a service exists, asked with a token of its
  provider and answered by the core backend's endpoint, returns what the backend's table says, if the
  token could be minted and is within its lifetime when it is checked; otherwise the question fails
  as unavailable, never with a wrong verdict. So an incident is only created for a service of the
  backend's table.
\<close>

theorem catalog_verdict_end_to_end:
  assumes "jwt_contract lib public_of"
    and "new_service_token_provider load pem kid issuer ttl = Inr prov"
    and "new_http_service_catalog_gateway url audience = Inr gw"
    and "stv_expected_issuer stv = stp_issuer prov" and "stv_expected_audience stv = py_strip audience"
    and "map_of (stv_public_keys stv) (stp_key_id prov) = Some (public_of (stp_private_key prov))"
    and "0 \<le> issued" and "issued < timedelta_seconds 253402300000"
  shows "let minted = create_token lib prov (Aware issued) token_id (py_strip audience) [SERVICES_READ];
      from = issued div us_per_second * us_per_second;
      until = from + timedelta_seconds ttl;
      env = \<lparr>cte_create_token = provider_tokens lib prov (Aware issued) token_id,
        cte_transport = backend_transport \<lparr>idp_lib = lib, idp_verifier = stv\<rparr> (scg_core_backend_url gw)
          lib_now (Aware now) db entries\<rparr>
    in catalog_service_exists gw env i =
         (if \<not> isl minted \<and> from \<le> now + stv_clock_skew stv \<and> now < until + stv_clock_skew stv
          then Inr (service_get_by_id i (cdb_services db) \<noteq> None) else Inl (catalog_unavailable i)) \<and>
       (\<forall>d p c idb r idb'. incident_service_create (catalog_service_exists gw env) d p c idb = (Inr r, idb') \<longrightarrow>
          service_get_by_id (inc_service_id r) (cdb_services db) \<noteq> None)"
proof -
  define env where "env = \<lparr>cte_create_token = provider_tokens lib prov (Aware issued) token_id,
    cte_transport = backend_transport \<lparr>idp_lib = lib, idp_verifier = stv\<rparr> (scg_core_backend_url gw)
      lib_now (Aware now) db entries\<rparr>"
  let ?minted = "create_token lib prov (Aware issued) token_id (py_strip audience) [SERVICES_READ]"
  let ?from = "issued div us_per_second * us_per_second"
  let ?valid = "?from \<le> now + stv_clock_skew stv \<and> now < ?from + timedelta_seconds ttl + stv_clock_skew stv"
  have aud: "scg_core_backend_audience gw = py_strip audience"
    using assms(3) by (auto simp: new_http_service_catalog_gateway_def Let_def split: if_splits)
  have verdict: "catalog_service_exists gw env j =
      (if \<not> isl ?minted \<and> ?valid then Inr (service_get_by_id j (cdb_services db) \<noteq> None) else Inl (catalog_unavailable j))"
    for j
  proof (cases ?minted)
    case (Inl e)
    then show ?thesis by (simp add: catalog_service_exists_def env_def provider_tokens_def aud)
  next
    case (Inr token)
    have "jwt_encode lib (service_claims prov issued token_id (py_strip (py_strip audience)) [SERVICES_READ])
        (stp_private_key prov) SERVICE_TOKEN_ALGORITHM (service_header prov) = Some token"
      using Inr by (auto simp: create_token_def require_non_empty_text_def Let_def split: if_splits sum.splits option.splits)
    then have ne: "token \<noteq> []" using jwt_contract_token [OF assms(1)] by fastforce
    have vt: "verify_token lib stv lib_now (Aware now) token =
        (if ?valid then Inr \<lparr>sp_issuer = stp_issuer prov, sp_subject = stp_issuer prov,
            sp_audience = py_strip audience, sp_token_id = token_id, sp_issued_at = ?from, sp_not_before = ?from,
            sp_expires_at = ?from + timedelta_seconds ttl, sp_scopes = granted_scopes [SERVICES_READ]\<rparr>
         else Inl (ServiceAuthenticationError INVALID_LIFETIME))"
      using minted_token_verified [OF assms(1,2) Inr assms(4) _ assms(6-8), of lib_now now] assms(5)
      by (simp add: py_strip_idem Let_def)
    have "cte_transport env (catalog_request gw j token) =
        Responded (internal_response (fst (internal_service_exists \<lparr>idp_lib = lib, idp_verifier = stv\<rparr> lib_now
          (Aware now) db (Some token) j entries)))"
      by (simp add: env_def backend_transport_def catalog_request_def exists_route_catalog [simplified]
          bearer_credentials_bearer [OF ne, simplified])
    then show ?thesis using Inr ne
      by (simp add: catalog_service_exists_def env_def provider_tokens_def aud internal_service_exists_eq vt
          catalog_answer_verdict catalog_answer_refusal service_authentication_error_def incident_failure_def
          del: internal_response.simps)
  qed
  have "service_get_by_id (inc_service_id r) (cdb_services db) \<noteq> None"
    if "incident_service_create (catalog_service_exists gw env) d p c idb = (Inr r, idb')" for d p c idb r idb'
  proof -
    have "catalog_service_exists gw env (crt_service_id p) = Inr True" and "r = new_incident d p"
      using that by (auto simp: incident_service_create_Inr)
    then show ?thesis using verdict [of "crt_service_id p"] by (simp add: new_incident_def split: if_splits)
  qed
  with verdict [of i] show ?thesis unfolding Let_def env_def by blast
qed

section \<open>A concrete exchange\<close>

definition demo_catalog_provider :: "unit service_token_provider" where
  "demo_catalog_provider = demo_provider\<lparr>stp_issuer := ''incident-service''\<rparr>"

definition demo_catalog_verifier :: "unit service_token_verifier" where
  "demo_catalog_verifier =
     demo_verifier\<lparr>stv_expected_issuer := ''incident-service'', stv_expected_audience := ''core-backend''\<rparr>"

definition demo_catalog_lib :: "(unit, unit) jwt_lib" where
  "demo_catalog_lib =
     one_token_lib (service_claims demo_catalog_provider 1000000123 7 ''core-backend'' [SERVICES_READ])
       SERVICE_TOKEN_ALGORITHM (service_header demo_catalog_provider)"

definition demo_service :: catalog_service where
  "demo_service =
     \<lparr>svc_id = 5, svc_name = ''api'', svc_owner = ''ops'', svc_status = HEALTHY, svc_uptime = ''99%'',
      svc_latency_ms = 12, svc_description = ''gateway'', svc_region = ''eu'', svc_version = ''1'',
      svc_last_deployed_at = 0, svc_dependencies = [''db'']\<rparr>"

lemma demo_catalog_contract: "jwt_contract demo_catalog_lib (\<lambda>_. ())"
  unfolding demo_catalog_lib_def
  by (rule one_token_contract) (simp add: service_header_def payload_get_def)

lemma demo_catalog_new_provider:
  "new_service_token_provider demo_load ''pem'' ''k1'' ''incident-service'' 60 = Inr demo_catalog_provider"
  by (simp add: new_service_token_provider_def require_non_empty_text_def service_token_constants
      demo_catalog_provider_def demo_service_defs)

lemma demo_catalog_gateway:
  "new_http_service_catalog_gateway ''http://b'' ''core-backend'' =
     Inr \<lparr>scg_core_backend_url = ''http://b'', scg_core_backend_audience = ''core-backend''\<rparr>"
  by (simp add: new_http_service_catalog_gateway_def)

lemma demo_catalog_minted:
  "create_token demo_catalog_lib demo_catalog_provider (Aware 1000000123) 7 ''core-backend'' [SERVICES_READ] = Inr ''t''"
  by (simp add: create_token_def require_non_empty_text_def demo_catalog_lib_def one_token_lib_def)

theorem catalog_verdict_end_to_end_witness:
  "catalog_service_exists \<lparr>scg_core_backend_url = ''http://b'', scg_core_backend_audience = ''core-backend''\<rparr>
     \<lparr>cte_create_token = provider_tokens demo_catalog_lib demo_catalog_provider (Aware 1000000123) 7,
      cte_transport = backend_transport \<lparr>idp_lib = demo_catalog_lib, idp_verifier = demo_catalog_verifier\<rparr>
        ''http://b'' 0 (Aware 1010000000) \<lparr>cdb_services = [demo_service], cdb_incidents = []\<rparr> []\<rparr> 5 = Inr True"
  using catalog_verdict_end_to_end [OF demo_catalog_contract demo_catalog_new_provider demo_catalog_gateway,
      of demo_catalog_verifier 1000000123 7 0 1010000000 "\<lparr>cdb_services = [demo_service], cdb_incidents = []\<rparr>" "[]" 5]
    demo_catalog_minted
  by (simp add: demo_catalog_provider_def demo_catalog_verifier_def demo_provider_def demo_verifier_def
      timedelta_seconds_def us_per_second_def Let_def service_get_by_id_def lookup_by_Cons demo_service_def)

end
