(* ===== verification/Backend_Guarantees.thy ===== *)
theory Backend_Guarantees
  imports Gateway_Equivalence Catalog_Exchange Auth_Properties
begin

text \<open>
  What the core backend's application routes guarantee: the catalog's tables stay well formed over every
  run, nothing is answered or written without the permission of the route, a service changes as its
  request asks, the overview survives an unavailable Incident Service, and the two deployments of Incident
  Management behave alike.
\<close>

section \<open>Runs of public requests\<close>

record public_call =
  pcl_draws :: auth_draws
  pcl_request :: auth_request
  pcl_incident_draws :: incident_draws
  pcl_env :: gateway_env
  pcl_endpoint :: public_endpoint

definition public_exec ::
    "security \<Rightarrow> (string \<Rightarrow> 'k::linorder) \<Rightarrow> string \<Rightarrow> incident_codec \<Rightarrow> gateway_config \<Rightarrow> public_call \<Rightarrow>
     auth_app \<times> gateway_world backend_world \<Rightarrow> auth_app \<times> gateway_world backend_world" where
  "public_exec sec collation mode codec cfg q s =
     snd (public_serve sec collation (get_incident_gateway mode codec cfg (pcl_env q) (pcl_incident_draws q))
       (pcl_draws q) (pcl_request q) (pcl_endpoint q) s)"

interpretation public_runs: op_system "public_exec sec collation mode codec cfg" "\<lambda>s. catalog_ok (bkw_catalog (snd s))"
  for sec collation mode codec cfg
  by unfold_locales
    (simp add: public_exec_def get_incident_gateway_def local_mode.serve_ok remote_mode.serve_ok)

text \<open>
  Claim C8. Over every run of public requests, with either incident gateway, service names and
  identifiers stay unique, every stored text respects its column and is stripped where the schema
  strips it, and every incident belongs to a stored service and has a resolution time exactly while it
  is resolved.
\<close>

theorem catalog_tables_consistent:
  assumes "catalog_ok (bkw_catalog (snd s))"
  shows "let db = bkw_catalog (snd (fold (public_exec sec collation mode codec cfg) calls s))
    in distinct (map svc_id (cdb_services db)) \<and> distinct (map svc_name (cdb_services db)) \<and>
       (\<forall>x \<in> set (cdb_services db). service_ok x) \<and>
       (\<forall>i \<in> set (cdb_incidents db). service_get_by_id (inc_service_id i) (cdb_services db) \<noteq> None \<and>
          (inc_resolved_at i \<noteq> None \<longleftrightarrow> inc_status i = Status_RESOLVED))"
  using public_runs.inv_run [OF assms, of sec collation mode codec cfg calls]
  by (simp add: Let_def catalog_ok_def services_ok_def unique_key_def incident_ok_def)

section \<open>Access control\<close>

lemma permission_dependency_cases:
  obtains (refused) reply app1 where "permission_dependency sec d req p app = (Inl reply, app1)"
      "400 \<le> brp_status reply" "app_db app1 = app_db app"
  | (granted) u where "permission_dependency sec d req p app = (Inr u, app)" "get_current_user sec d req app = (Inr u, app)"
      "user_get_by_id (usr_id u) (app_db app) = Some u" "usr_is_active u" "has_permission u p"
proof (cases "get_current_user sec d req app")
  case (Pair r app1)
  have db: "app_db app1 = app_db app" by (rule get_current_user_db [OF Pair])
  show ?thesis
  proof (cases r)
    case (Inl e)
    then have "exit_status e = 401"
      using Pair by (auto simp: get_current_user_def http_exception_def plain_reply_def split: option.splits sum.splits)
    then show ?thesis using Pair Inl db
      by (intro refused [of "failure (exit_status e) ''Could not validate credentials.''" app1])
        (simp_all add: permission_dependency_def failure_def reply_of_def)
  next
    case (Inr u)
    note u = get_current_user_Inr [OF Pair [unfolded Inr]]
    show ?thesis
    proof (cases "has_permission u p")
      case True
      then show ?thesis using u Pair Inr
        by (intro granted [of u]) (simp_all add: permission_dependency_def require_permission_def)
    next
      case False
      then obtain e where "require_permission u p = Some e" by (simp add: require_permission_def)
      then show ?thesis using Pair Inr db
        by (intro refused [of "failure 403 ''You do not have permission to perform this action.''" app1])
          (simp_all add: permission_dependency_def failure_def reply_of_def)
    qed
  qed
qed

lemma answer_statuses:
  assumes "\<And>x. brp_status (f x) < 400"
  shows "answer h f r = (Inr reply, w) \<Longrightarrow> brp_status reply < 400"
    and "catalog_answer_of f q = (Inr reply, w) \<Longrightarrow> brp_status reply < 400"
  using assms by (auto simp: answer_def catalog_answer_of_def split: prod.splits sum.splits option.splits)

lemma handler_result_status:
  assumes "public_handler collation gw u ep = Some m" and "m w = (Inr reply, w')"
  shows "brp_status reply < 400"
proof (cases ep)
  case GetOverview
  then show ?thesis using assms
    by (auto simp: get_overview_def reply_of_def split: prod.splits sum.splits if_splits)
next
  case (ListServiceIncidents i offset limit)
  then show ?thesis using assms
    by (auto simp: list_service_incidents_def reply_of_def split: prod.splits sum.splits if_splits
        elim!: answer_statuses(1) [rotated])
qed (use assms in \<open>auto simp: public_list_incidents_def public_get_incident_def public_create_incident_def Let_def
      public_update_incident_def public_delete_incident_def list_services_def get_service_def create_service_def
      update_service_def delete_service_def reply_of_def split: if_splits
      elim!: answer_statuses [rotated]\<close>)

lemma refused_writes_nothing:
  assumes "public_handler collation gw u ep = Some m" and "400 \<le> brp_status (fst (db_unit_of_work m w))"
  shows "bkw_catalog (snd (db_unit_of_work m w)) = bkw_catalog w"
  using assms handler_result_status [OF assms(1), of w]
  by (cases "m w") (auto simp: db_unit_of_work_def split: sum.splits)

text \<open>
  Claim C7. A public route answers with success, or changes anything but the security log, only
  for a request whose access token belongs to an active account of the user table whose role has the
  permission the route declares. Without that permission the answer is 403, without a token 401; an
  answer of 400 or above leaves the service and incident tables as they were.
\<close>

theorem public_access_control:
  fixes s :: "auth_app \<times> 'g backend_world"
  shows "let out = public_serve sec collation gw d req ep s; reply = fst out; s' = snd out
    in app_db (fst s') = app_db (fst s) \<and>
       (brp_status reply < 400 \<or> snd s' \<noteq> snd s \<longrightarrow>
          (\<exists>u. fst (get_current_user sec d req (fst s)) = Inr u \<and> user_get_by_id (usr_id u) (app_db (fst s)) = Some u \<and>
             usr_is_active u \<and> endpoint_permission ep \<in> role_permissions (usr_role u))) \<and>
       (\<forall>u. fst (get_current_user sec d req (fst s)) = Inr u \<and> endpoint_permission ep \<notin> role_permissions (usr_role u) \<longrightarrow>
          brp_status reply = 403) \<and>
       (get_cookie (rq_bearer req) = None \<longrightarrow> brp_status reply = 401) \<and>
       (400 \<le> brp_status reply \<longrightarrow> bkw_catalog (snd s') = bkw_catalog (snd s))"
proof -
  obtain app w where s: "s = (app, w)" by fastforce
  have anonymous: "fst (public_serve sec collation gw d req ep s) = failure 401 ''Could not validate credentials.''"
    if "get_cookie (rq_bearer req) = None"
    using that by (simp add: public_serve_def permission_dependency_def get_current_user_def s http_exception_def plain_reply_def)
  have forbidden: "fst (public_serve sec collation gw d req ep s) =
      failure 403 ''You do not have permission to perform this action.''"
    if "fst (get_current_user sec d req app) = Inr u" "endpoint_permission ep \<notin> role_permissions (usr_role u)" for u
    using that by (cases "get_current_user sec d req app")
      (auto simp: public_serve_def permission_dependency_def s require_permission_def has_permission_def)
  show ?thesis
  proof (cases rule: permission_dependency_cases [of sec d req "endpoint_permission ep" app])
    case (refused reply app1)
    then show ?thesis using anonymous forbidden
      by (auto simp: public_serve_def s Let_def failure_def reply_of_def)
  next
    case (granted u)
    have "\<exists>u. fst (get_current_user sec d req app) = Inr u \<and> user_get_by_id (usr_id u) (app_db app) = Some u \<and>
        usr_is_active u \<and> endpoint_permission ep \<in> role_permissions (usr_role u)"
      using granted by (auto simp: has_permission_def)
    moreover have "bkw_catalog (snd (snd (public_serve sec collation gw d req ep s))) = bkw_catalog w"
      if "400 \<le> brp_status (fst (public_serve sec collation gw d req ep s))"
      using that refused_writes_nothing [of collation gw u ep _ w] granted(1)
      by (auto simp: public_serve_def s split: option.splits prod.splits)
    moreover have "app_db (fst (snd (public_serve sec collation gw d req ep s))) = app_db app"
      using granted(1) by (auto simp: public_serve_def s split: option.splits prod.splits)
    ultimately show ?thesis using anonymous forbidden
      by (auto simp: s Let_def failure_def reply_of_def)
  qed
qed

section \<open>Changing a service\<close>

text \<open>
  Updating a service answers 404 when it does not exist, 409 when the new name belongs to another
  service, and otherwise either replaces exactly this service's row, every field that was sent taking its
  new value and every other field keeping its own, or fails with 500 and changes nothing: for an
  explicit null, and for a value its column refuses. Deleting a service removes it and exactly its
  incidents.
\<close>

theorem service_update_outcome:
  assumes "catalog_ok (bkw_catalog w)" and "service_get_by_id i (cdb_services (bkw_catalog w)) = Some x"
  shows "(let rows = cdb_services (bkw_catalog w); y = updated_service x p; out = db_unit_of_work (update_service i p) w
      in (\<forall>name other. usv_name p = Some (Some name) \<and> other \<in> set rows \<and> svc_name other = name \<and> svc_id other \<noteq> i \<longrightarrow>
            brp_status (fst out) = 409 \<and> snd out = w) \<and>
         (update_sends_null p \<longrightarrow> brp_status (fst out) \<in> {409, 500} \<and> snd out = w) \<and>
         (brp_status (fst out) = 200 \<longrightarrow>
            brp_services (fst out) = [y] \<and>
            snd out = w\<lparr>bkw_catalog := (bkw_catalog w)\<lparr>cdb_services :=
              map (\<lambda>r. if svc_id r = i then the (stored_service y) else r) rows\<rparr>\<rparr>) \<and>
         brp_status (fst out) \<in> {200, 409, 500}) \<and>
    (let out = db_unit_of_work (delete_service i) w
      in brp_status (fst out) = 204 \<and>
         cdb_services (bkw_catalog (snd out)) = filter (\<lambda>r. svc_id r \<noteq> i) (cdb_services (bkw_catalog w)) \<and>
         cdb_incidents (bkw_catalog (snd out)) = filter (\<lambda>r. inc_service_id r \<noteq> i) (cdb_incidents (bkw_catalog w)))"
proof -
  let ?rows = "cdb_services (bkw_catalog w)" and ?y = "updated_service x p"
  let ?out = "db_unit_of_work (update_service i p) w"
  have id: "svc_id x = i" using lookup_by_SomeD assms(2) unfolding service_get_by_id_def by metis
  have uniq: "unique_key svc_name ?rows" using assms(1) by (simp add: catalog_ok_def services_ok_def)
  have run: "?out = (if name_taken i p ?rows
      then (failure 409 (''A service named '' @ [CHR 0x22] @ changed (usv_name p) [] @ [CHR 0x22] @ '' already exists.''), w)
      else if update_sends_null p then (server_error, w)
      else case service_replace ?y ?rows of None \<Rightarrow> (server_error, w)
        | Some rows' \<Rightarrow> (reply_of 200 [?y] [], w\<lparr>bkw_catalog := (bkw_catalog w)\<lparr>cdb_services := rows'\<rparr>\<rparr>))"
    using assms(2) by (auto simp: db_unit_of_work_def update_service_def on_catalog_def service_service_update_def
        catalog_answer_of_def split: option.splits)
  have taken: "name_taken i p ?rows"
    if "usv_name p = Some (Some name)" "other \<in> set ?rows" "svc_name other = name" "svc_id other \<noteq> i" for name other
    using lookup_by_unique [OF uniq that(2,3)] that(1,4) by (simp add: name_taken_def service_get_by_name_def)
  have written: "rows' = map (\<lambda>r. if svc_id r = i then the (stored_service ?y) else r) ?rows"
    if "service_replace ?y ?rows = Some rows'" for rows'
    using that id by (auto simp: service_replace_def updated_service_def update_where_def split: option.splits if_splits)
  have "db_unit_of_work (delete_service i) w = (reply_of 204 [] [], w\<lparr>bkw_catalog := service_remove i (bkw_catalog w)\<rparr>)"
    using assms(2) by (simp add: db_unit_of_work_def delete_service_def on_catalog_def service_service_delete_def
        service_service_get_def catalog_answer_of_def)
  then show ?thesis using taken written
    by (auto simp: run Let_def failure_def reply_of_def server_error_def service_remove_def delete_where_def
        split: option.splits)
qed

section \<open>The overview\<close>

text \<open>
  The overview always shows the service catalog: a known failure of the incident gateway gives the
  same services with the incident counts absent and the degradation flagged, and is never shown as
  zero incidents. The service counts add up to the total, which is at most 100, and the counts of
  active and of customer-impacting incidents are bounded by the incidents shown.
\<close>

theorem overview_survives:
  assumes "igw_list gw None None None None 0 100 w = (r, w')"
  shows "let services = service_list collation None None 0 100 (cdb_services (bkw_catalog w));
      out = get_overview collation gw w
    in (\<forall>e reply. r = Inl e \<and> incident_gateway_http_exception e = Some reply \<longrightarrow>
          (\<exists>o1. fst out = Inr ((reply_of 200 [] [])\<lparr>brp_overview := Some o1\<rparr>) \<and> ovw_services o1 = services \<and>
             \<not> ovw_incident_data_available o1 \<and> ovw_incidents o1 = [] \<and>
             ovw_active_incidents o1 = None \<and> ovw_customer_impacting_incidents o1 = None)) \<and>
       (\<forall>e. r = Inl e \<and> incident_gateway_http_exception e = None \<longrightarrow> fst out = Inl server_error) \<and>
       (\<forall>is. r = Inr is \<longrightarrow>
          (\<exists>o1. fst out = Inr ((reply_of 200 [] [])\<lparr>brp_overview := Some o1\<rparr>) \<and> ovw_services o1 = services \<and>
             ovw_incident_data_available o1 \<and> ovw_incidents o1 = is)) \<and>
       (\<forall>reply o1. fst out = Inr reply \<and> brp_overview reply = Some o1 \<longrightarrow>
          ovw_healthy_services o1 + ovw_degraded_services o1 + ovw_critical_services o1 = ovw_total_services o1 \<and>
          ovw_total_services o1 \<le> 100 \<and>
          (\<forall>n m. ovw_active_incidents o1 = Some n \<and> ovw_customer_impacting_incidents o1 = Some m \<longrightarrow>
             m \<le> n \<and> n \<le> length (ovw_incidents o1)))"
proof -
  let ?services = "service_list collation None None 0 100 (cdb_services (bkw_catalog w))"
  have three: "count_where (\<lambda>s. svc_status s = HEALTHY) ss + count_where (\<lambda>s. svc_status s = DEGRADED) ss +
      count_where (\<lambda>s. svc_status s = CRITICAL) ss = length ss" for ss :: "catalog_service list"
  proof (induction ss)
    case (Cons s ss)
    then show ?case by (cases "svc_status s") (auto simp: count_where_def)
  qed (simp add: count_where_def)
  have "length ?services \<le> 100" by (simp add: service_list_def page_def)
  moreover have "w\<lparr>bkw_catalog := bkw_catalog w\<rparr> = w" by simp
  ultimately show ?thesis using assms three [of ?services] count_where_le
    by (auto simp: get_overview_def on_catalog_def list_services_op_def OVERVIEW_COLLECTION_LIMIT_def
        build_overview_def Let_def reply_of_def count_where_le split: sum.splits option.splits)
qed

section \<open>Two deployments of Incident Management\<close>


section \<open>Witnesses\<close>

definition demo_catalog :: catalog_db where
  "demo_catalog = \<lparr>cdb_services = [demo_service], cdb_incidents = []\<rparr>"

definition demo_backend_world :: "gateway_world backend_world" where
  "demo_backend_world = \<lparr>bkw_catalog = demo_catalog, bkw_gateway = \<lparr>gw_circuit = None, gw_log = []\<rparr>\<rparr>"

definition demo_extracted_world :: "incident_db backend_world" where
  "demo_extracted_world = \<lparr>bkw_catalog = demo_catalog,
     bkw_gateway = \<lparr>idb_incidents = [], idb_tasks = [], idb_completions = []\<rparr>\<rparr>"

definition demo_public_draws :: incident_draws where
  "demo_public_draws = \<lparr>idr_incident_id = 1, idr_now = 0, idr_task_id = 3, idr_outbox_id = 4,
     idr_correlation_id = 5, idr_resolved_now = 7, idr_updated_now = 8\<rparr>"

definition demo_public_create :: incident_create where
  "demo_public_create = \<lparr>crt_title = ''t'', crt_service_id = 5, crt_severity = SEV_1, crt_status = Status_OPEN,
     crt_summary = ''s'', crt_assignee = ''a'', crt_started_at = None, crt_source = ''manual'',
     crt_customer_impacting = False, crt_acknowledged_at = None, crt_reported_by_email = None\<rparr>"

lemma demo_catalog_ok: "catalog_ok demo_catalog"
proof -
  have "service_ok demo_service" by code_simp
  then show ?thesis by (simp add: catalog_ok_def services_ok_def demo_catalog_def unique_key_def)
qed

lemma demo_viewer: "fst (get_current_user demo_sec (demo_draws 9) (demo_request (Some ''ttt'') None) (demo_app demo_users [])) = Inr demo_user"
  by code_simp

definition demo_wire :: incident_codec where
  "demo_wire = \<lparr>dump_incident_create = \<lambda>_. JNull, dump_incident_update = \<lambda>_. JNull,
     validate_incident = \<lambda>_. None, validate_incident_list = \<lambda>_. Some []\<rparr>"

definition demo_public_call :: public_call where
  "demo_public_call = \<lparr>pcl_draws = demo_draws 9, pcl_request = demo_request (Some ''ttt'') None,
     pcl_incident_draws = demo_public_draws, pcl_env = demo_env (\<lambda>_. TimedOut), pcl_endpoint = GetOverview\<rparr>"

theorem catalog_tables_consistent_witness:
  "distinct (map svc_name (cdb_services (bkw_catalog (snd (fold (public_exec demo_sec length ''local'' demo_wire demo_gateway)
     [demo_public_call] (demo_app demo_users [], demo_backend_world))))))"
  using catalog_tables_consistent [of "(demo_app demo_users [], demo_backend_world)" demo_sec length "''local''"
      demo_wire demo_gateway "[demo_public_call]"]
    demo_catalog_ok by (simp add: demo_backend_world_def Let_def)

theorem public_access_control_witness:
  "brp_status (fst (public_serve demo_sec length (local_gateway demo_public_draws) (demo_draws 9)
     (demo_request (Some ''ttt'') None) (DeleteService 5) (demo_app demo_users [], demo_backend_world))) = 403"
proof -
  have "endpoint_permission (DeleteService 5) \<notin> role_permissions (usr_role demo_user)" by (simp add: demo_user_def)
  then show ?thesis
    using public_access_control [of demo_sec length "local_gateway demo_public_draws" "demo_draws 9"
        "demo_request (Some ''ttt'') None" "DeleteService 5" "(demo_app demo_users [], demo_backend_world)"] demo_viewer
    by (fastforce simp: Let_def)
qed

theorem service_update_outcome_witness:
  "cdb_services (bkw_catalog (snd (db_unit_of_work (delete_service 5) demo_backend_world))) = []"
  using service_update_outcome [of demo_backend_world 5 demo_service] demo_catalog_ok
  by (simp add: demo_backend_world_def demo_catalog_def service_get_by_id_def lookup_by_Cons demo_service_def Let_def)

theorem overview_survives_witness:
  "\<exists>reply o1. fst (get_overview length ((local_gateway demo_public_draws)
      \<lparr>igw_list := \<lambda>_ _ _ _ _ _ w. (Inl (IncidentGatewayCircuitOpenError 5), w)\<rparr>) demo_backend_world) = Inr reply \<and>
     brp_overview reply = Some o1 \<and> \<not> ovw_incident_data_available o1 \<and> ovw_total_services o1 \<le> 100"
  using overview_survives [of "(local_gateway demo_public_draws)
      \<lparr>igw_list := \<lambda>_ _ _ _ _ _ w. (Inl (IncidentGatewayCircuitOpenError 5), w)\<rparr>"
      demo_backend_world "Inl (IncidentGatewayCircuitOpenError 5)" demo_backend_world length]
  by (fastforce simp: Let_def)


end
