(* ===== verification/Task_Worker.thy ===== *)
theory Task_Worker
  imports Task_Execution Incident_Domain Request_Context
begin

text \<open>
  The task worker Lambda (\<open>src/lambdas/task-worker/src/task_worker\<close>): the contract check of
  \<open>contracts.py\<close> against \<open>contracts/tasks/task-envelope-v1.schema.json\<close>, the dispatcher, the incident handlers
  and the batch loop of \<open>handler.py\<close>.

  Parameters stand for the libraries: \<open>loads\<close> is \<open>json.loads\<close> (\<open>None\<close> where it raises), \<open>fmt\<close> the format
  checker of jsonschema (format name, text), and each delivery carries what the Powertools idempotency
  layer decides for it. A pattern's closing dollar also matches before a final newline, as Python's \<open>re\<close> does.
\<close>

section \<open>The envelope contract\<close>

definition lower_letter :: "char \<Rightarrow> bool" where
  "lower_letter c \<longleftrightarrow> (let n = (of_char c :: nat) in 97 \<le> n \<and> n \<le> 122)"

definition decimal_digit :: "char \<Rightarrow> bool" where
  "decimal_digit c \<longleftrightarrow> (let n = (of_char c :: nat) in 48 \<le> n \<and> n \<le> 57)"

fun head_and_tail :: "(char \<Rightarrow> bool) \<Rightarrow> (char \<Rightarrow> bool) \<Rightarrow> string \<Rightarrow> bool" where
  "head_and_tail p q [] = False"
| "head_and_tail p q (c # cs) = (p c \<and> list_all q cs)"

definition before_newline :: "string \<Rightarrow> string" where
  "before_newline s = (if s \<noteq> [] \<and> last s = char_of (10 :: nat) then butlast s else s)"

definition task_type_pattern :: "string \<Rightarrow> bool" where
  "task_type_pattern s =
     (case split_on (CHR ''.'') (before_newline s) of
        first # second # others \<Rightarrow>
          head_and_tail lower_letter (\<lambda>c. lower_letter c \<or> decimal_digit c) first \<and>
          list_all (head_and_tail lower_letter (\<lambda>c. lower_letter c \<or> decimal_digit c \<or> c \<in> set ''_-'')) (second # others)
      | _ \<Rightarrow> False)"

definition producer_pattern :: "string \<Rightarrow> bool" where
  "producer_pattern s =
     head_and_tail (\<lambda>c. lower_letter c \<or> decimal_digit c)
       (\<lambda>c. lower_letter c \<or> decimal_digit c \<or> c \<in> set ''._-'') (before_newline s)"

definition idempotency_key_pattern :: "string \<Rightarrow> bool" where
  "idempotency_key_pattern s =
     head_and_tail ascii_alphanumeric (\<lambda>c. ascii_alphanumeric c \<or> c \<in> set ''._:/-'') (before_newline s)"

definition json_string :: "(string \<Rightarrow> bool) \<Rightarrow> json option \<Rightarrow> bool" where
  "json_string p v = (case v of Some (JStr s) \<Rightarrow> p s | _ \<Rightarrow> False)"

definition envelope_properties :: "string list" where
  "envelope_properties =
     [''task_id'', ''kind'', ''task_type'', ''schema_version'', ''created_at'', ''producer'', ''correlation_id'',
      ''causation_id'', ''idempotency_key'', ''payload'', ''metadata'']"

definition causation_conforms :: "json option \<Rightarrow> bool" where
  "causation_conforms v = (case v of None \<Rightarrow> True | Some JNull \<Rightarrow> True | Some (JStr s) \<Rightarrow> 1 \<le> length s | _ \<Rightarrow> False)"

definition metadata_conforms :: "json option \<Rightarrow> bool" where
  "metadata_conforms v =
     (case v of
        None \<Rightarrow> True
      | Some (JObj members) \<Rightarrow>
          length members \<le> 20 \<and> list_all (\<lambda>(k, x). case x of JStr s \<Rightarrow> length s \<le> 1024 | _ \<Rightarrow> False) members
      | _ \<Rightarrow> False)"

definition envelope_conforms :: "(string \<Rightarrow> string \<Rightarrow> bool) \<Rightarrow> payload \<Rightarrow> bool" where
  "envelope_conforms fmt m \<longleftrightarrow>
     list_all (\<lambda>(k, _). k \<in> set envelope_properties) m \<and>
     json_string (fmt ''uuid'') (map_of m ''task_id'') \<and>
     map_of m ''kind'' = Some (JStr ''task'') \<and>
     json_string (\<lambda>s. length_within 3 120 s \<and> task_type_pattern s) (map_of m ''task_type'') \<and>
     map_of m ''schema_version'' = Some (JStr ''1.0'') \<and>
     json_string (fmt ''date-time'') (map_of m ''created_at'') \<and>
     json_string (\<lambda>s. length_within 1 100 s \<and> producer_pattern s) (map_of m ''producer'') \<and>
     json_string (\<lambda>s. 1 \<le> length s) (map_of m ''correlation_id'') \<and>
     causation_conforms (map_of m ''causation_id'') \<and>
     json_string (\<lambda>s. length_within 1 255 s \<and> idempotency_key_pattern s) (map_of m ''idempotency_key'') \<and>
     (case map_of m ''payload'' of Some (JObj _) \<Rightarrow> True | _ \<Rightarrow> False) \<and>
     metadata_conforms (map_of m ''metadata'')"

definition string_member :: "payload \<Rightarrow> string \<Rightarrow> string" where
  "string_member m k = (case map_of m k of Some (JStr s) \<Rightarrow> s | _ \<Rightarrow> [])"

definition object_member :: "payload \<Rightarrow> string \<Rightarrow> payload option" where
  "object_member m k = (case map_of m k of Some (JObj p) \<Rightarrow> Some p | _ \<Rightarrow> None)"

definition read_envelope :: "payload \<Rightarrow> task_envelope" where
  "read_envelope m =
     \<lparr>env_task_id = string_member m ''task_id'', env_task_type = string_member m ''task_type'',
      env_schema_version = string_member m ''schema_version'', env_created_at = string_member m ''created_at'',
      env_producer = string_member m ''producer'', env_correlation_id = string_member m ''correlation_id'',
      env_causation_id = (case map_of m ''causation_id'' of Some (JStr s) \<Rightarrow> Some s | _ \<Rightarrow> None),
      env_idempotency_key = string_member m ''idempotency_key'',
      env_payload = (case object_member m ''payload'' of None \<Rightarrow> [] | Some p \<Rightarrow> p),
      env_metadata = object_member m ''metadata''\<rparr>"

datatype worker_error =
    InvalidSqsRecordError string
  | InvalidTaskEnvelopeError
  | UnsupportedTaskTypeError string
  | InvalidIncidentProcessingTaskError string
  | ExecutionStoreError execution_error
  | IdempotencyLayerError

definition validate_task_envelope :: "(string \<Rightarrow> string \<Rightarrow> bool) \<Rightarrow> json \<Rightarrow> worker_error + task_envelope" where
  "validate_task_envelope fmt task =
     (case task of
        JObj m \<Rightarrow> if envelope_conforms fmt m then Inr (read_envelope m) else Inl InvalidTaskEnvelopeError
      | _ \<Rightarrow> Inl InvalidTaskEnvelopeError)"

section \<open>Handlers and dispatch\<close>

definition incident_id_from_task :: "task_envelope \<Rightarrow> worker_error + string" where
  "incident_id_from_task t =
     (case map_of (env_payload t) ''incident_id'' of
        Some (JStr s) \<Rightarrow>
          if py_strip s = [] then Inl (InvalidIncidentProcessingTaskError
            ''Incident Processing task payload must contain a non-empty incident_id'')
          else (case uuid_parse s of
                  None \<Rightarrow> Inl (InvalidIncidentProcessingTaskError
                    ''Incident Processing task incident_id must be a valid UUID'')
                | Some u \<Rightarrow> Inr (uuid_str u))
      | _ \<Rightarrow> Inl (InvalidIncidentProcessingTaskError
            ''Incident Processing task payload must contain a non-empty incident_id''))"

record worker_draws =
  wdr_now :: instant
  wdr_now_epoch :: int
  wdr_put_fault :: dynamo_fault
  wdr_get_ok :: bool

definition handle_incident_processing_requested ::
    "int \<Rightarrow> worker_draws \<Rightarrow> task_envelope \<Rightarrow> execution_table \<Rightarrow> (worker_error + unit) \<times> execution_table" where
  "handle_incident_processing_requested expiration_seconds d t rows =
     (case incident_id_from_task t of
        Inl e \<Rightarrow> (Inl e, rows)
      | Inr incident_id \<Rightarrow>
          (case accept_incident_processing_task (wdr_now d) (wdr_now_epoch d) expiration_seconds (wdr_put_fault d)
                  (wdr_get_ok d) t incident_id rows of
             (Inl e, rows') \<Rightarrow> (Inl (ExecutionStoreError e), rows')
           | (Inr _, rows') \<Rightarrow> (Inr (), rows')))"

definition handle_incident_notification_requested ::
    "task_envelope \<Rightarrow> execution_table \<Rightarrow> (worker_error + unit) \<times> execution_table" where
  "handle_incident_notification_requested t rows = (Inr (), rows)"

definition dispatch_task ::
    "int \<Rightarrow> worker_draws \<Rightarrow> task_envelope \<Rightarrow> execution_table \<Rightarrow> (worker_error + unit) \<times> execution_table" where
  "dispatch_task expiration_seconds d t rows =
     (if env_task_type t = ''incident.notification.requested'' then handle_incident_notification_requested t rows
      else if env_task_type t = ''incident.processing.requested''
      then handle_incident_processing_requested expiration_seconds d t rows
      else (Inl (UnsupportedTaskTypeError (env_task_type t)), rows))"

section \<open>Records and batches\<close>

text \<open>
  \<open>idempotent_function\<close>: it runs the processor and then saves its completion, or answers from an earlier
  completion without running it, or raises without running it.
\<close>

datatype idempotency_decision = RunTask bool | CompletedBefore | RefusedByLayer

definition process_task_idempotently ::
    "int \<Rightarrow> idempotency_decision \<Rightarrow> worker_draws \<Rightarrow> task_envelope \<Rightarrow> execution_table \<Rightarrow>
     (worker_error + unit) \<times> execution_table" where
  "process_task_idempotently expiration_seconds decision d t rows =
     (case decision of
        CompletedBefore \<Rightarrow> (Inr (), rows)
      | RefusedByLayer \<Rightarrow> (Inl IdempotencyLayerError, rows)
      | RunTask save_ok \<Rightarrow>
          (case dispatch_task expiration_seconds d t rows of
             (Inl e, rows') \<Rightarrow> (Inl e, rows')
           | (Inr _, rows') \<Rightarrow> (if save_ok then Inr () else Inl IdempotencyLayerError, rows')))"

record delivery =
  dlv_record :: json
  dlv_decision :: idempotency_decision
  dlv_draws :: worker_draws

definition parse_record_body :: "(string \<Rightarrow> json option) \<Rightarrow> payload \<Rightarrow> worker_error + json" where
  "parse_record_body loads m =
     (case payload_get m ''body'' of
        JStr body \<Rightarrow>
          (case loads body of
             None \<Rightarrow> Inl (InvalidSqsRecordError ''SQS record body must contain valid JSON'')
           | Some v \<Rightarrow> Inr v)
      | _ \<Rightarrow> Inl (InvalidSqsRecordError ''SQS record body must be a string''))"

definition process_record ::
    "(string \<Rightarrow> json option) \<Rightarrow> (string \<Rightarrow> string \<Rightarrow> bool) \<Rightarrow> int \<Rightarrow> idempotency_decision \<Rightarrow> worker_draws \<Rightarrow>
     payload \<Rightarrow> execution_table \<Rightarrow> (worker_error + unit) \<times> execution_table" where
  "process_record loads fmt expiration_seconds decision d m rows =
     (case parse_record_body loads m of
        Inl e \<Rightarrow> (Inl e, rows)
      | Inr candidate \<Rightarrow>
          (case validate_task_envelope fmt candidate of
             Inl e \<Rightarrow> (Inl e, rows)
           | Inr t \<Rightarrow> process_task_idempotently expiration_seconds decision d t rows))"

fun process_records ::
    "(string \<Rightarrow> json option) \<Rightarrow> (string \<Rightarrow> string \<Rightarrow> bool) \<Rightarrow> int \<Rightarrow> delivery list \<Rightarrow> string list \<Rightarrow>
     execution_table \<Rightarrow> (worker_error + string list) \<times> execution_table" where
  "process_records loads fmt expiration_seconds [] failures rows = (Inr failures, rows)"
| "process_records loads fmt expiration_seconds (v # vs) failures rows =
     (case dlv_record v of
        JObj m \<Rightarrow>
          (case payload_get m ''messageId'' of
             JStr (c # cs) \<Rightarrow>
               (case process_record loads fmt expiration_seconds (dlv_decision v) (dlv_draws v) m rows of
                  (Inl _, rows') \<Rightarrow>
                    process_records loads fmt expiration_seconds vs (failures @ [c # cs]) rows'
                | (Inr _, rows') \<Rightarrow> process_records loads fmt expiration_seconds vs failures rows')
           | _ \<Rightarrow> (Inl (InvalidSqsRecordError ''Each SQS record must contain messageId''), rows))
      | _ \<Rightarrow> (Inl (InvalidSqsRecordError ''Each SQS record must be an object''), rows))"

definition lambda_handler ::
    "(string \<Rightarrow> json option) \<Rightarrow> (string \<Rightarrow> string \<Rightarrow> bool) \<Rightarrow> int \<Rightarrow> delivery list option \<Rightarrow>
     execution_table \<Rightarrow> (worker_error + string list) \<times> execution_table" where
  "lambda_handler loads fmt expiration_seconds records rows =
     (case records of
        None \<Rightarrow> (Inl (InvalidSqsRecordError ''Lambda event must contain a Records list''), rows)
      | Some vs \<Rightarrow> process_records loads fmt expiration_seconds vs [] rows)"

end
