(* ===== verification/Task_Pipeline.thy ===== *)
theory Task_Pipeline
  imports Incident_Invariants Task_Worker
begin

text \<open>
  The asynchronous pipeline as a transition system: API requests, the two relays, the task worker and any
  number of reconcilers run concurrently over one PostgreSQL database and one DynamoDB table. A step is one
  database transaction or one DynamoDB call, so every interleaving of the processes, every crash
  between two calls, every repeated call and every redelivery is a run. \<open>pln_claims\<close> are the claims reconcilers were handed,
  \<open>pln_exits\<close> the ends of the processing they did under a claim; both only grow, since a slow or
  restarted reconciler may act on an old claim at any later time. \<open>pln_tokens\<close> are the reconciliation tokens drawn so
  far: a claim draws a fresh one (\<open>uuid4\<close>), the only assumption on the draws.
\<close>

record pipeline =
  pln_app :: incident_app
  pln_sent_tasks :: "task_message list"
  pln_sent_completions :: "completion_message list"
  pln_table :: execution_table
  pln_claims :: "incident_task_execution list"
  pln_exits :: "(incident_task_execution \<times> processor_exit) list"
  pln_tokens :: "string list"

definition pln_db :: "pipeline \<Rightarrow> incident_db" where
  "pln_db s = iap_db (pln_app s)"

definition with_db :: "incident_db \<Rightarrow> pipeline \<Rightarrow> pipeline" where
  "with_db db s = s\<lparr>pln_app := (pln_app s)\<lparr>iap_db := db\<rparr>\<rparr>"

inductive pipeline_step ::
    "('sk, 'pk) incident_deployment \<Rightarrow> (string \<Rightarrow> json option) \<Rightarrow> (string \<Rightarrow> string \<Rightarrow> bool) \<Rightarrow>
     pipeline \<Rightarrow> pipeline \<Rightarrow> bool"
  for dep loads fmt where
  Request: "incident_serve dep q (pln_app s) = (reply, app) \<Longrightarrow>
     pipeline_step dep loads fmt s (s\<lparr>pln_app := app\<rparr>)"
| Relay_Task: "relay_one retry a \<lparr>rls_rows = idb_tasks (pln_db s), rls_sent = pln_sent_tasks s\<rparr> = (result, r) \<Longrightarrow>
     pipeline_step dep loads fmt s
       ((with_db ((pln_db s)\<lparr>idb_tasks := rls_rows r\<rparr>) s)\<lparr>pln_sent_tasks := rls_sent r\<rparr>)"
| Relay_Completion: "completion_relay_one retry a
       \<lparr>rls_rows = idb_completions (pln_db s), rls_sent = pln_sent_completions s\<rparr> = (cresult, r') \<Longrightarrow>
     pipeline_step dep loads fmt s
       ((with_db ((pln_db s)\<lparr>idb_completions := rls_rows r'\<rparr>) s)\<lparr>pln_sent_completions := rls_sent r'\<rparr>)"
| Deliver: "lambda_handler loads fmt expiration_seconds records (pln_table s) = (answer, rows) \<Longrightarrow>
     pipeline_step dep loads fmt s (s\<lparr>pln_table := rows\<rparr>)"
| Claim: "uuid_str token \<notin> set (pln_tokens s) \<Longrightarrow>
     claim_execution now_epoch now token lease_seconds fault task_id (pln_table s) = (claim, rows) \<Longrightarrow>
     pipeline_step dep loads fmt s
       (s\<lparr>pln_table := rows, pln_tokens := uuid_str token # pln_tokens s,
          pln_claims := (case claim of Inr (Some e) \<Rightarrow> e # pln_claims s | _ \<Rightarrow> pln_claims s)\<rparr>)"
| Process: "e \<in> set (pln_claims s) \<Longrightarrow> process_incident_with_postgres d e (pln_db s) = (exit, db) \<Longrightarrow>
     pipeline_step dep loads fmt s ((with_db db s)\<lparr>pln_exits := (e, exit) # pln_exits s\<rparr>)"
| Mark: "(e, exit) \<in> set (pln_exits s) \<Longrightarrow> mark_outcome now fault e exit (pln_table s) = (outcome, rows) \<Longrightarrow>
     pipeline_step dep loads fmt s (s\<lparr>pln_table := rows\<rparr>)"
| Expire: "pipeline_step dep loads fmt s (s\<lparr>pln_table := expire_item now_epoch task_id (pln_table s)\<rparr>)"

inductive_cases pipeline_stepE: "pipeline_step dep loads fmt s s'"

abbreviation pipeline_run ::
    "('sk, 'pk) incident_deployment \<Rightarrow> (string \<Rightarrow> json option) \<Rightarrow> (string \<Rightarrow> string \<Rightarrow> bool) \<Rightarrow>
     pipeline \<Rightarrow> pipeline \<Rightarrow> bool" where
  "pipeline_run dep loads fmt \<equiv> (pipeline_step dep loads fmt)\<^sup>*\<^sup>*"

definition pipeline_start :: "incident_db \<Rightarrow> pipeline" where
  "pipeline_start db = \<lparr>pln_app = \<lparr>iap_db = db, iap_log = []\<rparr>, pln_sent_tasks = [], pln_sent_completions = [],
     pln_table = [], pln_claims = [], pln_exits = [], pln_tokens = []\<rparr>"

lemma with_db_simps [simp]:
  "pln_db (with_db db s) = db" "pln_table (with_db db s) = pln_table s"
  "pln_claims (with_db db s) = pln_claims s" "pln_exits (with_db db s) = pln_exits s"
  "pln_tokens (with_db db s) = pln_tokens s" "pln_sent_tasks (with_db db s) = pln_sent_tasks s"
  "pln_sent_completions (with_db db s) = pln_sent_completions s"
  "pln_db (s\<lparr>pln_sent_tasks := x1\<rparr>) = pln_db s" "pln_db (s\<lparr>pln_sent_completions := x2\<rparr>) = pln_db s"
  "pln_db (s\<lparr>pln_table := x3\<rparr>) = pln_db s" "pln_db (s\<lparr>pln_claims := x4\<rparr>) = pln_db s"
  "pln_db (s\<lparr>pln_exits := x5\<rparr>) = pln_db s" "pln_db (s\<lparr>pln_tokens := x6\<rparr>) = pln_db s"
  "pln_db (s\<lparr>pln_app := app\<rparr>) = iap_db app"
  by (simp_all add: with_db_def pln_db_def)

section \<open>What each call does to the table\<close>

lemma accept_table:
  assumes "accept_incident_processing_task now now_epoch ex fault get_ok t incident_id rows = (res, rows')"
  shows "rows' = rows \<or> lookup_by xit_task_id (env_task_id t) rows = None \<and>
    rows' = rows @ [accepted_item now now_epoch ex t incident_id]"
  using assms by (auto simp: accept_incident_processing_task_def Let_def split: if_splits option.splits list.splits)

text \<open>A delivery leaves the table as it is or adds a fresh item that is ready and unclaimed.\<close>

definition table_grows :: "execution_table \<Rightarrow> execution_table \<Rightarrow> bool" where
  "table_grows rows rows' \<longleftrightarrow> (\<exists>new. rows' = rows @ new \<and> unique_key xit_task_id rows' = unique_key xit_task_id rows \<and>
     (\<forall>x \<in> set new. xit_status x = READY_FOR_INCIDENT_SERVICE \<and> xit_reconciliation_token x = None))"

lemma table_grows_refl: "table_grows rows rows"
  by (simp add: table_grows_def)

lemma table_grows_trans: "table_grows a b \<Longrightarrow> table_grows b c \<Longrightarrow> table_grows a c"
  unfolding table_grows_def
proof (elim exE conjE)
  fix new1 new2
  assume "b = a @ new1" and "c = b @ new2"
  then show "unique_key xit_task_id b = unique_key xit_task_id a \<Longrightarrow>
      unique_key xit_task_id c = unique_key xit_task_id b \<Longrightarrow>
      \<forall>x \<in> set new1. xit_status x = READY_FOR_INCIDENT_SERVICE \<and> xit_reconciliation_token x = None \<Longrightarrow>
      \<forall>x \<in> set new2. xit_status x = READY_FOR_INCIDENT_SERVICE \<and> xit_reconciliation_token x = None \<Longrightarrow>
      \<exists>new. c = a @ new \<and> unique_key xit_task_id c = unique_key xit_task_id a \<and>
        (\<forall>x \<in> set new. xit_status x = READY_FOR_INCIDENT_SERVICE \<and> xit_reconciliation_token x = None)"
    by (intro exI [of _ "new1 @ new2"]) auto
qed

lemma accept_grows:
  assumes "accept_incident_processing_task now now_epoch ex fault get_ok t incident_id rows = (res, rows')"
  shows "table_grows rows rows'"
  using accept_table [OF assms]
proof
  assume a: "lookup_by xit_task_id (env_task_id t) rows = None \<and>
    rows' = rows @ [accepted_item now now_epoch ex t incident_id]"
  then have "unique_key xit_task_id rows' = unique_key xit_task_id rows"
    by (simp add: unique_key_snoc accepted_item_def)
  with a show ?thesis unfolding table_grows_def by (auto simp: accepted_item_def)
qed (simp add: table_grows_refl)

lemma dispatch_grows: "table_grows rows (snd (dispatch_task ex d t rows))"
proof (cases "incident_id_from_task t")
  case (Inr i)
  obtain res rows' where "accept_incident_processing_task (wdr_now d) (wdr_now_epoch d) ex (wdr_put_fault d)
      (wdr_get_ok d) t i rows = (res, rows')" by (metis surj_pair)
  with Inr accept_grows [OF this] show ?thesis
    by (cases res) (simp_all add: dispatch_task_def handle_incident_processing_requested_def
        handle_incident_notification_requested_def table_grows_refl)
qed (simp add: dispatch_task_def handle_incident_processing_requested_def
    handle_incident_notification_requested_def table_grows_refl)

lemma process_task_grows: "table_grows rows (snd (process_task_idempotently ex decision d t rows))"
proof (cases decision)
  case (RunTask save_ok)
  obtain res rows' where "dispatch_task ex d t rows = (res, rows')" by (metis surj_pair)
  with dispatch_grows [of rows ex d t] show ?thesis
    by (cases res) (simp_all add: process_task_idempotently_def RunTask)
qed (simp_all add: process_task_idempotently_def table_grows_refl)

lemma process_record_grows: "table_grows rows (snd (process_record loads fmt ex decision d m rows))"
  by (simp add: process_record_def process_task_grows table_grows_refl split: sum.split)

lemma process_records_grow:
  "table_grows rows (snd (process_records loads fmt ex vs failures rows))"
proof (induction vs arbitrary: failures rows)
  case (Cons v vs)
  have step: "table_grows rows (snd (process_records loads fmt ex vs fs rows'))"
    if "process_record loads fmt ex (dlv_decision v) (dlv_draws v) m rows = (res, rows')" for fs m res rows'
    using process_record_grows [of rows loads fmt ex "dlv_decision v" "dlv_draws v" m] that Cons.IH [of rows' fs]
    by (auto intro: table_grows_trans)
  show ?case
    by (auto simp: table_grows_refl step split: json.split list.split prod.split sum.split)
qed (simp add: table_grows_refl)

lemma lambda_handler_grows:
  "lambda_handler loads fmt ex records rows = (res, rows') \<Longrightarrow> table_grows rows rows'"
  using process_records_grow [of rows loads fmt ex _ "[]"]
  by (auto simp: lambda_handler_def table_grows_refl split: option.splits) (metis snd_conv)

lemma update_unique:
  "unique_key xit_task_id rows \<Longrightarrow> lookup_by xit_task_id k rows = Some x \<Longrightarrow> xit_task_id y = k \<Longrightarrow>
     update_where (\<lambda>z. xit_task_id z = k) f rows = update_where (\<lambda>z. xit_task_id z = k) (\<lambda>_. f x) rows"
  unfolding update_where_def by (rule map_cong) (auto dest: lookup_by_unique)

text \<open>A claim rewrites one claimable item, a mark one item its token owns.\<close>

lemma claim_table:
  assumes "claim_execution now_epoch now token lease fault k rows = (claim, rows')"
  shows "rows' = rows \<and> (\<forall>e. claim \<noteq> Inr (Some e)) \<or>
    (\<exists>x. lookup_by xit_task_id k rows = Some x \<and> claimable now_epoch x \<and>
       rows' = update_where (\<lambda>y. xit_task_id y = k)
         (\<lambda>_. claim_item now (now_epoch + lease) (uuid_str token) x) rows \<and>
       (\<forall>e. claim = Inr (Some e) \<longrightarrow>
          execution_to_domain (claim_item now (now_epoch + lease) (uuid_str token) x) = Inr e))"
  using assms by (auto simp: claim_execution_def Let_def split: if_splits option.splits sum.splits)

lemma update_owned_table:
  assumes "update_owned_execution fault e f rows = (res, rows')"
  shows "rows' = rows \<and> res \<noteq> Inr () \<or>
    (\<exists>x token. lookup_by xit_task_id (ite_task_id e) rows = Some x \<and> ite_reconciliation_token e = Some token \<and>
       owned_by token x \<and> rows' = update_where (\<lambda>y. xit_task_id y = ite_task_id e) f rows)"
  using assms by (auto simp: update_owned_execution_def split: if_splits option.splits)

lemma mark_table:
  assumes "mark_outcome now fault e exit rows = (outcome, rows')"
  shows "rows' = rows \<or>
    (\<exists>x token f. lookup_by xit_task_id (ite_task_id e) rows = Some x \<and> ite_reconciliation_token e = Some token \<and>
       owned_by token x \<and> rows' = update_where (\<lambda>y. xit_task_id y = ite_task_id e) f rows \<and>
       (\<forall>y. same_task y (f y) \<and> xit_reconciliation_token (f y) = None \<and>
          xit_status (f y) \<noteq> INCIDENT_SERVICE_PROCESSING \<and>
          (xit_status (f y) = SUCCEEDED \<longrightarrow> (\<exists>r. exit = Processed r))))"
proof (cases "exit = ProcessorRaised")
  case True
  then show ?thesis using assms by (simp add: mark_outcome_def)
next
  case False
  define f where "f = (case exit of Processed r \<Rightarrow> succeeded_item now (success_result r)
    | IncidentMissing m \<Rightarrow> failed_item now m | RetryableProcessing m \<Rightarrow> retryable_item now m)"
  have "snd (update_owned_execution fault e f rows) = rows'"
    using assms False by (auto simp: mark_outcome_def mark_succeeded_def mark_failed_def mark_retryable_failure_def f_def
        split: processor_exit.splits prod.splits sum.splits)
  then obtain res where "update_owned_execution fault e f rows = (res, rows')" by (metis prod.collapse)
  moreover have "\<forall>y. same_task y (f y) \<and> xit_reconciliation_token (f y) = None \<and>
      xit_status (f y) \<noteq> INCIDENT_SERVICE_PROCESSING \<and>
      (xit_status (f y) = SUCCEEDED \<longrightarrow> (\<exists>r. exit = Processed r))"
    using False by (auto simp: f_def split: processor_exit.splits)
  ultimately show ?thesis using update_owned_table [of fault e f rows res rows'] by blast
qed

end
