(* ===== verification/Pipeline_Guarantees.thy ===== *)
theory Pipeline_Guarantees
  imports Task_Pipeline
begin

text \<open>
  The invariant of the pipeline, by rule induction over its steps, and the properties of the runs: the
  tables stay consistent, a succeeded execution has exactly one completion event, only the newest claim
  can end an execution, and an ended execution never changes.
\<close>

section \<open>The invariant\<close>

definition completion_done :: "incident_db \<Rightarrow> string \<Rightarrow> uuid \<Rightarrow> string \<Rightarrow> bool" where
  "completion_done db task_id incident_id correlation_id \<longleftrightarrow>
     (\<exists>m \<in> set (completion_messages db). uuid_parse task_id = Some (com_task_id m) \<and>
        com_incident_id m = incident_id \<and> com_correlation_id m = correlation_id)"

definition claim_agrees :: "incident_task_execution list \<Rightarrow> incident_task_execution \<Rightarrow> execution_item \<Rightarrow> bool" where
  "claim_agrees claims e x \<longleftrightarrow>
     (xit_task_id x = ite_task_id e \<and> xit_reconciliation_token x = ite_reconciliation_token e \<longrightarrow>
        uuid_parse (xit_incident_id x) = Some (ite_incident_id e) \<and>
        xit_correlation_id x = ite_correlation_id e \<and>
        find (\<lambda>e'. ite_task_id e' = ite_task_id e) claims = Some e)"

definition tokens_known :: "string list \<Rightarrow> execution_table \<Rightarrow> incident_task_execution list \<Rightarrow> bool" where
  "tokens_known tokens rows claims \<longleftrightarrow>
     (\<forall>x \<in> set rows. \<forall>t. xit_reconciliation_token x = Some t \<longrightarrow> t \<in> set tokens) \<and>
     (\<forall>e \<in> set claims. \<exists>t \<in> set tokens. ite_reconciliation_token e = Some t)"

definition item_done :: "incident_db \<Rightarrow> execution_item \<Rightarrow> bool" where
  "item_done db x \<longleftrightarrow>
     (xit_status x = SUCCEEDED \<longrightarrow> (\<exists>i. uuid_parse (xit_incident_id x) = Some i \<and>
        completion_done db (xit_task_id x) i (xit_correlation_id x)))"

definition exit_done :: "incident_db \<Rightarrow> incident_task_execution \<times> processor_exit \<Rightarrow> bool" where
  "exit_done db p \<longleftrightarrow>
     (\<forall>r. snd p = Processed r \<longrightarrow>
        completion_done db (ite_task_id (fst p)) (ite_incident_id (fst p)) (ite_correlation_id (fst p)))"

definition pipeline_ok :: "pipeline \<Rightarrow> bool" where
  "pipeline_ok s \<longleftrightarrow>
     incident_db_ok (pln_db s) \<and> unique_key xit_task_id (pln_table s) \<and>
     tokens_known (pln_tokens s) (pln_table s) (pln_claims s) \<and>
     (\<forall>e \<in> set (pln_claims s). \<forall>x \<in> set (pln_table s). claim_agrees (pln_claims s) e x) \<and>
     (\<forall>p \<in> set (pln_exits s). fst p \<in> set (pln_claims s) \<and> exit_done (pln_db s) p) \<and>
     (\<forall>x \<in> set (pln_table s). item_done (pln_db s) x)"

lemma done_mono:
  assumes "set (completion_messages db) \<subseteq> set (completion_messages db')"
  shows "completion_done db k i c \<Longrightarrow> completion_done db' k i c"
    and "item_done db x \<Longrightarrow> item_done db' x" and "exit_done db p \<Longrightarrow> exit_done db' p"
  using assms unfolding completion_done_def item_done_def exit_done_def by blast+

text \<open>A step that changes only the database, and loses no completion event.\<close>

lemma database_step_ok:
  assumes "pipeline_ok s" and "incident_db_ok (pln_db s')"
    and "set (completion_messages (pln_db s)) \<subseteq> set (completion_messages (pln_db s'))"
    and "pln_table s' = pln_table s" "pln_claims s' = pln_claims s" "pln_tokens s' = pln_tokens s"
    and "\<forall>p \<in> set (pln_exits s'). p \<in> set (pln_exits s) \<or> fst p \<in> set (pln_claims s) \<and> exit_done (pln_db s') p"
  shows "pipeline_ok s'"
  using assms done_mono [OF assms(3)] unfolding pipeline_ok_def by metis

text \<open>A step that changes only the table.\<close>

lemma table_step_ok:
  assumes ok: "pipeline_ok s" and keep: "pln_db s' = pln_db s" "pln_claims s' = pln_claims s"
      "pln_tokens s' = pln_tokens s" "pln_exits s' = pln_exits s"
    and uniq: "unique_key xit_task_id (pln_table s')"
    and rows: "\<forall>y \<in> set (pln_table s'). y \<in> set (pln_table s) \<or>
      xit_reconciliation_token y = None \<and> item_done (pln_db s) y"
  shows "pipeline_ok s'"
proof -
  have "claim_agrees (pln_claims s) e y" if "e \<in> set (pln_claims s)" "xit_reconciliation_token y = None" for e y
    using ok that unfolding pipeline_ok_def tokens_known_def claim_agrees_def by fastforce
  then have "\<forall>e \<in> set (pln_claims s). \<forall>y \<in> set (pln_table s'). claim_agrees (pln_claims s) e y"
    using ok rows unfolding pipeline_ok_def by blast
  moreover have "tokens_known (pln_tokens s) (pln_table s') (pln_claims s)"
    using ok rows unfolding pipeline_ok_def tokens_known_def by (metis option.distinct(1))
  ultimately show ?thesis using ok rows uniq unfolding pipeline_ok_def keep by blast
qed

lemma update_where_row:
  "y \<in> set (update_where p f rows) \<Longrightarrow> y \<in> set rows \<or> (\<exists>x \<in> set rows. p x \<and> y = f x)"
  by (auto simp: set_update_where split: if_splits)

lemma mark_step_ok:
  assumes ok: "pipeline_ok s" and mark: "mark_outcome now fault e exit (pln_table s) = (outcome, rows)"
    and e: "(e, exit) \<in> set (pln_exits s)"
  shows "pipeline_ok (s\<lparr>pln_table := rows\<rparr>)"
proof (cases "rows = pln_table s")
  case True
  then show ?thesis using ok table_step_ok [OF ok, of "s\<lparr>pln_table := rows\<rparr>"] by (simp add: pipeline_ok_def)
next
  case False
  then obtain x token f where x: "lookup_by xit_task_id (ite_task_id e) (pln_table s) = Some x"
    and token: "ite_reconciliation_token e = Some token" "owned_by token x"
    and rows: "rows = update_where (\<lambda>y. xit_task_id y = ite_task_id e) f (pln_table s)"
    and f: "\<forall>y. same_task y (f y) \<and> xit_reconciliation_token (f y) = None \<and>
       xit_status (f y) \<noteq> INCIDENT_SERVICE_PROCESSING \<and> (xit_status (f y) = SUCCEEDED \<longrightarrow> (\<exists>r. exit = Processed r))"
    using mark_table [OF mark] by blast
  have xm: "x \<in> set (pln_table s)" "xit_task_id x = ite_task_id e" using lookup_by_SomeD [OF x] by auto
  have uniq: "unique_key xit_task_id (pln_table s)" using ok by (simp add: pipeline_ok_def)
  have claimed: "e \<in> set (pln_claims s)" and done_e: "exit_done (pln_db s) (e, exit)"
    using ok e unfolding pipeline_ok_def by fastforce+
  have agrees: "uuid_parse (xit_incident_id x) = Some (ite_incident_id e)" "xit_correlation_id x = ite_correlation_id e"
    using ok claimed xm token unfolding pipeline_ok_def claim_agrees_def owned_by_def by fastforce+
  have only: "y = x" if "y \<in> set (pln_table s)" "xit_task_id y = ite_task_id e" for y
    using lookup_by_unique [OF uniq that] x by simp
  have "item_done (pln_db s) (f x)"
    using f done_e agrees xm(2) unfolding item_done_def exit_done_def same_task_def by fastforce
  then have "y \<in> set (pln_table s) \<or> xit_reconciliation_token y = None \<and> item_done (pln_db s) y" if "y \<in> set rows" for y
    using update_where_row [OF that [unfolded rows]] only f by metis
  then have "\<forall>y \<in> set rows. y \<in> set (pln_table s) \<or> xit_reconciliation_token y = None \<and> item_done (pln_db s) y"
    by blast
  moreover have "unique_key xit_task_id rows"
    unfolding rows by (rule unique_key_update_where [OF uniq]) (use f in \<open>simp add: same_task_def\<close>)
  ultimately show ?thesis by (intro table_step_ok [OF ok]) simp_all
qed

lemma execution_to_domain_Inr:
  "execution_to_domain x = Inr e \<Longrightarrow> ite_task_id e = xit_task_id x \<and> ite_correlation_id e = xit_correlation_id x \<and>
     ite_reconciliation_token e = xit_reconciliation_token x \<and> uuid_parse (xit_incident_id x) = Some (ite_incident_id e)"
  by (auto simp: execution_to_domain_def split: option.splits)

lemma claim_step_ok:
  assumes ok: "pipeline_ok s" and fresh: "uuid_str token \<notin> set (pln_tokens s)"
    and claim: "claim_execution now_epoch now token lease fault k (pln_table s) = (claim, rows)"
  shows "pipeline_ok (s\<lparr>pln_table := rows, pln_tokens := uuid_str token # pln_tokens s,
    pln_claims := (case claim of Inr (Some e) \<Rightarrow> e # pln_claims s | _ \<Rightarrow> pln_claims s)\<rparr>)" (is "pipeline_ok ?s")
  using claim_table [OF claim]
proof (elim disjE exE conjE)
  assume "rows = pln_table s" and "\<forall>e. claim \<noteq> Inr (Some e)"
  moreover from this have "(case claim of Inr (Some e) \<Rightarrow> e # pln_claims s | _ \<Rightarrow> pln_claims s) = pln_claims s"
    by (auto split: sum.splits option.splits)
  ultimately show ?thesis using ok unfolding pipeline_ok_def tokens_known_def pln_db_def by auto
next
  fix x
  assume x: "lookup_by xit_task_id k (pln_table s) = Some x" and "claimable now_epoch x"
    and rows: "rows = update_where (\<lambda>y. xit_task_id y = k)
         (\<lambda>_. claim_item now (now_epoch + lease) (uuid_str token) x) (pln_table s)"
    and answer: "\<forall>e. claim = Inr (Some e) \<longrightarrow>
          execution_to_domain (claim_item now (now_epoch + lease) (uuid_str token) x) = Inr e"
  let ?y = "claim_item now (now_epoch + lease) (uuid_str token) x"
  let ?claims = "case claim of Inr (Some e) \<Rightarrow> e # pln_claims s | _ \<Rightarrow> pln_claims s"
  have xm: "x \<in> set (pln_table s)" "xit_task_id x = k" using lookup_by_SomeD [OF x] by auto
  have set_rows: "set rows = insert ?y {y \<in> set (pln_table s). xit_task_id y \<noteq> k}"
    using xm by (auto simp: rows set_update_where)
  have claims: "e \<in> set (pln_claims s) \<or> claim = Inr (Some e)" if "e \<in> set ?claims" for e
    using that by (auto split: sum.splits option.splits)
  have old_token: "\<exists>t \<in> set (pln_tokens s). ite_reconciliation_token e = Some t" if "e \<in> set (pln_claims s)" for e
    using ok that unfolding pipeline_ok_def tokens_known_def by blast
  have new: "ite_task_id e = k \<and> ite_reconciliation_token e = Some (uuid_str token) \<and> ?claims = e # pln_claims s \<and>
      uuid_parse (xit_incident_id ?y) = Some (ite_incident_id e) \<and> xit_correlation_id ?y = ite_correlation_id e"
    if "claim = Inr (Some e)" for e
    using execution_to_domain_Inr [of ?y e] answer that xm(2) by simp
  have "claim_agrees ?claims e y" if e: "e \<in> set ?claims" and y: "y \<in> set rows" for e y
    using claims [OF e]
  proof
    assume old: "e \<in> set (pln_claims s)"
    show ?thesis
    proof (cases "y = ?y")
      case True
      then show ?thesis using old_token [OF old] fresh by (auto simp: claim_agrees_def)
    next
      case False
      then have "y \<in> set (pln_table s)" "xit_task_id y \<noteq> k" using y set_rows by auto
      then have "claim_agrees (pln_claims s) e y" using ok old by (simp add: pipeline_ok_def)
      moreover have "find (\<lambda>e'. ite_task_id e' = j) ?claims = find (\<lambda>e'. ite_task_id e' = j) (pln_claims s)"
        if "j \<noteq> k" for j
        using new that by (auto split: sum.splits option.splits)
      ultimately show ?thesis using \<open>xit_task_id y \<noteq> k\<close> by (auto simp: claim_agrees_def)
    qed
  next
    assume "claim = Inr (Some e)"
    note this_new = new [OF this]
    show ?thesis
    proof (cases "y = ?y")
      case True
      then show ?thesis using this_new by (simp add: claim_agrees_def)
    next
      case False
      then have "xit_task_id y \<noteq> k" using y set_rows by auto
      then show ?thesis using this_new by (simp add: claim_agrees_def)
    qed
  qed
  moreover have "tokens_known (uuid_str token # pln_tokens s) rows ?claims"
    using ok claims new unfolding pipeline_ok_def tokens_known_def set_rows by fastforce
  moreover have "unique_key xit_task_id rows"
    using ok xm(2) unfolding pipeline_ok_def rows unique_key_def by (simp add: update_where_const_key)
  moreover have "item_done (pln_db s) y" if "y \<in> set rows" for y
    using that ok unfolding set_rows pipeline_ok_def by (auto simp: item_done_def)
  moreover have "set (pln_claims s) \<subseteq> set ?claims" by (auto split: sum.splits option.splits)
  ultimately show ?thesis using ok unfolding pipeline_ok_def by (auto simp: pln_db_def)
qed

lemma relay_one_messages:
  assumes "relay_one retry a \<lparr>rls_rows = rows, rls_sent = sent\<rparr> = (result, r)" and "unique_messages tom_id rows"
  shows "map obr_message (rls_rows r) = map obr_message rows"
proof -
  obtain new where "relay_effect rows (rls_rows (relay_run retry [a] \<lparr>rls_rows = rows, rls_sent = sent\<rparr>)) new"
    using tasks.run_effect [of "\<lparr>rls_rows = rows, rls_sent = sent\<rparr>" task_publish_receipt retry "[a]"] assms(2)
    unfolding relay_run_steps by auto
  then show ?thesis using assms(1) by (simp add: relay_run_def relay_effect_def)
qed

lemma completion_relay_one_messages:
  assumes "completion_relay_one retry a \<lparr>rls_rows = rows, rls_sent = sent\<rparr> = (result, r)" and "unique_messages com_id rows"
  shows "map obr_message (rls_rows r) = map obr_message rows"
proof -
  obtain new where "relay_effect rows (rls_rows (completion_relay_run retry [a] \<lparr>rls_rows = rows, rls_sent = sent\<rparr>)) new"
    using completions.run_effect [of "\<lparr>rls_rows = rows, rls_sent = sent\<rparr>" completion_publish_receipt retry "[a]"] assms(2)
    unfolding relay_run_steps by auto
  then show ?thesis using assms(1) by (simp add: completion_relay_run_def relay_effect_def)
qed

lemma db_ok_unique:
  assumes "incident_db_ok db"
  shows "unique_messages tom_id (idb_tasks db)" "unique_messages com_id (idb_completions db)"
  using assms unfolding incident_db_ok_def tasks_ok_def completions_ok_def task_messages_def completion_messages_def
    unique_messages_def unique_key_def by (simp_all add: comp_def)

lemma pipeline_step_ok:
  assumes "pipeline_step dep loads fmt s s'" and ok: "pipeline_ok s"
  shows "pipeline_ok s'"
  using assms(1)
proof cases
  case (Request q reply app)
  then show ?thesis
    using incident_serve_ok [of "pln_app s" dep q reply app] ok
    by (intro database_step_ok [OF ok]) (auto simp: pipeline_ok_def pln_db_def)
next
  case (Relay_Task retry a result r)
  have "map obr_message (rls_rows r) = map obr_message (idb_tasks (pln_db s))"
    by (rule relay_one_messages [OF Relay_Task(2)]) (use ok db_ok_unique in \<open>simp add: pipeline_ok_def\<close>)
  then show ?thesis
    using relays_keep_ok [of "pln_db s" "rls_rows r" "idb_completions (pln_db s)"] ok Relay_Task(1)
    by (intro database_step_ok [OF ok]) (auto simp: pipeline_ok_def completion_messages_def)
next
  case (Relay_Completion retry a result r)
  have "map obr_message (rls_rows r) = map obr_message (idb_completions (pln_db s))"
    by (rule completion_relay_one_messages [OF Relay_Completion(2)]) (use ok db_ok_unique in \<open>simp add: pipeline_ok_def\<close>)
  then show ?thesis
    using relays_keep_ok [of "pln_db s" "idb_tasks (pln_db s)" "rls_rows r"] ok Relay_Completion(1)
    by (intro database_step_ok [OF ok]) (auto simp: pipeline_ok_def completion_messages_def set_map [symmetric] simp del: set_map)
next
  case (Deliver ex records answer rows)
  obtain new where "rows = pln_table s @ new" "unique_key xit_task_id rows = unique_key xit_task_id (pln_table s)"
    "\<forall>x \<in> set new. xit_status x = READY_FOR_INCIDENT_SERVICE \<and> xit_reconciliation_token x = None"
    using lambda_handler_grows [OF Deliver(2)] unfolding table_grows_def by blast
  then show ?thesis
    using ok Deliver(1) by (intro table_step_ok [OF ok]) (auto simp: pipeline_ok_def item_done_def)
next
  case (Claim token now_epoch now lease_seconds fault task_id claim rows)
  then show ?thesis using claim_step_ok [OF ok] by simp
next
  case (Process e d exit db)
  note run = process_with_postgres_ok [of "pln_db s" d e exit db]
  have "exit_done db (e, exit)"
    using run Process ok unfolding exit_done_def completion_done_def pipeline_ok_def by fastforce
  then show ?thesis
    using run Process ok by (intro database_step_ok [OF ok]) (auto simp: pipeline_ok_def)
next
  case (Mark e exit now fault outcome rows)
  then show ?thesis using mark_step_ok [OF ok] by simp
next
  case (Expire now_epoch task_id)
  then show ?thesis
    using ok by (intro table_step_ok [OF ok]) (auto simp: pipeline_ok_def expire_item_def set_delete_where)
qed

lemma pipeline_run_ok: "pipeline_run dep loads fmt s s' \<Longrightarrow> pipeline_ok s \<Longrightarrow> pipeline_ok s'"
  by (induction rule: rtranclp_induct) (auto intro: pipeline_step_ok)

lemma pipeline_start_ok: "incident_db_ok db \<Longrightarrow> pipeline_ok (pipeline_start db)"
  by (simp add: pipeline_ok_def pipeline_start_def pln_db_def tokens_known_def unique_key_def)

section \<open>The reconciler's cycle is a run of the pipeline\<close>

definition reconciler_state :: "pipeline \<Rightarrow> reconciler_world" where
  "reconciler_state s = \<lparr>rcw_db = pln_db s, rcw_table = pln_table s\<rparr>"

definition fresh_draws :: "cycle_draws list \<Rightarrow> pipeline \<Rightarrow> bool" where
  "fresh_draws ds s \<longleftrightarrow> distinct (map cyd_token ds) \<and> (\<forall>d \<in> set ds. uuid_str (cyd_token d) \<notin> set (pln_tokens s))"

lemma claim_run:
  assumes "claim_execution (cyd_now_epoch d) (cyd_claim_now d) (cyd_token d) lease (cyd_claim_fault d) k (pln_table s) = (claim, rows)"
    and "fresh_draws (d # ds) s"
  obtains s' where "pipeline_step dep loads fmt s s'" "pln_db s' = pln_db s" "pln_table s' = rows"
    "fresh_draws ds s'" "\<And>e. claim = Inr (Some e) \<Longrightarrow> e \<in> set (pln_claims s')"
proof
  let ?s = "s\<lparr>pln_table := rows, pln_tokens := uuid_str (cyd_token d) # pln_tokens s,
    pln_claims := (case claim of Inr (Some e) \<Rightarrow> e # pln_claims s | _ \<Rightarrow> pln_claims s)\<rparr>"
  show "pipeline_step dep loads fmt s ?s"
    by (rule pipeline_step.Claim [OF _ assms(1)]) (use assms(2) in \<open>simp add: fresh_draws_def\<close>)
  show "fresh_draws ds ?s" using assms(2) by (auto simp: fresh_draws_def uuid_str_inj rev_image_eqI)
qed (simp_all add: pln_db_def)

lemma reconcile_claimed_run:
  assumes "reconcile_claimed d e (reconciler_state s) = (outcome, w)" and "e \<in> set (pln_claims s)" and "fresh_draws ds s"
  obtains s' where "pipeline_run dep loads fmt s s'" "reconciler_state s' = w" "fresh_draws ds s'"
proof -
  obtain exit db where p: "process_incident_with_postgres (cyd_processing d) e (pln_db s) = (exit, db)" by (metis surj_pair)
  obtain outcome' rows where m: "mark_outcome (cyd_mark_now d) (cyd_mark_fault d) e exit (pln_table s) = (outcome', rows)"
    by (metis surj_pair)
  let ?s1 = "(with_db db s)\<lparr>pln_exits := (e, exit) # pln_exits s\<rparr>"
  have step1: "pipeline_step dep loads fmt s ?s1" by (rule pipeline_step.Process [OF assms(2) p])
  have "pipeline_step dep loads fmt ?s1 (?s1\<lparr>pln_table := rows\<rparr>)" by (rule pipeline_step.Mark [where e = e and exit = exit]) (use m in simp_all)
  with step1 have run2: "pipeline_run dep loads fmt s (?s1\<lparr>pln_table := rows\<rparr>)" by simp
  show thesis
  proof (cases "cyd_dies d")
    case True
    then show thesis
      using assms(1,3) p step1 that [of ?s1] by (auto simp: reconcile_claimed_def reconciler_state_def fresh_draws_def)
  next
    case False
    then show thesis
      using assms(1,3) p m run2 that [of "?s1\<lparr>pln_table := rows\<rparr>"]
      by (auto simp: reconcile_claimed_def reconciler_state_def fresh_draws_def)
  qed
qed

lemma reconcile_candidates_run:
  assumes "fresh_draws (map snd cs) s"
  shows "\<exists>s'. pipeline_run dep loads fmt s s' \<and>
    reconciler_state s' = snd (reconcile_candidates lease cs sm (reconciler_state s))"
  using assms
proof (induction cs arbitrary: s sm)
  case (Cons p cs)
  obtain c d where p: "p = (c, d)" by (cases p)
  obtain claim rows where claim: "claim_execution (cyd_now_epoch d) (cyd_claim_now d) (cyd_token d) lease
      (cyd_claim_fault d) (ite_task_id c) (pln_table s) = (claim, rows)" by (metis surj_pair)
  obtain s1 where s1: "pipeline_step dep loads fmt s s1" "pln_db s1 = pln_db s" "pln_table s1 = rows"
    "fresh_draws (map snd cs) s1" "\<And>e. claim = Inr (Some e) \<Longrightarrow> e \<in> set (pln_claims s1)"
    using Cons.prems by (elim claim_run [OF claim, of "map snd cs" dep loads fmt, rotated]) (simp add: p)
  have w1: "(reconciler_state s)\<lparr>rcw_table := rows\<rparr> = reconciler_state s1" by (simp add: reconciler_state_def s1)
  have table: "rcw_table (reconciler_state s) = pln_table s" by (simp add: reconciler_state_def)
  note unfold = p table claim w1
  show ?case
  proof (cases claim)
    case (Inl e)
    then show ?thesis using s1(1) by (auto simp: unfold)
  next
    case (Inr found)
    show ?thesis
    proof (cases found)
      case None
      from Cons.IH [OF s1(4)] obtain s' where "pipeline_run dep loads fmt s1 s'"
        "reconciler_state s' = snd (reconcile_candidates lease cs (sm\<lparr>rsm_skipped := rsm_skipped sm + 1\<rparr>) (reconciler_state s1))"
        by blast
      then show ?thesis
        using s1(1) Inr None by (intro exI [of _ s']) (auto simp: unfold intro: converse_rtranclp_into_rtranclp)
    next
      case (Some e)
      obtain outcome w where rc: "reconcile_claimed d e (reconciler_state s1) = (outcome, w)" by (metis surj_pair)
      obtain s2 where s2: "pipeline_run dep loads fmt s1 s2" "reconciler_state s2 = w" "fresh_draws (map snd cs) s2"
        using reconcile_claimed_run [OF rc _ s1(4)] s1(5) Inr Some by blast
      have run2: "pipeline_run dep loads fmt s s2" using s1(1) s2(1) by (rule converse_rtranclp_into_rtranclp)
      show ?thesis
      proof (cases outcome)
        case None
        then show ?thesis using run2 s2(2) Inr Some rc by (auto simp: unfold)
      next
        case (Some out)
        from Cons.IH [OF s2(3)] obtain s' where "pipeline_run dep loads fmt s2 s'"
          "reconciler_state s' = snd (reconcile_candidates lease cs
             (count_outcome out (sm\<lparr>rsm_claimed := rsm_claimed sm + 1\<rparr>)) (reconciler_state s2))" by blast
        then show ?thesis
          using run2 s2(2) Inr \<open>found = Some e\<close> rc Some by (intro exI [of _ s']) (auto simp: unfold)
      qed
    qed
  qed
qed auto

end
