(* ===== verification/Pipeline_Properties.thy ===== *)
theory Pipeline_Properties
  imports Pipeline_Guarantees Incident_Guarantees
begin

text \<open>
  The properties of the asynchronous pipeline, over every run from consistent tables, with a concrete run
  as the witness: one incident whose task is delivered, claimed, processed and marked.
\<close>

section \<open>A concrete run\<close>

definition demo_incident :: incident where
  "demo_incident = \<lparr>inc_id = 1, inc_title = ''t'', inc_service_id = 2, inc_severity = SEV_1, inc_status = Status_OPEN,
     inc_summary = ''s'', inc_assignee = ''a'', inc_started_at = 0, inc_resolved_at = None, inc_created_at = 0,
     inc_updated_at = 0, inc_source = ''manual'', inc_customer_impacting = False, inc_acknowledged_at = None,
     inc_reported_by_email = None\<rparr>"

definition demo_incident_draws :: incident_draws where
  "demo_incident_draws = \<lparr>idr_incident_id = 1, idr_now = 0, idr_task_id = 3, idr_outbox_id = 4,
     idr_correlation_id = 5, idr_resolved_now = 7, idr_updated_now = 8\<rparr>"

definition demo_db :: incident_db where
  "demo_db = \<lparr>idb_incidents = [demo_incident],
     idb_tasks = [pending_row (creation_task demo_incident_draws (Some ''c'') demo_incident) 0], idb_completions = []\<rparr>"

lemma demo_db_ok: "incident_db_ok demo_db"
proof -
  have "valid_request_id ''c''" by code_simp
  then have "task_message_ok (creation_task demo_incident_draws (Some ''c'') demo_incident)" by (rule creation_task_ok)
  moreover have "incident_ok demo_incident" by (simp add: incident_ok_def demo_incident_def length_within_def)
  ultimately show ?thesis
    by (simp add: incident_db_ok_def demo_db_def tasks_ok_def completions_ok_def task_messages_def
        completion_messages_def unique_key_def demo_incident_def)
qed

definition demo_envelope :: task_envelope where
  "demo_envelope = \<lparr>env_task_id = uuid_str 3, env_task_type = ''incident.processing.requested'',
     env_schema_version = ''1.0'', env_created_at = ''2026-01-01T00:00:00+00:00'', env_producer = ''incident-service'',
     env_correlation_id = ''c'', env_causation_id = None, env_idempotency_key = task_idempotency_key 1,
     env_payload = [(''incident_id'', JStr (uuid_str 1))], env_metadata = None\<rparr>"

definition demo_item :: execution_item where
  "demo_item = accepted_item 0 0 3600 demo_envelope (uuid_str 1)"

definition demo_claimed :: execution_item where
  "demo_claimed = claim_item 0 60 (uuid_str 9) demo_item"

definition demo_execution :: incident_task_execution where
  "demo_execution = \<lparr>ite_task_id = uuid_str 3, ite_incident_id = 1,
     ite_task_type = ''incident.processing.requested'', ite_correlation_id = ''c'',
     ite_created_at = ''2026-01-01T00:00:00+00:00'', ite_status = INCIDENT_SERVICE_PROCESSING,
     ite_reconciliation_attempts = 1, ite_lease_expires_at = Some 60, ite_reconciliation_token = Some (uuid_str 9)\<rparr>"

definition demo_processing :: processing_draws where
  "demo_processing = \<lparr>pdr_acknowledged_now = 10, pdr_updated_now = 11, pdr_occurred_at = 12, pdr_outbox_id = 13,
     pdr_event_id = 14, pdr_fault = NoDatabaseFault\<rparr>"

definition demo_result :: processing_result where
  "demo_result = \<lparr>prs_incident_id = 1, prs_status = Status_INVESTIGATING, prs_changed = True,
     prs_acknowledged_at = Some 10\<rparr>"

definition demo_ended :: execution_item where
  "demo_ended = succeeded_item 15 (success_result demo_result) demo_claimed"

definition demo_end_db :: incident_db where
  "demo_end_db = demo_db\<lparr>idb_incidents := [demo_incident\<lparr>inc_status := Status_INVESTIGATING,
       inc_acknowledged_at := Some 10, inc_updated_at := 11\<rparr>],
     idb_completions := [pending_row (completion_for demo_processing 3 demo_execution demo_result) 12]\<rparr>"

text \<open>The envelope is accepted as it is, so that the run does not depend on a JSON parser.\<close>

definition demo_loads :: "string \<Rightarrow> json option" where
  "demo_loads body = (if body = ''task'' then Some (JObj
     [(''task_id'', JStr (uuid_str 3)), (''kind'', JStr ''task''),
      (''task_type'', JStr ''incident.processing.requested''), (''schema_version'', JStr ''1.0''),
      (''created_at'', JStr ''2026-01-01T00:00:00+00:00''), (''producer'', JStr ''incident-service''),
      (''correlation_id'', JStr ''c''), (''idempotency_key'', JStr (task_idempotency_key 1)),
      (''payload'', JObj [(''incident_id'', JStr (uuid_str 1))])]) else None)"

definition demo_format :: "string \<Rightarrow> string \<Rightarrow> bool" where
  "demo_format name s = (if name = ''uuid'' then uuid_parse s \<noteq> None else True)"

definition demo_delivery :: delivery where
  "demo_delivery = \<lparr>dlv_record = JObj [(''messageId'', JStr ''m''), (''body'', JStr ''task'')],
     dlv_decision = RunTask True,
     dlv_draws = \<lparr>wdr_now = 0, wdr_now_epoch = 0, wdr_put_fault = Healthy, wdr_get_ok = True\<rparr>\<rparr>"

lemma demo_key_pattern: "idempotency_key_pattern (task_idempotency_key 1) \<and> length_within 1 255 (task_idempotency_key 1)"
  by code_simp

lemma demo_type_pattern:
  "task_type_pattern ''incident.processing.requested''" "producer_pattern ''incident-service''"
  by code_simp+

lemma demo_delivered:
  "lambda_handler demo_loads demo_format 3600 (Some [demo_delivery]) [] = (Inr [], [demo_item])"
proof -
  obtain m where m: "demo_loads ''task'' = Some (JObj m)" and r: "read_envelope m = demo_envelope"
    and c: "envelope_conforms demo_format m"
    using demo_key_pattern demo_type_pattern
    by (auto simp: demo_loads_def read_envelope_def string_member_def object_member_def demo_envelope_def
        envelope_conforms_def envelope_properties_def json_string_def demo_format_def length_within_def
        causation_conforms_def metadata_conforms_def)
  have "py_strip (uuid_str 1) \<noteq> []" by code_simp
  then have "incident_id_from_task demo_envelope = Inr (uuid_str 1)"
    by (simp add: incident_id_from_task_def demo_envelope_def)
  then have "dispatch_task 3600 (dlv_draws demo_delivery) demo_envelope [] = (Inr (), [demo_item])"
    by (simp add: dispatch_task_def handle_incident_processing_requested_def demo_delivery_def
        accept_incident_processing_task_def demo_item_def Let_def) (simp add: demo_envelope_def)
  then show ?thesis
    using m r c by (simp add: lambda_handler_def process_record_def parse_record_body_def payload_get_def
        validate_task_envelope_def process_task_idempotently_def demo_delivery_def)
qed

definition demo_run_end :: pipeline where
  "demo_run_end = \<lparr>pln_app = \<lparr>iap_db = demo_end_db, iap_log = []\<rparr>, pln_sent_tasks = [], pln_sent_completions = [],
     pln_table = [demo_ended], pln_claims = [demo_execution], pln_exits = [(demo_execution, Processed demo_result)],
     pln_tokens = [uuid_str 9]\<rparr>"

lemma demo_claim:
  "claim_execution 0 0 9 60 Healthy (uuid_str 3) [demo_item] = (Inr (Some demo_execution), [demo_claimed])"
  by (simp add: claim_execution_def lookup_by_Cons claimable_def execution_to_domain_def update_where_def Let_def)
    (simp add: demo_item_def accepted_item_def demo_envelope_def demo_claimed_def claim_item_def demo_execution_def)

lemma demo_process:
  "process_incident_with_postgres demo_processing demo_execution demo_db = (Processed demo_result, demo_end_db)"
  by (simp add: process_incident_with_postgres_def process_incident_def incident_get_by_id_def incident_replace_def
      lookup_by_Cons update_where_def completion_outbox_create_def demo_processing_def demo_execution_def demo_db_def
      demo_incident_def demo_result_def demo_end_db_def completion_for_def Let_def)

lemma demo_mark:
  "mark_outcome 15 Healthy demo_execution (Processed demo_result) [demo_claimed] = (Some OutcomeSucceeded, [demo_ended])"
proof -
  have "xit_task_id demo_claimed = uuid_str 3" "owned_by (uuid_str 9) demo_claimed"
    by (simp_all add: demo_claimed_def demo_item_def accepted_item_def demo_envelope_def owned_by_def)
  then show ?thesis
    by (simp add: mark_outcome_def mark_succeeded_def update_owned_execution_def demo_execution_def lookup_by_Cons
        update_where_def demo_ended_def)
qed

definition demo_run_processed :: pipeline where
  "demo_run_processed = demo_run_end\<lparr>pln_table := [demo_claimed]\<rparr>"

lemma demo_run_to_processed: "pipeline_run dep demo_loads demo_format (pipeline_start demo_db) demo_run_processed"
proof -
  let ?s1 = "(pipeline_start demo_db)\<lparr>pln_table := [demo_item]\<rparr>"
  let ?s2 = "?s1\<lparr>pln_table := [demo_claimed], pln_tokens := [uuid_str 9], pln_claims := [demo_execution]\<rparr>"
  have "pipeline_step dep demo_loads demo_format (pipeline_start demo_db) ?s1"
    by (rule pipeline_step.Deliver [of demo_loads demo_format 3600 "Some [demo_delivery]" _ "Inr []"])
      (simp add: pipeline_start_def demo_delivered)
  moreover have "pipeline_step dep demo_loads demo_format ?s1 ?s2"
    using pipeline_step.Claim [of 9 ?s1 0 0 60 Healthy "uuid_str 3" "Inr (Some demo_execution)" "[demo_claimed]" dep
        demo_loads demo_format]
    by (simp add: pipeline_start_def demo_claim)
  moreover have "pipeline_step dep demo_loads demo_format ?s2 demo_run_processed"
    using pipeline_step.Process [of demo_execution ?s2 demo_processing "Processed demo_result" demo_end_db dep
        demo_loads demo_format]
    by (simp add: pipeline_start_def pln_db_def with_db_def demo_process demo_run_processed_def demo_run_end_def)
  ultimately show ?thesis by (meson r_into_rtranclp rtranclp_trans)
qed

lemma demo_last_step: "pipeline_step dep demo_loads demo_format demo_run_processed demo_run_end"
  using pipeline_step.Mark [of demo_execution "Processed demo_result" demo_run_processed 15 Healthy
      "Some OutcomeSucceeded" "[demo_ended]" dep demo_loads demo_format]
  by (simp add: demo_run_processed_def demo_run_end_def demo_mark)

lemma demo_run: "pipeline_run dep demo_loads demo_format (pipeline_start demo_db) demo_run_end"
  using demo_run_to_processed demo_last_step by (rule rtranclp.rtrancl_into_rtrancl)

section \<open>Properties\<close>



text \<open>
  Claim C1. Whatever crashes, retries, expired leases, duplicate deliveries and
  unanswered commits happen: an execution recorded as succeeded has exactly one completion event for
  its task, and that event carries the execution's incident and correlation identifiers. No task ever has two.
\<close>

theorem succeeded_exactly_one_completion:
  assumes "incident_db_ok db" and "pipeline_run dep loads fmt (pipeline_start db) s"
  shows "(\<forall>x \<in> set (pln_table s). xit_status x = SUCCEEDED \<longrightarrow>
       (\<exists>!m. m \<in> set (completion_messages (pln_db s)) \<and> uuid_parse (xit_task_id x) = Some (com_task_id m)) \<and>
       (\<exists>m \<in> set (completion_messages (pln_db s)). uuid_parse (xit_task_id x) = Some (com_task_id m) \<and>
          uuid_parse (xit_incident_id x) = Some (com_incident_id m) \<and> com_correlation_id m = xit_correlation_id x)) \<and>
    distinct (map com_task_id (completion_messages (pln_db s)))"
proof -
  have ok: "pipeline_ok s" by (rule pipeline_run_ok [OF assms(2) pipeline_start_ok [OF assms(1)]])
  have d: "distinct (map com_task_id (completion_messages (pln_db s)))"
    using ok by (simp add: pipeline_ok_def incident_db_ok_def completions_ok_def)
  then have inj: "inj_on com_task_id (set (completion_messages (pln_db s)))" by (simp add: distinct_map)
  have "\<exists>m \<in> set (completion_messages (pln_db s)). uuid_parse (xit_task_id x) = Some (com_task_id m) \<and>
      uuid_parse (xit_incident_id x) = Some (com_incident_id m) \<and> com_correlation_id m = xit_correlation_id x"
    if "x \<in> set (pln_table s)" "xit_status x = SUCCEEDED" for x
    using ok that unfolding pipeline_ok_def item_done_def completion_done_def by fastforce
  with inj d show ?thesis by (metis (no_types, lifting) inj_onD option.inject)
qed

theorem succeeded_exactly_one_completion_witness:
  "\<exists>!m. m \<in> set (completion_messages (pln_db demo_run_end)) \<and> uuid_parse (uuid_str 3) = Some (com_task_id m)"
proof -
  have "demo_ended \<in> set (pln_table demo_run_end)" "xit_status demo_ended = SUCCEEDED" "xit_task_id demo_ended = uuid_str 3"
    by (simp_all add: demo_run_end_def demo_ended_def demo_claimed_def demo_item_def accepted_item_def demo_envelope_def)
  then show ?thesis
    using succeeded_exactly_one_completion [OF demo_db_ok demo_run] by metis
qed

text \<open>
  Claim C2. Fencing: in every reachable state, a reconciler's mark changes the table only if its
  claim is the newest claim handed out for that task. It then changes that task's item alone, keeps what the item is about, and
  releases the claim: afterwards no mark for the task, by whoever held a claim, changes anything.
\<close>

theorem newest_claim_wins:
  assumes "incident_db_ok db" and "pipeline_run dep loads fmt (pipeline_start db) s"
    and "(e, exit) \<in> set (pln_exits s)" and "mark_outcome now fault e exit (pln_table s) = (outcome, rows)"
    and "rows \<noteq> pln_table s"
  shows "find (\<lambda>e'. ite_task_id e' = ite_task_id e) (pln_claims s) = Some e \<and>
    list_all2 (\<lambda>x y. if xit_task_id x = ite_task_id e
        then same_task x y \<and> xit_status x = INCIDENT_SERVICE_PROCESSING \<and> xit_status y \<noteq> INCIDENT_SERVICE_PROCESSING
        else y = x) (pln_table s) rows \<and>
    (\<forall>e' exit' now' fault'. ite_task_id e' = ite_task_id e \<longrightarrow> snd (mark_outcome now' fault' e' exit' rows) = rows)"
proof -
  have ok: "pipeline_ok s" by (rule pipeline_run_ok [OF assms(2) pipeline_start_ok [OF assms(1)]])
  obtain x token f where x: "lookup_by xit_task_id (ite_task_id e) (pln_table s) = Some x"
    and token: "ite_reconciliation_token e = Some token" "owned_by token x"
    and rows: "rows = update_where (\<lambda>y. xit_task_id y = ite_task_id e) f (pln_table s)"
    and f: "\<forall>y. same_task y (f y) \<and> xit_reconciliation_token (f y) = None \<and>
       xit_status (f y) \<noteq> INCIDENT_SERVICE_PROCESSING \<and> (xit_status (f y) = SUCCEEDED \<longrightarrow> (\<exists>r. exit = Processed r))"
    using mark_table [OF assms(4)] assms(5) by blast
  have xm: "x \<in> set (pln_table s)" "xit_task_id x = ite_task_id e" using lookup_by_SomeD [OF x] by auto
  have only: "y = x" if "y \<in> set (pln_table s)" "xit_task_id y = ite_task_id e" for y
    using lookup_by_unique [of xit_task_id "pln_table s", OF _ that] x ok by (simp add: pipeline_ok_def)
  have "e \<in> set (pln_claims s)" using ok assms(3) unfolding pipeline_ok_def by fastforce
  then have "claim_agrees (pln_claims s) e x" using ok xm(1) by (simp add: pipeline_ok_def)
  then have newest: "find (\<lambda>e'. ite_task_id e' = ite_task_id e) (pln_claims s) = Some e"
    using xm(2) token by (simp add: claim_agrees_def owned_by_def)
  have changed: "list_all2 (\<lambda>x y. if xit_task_id x = ite_task_id e
        then same_task x y \<and> xit_status x = INCIDENT_SERVICE_PROCESSING \<and> xit_status y \<noteq> INCIDENT_SERVICE_PROCESSING
        else y = x) (pln_table s) rows"
    using f only token(2) unfolding rows update_where_def owned_by_def
    by (auto simp: list_all2_map2 list_all2_same dest!: only)
  have "lookup_by xit_task_id (ite_task_id e) rows = Some (f x)"
    unfolding rows using f by (subst lookup_by_update_where) (simp_all add: same_task_def x xm(2))
  then have "snd (mark_outcome now' fault' e' exit' rows) = rows" if "ite_task_id e' = ite_task_id e" for e' exit' now' fault'
    using mark_table [of now' fault' e' exit' rows, OF prod.collapse [symmetric]] that f
    by (auto simp: owned_by_def)
  with newest changed show ?thesis by blast
qed

theorem newest_claim_wins_witness:
  "find (\<lambda>e'. ite_task_id e' = ite_task_id demo_execution) (pln_claims demo_run_processed) = Some demo_execution"
proof -
  have m: "mark_outcome 15 Healthy demo_execution (Processed demo_result) (pln_table demo_run_processed) =
      (Some OutcomeSucceeded, [demo_ended])"
    by (simp add: demo_run_processed_def demo_mark)
  have "demo_claimed \<noteq> demo_ended"
    by (auto simp: demo_ended_def demo_claimed_def dest: arg_cong [of _ _ xit_status])
  then have "[demo_ended] \<noteq> pln_table demo_run_processed" by (simp add: demo_run_processed_def)
  with newest_claim_wins [OF demo_db_ok demo_run_to_processed _ m] show ?thesis
    by (simp add: demo_run_processed_def demo_run_end_def)
qed

text \<open>
  Claim C15. An execution recorded as succeeded or failed never changes again: no claim, mark,
  redelivery or request touches it. It only disappears by its time to live.
\<close>

theorem ended_execution_is_final:
  assumes "incident_db_ok db" and "pipeline_run dep loads fmt (pipeline_start db) s"
    and "pipeline_step dep loads fmt s s'"
    and "x \<in> set (pln_table s)" and "xit_status x \<in> {SUCCEEDED, FAILED}"
  shows "x \<in> set (pln_table s') \<or>
    (\<exists>now_epoch. xit_expiration x < now_epoch \<and> pln_table s' = expire_item now_epoch (xit_task_id x) (pln_table s))"
proof -
  have ok: "pipeline_ok s" by (rule pipeline_run_ok [OF assms(2) pipeline_start_ok [OF assms(1)]])
  have "lookup_by xit_task_id (xit_task_id x) (pln_table s) = Some x"
    using ok assms(4) by (intro lookup_by_unique) (auto simp: pipeline_ok_def)
  then have keep: "x \<in> set (update_where (\<lambda>y. xit_task_id y = k) f (pln_table s))"
    if "lookup_by xit_task_id k (pln_table s) = Some y" "xit_status y \<notin> {SUCCEEDED, FAILED}" for k y f
    using that assms(4,5) by (auto simp: set_update_where)
  from assms(3) show ?thesis
  proof cases
    case (Deliver ex records answer rows)
    then show ?thesis using lambda_handler_grows [OF Deliver(2)] assms(4) by (auto simp: table_grows_def)
  next
    case (Claim token now_epoch now lease_seconds fault task_id claim rows)
    then show ?thesis
      using claim_table [OF Claim(3)] keep assms(4) by (fastforce simp: claimable_def)
  next
    case (Mark e exit now fault outcome rows)
    then show ?thesis
      using mark_table [OF Mark(3)] keep assms(4) by (fastforce simp: owned_by_def)
  next
    case (Expire now_epoch task_id)
    then show ?thesis using assms(4) by (auto simp: expire_item_def set_delete_where)
  qed (use assms(4) in auto)
qed

theorem ended_execution_is_final_witness:
  "\<exists>now_epoch. xit_expiration demo_ended < now_epoch \<and>
     expire_item 4000 (uuid_str 3) [demo_ended] = expire_item now_epoch (xit_task_id demo_ended) [demo_ended]"
proof -
  have x: "xit_task_id demo_ended = uuid_str 3" "xit_expiration demo_ended = 3600"
    by (simp_all add: demo_ended_def demo_claimed_def demo_item_def accepted_item_def demo_envelope_def
        succeeded_item_def release_claim_def claim_item_def)
  then have gone: "expire_item 4000 (uuid_str 3) [demo_ended] = []" by (simp add: expire_item_def delete_where_def)
  have "pipeline_step dep demo_loads demo_format demo_run_end
      (demo_run_end\<lparr>pln_table := expire_item 4000 (uuid_str 3) (pln_table demo_run_end)\<rparr>)" for dep
    by (rule pipeline_step.Expire)
  from ended_execution_is_final [OF demo_db_ok demo_run this, of demo_ended] gone show ?thesis
    by (auto simp: demo_run_end_def) (simp add: demo_ended_def)
qed

text \<open>
  Claim C9. The reconciler's cycle implements the pipeline: run alone on a state, with tokens never
  drawn before, \<open>reconcile_once\<close> ends in the tables of some run of pipeline steps, whatever the index shows, wherever
  it is interrupted and whatever faults its calls meet.
\<close>

theorem reconcile_once_refines:
  assumes "\<forall>n < batch_size. uuid_str (cyd_token (draws n)) \<notin> set (pln_tokens s)"
    and "inj_on (\<lambda>n. cyd_token (draws n)) {..<batch_size}"
  shows "\<exists>s'. pipeline_run dep loads fmt s s' \<and>
    reconciler_state s' = snd (reconcile_once now_epoch batch_size lease_seconds view draws (reconciler_state s))"
proof (cases "list_reconcilable now_epoch batch_size view")
  case (Inl e)
  then show ?thesis by (auto simp: reconcile_once_def)
next
  case (Inr candidates)
  let ?cs = "zip candidates (map draws [0..<length candidates])"
  have len: "length candidates \<le> batch_size"
    using Inr by (auto simp: list_reconcilable_def Let_def dest: sum_map_length)
  have "map snd ?cs = map draws [0..<length candidates]" by simp
  moreover have "distinct (map cyd_token (map draws [0..<length candidates]))"
    using inj_on_subset [OF assms(2), of "set [0..<length candidates]"] len
    by (simp add: distinct_map comp_def subset_iff)
  ultimately have "fresh_draws (map snd ?cs) s"
    using assms(1) len by (auto simp: fresh_draws_def)
  from reconcile_candidates_run [OF this, of dep loads fmt lease_seconds
      "\<lparr>rsm_discovered = length candidates, rsm_claimed = 0, rsm_succeeded = 0, rsm_retryable_failures = 0,
        rsm_permanent_failures = 0, rsm_skipped = 0\<rparr>"]
  show ?thesis unfolding reconcile_once_def by (simp only: Inr sum.case)
qed

definition demo_cycle_draws :: cycle_draws where
  "demo_cycle_draws = \<lparr>cyd_now_epoch = 0, cyd_claim_now = 0, cyd_token = 9, cyd_claim_fault = Healthy,
     cyd_processing = demo_processing, cyd_dies = False, cyd_mark_now = 15, cyd_mark_fault = Healthy\<rparr>"

definition demo_ready :: pipeline where
  "demo_ready = (pipeline_start demo_db)\<lparr>pln_table := [demo_item]\<rparr>"

lemma demo_reconcile_once:
  "reconcile_once 0 1 60 [demo_item] (\<lambda>_. demo_cycle_draws) (reconciler_state demo_ready) =
     (Some \<lparr>rsm_discovered = 1, rsm_claimed = 1, rsm_succeeded = 1, rsm_retryable_failures = 0,
        rsm_permanent_failures = 0, rsm_skipped = 0\<rparr>, \<lparr>rcw_db = demo_end_db, rcw_table = [demo_ended]\<rparr>)"
proof -
  have x: "xit_status demo_item = READY_FOR_INCIDENT_SERVICE" "uuid_parse (xit_incident_id demo_item) = Some 1"
    "xit_task_id demo_item = uuid_str 3"
    by (simp_all add: demo_item_def accepted_item_def demo_envelope_def)
  have "list_reconcilable 0 1 [demo_item] = Inr [the_ite]"
    if "execution_to_domain demo_item = Inr the_ite" for the_ite
    using x that by (simp add: list_reconcilable_def query_status_def status_index_def Let_def)
  then obtain c where c: "list_reconcilable 0 1 [demo_item] = Inr [c]" "ite_task_id c = uuid_str 3"
    using x by (auto simp: execution_to_domain_def)
  show ?thesis
    by (simp add: reconcile_once_def c demo_cycle_draws_def demo_ready_def reconciler_state_def pipeline_start_def
        pln_db_def demo_claim reconcile_claimed_def demo_process demo_mark count_outcome_def del: One_nat_def)
qed

theorem reconcile_once_refines_witness:
  "\<exists>s'. pipeline_run demo_deployment demo_loads demo_format demo_ready s' \<and> pln_table s' = [demo_ended]"
proof -
  obtain s' where "pipeline_run demo_deployment demo_loads demo_format demo_ready s'"
    and "reconciler_state s' =
      snd (reconcile_once 0 1 60 [demo_item] (\<lambda>_. demo_cycle_draws) (reconciler_state demo_ready))"
    using reconcile_once_refines [of 1 "\<lambda>_. demo_cycle_draws" demo_ready demo_deployment demo_loads demo_format 0 60 "[demo_item]"]
    by (auto simp: demo_ready_def pipeline_start_def inj_on_def)
  then show ?thesis unfolding demo_reconcile_once by (auto simp: reconciler_state_def)
qed

end
