(* ===== verification/Task_Journey.thy ===== *)
theory Task_Journey
  imports Pipeline_Properties
begin

text \<open>
  The journey of one task across the components: the envelope the relay publishes satisfies the worker's
  contract, and the task of a stored incident, once delivered and reconciled without faults, ends with
  the incident under investigation and its completion event in the outbox.
\<close>

section \<open>The published envelope\<close>

text \<open>What is assumed of jsonschema's format checker: it accepts canonical UUIDs and the timestamps \<open>isoformat\<close> writes.\<close>

definition format_contract :: "(string \<Rightarrow> string \<Rightarrow> bool) \<Rightarrow> bool" where
  "format_contract fmt \<longleftrightarrow> (\<forall>u. fmt ''uuid'' (uuid_str u)) \<and> (\<forall>t. fmt ''date-time'' (isoformat t))"

lemma key_chars: "\<forall>c \<in> set ''0123456789abcdef-''. ascii_alphanumeric c \<or> c \<in> set ''._:/-''"
  by code_simp

lemma key_prefix: "\<forall>c \<in> set ''ncident::process:v''. ascii_alphanumeric c \<or> c \<in> set ''._:/-''"
  by code_simp

lemma key_ends: "ascii_alphanumeric (CHR ''i'')" "ascii_alphanumeric (CHR ''1'')" "CHR ''1'' \<noteq> char_of (10 :: nat)"
  by code_simp+

lemma task_key_conforms:
  "length_within 1 255 (task_idempotency_key i)" "idempotency_key_pattern (task_idempotency_key i)"
proof -
  have key: "task_idempotency_key i = CHR ''i'' # (''ncident:'' @ uuid_str i @ '':process:v'' @ [CHR ''1''])"
    by (simp add: task_idempotency_key_def)
  then show "length_within 1 255 (task_idempotency_key i)" by (simp add: length_within_def length_uuid_str)
  have no_newline: "before_newline (task_idempotency_key i) = task_idempotency_key i"
    using key_ends(3) by (simp add: before_newline_def key)
  have chars: "ascii_alphanumeric c \<or> c \<in> set ''._:/-''"
    if "c \<in> set (''ncident:'' @ uuid_str i @ '':process:v'' @ [CHR ''1''])" for c
  proof -
    have "c \<in> set (uuid_str i) \<or> c = CHR ''1'' \<or> c \<in> set ''ncident::process:v''" using that by auto
    then show ?thesis
      using key_chars key_prefix key_ends(2) subsetD [OF uuid_str_set, of c i] by blast
  qed
  have "head_and_tail ascii_alphanumeric (\<lambda>c. ascii_alphanumeric c \<or> c \<in> set ''._:/-'') (task_idempotency_key i)"
    unfolding key head_and_tail.simps list_all_iff using key_ends(1) chars by blast
  then show "idempotency_key_pattern (task_idempotency_key i)"
    unfolding idempotency_key_pattern_def no_newline .
qed

lemma incident_uuid_text: "py_strip (uuid_str u) \<noteq> []"
proof
  assume "py_strip (uuid_str u) = []"
  then have spaces: "\<forall>c \<in> set (uuid_str u). char_space c" by (simp add: py_strip_eq_Nil)
  have "\<forall>c \<in> set ''0123456789abcdef-''. \<not> char_space c" by code_simp
  moreover obtain c cs where "uuid_str u = c # cs" using length_uuid_str [of u] by (cases "uuid_str u") auto
  moreover from this have "c \<in> set ''0123456789abcdef-''" using subsetD [OF uuid_str_set, of c u] by simp
  ultimately show False using spaces by (metis list.set_intros(1))
qed

lemma task_type_conforms: "task_type_pattern INCIDENT_PROCESSING_TASK_TYPE \<and> producer_pattern ''incident-service''"
  by code_simp

definition delivered_envelope :: "task_message \<Rightarrow> task_envelope" where
  "delivered_envelope m = \<lparr>env_task_id = uuid_str (tom_task_id m), env_task_type = tom_task_type m,
     env_schema_version = tom_schema_version m, env_created_at = isoformat (tom_created_at m),
     env_producer = ''incident-service'', env_correlation_id = tom_correlation_id m, env_causation_id = None,
     env_idempotency_key = tom_idempotency_key m, env_payload = tom_payload m, env_metadata = Some (tom_metadata m)\<rparr>"

lemma published_task_accepted_core:
  assumes "task_message_ok m" and "format_contract fmt"
  shows "validate_task_envelope fmt (JObj (build_task_envelope m)) = Inr (delivered_envelope m) \<and>
    incident_id_from_task (delivered_envelope m) = Inr (uuid_str (tom_incident_id m)) \<and>
    (\<forall>ex d rows. dispatch_task ex d (delivered_envelope m) rows =
       handle_incident_processing_requested ex d (delivered_envelope m) rows)"
proof -
  have m: "tom_idempotency_key m = task_idempotency_key (tom_incident_id m)"
    "tom_payload m = [(''incident_id'', JStr (uuid_str (tom_incident_id m)))]"
    "tom_task_type m = INCIDENT_PROCESSING_TASK_TYPE" "tom_schema_version m = ''1.0''"
    "tom_metadata m = [(''source'', JStr ''incident-service''), (''operation'', JStr ''incident.create'')]"
    "tom_causation_id m = None"
    using assms(1) by (simp_all add: task_message_ok_def TASK_SCHEMA_VERSION_def)
  have corr: "1 \<le> length (tom_correlation_id m)"
    using assms(1) valid_request_id_nonempty by (cases "tom_correlation_id m") (auto simp: task_message_ok_def)
  have size_ok: "length_within 3 120 INCIDENT_PROCESSING_TASK_TYPE"
    by (simp add: length_within_def INCIDENT_PROCESSING_TASK_TYPE_def)
  have "envelope_conforms fmt (build_task_envelope m)"
    using assms(2) task_key_conforms task_type_conforms corr size_ok
    by (simp add: envelope_conforms_def build_task_envelope_def m envelope_properties_def json_string_def
        format_contract_def causation_conforms_def metadata_conforms_def) (simp add: length_within_def)
  moreover have "read_envelope (build_task_envelope m) = delivered_envelope m"
    by (simp add: read_envelope_def build_task_envelope_def string_member_def object_member_def
        delivered_envelope_def m)
  moreover have "incident_id_from_task (delivered_envelope m) = Inr (uuid_str (tom_incident_id m))"
    by (simp add: incident_id_from_task_def delivered_envelope_def m incident_uuid_text)
  ultimately show ?thesis
    by (simp add: validate_task_envelope_def dispatch_task_def delivered_envelope_def m INCIDENT_PROCESSING_TASK_TYPE_def)
qed

text \<open>
  Claim C16. The task the Incident Service publishes for an incident satisfies the worker's
  contract, whatever the incident and the caller's request identifier were: the worker reads back every
  member as it was written, takes it for a processing task, and extracts the incident's identifier.
\<close>

theorem published_task_accepted:
  assumes "task_message_ok m" and "format_contract fmt"
  shows "validate_task_envelope fmt (JObj (build_task_envelope m)) = Inr (delivered_envelope m) \<and>
    incident_id_from_task (delivered_envelope m) = Inr (uuid_str (tom_incident_id m)) \<and>
    (\<forall>ex d rows. dispatch_task ex d (delivered_envelope m) rows =
       handle_incident_processing_requested ex d (delivered_envelope m) rows)"
  using published_task_accepted_core [OF assms] by blast

lemma demo_format_contract: "format_contract demo_format"
  by (simp add: format_contract_def demo_format_def)

lemma demo_message_ok: "task_message_ok (creation_task demo_incident_draws (Some ''c'') demo_incident)"
  by (rule creation_task_ok) code_simp

theorem published_task_accepted_witness:
  "\<exists>t. validate_task_envelope demo_format
      (JObj (build_task_envelope (creation_task demo_incident_draws (Some ''c'') demo_incident))) = Inr t \<and>
    incident_id_from_task t = Inr (uuid_str 1)"
  using published_task_accepted [OF demo_message_ok demo_format_contract] by (auto simp: demo_incident_def)

section \<open>From the incident to its completion event\<close>

lemma update_last:
  "lookup_by key k rows = None \<Longrightarrow> key x = k \<Longrightarrow>
     update_where (\<lambda>y. key y = k) f (rows @ [x]) = rows @ [f x]"
  by (induction rows) (auto simp: update_where_def lookup_by_Cons split: if_splits)

lemma delivered_task:
  assumes "task_message_ok m" and "format_contract fmt" and "loads body = Some (JObj (build_task_envelope m))"
    and "lookup_by xit_task_id (uuid_str (tom_task_id m)) rows = None"
    and "wdr_put_fault d = Healthy"
  shows "lambda_handler loads fmt ex (Some [\<lparr>dlv_record = JObj [(''messageId'', JStr (c # cs)), (''body'', JStr body)],
        dlv_decision = RunTask True, dlv_draws = d\<rparr>]) rows =
    (Inr [], rows @ [accepted_item (wdr_now d) (wdr_now_epoch d) ex (delivered_envelope m) (uuid_str (tom_incident_id m))])"
proof -
  note accepted = published_task_accepted_core [OF assms(1,2)]
  have "handle_incident_processing_requested ex d (delivered_envelope m) rows =
      (Inr (), rows @ [accepted_item (wdr_now d) (wdr_now_epoch d) ex (delivered_envelope m) (uuid_str (tom_incident_id m))])"
    using accepted assms(4,5)
    by (simp add: handle_incident_processing_requested_def accept_incident_processing_task_def Let_def)
      (simp add: delivered_envelope_def)
  then show ?thesis
    using accepted assms(3) by (simp add: lambda_handler_def process_record_def parse_record_body_def payload_get_def
        process_task_idempotently_def)
qed

text \<open>
  Claim C4. The journey without faults: the task of a stored incident, delivered to the worker and then
  taken up by the reconciler, ends as a succeeded execution; the incident has left the open state, and
  the outbox has one more completion event, with the incident's, the task's and the original
  request's identifiers and the status the incident now has.
\<close>

theorem incident_task_completes:
  assumes "incident_db_ok db" and "lookup_by inc_id i (idb_incidents db) = Some x"
    and "m \<in> set (task_messages db)" and "tom_incident_id m = i"
    and "format_contract fmt" and "loads body = Some (JObj (build_task_envelope m))"
    and "lookup_by xit_task_id (uuid_str (tom_task_id m)) rows = None" and "wdr_put_fault d = Healthy"
    and "lookup_by (\<lambda>r. com_task_id (obr_message r)) (tom_task_id m) (idb_completions db) = None"
    and "\<forall>k \<in> set (completion_messages db). com_id k \<noteq> pdr_outbox_id (cyd_processing cd) \<and>
           com_event_id k \<noteq> pdr_event_id (cyd_processing cd)"
    and "pdr_fault (cyd_processing cd) = NoDatabaseFault" and "\<not> cyd_dies cd"
    and "cyd_claim_fault cd = Healthy" and "cyd_mark_fault cd = Healthy"
  shows "\<exists>rows1 e rows2 w z y k.
    lambda_handler loads fmt ex (Some [\<lparr>dlv_record = JObj [(''messageId'', JStr (c # cs)), (''body'', JStr body)],
        dlv_decision = RunTask True, dlv_draws = d\<rparr>]) rows = (Inr [], rows1) \<and>
    claim_execution (cyd_now_epoch cd) (cyd_claim_now cd) (cyd_token cd) lease (cyd_claim_fault cd)
      (uuid_str (tom_task_id m)) rows1 = (Inr (Some e), rows2) \<and>
    reconcile_claimed cd e \<lparr>rcw_db = db, rcw_table = rows2\<rparr> = (Some OutcomeSucceeded, w) \<and>
    lookup_by xit_task_id (uuid_str (tom_task_id m)) (rcw_table w) = Some z \<and> xit_status z = SUCCEEDED \<and>
    lookup_by inc_id i (idb_incidents (rcw_db w)) = Some y \<and> inc_status y \<noteq> Status_OPEN \<and>
    completion_messages (rcw_db w) = completion_messages db @ [k] \<and>
    com_task_id k = tom_task_id m \<and> com_incident_id k = i \<and> com_correlation_id k = tom_correlation_id m \<and>
    com_status k = inc_status y"
proof -
  let ?key = "uuid_str (tom_task_id m)" and ?p = "cyd_processing cd"
  have m_ok: "task_message_ok m" using assms(1,3) by (simp add: incident_db_ok_def tasks_ok_def)
  define item where "item = accepted_item (wdr_now d) (wdr_now_epoch d) ex (delivered_envelope m) (uuid_str i)"
  have item: "xit_task_id item = ?key" "xit_incident_id item = uuid_str i" "xit_status item = READY_FOR_INCIDENT_SERVICE"
    "xit_correlation_id item = tom_correlation_id m"
    by (simp_all add: item_def accepted_item_def delivered_envelope_def)
  have deliver: "lambda_handler loads fmt ex (Some [\<lparr>dlv_record = JObj [(''messageId'', JStr (c # cs)), (''body'', JStr body)],
        dlv_decision = RunTask True, dlv_draws = d\<rparr>]) rows = (Inr [], rows @ [item])"
    using delivered_task [of m fmt loads body rows d ex c cs, OF m_ok assms(5,6,7,8)] assms(4) by (simp add: item_def)
  define claimed where "claimed = claim_item (cyd_claim_now cd) (cyd_now_epoch cd + lease) (uuid_str (cyd_token cd)) item"
  obtain e where dom: "execution_to_domain claimed = Inr e"
    by (simp add: execution_to_domain_def claimed_def claim_item_def item(2))
  note e = execution_to_domain_Inr [OF dom]
  have claimed: "xit_task_id claimed = ?key" "owned_by (uuid_str (cyd_token cd)) claimed"
    by (simp_all add: claimed_def item owned_by_def)
  have claim: "claim_execution (cyd_now_epoch cd) (cyd_claim_now cd) (cyd_token cd) lease (cyd_claim_fault cd)
      ?key (rows @ [item]) = (Inr (Some e), rows @ [claimed])"
    using assms(7,13) dom item
    by (simp add: claim_execution_def lookup_by_append lookup_by_Cons claimable_def update_last claimed_def [symmetric] Let_def)
  have e_ids: "ite_task_id e = ?key" "ite_incident_id e = i" "ite_correlation_id e = tom_correlation_id m"
    "ite_reconciliation_token e = Some (uuid_str (cyd_token cd))"
    using e claimed(1) by (simp_all add: claimed_def claim_item_def item)
  obtain res db1 where p: "process_incident (pdr_acknowledged_now ?p) (pdr_updated_now ?p) i db = (res, db1)"
    by (metis surj_pair)
  obtain r where r: "res = Inr r" using process_incident_cases [OF p] assms(2) by (cases res) auto
  obtain y where y: "lookup_by inc_id i (idb_incidents db1) = Some y" "prs_status r = inc_status y" "inc_status y \<noteq> Status_OPEN"
  proof -
    have "\<exists>y. lookup_by inc_id i (idb_incidents db1) = Some y \<and> prs_status r = inc_status y \<and> inc_status y \<noteq> Status_OPEN"
      using process_incident_cases [OF p [unfolded r], unfolded sum.case] lookup_by_SomeD [OF assms(2)] assms(2)
      by (auto simp: lookup_update_where_const split: if_splits)
    then show ?thesis using that by blast
  qed
  define k where "k = completion_for ?p (tom_task_id m) e r"
  have ids: "prs_incident_id r = i" "idb_completions db1 = idb_completions db"
    using process_incident_cases [OF p [unfolded r], unfolded sum.case] by (auto split: if_splits)
  have create: "completion_outbox_create k (idb_completions db1) = (Inr k, idb_completions db @ [pending_row k (com_occurred_at k)])"
    using assms(9,10) by (auto simp: completion_outbox_create_def ids k_def completion_for_def completion_messages_def)
  have run: "process_incident_with_postgres ?p e db =
      (Processed r, db1\<lparr>idb_completions := idb_completions db @ [pending_row k (com_occurred_at k)]\<rparr>)"
    using p r create assms(11) by (simp add: process_incident_with_postgres_def e_ids k_def [symmetric])
  define ended where "ended = succeeded_item (cyd_mark_now cd) (success_result r) claimed"
  have mark: "mark_outcome (cyd_mark_now cd) (cyd_mark_fault cd) e (Processed r) (rows @ [claimed]) =
      (Some OutcomeSucceeded, rows @ [ended])"
    using assms(7,14) claimed by (simp add: mark_outcome_def mark_succeeded_def update_owned_execution_def e_ids
        lookup_by_append lookup_by_Cons update_last ended_def)
  have finished: "reconcile_claimed cd e \<lparr>rcw_db = db, rcw_table = rows @ [claimed]\<rparr> = (Some OutcomeSucceeded,
      \<lparr>rcw_db = db1\<lparr>idb_completions := idb_completions db @ [pending_row k (com_occurred_at k)]\<rparr>, rcw_table = rows @ [ended]\<rparr>)"
    using run mark assms(12) by (simp add: reconcile_claimed_def)
  have "lookup_by xit_task_id ?key (rows @ [ended]) = Some ended"
    using assms(7) claimed(1) by (simp add: lookup_by_append lookup_by_Cons ended_def)
  then show ?thesis
    using deliver claim finished y ids e_ids
    by (intro exI [of _ "rows @ [item]"] exI [of _ e] exI [of _ "rows @ [claimed]"]
        exI [of _ "\<lparr>rcw_db = db1\<lparr>idb_completions := idb_completions db @ [pending_row k (com_occurred_at k)]\<rparr>, rcw_table = rows @ [ended]\<rparr>"]
        exI [of _ ended] exI [of _ y] exI [of _ k])
      (simp add: ended_def k_def completion_for_def completion_messages_def)
qed

definition demo_cycle :: cycle_draws where
  "demo_cycle = \<lparr>cyd_now_epoch = 0, cyd_claim_now = 0, cyd_token = 9, cyd_claim_fault = Healthy,
     cyd_processing = demo_processing, cyd_dies = False, cyd_mark_now = 15, cyd_mark_fault = Healthy\<rparr>"

theorem incident_task_completes_witness:
  "\<exists>(w :: reconciler_world) (y :: incident). lookup_by inc_id 1 (idb_incidents (rcw_db w)) = Some y \<and> inc_status y \<noteq> Status_OPEN \<and>
     length (completion_messages (rcw_db w)) = 1"
proof -
  let ?m = "creation_task demo_incident_draws (Some ''c'') demo_incident"
  let ?d = "\<lparr>wdr_now = 0, wdr_now_epoch = 0, wdr_put_fault = Healthy, wdr_get_ok = True\<rparr>"
  have "lookup_by inc_id 1 (idb_incidents demo_db) = Some demo_incident"
    by (simp add: demo_db_def lookup_by_Cons demo_incident_def)
  moreover have "?m \<in> set (task_messages demo_db)" "tom_incident_id ?m = 1"
    by (simp_all add: demo_db_def task_messages_def) (simp add: demo_incident_def)
  moreover have "idb_completions demo_db = []" "completion_messages demo_db = []"
    by (simp_all add: demo_db_def completion_messages_def)
  ultimately show ?thesis
    using incident_task_completes [of demo_db 1 demo_incident ?m demo_format
        "\<lambda>_. Some (JObj (build_task_envelope ?m))" "''b''" "[]" ?d demo_cycle 3600 "CHR ''m''" "[]" 60]
      demo_db_ok demo_format_contract
    by (auto simp: demo_cycle_def demo_processing_def) fastforce
qed

end
