(* ===== verification/Task_Publication.thy ===== *)
theory Task_Publication
  imports Backend_Guarantees Task_Journey
begin

text \<open>
  The core backend's asynchronous tasks: \<open>messaging/task_identity.py\<close>, \<open>task_envelope.py\<close>,
  \<open>task_publication_service.py\<close>, \<open>task_publisher.py\<close>, the SQS adapter
  \<open>infrastructure/aws/sqs_task_publisher.py\<close>, \<open>services/incident_notification_service.py\<close> and the
  notification route of \<open>api/routes/incidents.py\<close> (\<open>src/backend/app\<close>). SQS answers with the type
  \<open>sqs_answer\<close>; the requests made to it are a list. A message body is the JSON object \<open>json.dumps\<close>
  writes, its members sorted by name.
\<close>

section \<open>Task identity\<close>

definition normalize_identity_segment :: "string \<Rightarrow> string \<Rightarrow> string + string" where
  "normalize_identity_segment name value =
     (let normalized = py_strip value
      in if normalized = [] then Inl (name @ '' must not be blank.'')
         else if CHR '':'' \<in> set normalized then Inl (name @ '' must not contain '' @ [CHR 0x27] @ '':'' @ [CHR 0x27] @ ''.'')
         else Inr normalized)"

definition build_idempotency_key :: "string \<Rightarrow> string \<Rightarrow> string \<Rightarrow> int \<Rightarrow> string + string" where
  "build_idempotency_key scope resource_id operation version =
     (case normalize_identity_segment ''scope'' scope of Inl e \<Rightarrow> Inl e | Inr s \<Rightarrow>
      case normalize_identity_segment ''resource_id'' resource_id of Inl e \<Rightarrow> Inl e | Inr r \<Rightarrow>
      case normalize_identity_segment ''operation'' operation of Inl e \<Rightarrow> Inl e | Inr p \<Rightarrow>
      if version < 1 then Inl ''version must be greater than or equal to 1.''
      else Inr (s @ '':'' @ r @ '':'' @ p @ '':'' @ ''v'' @ decimal (nat version)))"

definition resolve_correlation_id :: "uuid \<Rightarrow> string option \<Rightarrow> string" where
  "resolve_correlation_id generated correlation_id =
     (case correlation_id of
        Some s \<Rightarrow> if py_strip s \<noteq> [] then py_strip s else ''corr:'' @ uuid_str generated
      | None \<Rightarrow> ''corr:'' @ uuid_str generated)"

section \<open>The envelope\<close>

record published_task =
  ptk_task_id :: string
  ptk_task_type :: string
  ptk_created_at :: instant
  ptk_producer :: string
  ptk_correlation_id :: string
  ptk_idempotency_key :: string
  ptk_payload :: payload
  ptk_causation_id :: "string option"
  ptk_metadata :: "(string \<times> string) list"

record task_draws =
  tkd_task_id :: uuid
  tkd_now :: instant
  tkd_correlation :: uuid

datatype publication_error =
    IdentityValueError string
  | EnvelopeValidationError
  | TaskPublishError string

definition non_empty_task_string :: "string \<Rightarrow> string option" where
  "non_empty_task_string s = (let stripped = py_strip s in if stripped = [] then None else Some stripped)"

definition new_task_envelope ::
    "task_draws \<Rightarrow> string \<Rightarrow> string \<Rightarrow> string \<Rightarrow> string \<Rightarrow> payload \<Rightarrow> string option \<Rightarrow> (string \<times> string) list \<Rightarrow>
     publication_error + published_task" where
  "new_task_envelope d task_type producer correlation_id idempotency_key payload causation_id metadata =
     (case (non_empty_task_string task_type, non_empty_task_string producer, non_empty_task_string correlation_id,
            non_empty_task_string idempotency_key,
            case causation_id of None \<Rightarrow> Some None | Some c \<Rightarrow> map_option Some (non_empty_task_string c)) of
        (Some task_type', Some producer', Some correlation_id', Some idempotency_key', Some causation_id') \<Rightarrow>
          Inr \<lparr>ptk_task_id = uuid_str (tkd_task_id d), ptk_task_type = task_type', ptk_created_at = tkd_now d,
            ptk_producer = producer', ptk_correlation_id = correlation_id',
            ptk_idempotency_key = idempotency_key', ptk_payload = payload,
            ptk_causation_id = causation_id', ptk_metadata = metadata\<rparr>
      | _ \<Rightarrow> Inl EnvelopeValidationError)"

section \<open>Publishing\<close>

fun sort_members :: "json \<Rightarrow> json" where
  "sort_members (JObj members) = JObj (sort_key fst (map (\<lambda>(k, v). (k, sort_members v)) members))"
| "sort_members (JList items) = JList (map sort_members items)"
| "sort_members v = v"

definition dump_envelope :: "published_task \<Rightarrow> payload" where
  "dump_envelope t =
     [(''task_id'', JStr (ptk_task_id t)), (''kind'', JStr ''task''), (''task_type'', JStr (ptk_task_type t)),
      (''schema_version'', JStr ''1.0''), (''created_at'', JStr (iso_with ''Z'' (ptk_created_at t))),
      (''producer'', JStr (ptk_producer t)), (''correlation_id'', JStr (ptk_correlation_id t)),
      (''idempotency_key'', JStr (ptk_idempotency_key t)), (''payload'', JObj (ptk_payload t)),
      (''causation_id'', (case ptk_causation_id t of None \<Rightarrow> JNull | Some c \<Rightarrow> JStr c)),
      (''metadata'', JObj (map (\<lambda>(k, v). (k, JStr v)) (ptk_metadata t)))]"

definition serialize_envelope :: "published_task \<Rightarrow> json" where
  "serialize_envelope t = sort_members (JObj (dump_envelope t))"

record task_sqs_message =
  tsm_queue_url :: string
  tsm_message_body :: json

definition new_sqs_task_publisher :: "string \<Rightarrow> string + string" where
  "new_sqs_task_publisher queue_url =
     (let normalized = py_strip queue_url in if normalized = [] then Inl ''queue_url must not be blank.'' else Inr normalized)"

definition sqs_publish ::
    "string \<Rightarrow> sqs_answer \<Rightarrow> published_task \<Rightarrow> task_sqs_message list \<Rightarrow>
     (publication_error + unit) \<times> task_sqs_message list" where
  "sqs_publish queue_url sqs t sent =
     (case sqs of SqsError \<Rightarrow> Inl (TaskPublishError (ptk_task_id t)) | SqsResponse _ \<Rightarrow> Inr (),
      sent @ [\<lparr>tsm_queue_url = queue_url, tsm_message_body = serialize_envelope t\<rparr>])"

definition new_task_publication_service :: "string \<Rightarrow> string + string" where
  "new_task_publication_service producer =
     (let normalized = py_strip producer in if normalized = [] then Inl ''producer must not be blank.'' else Inr normalized)"

definition publish_task ::
    "string \<Rightarrow> string \<Rightarrow> sqs_answer \<Rightarrow> task_draws \<Rightarrow> string \<Rightarrow> string \<Rightarrow> string \<Rightarrow> string \<Rightarrow> payload \<Rightarrow> string option \<Rightarrow>
     string option \<Rightarrow> (string \<times> string) list \<Rightarrow> int \<Rightarrow> task_sqs_message list \<Rightarrow>
     (publication_error + published_task) \<times> task_sqs_message list" where
  "publish_task queue_url producer sqs d task_type scope resource_id operation payload correlation_id causation_id
     metadata version sent =
     (case build_idempotency_key scope resource_id operation version of
        Inl e \<Rightarrow> (Inl (IdentityValueError e), sent)
      | Inr idempotency_key \<Rightarrow>
          (case new_task_envelope d task_type producer (resolve_correlation_id (tkd_correlation d) correlation_id)
                  idempotency_key payload causation_id metadata of
             Inl e \<Rightarrow> (Inl e, sent)
           | Inr t \<Rightarrow>
               (case sqs_publish queue_url sqs t sent of
                  (Inl e, sent') \<Rightarrow> (Inl e, sent')
                | (Inr _, sent') \<Rightarrow> (Inr t, sent'))))"

section \<open>Incident notifications\<close>

definition INCIDENT_NOTIFICATION_TASK_TYPE :: string where
  "INCIDENT_NOTIFICATION_TASK_TYPE = ''incident.notification.requested''"

definition notification_payload :: "incident \<Rightarrow> payload" where
  "notification_payload x =
     [(''incident_id'', JStr (uuid_str (inc_id x))), (''service_id'', JStr (uuid_str (inc_service_id x))),
      (''title'', JStr (inc_title x)), (''severity'', JStr (severity_value (inc_severity x))),
      (''status'', JStr (status_value (inc_status x))), (''summary'', JStr (inc_summary x)),
      (''assignee'', JStr (inc_assignee x)), (''source'', JStr (inc_source x)),
      (''customer_impacting'', JBool (inc_customer_impacting x))]"

datatype notification_error = LookupFailed gateway_exception | PublicationFailed publication_error

definition request_notification ::
    "'w incident_gateway \<Rightarrow> string \<Rightarrow> string \<Rightarrow> sqs_answer \<Rightarrow> task_draws \<Rightarrow> uuid \<Rightarrow> string option \<Rightarrow>
     ('w \<times> task_sqs_message list, notification_error, published_task) operation" where
  "request_notification gw queue_url producer sqs d i correlation_id s =
     (case igw_get_by_id gw i (fst s) of
        (Inl e, w) \<Rightarrow> (Inl (LookupFailed e), w, snd s)
      | (Inr x, w) \<Rightarrow>
          (case publish_task queue_url producer sqs d INCIDENT_NOTIFICATION_TASK_TYPE ''incident'' (uuid_str (inc_id x))
                  ''notification-requested'' (notification_payload x) correlation_id None
                  [(''workflow'', ''incident-notification'')] 1 (snd s) of
             (Inl e, sent) \<Rightarrow> (Inl (PublicationFailed e), w, sent)
           | (Inr t, sent) \<Rightarrow> (Inr t, w, sent)))"

record task_accepted =
  tar_task_id :: string
  tar_task_type :: string
  tar_correlation_id :: string
  tar_idempotency_key :: string

fun notification_failure :: "notification_error \<Rightarrow> backend_reply" where
  "notification_failure (LookupFailed e) =
     (case incident_missing e of
        Some reply \<Rightarrow> reply
      | None \<Rightarrow> (case incident_gateway_http_exception e of Some reply \<Rightarrow> reply | None \<Rightarrow> server_error))"
| "notification_failure (PublicationFailed (TaskPublishError _)) =
     failure 503 ''Asynchronous task publication is unavailable.''"
| "notification_failure (PublicationFailed _) = server_error"

definition public_request_notification ::
    "'w incident_gateway \<Rightarrow> string \<Rightarrow> string \<Rightarrow> sqs_answer \<Rightarrow> task_draws \<Rightarrow> string option \<Rightarrow> uuid \<Rightarrow>
     ('w \<times> task_sqs_message list, backend_reply, task_accepted) operation" where
  "public_request_notification gw queue_url producer sqs d request_id i s =
     (case request_notification gw queue_url producer sqs d i request_id s of
        (Inl e, s') \<Rightarrow> (Inl (notification_failure e), s')
      | (Inr t, s') \<Rightarrow>
          (Inr \<lparr>tar_task_id = ptk_task_id t, tar_task_type = ptk_task_type t,
             tar_correlation_id = ptk_correlation_id t, tar_idempotency_key = ptk_idempotency_key t\<rparr>, s'))"

text \<open>\<open>get_task_publisher\<close> and \<open>get_task_publication_service\<close>, then the route; \<open>None\<close> is an unset queue URL.\<close>

definition TASK_PRODUCER :: string where "TASK_PRODUCER = ''opsflow-api''"

definition notification_wiring :: "string option \<Rightarrow> (string \<times> string) option" where
  "notification_wiring task_queue_url =
     (case task_queue_url of
        None \<Rightarrow> None
      | Some url \<Rightarrow>
          (case (new_sqs_task_publisher url, new_task_publication_service TASK_PRODUCER) of
             (Inr queue_url, Inr producer) \<Rightarrow> Some (queue_url, producer) | _ \<Rightarrow> None))"

definition notification_serve ::
    "security \<Rightarrow> 'g backend_world incident_gateway \<Rightarrow> string option \<Rightarrow> auth_draws \<Rightarrow> auth_request \<Rightarrow> sqs_answer \<Rightarrow>
     task_draws \<Rightarrow> string option \<Rightarrow> uuid \<Rightarrow> auth_app \<times> 'g backend_world \<times> task_sqs_message list \<Rightarrow>
     (backend_reply + task_accepted) \<times> auth_app \<times> 'g backend_world \<times> task_sqs_message list" where
  "notification_serve sec gw task_queue_url a req sqs d request_id i s =
     (case permission_dependency sec a req INCIDENT_UPDATE (fst s) of
        (Inl reply, app1) \<Rightarrow> (Inl reply, app1, snd s)
      | (Inr _, app1) \<Rightarrow>
          (case notification_wiring task_queue_url of
             None \<Rightarrow> (Inl server_error, app1, snd s)
           | Some (queue_url, producer) \<Rightarrow>
               (case public_request_notification gw queue_url producer sqs d request_id i (snd s) of
                  (Inr accepted, w, sent) \<Rightarrow> (Inr accepted, app1, w, sent)
                | (Inl reply, w, sent) \<Rightarrow>
                    (Inl reply, app1, w\<lparr>bkw_catalog := bkw_catalog (fst (snd s))\<rparr>, sent))))"

section \<open>Lemmas: identity\<close>

lemma normalize_identity_segment_Inr:
  "normalize_identity_segment name value = Inr s \<longleftrightarrow> s = py_strip value \<and> s \<noteq> [] \<and> CHR '':'' \<notin> set s"
  by (auto simp: normalize_identity_segment_def Let_def)

lemma build_idempotency_key_Inr:
  "build_idempotency_key scope resource_id operation version = Inr key \<longleftrightarrow>
     (\<forall>v \<in> {scope, resource_id, operation}. py_strip v \<noteq> [] \<and> CHR '':'' \<notin> set (py_strip v)) \<and> 1 \<le> version \<and>
     key = py_strip scope @ '':'' @ py_strip resource_id @ '':'' @ py_strip operation @ '':v'' @ decimal (nat version)"
  by (auto simp: build_idempotency_key_def normalize_identity_segment_Inr normalize_identity_segment_def Let_def
      split: sum.splits)

lemma idempotency_key_parts:
  assumes "build_idempotency_key scope resource_id operation version = Inr key"
  shows "split_on (CHR '':'') key =
    [py_strip scope, py_strip resource_id, py_strip operation, CHR ''v'' # decimal (nat version)]"
  using assms decimal_no_colon
  by (auto simp: build_idempotency_key_Inr split_on_sep split_on_absent)

text \<open>
  Two publications get the same idempotency key exactly when they name the same
  scope, resource, operation and version: no choice of texts makes two logical operations collide.
\<close>

theorem idempotency_key_identity:
  assumes "build_idempotency_key scope resource_id operation version = Inr key"
    and "build_idempotency_key scope' resource_id' operation' version' = Inr key'"
  shows "key = key' \<longleftrightarrow> py_strip scope = py_strip scope' \<and> py_strip resource_id = py_strip resource_id' \<and>
    py_strip operation = py_strip operation' \<and> version = version'"
proof
  assume "key = key'"
  then have "[py_strip scope, py_strip resource_id, py_strip operation, CHR ''v'' # decimal (nat version)] =
      [py_strip scope', py_strip resource_id', py_strip operation', CHR ''v'' # decimal (nat version')]"
    using idempotency_key_parts [OF assms(1)] idempotency_key_parts [OF assms(2)] by metis
  moreover have "1 \<le> version" "1 \<le> version'" using assms by (simp_all add: build_idempotency_key_Inr)
  ultimately show "py_strip scope = py_strip scope' \<and> py_strip resource_id = py_strip resource_id' \<and>
      py_strip operation = py_strip operation' \<and> version = version'"
    by (auto simp: decimal_inj eq_nat_nat_iff)
next
  assume "py_strip scope = py_strip scope' \<and> py_strip resource_id = py_strip resource_id' \<and>
    py_strip operation = py_strip operation' \<and> version = version'"
  then show "key = key'" using assms by (simp add: build_idempotency_key_Inr)
qed

section \<open>Lemmas: the wire form\<close>

section \<open>The notification task\<close>

definition notification_key :: "uuid \<Rightarrow> string" where
  "notification_key i = ''incident:'' @ uuid_str i @ '':notification-requested:v1''"

definition notification_task :: "task_draws \<Rightarrow> incident \<Rightarrow> string \<Rightarrow> published_task" where
  "notification_task d x correlation_id =
     \<lparr>ptk_task_id = uuid_str (tkd_task_id d), ptk_task_type = INCIDENT_NOTIFICATION_TASK_TYPE,
      ptk_created_at = tkd_now d, ptk_producer = TASK_PRODUCER, ptk_correlation_id = correlation_id,
      ptk_idempotency_key = notification_key (inc_id x), ptk_payload = notification_payload x,
      ptk_causation_id = None, ptk_metadata = [(''workflow'', ''incident-notification'')]\<rparr>"

lemma uuid_str_visible: "c \<in> set (uuid_str u) \<Longrightarrow> \<not> char_space c \<and> c \<noteq> CHR '':''"
proof -
  have "\<forall>c \<in> set ''0123456789abcdef-''. \<not> char_space c \<and> c \<noteq> CHR '':''" by code_simp
  then show "c \<in> set (uuid_str u) \<Longrightarrow> \<not> char_space c \<and> c \<noteq> CHR '':''" using uuid_str_set [of u] by blast
qed

lemma uuid_str_segment: "py_strip (uuid_str u) = uuid_str u" "CHR '':'' \<notin> set (uuid_str u)"
  using uuid_str_visible by (blast intro: py_strip_visible)+

lemma notification_texts:
  "py_strip ''incident'' = ''incident''" "py_strip ''notification-requested'' = ''notification-requested''"
  "py_strip INCIDENT_NOTIFICATION_TASK_TYPE = INCIDENT_NOTIFICATION_TASK_TYPE" "py_strip TASK_PRODUCER = TASK_PRODUCER"
  "decimal 1 = ''1''"
  by code_simp+

lemma notification_key_built:
  "build_idempotency_key ''incident'' (uuid_str i) ''notification-requested'' 1 = Inr (notification_key i)"
  using uuid_str_segment [of i] incident_uuid_text [of i] notification_texts(5)
  by (simp add: build_idempotency_key_Inr notification_texts(1,2) notification_key_def)

lemma valid_request_id_visible: "valid_request_id c \<Longrightarrow> py_strip c = c"
proof (rule py_strip_visible)
  assume v: "valid_request_id c"
  have "\<not> char_space x" if "request_id_char x \<or> ascii_alphanumeric x" for x
    using that by (auto simp: request_id_char_def ascii_alphanumeric_def char_space_def Let_def)
  moreover have "request_id_char x \<or> ascii_alphanumeric x" if "x \<in> set c" for x
    using v that by (cases c) (auto simp: list_all_iff)
  ultimately show "\<forall>x \<in> set c. \<not> char_space x" by blast
qed

lemma notification_key_visible: "py_strip (notification_key i) = notification_key i"
proof (rule py_strip_visible)
  have "\<forall>c \<in> set ''incident::notification-requested:v1''. \<not> char_space c" by code_simp
  then show "\<forall>c \<in> set (notification_key i). \<not> char_space c"
    using uuid_str_visible [of _ i] by (simp add: notification_key_def)
qed

lemma publish_notification:
  assumes "valid_request_id c"
  shows "publish_task queue_url TASK_PRODUCER sqs d INCIDENT_NOTIFICATION_TASK_TYPE ''incident'' (uuid_str (inc_id x))
      ''notification-requested'' (notification_payload x) (Some c) None [(''workflow'', ''incident-notification'')] 1 sent =
    (case sqs of SqsError \<Rightarrow> Inl (TaskPublishError (uuid_str (tkd_task_id d))) | SqsResponse _ \<Rightarrow> Inr (notification_task d x c),
     sent @ [\<lparr>tsm_queue_url = queue_url, tsm_message_body = serialize_envelope (notification_task d x c)\<rparr>])"
proof -
  have c: "py_strip c = c" "c \<noteq> []" using assms valid_request_id_visible valid_request_id_nonempty by auto
  have "new_task_envelope d INCIDENT_NOTIFICATION_TASK_TYPE TASK_PRODUCER c (notification_key (inc_id x))
      (notification_payload x) None [(''workflow'', ''incident-notification'')] = Inr (notification_task d x c)"
    by (simp add: new_task_envelope_def non_empty_task_string_def Let_def notification_texts(3,4) c
        notification_key_visible notification_task_def)
      (simp add: INCIDENT_NOTIFICATION_TASK_TYPE_def TASK_PRODUCER_def notification_key_def)
  then show ?thesis
    by (simp add: publish_task_def notification_key_built resolve_correlation_id_def c sqs_publish_def
        notification_task_def split: sqs_answer.splits)
qed

section \<open>The worker's reading of the notification\<close>

text \<open>What is assumed of jsonschema's format checker: canonical UUIDs and pydantic's UTC timestamps pass.\<close>

definition notification_format :: "(string \<Rightarrow> string \<Rightarrow> bool) \<Rightarrow> bool" where
  "notification_format fmt \<longleftrightarrow> (\<forall>u. fmt ''uuid'' (uuid_str u)) \<and> (\<forall>t. fmt ''date-time'' (iso_with ''Z'' t))"

definition sorted_members :: "payload \<Rightarrow> payload" where
  "sorted_members m = sort_key fst (map (\<lambda>(k, v). (k, sort_members v)) m)"

lemma map_of_sorted_members:
  assumes "distinct (map fst m)"
  shows "map_of (sorted_members m) k = map_option sort_members (map_of m k)"
proof -
  have "map fst (map (\<lambda>(k, v). (k, sort_members v)) m) = map fst m" by auto
  then have "map_of (sorted_members m) = map_of (map (\<lambda>(k, v). (k, sort_members v)) m)"
    unfolding sorted_members_def using assms by (intro map_of_sort_key) (simp only:)
  then show ?thesis by (simp add: map_of_map)
qed

lemma set_sorted_members: "set (sorted_members m) = (\<lambda>(k, v). (k, sort_members v)) ` set m"
  by (simp add: sorted_members_def)

definition worker_view :: "published_task \<Rightarrow> task_envelope" where
  "worker_view t =
     \<lparr>env_task_id = ptk_task_id t, env_task_type = ptk_task_type t, env_schema_version = ''1.0'',
      env_created_at = iso_with ''Z'' (ptk_created_at t), env_producer = ptk_producer t,
      env_correlation_id = ptk_correlation_id t, env_causation_id = ptk_causation_id t,
      env_idempotency_key = ptk_idempotency_key t, env_payload = sorted_members (ptk_payload t),
      env_metadata = Some (sorted_members (map (\<lambda>(k, v). (k, JStr v)) (ptk_metadata t)))\<rparr>"

lemma dump_distinct: "distinct (map fst (dump_envelope t))"
  by (simp add: dump_envelope_def)

lemma serialize_members: "serialize_envelope t = JObj (sorted_members (dump_envelope t))"
  by (simp add: serialize_envelope_def sorted_members_def)

lemma dumped_members:
  "map_of (sorted_members (dump_envelope t)) ''task_id'' = Some (JStr (ptk_task_id t))"
  "map_of (sorted_members (dump_envelope t)) ''kind'' = Some (JStr ''task'')"
  "map_of (sorted_members (dump_envelope t)) ''task_type'' = Some (JStr (ptk_task_type t))"
  "map_of (sorted_members (dump_envelope t)) ''schema_version'' = Some (JStr ''1.0'')"
  "map_of (sorted_members (dump_envelope t)) ''created_at'' = Some (JStr (iso_with ''Z'' (ptk_created_at t)))"
  "map_of (sorted_members (dump_envelope t)) ''producer'' = Some (JStr (ptk_producer t))"
  "map_of (sorted_members (dump_envelope t)) ''correlation_id'' = Some (JStr (ptk_correlation_id t))"
  "map_of (sorted_members (dump_envelope t)) ''idempotency_key'' = Some (JStr (ptk_idempotency_key t))"
  "map_of (sorted_members (dump_envelope t)) ''payload'' = Some (JObj (sorted_members (ptk_payload t)))"
  "map_of (sorted_members (dump_envelope t)) ''causation_id'' =
     Some (case ptk_causation_id t of None \<Rightarrow> JNull | Some c \<Rightarrow> JStr c)"
  "map_of (sorted_members (dump_envelope t)) ''metadata'' =
     Some (JObj (sorted_members (map (\<lambda>(k, v). (k, JStr v)) (ptk_metadata t))))"
  by (simp_all add: map_of_sorted_members dump_distinct)
    (simp_all add: dump_envelope_def sorted_members_def split: option.splits)

lemma read_dumped: "read_envelope (sorted_members (dump_envelope t)) = worker_view t"
  by (simp add: read_envelope_def string_member_def object_member_def dumped_members worker_view_def split: option.splits)

lemma notification_key_conforms: "length_within 1 255 (notification_key i)" "idempotency_key_pattern (notification_key i)"
proof -
  have key: "notification_key i = CHR ''i'' # (''ncident:'' @ uuid_str i @ '':notification-requested:v'' @ [CHR ''1''])"
    by (simp add: notification_key_def)
  then show "length_within 1 255 (notification_key i)" by (simp add: length_within_def length_uuid_str)
  have no_newline: "before_newline (notification_key i) = notification_key i"
    using key_ends(3) by (simp add: before_newline_def key)
  have prefix: "\<forall>c \<in> set ''ncident::notification-requested:v1''. ascii_alphanumeric c \<or> c \<in> set ''._:/-''" by code_simp
  have "ascii_alphanumeric c \<or> c \<in> set ''._:/-''"
    if "c \<in> set (''ncident:'' @ uuid_str i @ '':notification-requested:v'' @ [CHR ''1''])" for c
  proof -
    have "c \<in> set (uuid_str i) \<or> c \<in> set ''ncident::notification-requested:v1''" using that by auto
    then show ?thesis using key_chars prefix subsetD [OF uuid_str_set, of c i] by blast
  qed
  then have "head_and_tail ascii_alphanumeric (\<lambda>c. ascii_alphanumeric c \<or> c \<in> set ''._:/-'') (notification_key i)"
    unfolding key head_and_tail.simps list_all_iff using key_ends(1) by blast
  then show "idempotency_key_pattern (notification_key i)" unfolding idempotency_key_pattern_def no_newline .
qed

lemma notification_type_conforms:
  "length_within 3 120 INCIDENT_NOTIFICATION_TASK_TYPE \<and> task_type_pattern INCIDENT_NOTIFICATION_TASK_TYPE \<and>
   length_within 1 100 TASK_PRODUCER \<and> producer_pattern TASK_PRODUCER"
  by code_simp

lemma notification_accepted:
  assumes "notification_format fmt" and "valid_request_id c"
  shows "validate_task_envelope fmt (serialize_envelope (notification_task d x c)) = Inr (worker_view (notification_task d x c))"
proof -
  let ?t = "notification_task d x c"
  have "list_all (\<lambda>(k, _). k \<in> set envelope_properties) (sorted_members (dump_envelope ?t))"
    by (simp add: list_all_iff set_sorted_members) (simp add: dump_envelope_def envelope_properties_def)
  moreover have "1 \<le> length c" using assms(2) valid_request_id_nonempty by (cases c) auto
  ultimately have "envelope_conforms fmt (sorted_members (dump_envelope ?t))"
    using assms(1) notification_key_conforms notification_type_conforms
    by (simp add: envelope_conforms_def dumped_members json_string_def)
      (simp add: notification_task_def notification_format_def causation_conforms_def metadata_conforms_def
        sorted_members_def)
  then show ?thesis by (simp add: validate_task_envelope_def serialize_members read_dumped)
qed

section \<open>Properties\<close>

lemma notification_serve_granted:
  assumes "fst (permission_dependency sec a req INCIDENT_UPDATE app) = Inr u"
    and "py_strip url \<noteq> []" and "valid_request_id c"
  shows "notification_serve sec gw (Some url) a req sqs d (Some c) i (app, w, sent) =
    (case igw_get_by_id gw i w of
       (Inl e, w1) \<Rightarrow> (Inl (notification_failure (LookupFailed e)), app, w1\<lparr>bkw_catalog := bkw_catalog w\<rparr>, sent)
     | (Inr x, w1) \<Rightarrow>
         (let t = notification_task d x c; m = \<lparr>tsm_queue_url = py_strip url, tsm_message_body = serialize_envelope t\<rparr>
          in if sqs = SqsError
             then (Inl (failure 503 ''Asynchronous task publication is unavailable.''), app,
                   w1\<lparr>bkw_catalog := bkw_catalog w\<rparr>, sent @ [m])
             else (Inr \<lparr>tar_task_id = ptk_task_id t, tar_task_type = ptk_task_type t,
                     tar_correlation_id = ptk_correlation_id t, tar_idempotency_key = ptk_idempotency_key t\<rparr>,
                   app, w1, sent @ [m])))"
proof -
  have "permission_dependency sec a req INCIDENT_UPDATE app = (Inr u, app)"
    using assms(1) by (cases rule: permission_dependency_cases [of sec a req INCIDENT_UPDATE app]) auto
  moreover have "notification_wiring (Some url) = Some (py_strip url, TASK_PRODUCER)"
    using assms(2) by (simp add: notification_wiring_def new_sqs_task_publisher_def new_task_publication_service_def
        notification_texts(4) Let_def) (simp add: TASK_PRODUCER_def)
  ultimately show ?thesis
    by (auto simp: notification_serve_def public_request_notification_def request_notification_def Let_def
        publish_notification [OF assms(3)] split: prod.splits sum.splits sqs_answer.splits)
qed

text \<open>
  Claim C17. An accepted notification request has sent exactly one message, to the configured queue. Its
  idempotency key depends on the incident alone and its correlation identifier is the request's; the
  task worker accepts the message under its contract, reads back the incident's fields as they were, and
  ends the delivery without failures and without an execution record.
\<close>

theorem notification_journey:
  assumes "notification_format fmt"
    and "notification_serve sec gw (Some url) a req sqs d (Some (resolve_request_id generated supplied)) i (app, w, sent) =
      (Inr accepted, app', w', sent')"
    and "py_strip url \<noteq> []" and "loads body = Some (tsm_message_body (last sent'))"
  shows "\<exists>x m env. igw_get_by_id gw i w = (Inr x, w') \<and> sent' = sent @ [m] \<and> tsm_queue_url m = py_strip url \<and>
    tar_idempotency_key accepted = notification_key (inc_id x) \<and>
    tar_correlation_id accepted = resolve_request_id generated supplied \<and>
    validate_task_envelope fmt (tsm_message_body m) = Inr env \<and> env_task_id env = tar_task_id accepted \<and>
    env_correlation_id env = tar_correlation_id accepted \<and> env_idempotency_key env = tar_idempotency_key accepted \<and>
    map_of (env_payload env) = map_of
      [(''incident_id'', JStr (uuid_str (inc_id x))), (''service_id'', JStr (uuid_str (inc_service_id x))),
       (''title'', JStr (inc_title x)), (''severity'', JStr (severity_value (inc_severity x))),
       (''status'', JStr (status_value (inc_status x))), (''summary'', JStr (inc_summary x)),
       (''assignee'', JStr (inc_assignee x)), (''source'', JStr (inc_source x)),
       (''customer_impacting'', JBool (inc_customer_impacting x))] \<and>
    (\<forall>ex draws c cs rows. lambda_handler loads fmt ex (Some [\<lparr>dlv_record =
        JObj [(''messageId'', JStr (c # cs)), (''body'', JStr body)], dlv_decision = RunTask True, dlv_draws = draws\<rparr>]) rows =
      (Inr [], rows))"
proof -
  let ?c = "resolve_request_id generated supplied"
  have c: "valid_request_id ?c" by (rule resolve_request_id_valid)
  obtain u where "fst (permission_dependency sec a req INCIDENT_UPDATE app) = Inr u"
    using assms(2) by (cases rule: permission_dependency_cases [of sec a req INCIDENT_UPDATE app])
      (auto simp: notification_serve_def)
  note run = notification_serve_granted [OF this assms(3) c, of gw sqs d i w sent, unfolded assms(2)]
  then obtain x where x: "igw_get_by_id gw i w = (Inr x, w')"
    by (auto simp: Let_def split: prod.splits sum.splits if_splits)
  let ?t = "notification_task d x ?c"
  let ?m = "\<lparr>tsm_queue_url = py_strip url, tsm_message_body = serialize_envelope ?t\<rparr>"
  have acc: "accepted = \<lparr>tar_task_id = ptk_task_id ?t, tar_task_type = ptk_task_type ?t,
      tar_correlation_id = ptk_correlation_id ?t, tar_idempotency_key = ptk_idempotency_key ?t\<rparr>"
    and sent: "sent' = sent @ [?m]"
    using run x by (auto simp: Let_def split: if_splits)
  have valid: "validate_task_envelope fmt (serialize_envelope ?t) = Inr (worker_view ?t)"
    by (rule notification_accepted [OF assms(1) c])
  have "distinct (map fst (notification_payload x))" by (simp add: notification_payload_def)
  then have "map_of (sorted_members (notification_payload x)) k = map_of (notification_payload x) k" for k
    unfolding map_of_sorted_members [OF \<open>distinct _\<close>] by (simp add: notification_payload_def)
  then have payload: "map_of (env_payload (worker_view ?t)) = map_of (notification_payload x)"
    by (intro ext) (simp add: worker_view_def notification_task_def)
  have "dispatch_task ex draws (worker_view ?t) rows = (Inr (), rows)" for ex draws rows
    by (simp add: dispatch_task_def worker_view_def notification_task_def INCIDENT_NOTIFICATION_TASK_TYPE_def
        handle_incident_notification_requested_def)
  then have "lambda_handler loads fmt ex (Some [\<lparr>dlv_record = JObj [(''messageId'', JStr (c # cs)), (''body'', JStr body)],
      dlv_decision = RunTask True, dlv_draws = draws\<rparr>]) rows = (Inr [], rows)" for ex draws c cs rows
    using assms(4) valid by (simp add: lambda_handler_def process_record_def parse_record_body_def payload_get_def
        process_task_idempotently_def sent)
  with x sent valid payload [unfolded notification_payload_def] show ?thesis
    by (intro exI [of _ x] exI [of _ ?m] exI [of _ "worker_view ?t"])
      (simp add: acc worker_view_def notification_task_def)
qed

text \<open>
  Every refused notification request: without the permission to update incidents it ends with
  that reply and nothing happens; without a configured queue it is 500; an incident that cannot be read
  gives 404, 503 or 502 by the gateway's error and sends nothing; a failing queue gives 503 after one
  attempt. The databases are never changed, and nothing else is refused.
\<close>

theorem notification_refusals:
  assumes "out = notification_serve sec gw url a req sqs d (Some (resolve_request_id generated supplied)) i (app, w, sent)"
  shows "(case permission_dependency sec a req INCIDENT_UPDATE app of
      (Inl reply, app1) \<Rightarrow> 400 \<le> brp_status reply \<and> out = (Inl reply, app1, w, sent)
    | (Inr u, _) \<Rightarrow>
        (if url = None \<or> py_strip (the url) = [] then out = (Inl server_error, app, w, sent)
         else case igw_get_by_id gw i w of
           (Inl e, w1) \<Rightarrow>
             snd out = (app, w1\<lparr>bkw_catalog := bkw_catalog w\<rparr>, sent) \<and>
             (\<exists>reply. fst out = Inl reply \<and> brp_status reply =
                (case e of IncidentNotFoundError _ \<Rightarrow> 404 | IncidentGatewayUnavailableError _ \<Rightarrow> 503
                 | IncidentGatewayCircuitOpenError _ \<Rightarrow> 503 | IncidentGatewayProtocolError _ \<Rightarrow> 502 | _ \<Rightarrow> 500))
         | (Inr x, w1) \<Rightarrow>
             (\<exists>m. snd (snd (snd out)) = sent @ [m]) \<and>
             (if sqs = SqsError then (\<exists>reply. fst out = Inl reply \<and> brp_status reply = 503) \<and>
                bkw_catalog (fst (snd (snd out))) = bkw_catalog w
              else \<not> isl (fst out))))"
proof (cases rule: permission_dependency_cases [of sec a req INCIDENT_UPDATE app])
  case (refused reply app1)
  then show ?thesis by (simp add: assms notification_serve_def)
next
  case (granted u)
  let ?c = "resolve_request_id generated supplied"
  have c: "valid_request_id ?c" by (rule resolve_request_id_valid)
  show ?thesis
  proof (cases "url = None \<or> py_strip (the url) = []")
    case True
    then have "notification_wiring url = None"
      by (cases url) (simp_all add: notification_wiring_def new_sqs_task_publisher_def Let_def)
    then show ?thesis using True granted(1) by (simp add: assms notification_serve_def)
  next
    case False
    then obtain q where q: "url = Some q" "py_strip q \<noteq> []" by auto
    have "fst (permission_dependency sec a req INCIDENT_UPDATE app) = Inr u" by (simp add: granted(1))
    note run = notification_serve_granted [OF this q(2) c, of gw sqs d i w sent, folded q(1), folded assms]
    show ?thesis
    proof (cases "igw_get_by_id gw i w")
      case (Pair r w1)
      then show ?thesis using run q
        by (cases r) (auto simp: granted(1) Let_def failure_def reply_of_def server_error_def
            split: gateway_exception.splits)
    qed
  qed
qed

section \<open>Witnesses\<close>

theorem idempotency_key_identity_witness:
  "''incident:a:b:v1'' \<noteq> ''incident:a:c:v1''"
proof -
  have "build_idempotency_key ''incident'' ''a'' '' b'' 1 = Inr ''incident:a:b:v1''"
    and "build_idempotency_key ''incident'' ''a'' ''c'' 1 = Inr ''incident:a:c:v1''" by code_simp+
  moreover have "py_strip '' b'' \<noteq> py_strip ''c''" by code_simp
  ultimately show ?thesis using idempotency_key_identity by blast
qed

definition demo_operators :: "user_auth_record list" where
  "demo_operators = [\<lparr>uar_user = demo_user\<lparr>usr_role := OPERATOR\<rparr>, uar_hashed_password = ''correct horse battery''\<rparr>]"

definition demo_reported :: incident where
  "demo_reported = local_new_incident demo_public_draws demo_public_create"

definition demo_notified_world :: "gateway_world backend_world" where
  "demo_notified_world = demo_backend_world\<lparr>bkw_catalog := \<lparr>cdb_services = [demo_service], cdb_incidents = [demo_reported]\<rparr>\<rparr>"

definition demo_task_draws :: task_draws where
  "demo_task_draws = \<lparr>tkd_task_id = 30, tkd_now = 0, tkd_correlation = 31\<rparr>"

lemma demo_operator:
  "fst (permission_dependency demo_sec (demo_draws 9) (demo_request (Some ''ttt'') None) INCIDENT_UPDATE (demo_app demo_operators [])) =
     Inr (demo_user\<lparr>usr_role := OPERATOR\<rparr>)"
  by code_simp

lemma demo_lookup: "igw_get_by_id (local_gateway demo_public_draws) 1 demo_notified_world = (Inr demo_reported, demo_notified_world)"
  by (simp add: local_gateway_def Let_def local_incident_gateway_def on_catalog_def local_incident_get_def
      incident_get_by_id_def demo_notified_world_def lookup_by_Cons demo_reported_def local_new_incident_def
      demo_public_draws_def)

lemma demo_notification_run:
  "\<exists>accepted sent'. notification_serve demo_sec (local_gateway demo_public_draws) (Some ''q'') (demo_draws 9)
     (demo_request (Some ''ttt'') None) (SqsResponse JNull) demo_task_draws (Some (resolve_request_id 40 None)) 1
     (demo_app demo_operators [], demo_notified_world, []) =
     (Inr accepted, demo_app demo_operators [], demo_notified_world, sent')"
proof -
  have "py_strip ''q'' \<noteq> []" by code_simp
  then show ?thesis
    using notification_serve_granted [OF demo_operator _ resolve_request_id_valid [of 40 None],
        of "''q''" "local_gateway demo_public_draws" "SqsResponse JNull" demo_task_draws 1 demo_notified_world "[]"]
    by (simp add: demo_lookup Let_def)
qed

theorem notification_journey_witness:
  "\<exists>(m :: task_sqs_message) env. validate_task_envelope (\<lambda>_ _. True) (tsm_message_body m) = Inr env \<and>
     map_of (env_payload env) ''incident_id'' = Some (JStr (uuid_str 1))"
proof -
  obtain accepted sent' where run: "notification_serve demo_sec (local_gateway demo_public_draws) (Some ''q'') (demo_draws 9)
     (demo_request (Some ''ttt'') None) (SqsResponse JNull) demo_task_draws (Some (resolve_request_id 40 None)) 1
     (demo_app demo_operators [], demo_notified_world, []) =
     (Inr accepted, demo_app demo_operators [], demo_notified_world, sent')"
    using demo_notification_run by blast
  have fmt: "notification_format (\<lambda>_ _. True)" by (simp add: notification_format_def)
  have url: "py_strip ''q'' \<noteq> []" by code_simp
  obtain x env and m :: task_sqs_message where x: "demo_reported = x" and env: "validate_task_envelope (\<lambda>_ _. True) (tsm_message_body m) = Inr env"
    and payload: "map_of (env_payload env) = map_of (notification_payload x)"
    using notification_journey [folded notification_payload_def, OF fmt run url, of "\<lambda>_. Some (tsm_message_body (last sent'))" "''b''", OF refl]
    unfolding demo_lookup prod.inject sum.inject by (elim exE conjE) (rule that; assumption)
  have "map_of (env_payload env) ''incident_id'' = Some (JStr (uuid_str 1))"
    unfolding payload x [symmetric]
    by (simp add: notification_payload_def demo_reported_def local_new_incident_def demo_public_draws_def)
  with env show ?thesis by blast
qed

theorem notification_refusals_witness:
  "\<exists>reply. fst (notification_serve demo_sec (local_gateway demo_public_draws) (Some ''q'') (demo_draws 9)
     (demo_request (Some ''ttt'') None) SqsError demo_task_draws (Some (resolve_request_id 40 None)) 1
     (demo_app demo_operators [], demo_notified_world, [])) = Inl reply \<and> brp_status reply = 503"
proof -
  have "py_strip ''q'' \<noteq> []" by code_simp
  then show ?thesis
    using notification_refusals [OF refl, of demo_sec "local_gateway demo_public_draws" "Some ''q''" "demo_draws 9"
        "demo_request (Some ''ttt'') None" SqsError demo_task_draws 40 None 1 "demo_app demo_operators []" demo_notified_world "[]"]
      demo_operator
    by (simp add: demo_lookup split: prod.splits sum.splits)
qed

end
