(* ===== verification/Security_Events.thy ===== *)
theory Security_Events
  imports Py_Datetime "HOL-Library.Sublist"
begin

text \<open>
  \<open>src/backend/app/core/security_events.py\<close>: the structured security log. A record is the JSON object
  \<open>json.dumps\<close> writes (its member order is not kept); the logger's sink is the list of records with
  their levels. \<open>hmac key message\<close> is the hexadecimal HMAC-SHA-256 digest, \<open>sed_event_id\<close> and
  \<open>sed_now\<close> are the draws of one call, \<open>sed_handler_fails\<close> tells whether the logging handler
  raises. \<open>char_alnum\<close> is \<open>str.isalnum\<close> on the code points 0 to 255.
\<close>

section \<open>Cleaning and classification\<close>

definition char_alnum :: "char \<Rightarrow> bool" where
  "char_alnum c \<longleftrightarrow>
     (let n = (of_char c :: nat)
      in 48 \<le> n \<and> n \<le> 57 \<or> 65 \<le> n \<and> n \<le> 90 \<or> 97 \<le> n \<and> n \<le> 122 \<or>
         n \<in> set [170, 178, 179, 181, 185, 186, 188, 189, 190] \<or> 192 \<le> n \<and> n \<noteq> 215 \<and> n \<noteq> 247)"

definition line_control :: "char \<Rightarrow> bool" where
  "line_control c \<longleftrightarrow> (of_char c :: nat) \<in> set [9, 10, 13]"

definition clean_text :: "string \<Rightarrow> string" where
  "clean_text value = take 256 (map (\<lambda>c. if line_control c then CHR '' '' else c) value)"

datatype detail_value = DetailStr string | DetailInt int | DetailBool bool | DetailNone

fun clean_value :: "detail_value \<Rightarrow> detail_value" where
  "clean_value (DetailStr s) = DetailStr (clean_text s)"
| "clean_value v = v"

definition normalize_detail_key :: "string \<Rightarrow> string" where
  "normalize_detail_key key = map char_lower (filter char_alnum key)"

definition SENSITIVE_DETAIL_KEY_MARKERS :: "string list" where
  "SENSITIVE_DETAIL_KEY_MARKERS =
     [''password'', ''passwd'', ''token'', ''secret'', ''authorization'', ''cookie'', ''apikey'', ''privatekey'',
      ''signingkey'', ''hmackey'', ''bearer'', ''credential'']"

definition is_sensitive_detail_key :: "string \<Rightarrow> bool" where
  "is_sensitive_detail_key key =
     (let normalized_key = normalize_detail_key key
      in normalized_key \<noteq> [] \<and> list_ex (\<lambda>marker. sublist marker normalized_key) SENSITIVE_DETAIL_KEY_MARKERS)"

text \<open>Assignment to a key of a Python dictionary: an existing key keeps its place.\<close>

fun dict_put :: "string \<Rightarrow> 'v \<Rightarrow> (string \<times> 'v) list \<Rightarrow> (string \<times> 'v) list" where
  "dict_put k v [] = [(k, v)]"
| "dict_put k v ((k', v') # m) = (if k' = k then (k', v) # m else (k', v') # dict_put k v m)"

definition REDACTED_DETAIL_VALUE :: string where
  "REDACTED_DETAIL_VALUE = ''[REDACTED]''"

definition sanitize_details :: "(string \<times> detail_value) list \<Rightarrow> (string \<times> detail_value) list" where
  "sanitize_details details =
     fold (\<lambda>(key, value) sanitized.
       let cleaned_key = clean_text key
       in if is_sensitive_detail_key cleaned_key then dict_put cleaned_key (DetailStr REDACTED_DETAIL_VALUE) sanitized
          else dict_put cleaned_key (clean_value value) sanitized) details []"

section \<open>The logger\<close>

datatype security_outcome = OutcomeSuccess | OutcomeFailure | OutcomeBlocked

fun outcome_text :: "security_outcome \<Rightarrow> string" where
  "outcome_text OutcomeSuccess = ''success''"
| "outcome_text OutcomeFailure = ''failure''"
| "outcome_text OutcomeBlocked = ''blocked''"

datatype log_level = LevelInfo | LevelWarning | LevelError

fun level_severity :: "log_level \<Rightarrow> string" where
  "level_severity LevelInfo = ''info''"
| "level_severity LevelWarning = ''warning''"
| "level_severity LevelError = ''error''"

record request_metadata =
  rqm_client_host :: "string option"
  rqm_method :: string
  rqm_path :: string

record security_emission =
  sem_event :: string
  sem_outcome :: security_outcome
  sem_level :: log_level
  sem_request :: "request_metadata option"
  sem_user_id :: "string option"
  sem_account_identifier :: "string option"
  sem_reason :: "string option"
  sem_details :: "(string \<times> detail_value) list option"

record security_event_draws =
  sed_event_id :: uuid
  sed_now :: instant
  sed_handler_fails :: bool

record security_event_logger =
  sel_hmac_key :: string
  sel_records :: "(log_level \<times> payload) list"

definition new_security_event_logger :: "string \<Rightarrow> security_event_logger option" where
  "new_security_event_logger hmac_key =
     (if hmac_key = [] then None else Some \<lparr>sel_hmac_key = hmac_key, sel_records = []\<rparr>)"

definition account_fingerprint :: "(string \<Rightarrow> string \<Rightarrow> string) \<Rightarrow> security_event_logger \<Rightarrow> string \<Rightarrow> string" where
  "account_fingerprint hmac lg account_identifier =
     hmac (sel_hmac_key lg) (''account:'' @ py_lower (py_strip account_identifier))"

definition event_client_address :: "request_metadata \<Rightarrow> string" where
  "event_client_address r = (case rqm_client_host r of None \<Rightarrow> ''unknown'' | Some host \<Rightarrow> host)"

fun detail_json :: "detail_value \<Rightarrow> json" where
  "detail_json (DetailStr s) = JStr s"
| "detail_json (DetailInt n) = JInt n"
| "detail_json (DetailBool b) = JBool b"
| "detail_json DetailNone = JNull"

definition optional_member :: "string \<Rightarrow> ('a \<Rightarrow> json) \<Rightarrow> 'a option \<Rightarrow> payload" where
  "optional_member name value x = (case x of None \<Rightarrow> [] | Some a \<Rightarrow> [(name, value a)])"

definition security_payload ::
    "(string \<Rightarrow> string \<Rightarrow> string) \<Rightarrow> security_event_draws \<Rightarrow> security_emission \<Rightarrow> security_event_logger \<Rightarrow> payload" where
  "security_payload hmac d e lg =
     [(''event_id'', JStr (uuid_str (sed_event_id d))), (''occurred_at'', JStr (isoformat (sed_now d))),
      (''event'', JStr (clean_text (sem_event e))), (''outcome'', JStr (outcome_text (sem_outcome e))),
      (''severity'', JStr (level_severity (sem_level e)))] @
     (case sem_request e of
        None \<Rightarrow> []
      | Some r \<Rightarrow> [(''client_address'', JStr (event_client_address r)), (''http_method'', JStr (clean_text (rqm_method r))),
          (''http_path'', JStr (clean_text (rqm_path r)))]) @
     optional_member ''user_id'' (\<lambda>u. JStr (clean_text u)) (sem_user_id e) @
     optional_member ''account_fingerprint'' (\<lambda>a. JStr (account_fingerprint hmac lg a)) (sem_account_identifier e) @
     optional_member ''reason'' (\<lambda>s. JStr (clean_text s)) (sem_reason e) @
     (case sem_details e of
        None \<Rightarrow> []
      | Some details \<Rightarrow>
          if details = [] then []
          else [(''details'', JObj (map (\<lambda>(k, v). (k, detail_json v)) (sanitize_details details)))])"

definition emit_security_event ::
    "(string \<Rightarrow> string \<Rightarrow> string) \<Rightarrow> security_event_draws \<Rightarrow> security_emission \<Rightarrow> security_event_logger \<Rightarrow>
     security_event_logger" where
  "emit_security_event hmac d e lg =
     (if sed_handler_fails d then lg
      else lg\<lparr>sel_records := sel_records lg @ [(sem_level e, security_payload hmac d e lg)]\<rparr>)"

section \<open>Lemmas\<close>

definition log_safe :: "string \<Rightarrow> bool" where
  "log_safe s \<longleftrightarrow> length s \<le> 256 \<and> (\<forall>c \<in> set s. \<not> line_control c)"

lemma blank_not_control: "\<not> line_control (CHR '' '')"
  by code_simp

lemma clean_text_safe [simp]: "log_safe (clean_text s)"
  using blank_not_control by (auto simp: log_safe_def clean_text_def dest!: in_set_takeD)

lemma clean_text_fixed: "log_safe s \<Longrightarrow> clean_text s = s"
  by (simp add: log_safe_def clean_text_def map_idI)

lemma line_control_not_alnum: "line_control c \<Longrightarrow> \<not> char_alnum c"
  by (auto simp: line_control_def char_alnum_def)

lemma normalize_blanked:
  "normalize_detail_key (map (\<lambda>c. if line_control c then CHR '' '' else c) s) = normalize_detail_key s"
proof -
  have "\<not> char_alnum (CHR '' '')" by code_simp
  then show ?thesis
    using line_control_not_alnum by (induction s) (auto simp: normalize_detail_key_def)
qed

lemma normalize_clean: "normalize_detail_key (clean_text k) = normalize_detail_key (take 256 k)"
  by (simp add: clean_text_def take_map normalize_blanked)

lemma sensitive_clean_iff:
  "is_sensitive_detail_key (clean_text k) \<longleftrightarrow>
     (\<exists>m \<in> set SENSITIVE_DETAIL_KEY_MARKERS. sublist m (normalize_detail_key (take 256 k)))"
proof -
  have "[] \<notin> set SENSITIVE_DETAIL_KEY_MARKERS" by (simp add: SENSITIVE_DETAIL_KEY_MARKERS_def)
  then have "m \<in> set SENSITIVE_DETAIL_KEY_MARKERS \<Longrightarrow> sublist m [] \<Longrightarrow> False" for m by auto
  then show ?thesis
    by (auto simp: is_sensitive_detail_key_def Let_def normalize_clean list_ex_iff)
qed

lemma sanitize_details_agree:
  assumes "list_all2 (\<lambda>(k, v) (k', v'). k = k' \<and> (v = v' \<or> is_sensitive_detail_key (clean_text k))) ds ds'"
  shows "sanitize_details ds = sanitize_details ds'"
proof -
  let ?f = "\<lambda>(key, value) sanitized.
       let cleaned_key = clean_text key
       in if is_sensitive_detail_key cleaned_key then dict_put cleaned_key (DetailStr REDACTED_DETAIL_VALUE) sanitized
          else dict_put cleaned_key (clean_value value) sanitized"
  have "fold ?f ds acc = fold ?f ds' acc" for acc
    using assms by (induction arbitrary: acc rule: list_all2_induct) (auto simp: Let_def)
  then show ?thesis by (simp add: sanitize_details_def)
qed

lemma dict_put_keys: "set (map fst (dict_put k v m)) = insert k (set (map fst m))"
  by (induction m rule: dict_put.induct) auto

lemma dict_put_distinct: "distinct (map fst m) \<Longrightarrow> distinct (map fst (dict_put k v m))"
proof (induction k v m rule: dict_put.induct)
  case (2 k v k' v' m)
  then show ?case using dict_put_keys [of k v m] by auto
qed simp

lemma dict_put_ball: "\<forall>x \<in> set m. P x \<Longrightarrow> P (k, v) \<Longrightarrow> \<forall>x \<in> set (dict_put k v m). P x"
  by (induction k v m rule: dict_put.induct) auto

definition flat_detail :: "string \<times> json \<Rightarrow> bool" where
  "flat_detail kv =
     (log_safe (fst kv) \<and>
      (case snd kv of JStr s \<Rightarrow> log_safe s | JInt _ \<Rightarrow> True | JBool _ \<Rightarrow> True | JNull \<Rightarrow> True | _ \<Rightarrow> False))"

definition record_member :: "string \<times> json \<Rightarrow> bool" where
  "record_member kv =
     (case snd kv of
        JStr s \<Rightarrow> log_safe s \<and> fst kv \<in> set [''event_id'', ''occurred_at'', ''event'', ''outcome'', ''severity'', ''client_address'',
          ''http_method'', ''http_path'', ''user_id'', ''account_fingerprint'', ''reason'']
      | JObj m \<Rightarrow> fst kv = ''details'' \<and> distinct (map fst m) \<and> (\<forall>d \<in> set m. flat_detail d)
      | _ \<Rightarrow> False)"

lemma record_member_text:
  "log_safe s \<Longrightarrow> k \<in> set [''event_id'', ''occurred_at'', ''event'', ''outcome'', ''severity'', ''client_address'',
          ''http_method'', ''http_path'', ''user_id'', ''account_fingerprint'', ''reason''] \<Longrightarrow> record_member (k, JStr s)"
  by (simp add: record_member_def)

lemma optional_member_ball:
  "(\<And>a. x = Some a \<Longrightarrow> P (name, f a)) \<Longrightarrow> \<forall>m \<in> set (optional_member name f x). P m"
  by (cases x) (simp_all add: optional_member_def)

lemma flat_clean_value: "flat_detail (clean_text k, detail_json (clean_value v))"
  by (cases v) (simp_all add: flat_detail_def)

lemma flat_redacted: "flat_detail (clean_text k, detail_json (DetailStr REDACTED_DETAIL_VALUE))"
proof -
  have "log_safe REDACTED_DETAIL_VALUE" by code_simp
  then show ?thesis by (simp add: flat_detail_def)
qed

lemma sanitize_details_flat:
  "distinct (map fst (sanitize_details ds)) \<and> (\<forall>(k, v) \<in> set (sanitize_details ds). flat_detail (k, detail_json v))"
proof -
  let ?f = "\<lambda>(key, value) sanitized.
       let cleaned_key = clean_text key
       in if is_sensitive_detail_key cleaned_key then dict_put cleaned_key (DetailStr REDACTED_DETAIL_VALUE) sanitized
          else dict_put cleaned_key (clean_value value) sanitized"
  let ?P = "\<lambda>x. flat_detail (fst x, detail_json (snd x))"
  have "distinct (map fst acc) \<and> (\<forall>x \<in> set acc. ?P x) \<Longrightarrow>
      distinct (map fst (fold ?f ds acc)) \<and> (\<forall>x \<in> set (fold ?f ds acc). ?P x)" for acc
  proof (induction ds arbitrary: acc)
    case (Cons d ds)
    obtain k v where d: "d = (k, v)" by (cases d)
    let ?v = "if is_sensitive_detail_key (clean_text k) then DetailStr REDACTED_DETAIL_VALUE else clean_value v"
    have put: "?f d acc = dict_put (clean_text k) ?v acc" by (simp add: d Let_def)
    have "?P (clean_text k, ?v)" using flat_clean_value flat_redacted by simp
    then have "\<forall>x \<in> set (dict_put (clean_text k) ?v acc). ?P x"
      using Cons.prems by (intro dict_put_ball) blast+
    moreover have "distinct (map fst (dict_put (clean_text k) ?v acc))"
      using Cons.prems by (intro dict_put_distinct) blast
    ultimately have "distinct (map fst (?f d acc)) \<and> (\<forall>x \<in> set (?f d acc). ?P x)" unfolding put by blast
    then show ?case using Cons.IH by simp
  qed simp
  from this [of "[]"] show ?thesis by (auto simp: sanitize_details_def)
qed

lemma fixed_texts_safe: "log_safe (outcome_text x)" "log_safe (level_severity y)" "log_safe ''unknown''"
proof -
  have "log_safe ''success''" "log_safe ''failure''" "log_safe ''blocked''" "log_safe ''info''" "log_safe ''warning''"
    "log_safe ''error''" by code_simp+
  then show "log_safe (outcome_text x)" "log_safe (level_severity y)" by (cases x; cases y; simp)+
  show "log_safe ''unknown''" by code_simp
qed

lemma uuid_str_log_safe: "log_safe (uuid_str u)"
proof -
  have "\<forall>c \<in> set ''0123456789abcdef-''. \<not> line_control c" by code_simp
  then have "\<forall>c \<in> set (uuid_str u). \<not> line_control c" using uuid_str_set [of u] by blast
  moreover have "length (uuid_str u) \<le> 256" by (simp add: uuid_str_def Let_def uuid_hex_def)
  ultimately show ?thesis by (simp add: log_safe_def)
qed

lemma digit_char_safe: "\<not> line_control (digit_char n)"
proof -
  have "\<forall>k \<in> set [0..<10]. \<not> line_control (''0123456789'' ! k)" by code_simp
  moreover have "nat (n mod 10) < 10" by simp
  ultimately show ?thesis unfolding digit_char_def by (metis atLeastLessThan_iff set_upt le0)
qed

lemma decimal_padded_safe: "\<forall>c \<in> set (decimal_padded w n). \<not> line_control c"
  using digit_char_safe by (induction w arbitrary: n) auto

lemma isoformat_safe: "log_safe (isoformat t)"
proof -
  have marks: "\<not> line_control (CHR ''-'')" "\<not> line_control (CHR ''T'')" "\<not> line_control (CHR '':'')"
    "\<not> line_control (CHR ''.'')" "\<not> line_control (CHR ''+'')" "\<not> line_control (CHR ''0'')" by code_simp+
  show ?thesis
    unfolding log_safe_def isoformat_def iso_with_def iso_micros_def Let_def case_prod_beta
    by (simp add: ball_Un decimal_padded_safe marks)
qed

section \<open>Properties\<close>

text \<open>
  Claim C26. The security log is independent of credentials: two emissions that differ in the
  values of details whose key names credential material (whatever its case and punctuation, within the
  256 characters a key keeps) or in the spelling of the same account leave the same record.
\<close>

theorem security_log_confidential:
  assumes "list_all2 (\<lambda>(k, v) (k', v'). k = k' \<and> (v = v' \<or>
      (\<exists>m \<in> set SENSITIVE_DETAIL_KEY_MARKERS. sublist m (normalize_detail_key (take 256 k))))) ds ds'"
    and "py_lower (py_strip a) = py_lower (py_strip a')"
  shows "emit_security_event hmac d (e\<lparr>sem_details := Some ds, sem_account_identifier := Some a\<rparr>) lg =
         emit_security_event hmac d (e\<lparr>sem_details := Some ds', sem_account_identifier := Some a'\<rparr>) lg"
proof -
  have "sanitize_details ds = sanitize_details ds'"
    using assms(1) unfolding sensitive_clean_iff [symmetric] by (rule sanitize_details_agree)
  moreover have "ds = [] \<longleftrightarrow> ds' = []" using list_all2_lengthD [OF assms(1)] by (metis length_0_conv)
  moreover have "account_fingerprint hmac lg a = account_fingerprint hmac lg a'"
    using assms(2) by (simp add: account_fingerprint_def)
  ultimately show ?thesis
    by (simp add: emit_security_event_def security_payload_def optional_member_def)
qed

text \<open>
  Claim C28. Every emission leaves at most one record, at its level, and exactly one unless the
  handler fails. Each record has distinct members of the known names, and every text in it has at most
  256 characters and no line break or tab; details are flat scalars. Client addresses and
  digests are taken to have this form.
\<close>

theorem security_record_type:
  assumes "\<And>m. log_safe (hmac (sel_hmac_key lg) m)"
    and "\<And>r host. sem_request e = Some r \<Longrightarrow> rqm_client_host r = Some host \<Longrightarrow> log_safe host"
  shows "if sed_handler_fails d then emit_security_event hmac d e lg = lg
    else \<exists>p. emit_security_event hmac d e lg = lg\<lparr>sel_records := sel_records lg @ [(sem_level e, p)]\<rparr> \<and>
      distinct (map fst p) \<and> (\<forall>m \<in> set p. record_member m)"
proof -
  let ?p = "security_payload hmac d e lg"
  have "log_safe (event_client_address r)" if "sem_request e = Some r" for r
    using assms(2) [OF that] fixed_texts_safe(3) by (simp add: event_client_address_def split: option.splits)
  then have request: "\<forall>m \<in> set (case sem_request e of None \<Rightarrow> []
      | Some r \<Rightarrow> [(''client_address'', JStr (event_client_address r)), (''http_method'', JStr (clean_text (rqm_method r))),
          (''http_path'', JStr (clean_text (rqm_path r)))]). record_member m"
    by (cases "sem_request e") (simp_all add: record_member_text)
  have "record_member (''details'', JObj (map (\<lambda>(k, v). (k, detail_json v)) (sanitize_details ds)))" for ds
    using sanitize_details_flat [of ds] by (auto simp: record_member_def o_def case_prod_beta)
  then have details: "\<forall>m \<in> set (case sem_details e of None \<Rightarrow> []
      | Some ds \<Rightarrow> if ds = [] then []
          else [(''details'', JObj (map (\<lambda>(k, v). (k, detail_json v)) (sanitize_details ds)))]). record_member m"
    by (cases "sem_details e") simp_all
  have "\<forall>m \<in> set ?p. record_member m"
    unfolding security_payload_def set_append ball_Un
    using request details assms(1) fixed_texts_safe uuid_str_log_safe isoformat_safe
    by (intro conjI optional_member_ball) (simp_all add: record_member_text account_fingerprint_def)
  moreover have "distinct (map fst ?p)"
    unfolding security_payload_def optional_member_def
    by (cases "sem_request e"; cases "sem_user_id e"; cases "sem_account_identifier e"; cases "sem_reason e"; cases "sem_details e"; simp)
  ultimately show ?thesis by (auto simp: emit_security_event_def)
qed

text \<open>A key is classified after it has been cut to 256 characters, so a longer key can hide its marker.\<close>

theorem long_detail_key_escapes:
  "sanitize_details [(replicate 256 (CHR ''x'') @ ''password'', v)] = [(replicate 256 (CHR ''x''), clean_value v)]"
proof -
  let ?x = "CHR ''x''"
  have plain: "\<not> line_control ?x" "char_alnum ?x" "char_lower ?x = ?x" by code_simp+
  have "clean_text (replicate 256 ?x @ ''password'') = replicate 256 ?x"
    using plain(1) by (simp add: clean_text_def map_replicate)
  moreover have "m \<in> set SENSITIVE_DETAIL_KEY_MARKERS \<Longrightarrow> \<not> sublist m (normalize_detail_key (replicate 256 ?x))" for m
  proof
    assume m: "m \<in> set SENSITIVE_DETAIL_KEY_MARKERS" "sublist m (normalize_detail_key (replicate 256 ?x))"
    then have "set m \<subseteq> {?x}"
      using set_mono_sublist [OF m(2)] plain by (simp add: normalize_detail_key_def filter_replicate map_replicate split: if_splits)
    then show False using m(1) by (auto simp: SENSITIVE_DETAIL_KEY_MARKERS_def)
  qed
  then have "\<not> is_sensitive_detail_key (replicate 256 ?x)"
    by (auto simp: is_sensitive_detail_key_def Let_def list_ex_iff)
  ultimately show ?thesis by (simp add: sanitize_details_def Let_def)
qed

section \<open>Witnesses\<close>

definition demo_emission :: security_emission where
  "demo_emission = \<lparr>sem_event = ''auth.login'', sem_outcome = OutcomeFailure, sem_level = LevelWarning,
     sem_request = Some \<lparr>rqm_client_host = Some ''10.0.0.1'', rqm_method = ''POST'', rqm_path = ''/api/v1/auth/login''\<rparr>,
     sem_user_id = None, sem_account_identifier = None, sem_reason = Some ''invalid_credentials'', sem_details = None\<rparr>"

definition demo_logger :: security_event_logger where
  "demo_logger = \<lparr>sel_hmac_key = ''k'', sel_records = []\<rparr>"

definition demo_event_draws :: security_event_draws where
  "demo_event_draws = \<lparr>sed_event_id = 1, sed_now = 0, sed_handler_fails = False\<rparr>"

theorem security_log_confidential_witness:
  "emit_security_event (\<lambda>k m. m) demo_event_draws (demo_emission\<lparr>sem_details := Some [(''Access-Token'', DetailStr ''a''), (''n'', DetailInt 1)],
      sem_account_identifier := Some '' U@x ''\<rparr>) demo_logger =
   emit_security_event (\<lambda>k m. m) demo_event_draws (demo_emission\<lparr>sem_details := Some [(''Access-Token'', DetailNone), (''n'', DetailInt 1)],
      sem_account_identifier := Some ''u@X''\<rparr>) demo_logger"
proof (rule security_log_confidential)
  have "sublist ''token'' (normalize_detail_key (take 256 ''Access-Token''))" by code_simp
  moreover have "''token'' \<in> set SENSITIVE_DETAIL_KEY_MARKERS" by (simp add: SENSITIVE_DETAIL_KEY_MARKERS_def)
  ultimately have sensitive: "\<exists>m \<in> set SENSITIVE_DETAIL_KEY_MARKERS. sublist m (normalize_detail_key (take 256 ''Access-Token''))"
    by blast
  show "list_all2 (\<lambda>(k, v) (k', v'). k = k' \<and> (v = v' \<or>
      (\<exists>m \<in> set SENSITIVE_DETAIL_KEY_MARKERS. sublist m (normalize_detail_key (take 256 k)))))
      [(''Access-Token'', DetailStr ''a''), (''n'', DetailInt 1)] [(''Access-Token'', DetailNone), (''n'', DetailInt 1)]"
    by (simp only: list_all2_Cons list_all2_Nil prod.case sensitive simp_thms)
  show "py_lower (py_strip '' U@x '') = py_lower (py_strip ''u@X'')" by code_simp
qed

theorem security_record_type_witness:
  "\<exists>p. emit_security_event (\<lambda>k m. ''00'') demo_event_draws demo_emission demo_logger =
     demo_logger\<lparr>sel_records := [(LevelWarning, p)]\<rparr> \<and> distinct (map fst p)"
proof -
  have "log_safe ''00''" "log_safe ''10.0.0.1''" by code_simp+
  have "if sed_handler_fails demo_event_draws then emit_security_event (\<lambda>k m. ''00'') demo_event_draws demo_emission demo_logger = demo_logger
    else \<exists>p. emit_security_event (\<lambda>k m. ''00'') demo_event_draws demo_emission demo_logger =
        demo_logger\<lparr>sel_records := sel_records demo_logger @ [(sem_level demo_emission, p)]\<rparr> \<and>
      distinct (map fst p) \<and> (\<forall>m \<in> set p. record_member m)"
  proof (rule security_record_type)
    show "log_safe ((\<lambda>k m. ''00'') (sel_hmac_key demo_logger) m)" for m using \<open>log_safe ''00''\<close> by simp
    show "log_safe host" if "sem_request demo_emission = Some r" "rqm_client_host r = Some host" for r host
      using that \<open>log_safe ''10.0.0.1''\<close> by (auto simp: demo_emission_def)
  qed
  moreover have "\<not> sed_handler_fails demo_event_draws" "sel_records demo_logger = []" "sem_level demo_emission = LevelWarning"
    by (simp_all add: demo_event_draws_def demo_logger_def demo_emission_def)
  ultimately show ?thesis by auto
qed

end
