(* ===== verification/Operational_Metrics.thy ===== *)
theory Operational_Metrics
  imports Circuit_Breaker Py_Datetime
begin

text \<open>
  \<open>core/metrics.py\<close> of \<open>src/backend/app\<close>, which the one of \<open>src/incident-service/app\<close> repeats without
  the dependency metrics. A counter and a gauge are maps from label values, a histogram keeps its
  observations; their exposition by the Prometheus client is not modelled. \<open>metric_op\<close> names the calls
  the program makes, and \<open>Inl\<close> is a \<open>ValueError\<close>.
\<close>

section \<open>The registry\<close>

record metrics_registry =
  mtr_http_requests :: "(string \<times> string \<times> string) \<rightharpoonup> nat"
  mtr_http_duration :: "(string \<times> string) \<rightharpoonup> real list"
  mtr_dependency_operations :: "(string \<times> string \<times> string) \<rightharpoonup> nat"
  mtr_dependency_attempts :: "(string \<times> string \<times> string) \<rightharpoonup> nat"
  mtr_dependency_retries :: "(string \<times> string \<times> string) \<rightharpoonup> nat"
  mtr_dependency_duration :: "(string \<times> string \<times> string) \<rightharpoonup> real list"
  mtr_circuit_state :: "(string \<times> circuit_state) \<rightharpoonup> nat"
  mtr_authentication_attempts :: "(string \<times> string) \<rightharpoonup> nat"
  mtr_authorization_decisions :: "(string \<times> string) \<rightharpoonup> nat"

definition new_operational_metrics :: metrics_registry where
  "new_operational_metrics =
     \<lparr>mtr_http_requests = (\<lambda>_. None), mtr_http_duration = (\<lambda>_. None), mtr_dependency_operations = (\<lambda>_. None),
      mtr_dependency_attempts = (\<lambda>_. None), mtr_dependency_retries = (\<lambda>_. None), mtr_dependency_duration = (\<lambda>_. None),
      mtr_circuit_state = (\<lambda>_. None), mtr_authentication_attempts = (\<lambda>_. None), mtr_authorization_decisions = (\<lambda>_. None)\<rparr>"

definition increment :: "'l \<Rightarrow> ('l \<rightharpoonup> nat) \<Rightarrow> ('l \<rightharpoonup> nat)" where
  "increment l m = m(l \<mapsto> (case m l of None \<Rightarrow> 1 | Some n \<Rightarrow> n + 1))"

definition observe :: "'l \<Rightarrow> real \<Rightarrow> ('l \<rightharpoonup> real list) \<Rightarrow> ('l \<rightharpoonup> real list)" where
  "observe l x m = m(l \<mapsto> (case m l of None \<Rightarrow> [x] | Some xs \<Rightarrow> xs @ [x]))"

definition char_upper :: "char \<Rightarrow> char" where
  "char_upper c = (let n = (of_char c :: nat) in if 97 \<le> n \<and> n \<le> 122 then char_of (n - 32) else c)"

definition ascii_upper :: "string \<Rightarrow> string" where
  "ascii_upper s = map char_upper s"

section \<open>Recording\<close>

definition observe_http_request :: "string \<Rightarrow> string \<Rightarrow> int \<Rightarrow> real \<Rightarrow> metrics_registry \<Rightarrow> metrics_registry" where
  "observe_http_request verb route status duration_seconds m =
     m\<lparr>mtr_http_requests := increment (ascii_upper verb, route, int_text status) (mtr_http_requests m),
       mtr_http_duration := observe (ascii_upper verb, route) (max duration_seconds 0) (mtr_http_duration m)\<rparr>"

definition observe_dependency_operation ::
    "string \<Rightarrow> string \<Rightarrow> string \<Rightarrow> real \<Rightarrow> metrics_registry \<Rightarrow> metrics_registry" where
  "observe_dependency_operation dependency verb outcome duration_seconds m =
     m\<lparr>mtr_dependency_operations := increment (dependency, ascii_upper verb, outcome) (mtr_dependency_operations m),
       mtr_dependency_duration := observe (dependency, ascii_upper verb, outcome) (max duration_seconds 0) (mtr_dependency_duration m)\<rparr>"

definition count_dependency_attempt :: "string \<Rightarrow> string \<Rightarrow> string \<Rightarrow> metrics_registry \<Rightarrow> metrics_registry" where
  "count_dependency_attempt dependency verb outcome m =
     m\<lparr>mtr_dependency_attempts := increment (dependency, ascii_upper verb, outcome) (mtr_dependency_attempts m)\<rparr>"

definition count_dependency_retry :: "string \<Rightarrow> string \<Rightarrow> string \<Rightarrow> metrics_registry \<Rightarrow> metrics_registry" where
  "count_dependency_retry dependency verb reason m =
     m\<lparr>mtr_dependency_retries := increment (dependency, ascii_upper verb, reason) (mtr_dependency_retries m)\<rparr>"

definition CIRCUIT_METRIC_STATES :: "circuit_state list" where
  "CIRCUIT_METRIC_STATES = [CLOSED, OPEN, HALF_OPEN]"

definition set_circuit_state :: "string \<Rightarrow> circuit_state \<Rightarrow> metrics_registry \<Rightarrow> metrics_registry" where
  "set_circuit_state dependency st m =
     fold (\<lambda>candidate_state m. m\<lparr>mtr_circuit_state :=
             (mtr_circuit_state m)((dependency, candidate_state) \<mapsto> (if candidate_state = st then 1 else 0))\<rparr>)
       CIRCUIT_METRIC_STATES m"

definition METRIC_AUTHENTICATION_OUTCOMES :: "string list" where
  "METRIC_AUTHENTICATION_OUTCOMES = [''success'', ''failure'']"

definition METRIC_AUTHENTICATION_REASONS :: "string list" where
  "METRIC_AUTHENTICATION_REASONS =
     [''authenticated'', ''missing_credential'', ''malformed_credential'', ''invalid_algorithm'', ''invalid_token_type'',
      ''missing_key_id'', ''unknown_key'', ''invalid_signature'', ''invalid_issuer'', ''invalid_audience'',
      ''invalid_claim_contract'', ''invalid_token_use'', ''invalid_lifetime'', ''invalid_scope_contract'']"

definition METRIC_AUTHORIZATION_OUTCOMES :: "string list" where
  "METRIC_AUTHORIZATION_OUTCOMES = [''granted'', ''denied'']"

definition METRIC_AUTHORIZATION_SCOPES :: "string list" where
  "METRIC_AUTHORIZATION_SCOPES = [''incidents:read'', ''incidents:write'', ''services:read'']"

definition count_service_authentication ::
    "string \<Rightarrow> string \<Rightarrow> metrics_registry \<Rightarrow> string + metrics_registry" where
  "count_service_authentication outcome reason m =
     (if outcome \<notin> set METRIC_AUTHENTICATION_OUTCOMES then Inl ''Unsupported service-authentication outcome.''
      else if reason \<notin> set METRIC_AUTHENTICATION_REASONS then Inl ''Unsupported service-authentication reason.''
      else Inr (m\<lparr>mtr_authentication_attempts := increment (outcome, reason) (mtr_authentication_attempts m)\<rparr>))"

definition count_service_authorization ::
    "string \<Rightarrow> string \<Rightarrow> metrics_registry \<Rightarrow> string + metrics_registry" where
  "count_service_authorization outcome scope m =
     (if outcome \<notin> set METRIC_AUTHORIZATION_OUTCOMES then Inl ''Unsupported service-authorization outcome.''
      else if scope \<notin> set METRIC_AUTHORIZATION_SCOPES then Inl ''Unsupported service-authorization scope.''
      else Inr (m\<lparr>mtr_authorization_decisions := increment (outcome, scope) (mtr_authorization_decisions m)\<rparr>))"

datatype metric_op =
    HttpObserved string string int real
  | DependencyObserved string string string real
  | AttemptCounted string string string
  | RetryCounted string string string
  | CircuitSet string circuit_state
  | AuthenticationCounted string string
  | AuthorizationCounted string string

text \<open>One call; a call that raises leaves the registry as it was.\<close>

fun metric_step :: "metric_op \<Rightarrow> metrics_registry \<Rightarrow> metrics_registry" where
  "metric_step (HttpObserved verb route status x) m = observe_http_request verb route status x m"
| "metric_step (DependencyObserved dep verb outcome x) m = observe_dependency_operation dep verb outcome x m"
| "metric_step (AttemptCounted dep verb outcome) m = count_dependency_attempt dep verb outcome m"
| "metric_step (RetryCounted dep verb reason) m = count_dependency_retry dep verb reason m"
| "metric_step (CircuitSet dep st) m = set_circuit_state dep st m"
| "metric_step (AuthenticationCounted outcome reason) m =
     (case count_service_authentication outcome reason m of Inl _ \<Rightarrow> m | Inr m' \<Rightarrow> m')"
| "metric_step (AuthorizationCounted outcome scope) m =
     (case count_service_authorization outcome scope m of Inl _ \<Rightarrow> m | Inr m' \<Rightarrow> m')"

section \<open>Lemmas\<close>

definition counted :: "('l \<rightharpoonup> nat) \<Rightarrow> 'l \<Rightarrow> nat" where
  "counted m l = (case m l of None \<Rightarrow> 0 | Some n \<Rightarrow> n)"

lemma counted_increment: "counted (increment l m) k = counted m k + (if k = l then 1 else 0)"
  by (simp add: counted_def increment_def split: option.splits)

lemma dom_increment: "dom (increment l m) = insert l (dom m)"
  by (auto simp: increment_def)

definition one_hot :: "(string \<times> circuit_state \<rightharpoonup> nat) \<Rightarrow> string \<Rightarrow> bool" where
  "one_hot m dep \<longleftrightarrow>
     (\<forall>st. m (dep, st) = None) \<or> (\<exists>st. \<forall>st'. m (dep, st') = Some (if st' = st then 1 else 0))"

definition metrics_bounded :: "metrics_registry \<Rightarrow> bool" where
  "metrics_bounded m \<longleftrightarrow>
     (\<forall>dep. one_hot (mtr_circuit_state m) dep) \<and>
     dom (mtr_authentication_attempts m) \<subseteq> set METRIC_AUTHENTICATION_OUTCOMES \<times> set METRIC_AUTHENTICATION_REASONS \<and>
     dom (mtr_authorization_decisions m) \<subseteq> set METRIC_AUTHORIZATION_OUTCOMES \<times> set METRIC_AUTHORIZATION_SCOPES"

lemma set_circuit_state_eq:
  "mtr_circuit_state (set_circuit_state dep st m) (dep', st') =
     (if dep' = dep then Some (if st' = st then 1 else 0) else mtr_circuit_state m (dep', st'))"
  by (cases st') (auto simp: set_circuit_state_def CIRCUIT_METRIC_STATES_def)

lemma set_circuit_state_rest:
  "mtr_authentication_attempts (set_circuit_state dep st m) = mtr_authentication_attempts m"
  "mtr_authorization_decisions (set_circuit_state dep st m) = mtr_authorization_decisions m"
  "mtr_http_requests (set_circuit_state dep st m) = mtr_http_requests m"
  "mtr_http_duration (set_circuit_state dep st m) = mtr_http_duration m"
  by (simp_all add: set_circuit_state_def CIRCUIT_METRIC_STATES_def)

lemma one_hot_set: "one_hot (mtr_circuit_state m) d \<Longrightarrow> one_hot (mtr_circuit_state (set_circuit_state dep st m)) d"
  by (cases "d = dep") (auto simp: one_hot_def set_circuit_state_eq)

lemma metrics_bounded_step: "metrics_bounded m \<Longrightarrow> metrics_bounded (metric_step op m)"
  by (cases op)
    (auto simp: metrics_bounded_def one_hot_set set_circuit_state_rest dom_increment observe_http_request_def
      observe_dependency_operation_def count_dependency_attempt_def count_dependency_retry_def
      count_service_authentication_def count_service_authorization_def)

interpretation metrics: op_system metric_step metrics_bounded
  by unfold_locales (rule metrics_bounded_step)

lemma metrics_bounded_new: "metrics_bounded new_operational_metrics"
  by (simp add: metrics_bounded_def new_operational_metrics_def one_hot_def)

fun counts_http :: "string \<times> string \<times> string \<Rightarrow> metric_op \<Rightarrow> bool" where
  "counts_http l (HttpObserved verb route status x) = (l = (ascii_upper verb, route, int_text status))"
| "counts_http l _ = False"

lemma counted_http_step:
  "counted (mtr_http_requests (metric_step op m)) l = counted (mtr_http_requests m) l + (if counts_http l op then 1 else 0)"
  by (cases op)
    (simp_all add: observe_http_request_def counted_increment set_circuit_state_rest observe_dependency_operation_def
      count_dependency_attempt_def count_dependency_retry_def count_service_authentication_def
      count_service_authorization_def)

lemma counted_http_run:
  "counted (mtr_http_requests (fold metric_step ops m)) l = counted (mtr_http_requests m) l + length (filter (counts_http l) ops)"
  by (induction ops arbitrary: m) (simp_all add: counted_http_step)

section \<open>Properties\<close>

text \<open>
  Over every run of calls the registry is a faithful count: a request series holds the number of
  requests observed with its labels, every dependency's circuit gauge is either unset or shows exactly
  one state, and the labels of the service-authentication series stay in their fixed sets, so their
  number is bounded.
\<close>

theorem metrics_faithful:
  "let m = fold metric_step ops new_operational_metrics
   in counted (mtr_http_requests m) l = length (filter (counts_http l) ops) \<and> one_hot (mtr_circuit_state m) dep \<and>
      dom (mtr_authentication_attempts m) \<subseteq> set METRIC_AUTHENTICATION_OUTCOMES \<times> set METRIC_AUTHENTICATION_REASONS \<and>
      dom (mtr_authorization_decisions m) \<subseteq> set METRIC_AUTHORIZATION_OUTCOMES \<times> set METRIC_AUTHORIZATION_SCOPES"
proof -
  have "metrics_bounded (fold metric_step ops new_operational_metrics)"
    by (rule metrics.inv_run [OF metrics_bounded_new])
  then show ?thesis
    by (simp add: metrics_bounded_def counted_http_run) (simp add: new_operational_metrics_def counted_def)
qed

end
