(* ===== verification/Py_Url.thy ===== *)
theory Py_Url
  imports Py_Values
begin

text \<open>
  \<open>urllib.parse.urlsplit\<close> on absolute and relative references, with the checks of a bracketed host
  (\<open>ipaddress\<close>): \<open>None\<close> where it raises \<open>ValueError\<close>. On the code points 0 to 255 the check of the
  normalised network location changes nothing.
\<close>

section \<open>Splitting text\<close>

fun py_split_on :: "char \<Rightarrow> string \<Rightarrow> string list" where
  "py_split_on sep [] = [[]]"
| "py_split_on sep (c # cs) =
     (if c = sep then [] # py_split_on sep cs
      else case py_split_on sep cs of w # ws \<Rightarrow> (c # w) # ws | [] \<Rightarrow> [[c]])"

definition before :: "char \<Rightarrow> string \<Rightarrow> string" where
  "before sep s = takeWhile (\<lambda>c. c \<noteq> sep) s"

definition after :: "char \<Rightarrow> string \<Rightarrow> string" where
  "after sep s = drop 1 (dropWhile (\<lambda>c. c \<noteq> sep) s)"

definition after_last :: "char \<Rightarrow> string \<Rightarrow> string" where
  "after_last sep s = rev (before sep (rev s))"

section \<open>IPv6 hosts\<close>

definition ascii_digit :: "char \<Rightarrow> bool" where
  "ascii_digit c \<longleftrightarrow> (let n = (of_char c :: nat) in 48 \<le> n \<and> n \<le> 57)"

definition ascii_letter :: "char \<Rightarrow> bool" where
  "ascii_letter c \<longleftrightarrow> (let n = (of_char c :: nat) in 65 \<le> n \<and> n \<le> 90 \<or> 97 \<le> n \<and> n \<le> 122)"

definition decimal_value_of :: "string \<Rightarrow> nat" where
  "decimal_value_of s = foldl (\<lambda>a c. a * 10 + (of_char c - 48)) 0 s"

definition ipv4_octet :: "string \<Rightarrow> bool" where
  "ipv4_octet s \<longleftrightarrow> s \<noteq> [] \<and> length s \<le> 3 \<and> list_all ascii_digit s \<and> (length s = 1 \<or> hd s \<noteq> CHR ''0'') \<and>
     decimal_value_of s \<le> 255"

definition ipv4_text :: "string \<Rightarrow> bool" where
  "ipv4_text s \<longleftrightarrow> (let parts = py_split_on (CHR ''.'') s in length parts = 4 \<and> list_all ipv4_octet parts)"

definition hextet :: "string \<Rightarrow> bool" where
  "hextet s \<longleftrightarrow> s \<noteq> [] \<and> length s \<le> 4 \<and> list_all (\<lambda>c. hex_value c \<noteq> None) s"

definition ipv6_groups :: "string list \<Rightarrow> bool" where
  "ipv6_groups parts \<longleftrightarrow>
     3 \<le> length parts \<and> length parts \<le> 9 \<and>
     (case filter (\<lambda>i. parts ! i = []) [1..<length parts - 1] of
        [] \<Rightarrow> length parts = 8 \<and> list_all hextet parts
      | [skip] \<Rightarrow>
          (let hi = (if hd parts = [] then skip - 1 else skip);
               lo = (if last parts = [] then length parts - skip - 2 else length parts - skip - 1)
           in (hd parts = [] \<longrightarrow> hi = 0) \<and> (last parts = [] \<longrightarrow> lo = 0) \<and> hi + lo \<le> 7 \<and>
              list_all hextet (take hi parts) \<and> list_all hextet (drop (length parts - lo) parts))
      | _ \<Rightarrow> False)"

definition ipv6_text :: "string \<Rightarrow> bool" where
  "ipv6_text s \<longleftrightarrow>
     (let addr = before (CHR ''%'') s; scope = after (CHR ''%'') s; parts = py_split_on (CHR '':'') addr
      in CHR ''/'' \<notin> set s \<and> (CHR ''%'' \<in> set s \<longrightarrow> scope \<noteq> [] \<and> CHR ''%'' \<notin> set scope) \<and>
         3 \<le> length parts \<and>
         (if CHR ''.'' \<in> set (last parts) then ipv4_text (last parts) \<and> ipv6_groups (butlast parts @ [''0'', ''0''])
          else ipv6_groups parts))"

definition bracketed_host :: "string \<Rightarrow> bool" where
  "bracketed_host h \<longleftrightarrow>
     (if h \<noteq> [] \<and> hd h = CHR ''v''
      then (let version = before (CHR ''.'') (tl h); rest = after (CHR ''.'') (tl h)
            in CHR ''.'' \<in> set h \<and> version \<noteq> [] \<and> list_all (\<lambda>c. hex_value c \<noteq> None) version \<and>
               rest \<noteq> [] \<and> CHR 0x0A \<notin> set rest)
      else ipv6_text h)"

definition netloc_ok :: "string \<Rightarrow> bool" where
  "netloc_ok netloc \<longleftrightarrow>
     (let opening = CHR ''['' \<in> set netloc; closing = CHR '']'' \<in> set netloc;
          host_and_port = after_last (CHR ''@'') netloc
      in opening = closing \<and>
         (opening \<longrightarrow>
           (if CHR ''['' \<in> set host_and_port
            then (let bracketed = after (CHR ''['') host_and_port; port = after (CHR '']'') bracketed
                  in before (CHR ''['') host_and_port = [] \<and> (port = [] \<or> hd port = CHR '':'') \<and>
                     bracketed_host (before (CHR '']'') bracketed))
            else bracketed_host (before (CHR '':'') host_and_port))))"

section \<open>References\<close>

record split_result =
  spr_scheme :: string
  spr_netloc :: string
  spr_path :: string
  spr_query :: string
  spr_fragment :: string

definition c0_control_or_space :: "char \<Rightarrow> bool" where
  "c0_control_or_space c \<longleftrightarrow> (of_char c :: nat) \<le> 32"

definition unsafe_url_char :: "char \<Rightarrow> bool" where
  "unsafe_url_char c \<longleftrightarrow> (of_char c :: nat) \<in> set [9, 10, 13]"

definition scheme_char :: "char \<Rightarrow> bool" where
  "scheme_char c \<longleftrightarrow> ascii_letter c \<or> ascii_digit c \<or> c \<in> set ''+-.''"

definition split_scheme :: "string \<Rightarrow> string \<times> string" where
  "split_scheme url =
     (let s = before (CHR '':'') url
      in if CHR '':'' \<in> set url \<and> s \<noteq> [] \<and> ascii_letter (hd s) \<and> list_all scheme_char s
         then (py_lower s, after (CHR '':'') url) else ([], url))"

definition split_netloc :: "string \<Rightarrow> string \<times> string" where
  "split_netloc url =
     (if take 2 url = ''//''
      then (takeWhile (\<lambda>c. c \<notin> set ''/?#'') (drop 2 url), dropWhile (\<lambda>c. c \<notin> set ''/?#'') (drop 2 url))
      else ([], url))"

definition urlsplit :: "string \<Rightarrow> split_result option" where
  "urlsplit text =
     (let url = filter (\<lambda>c. \<not> unsafe_url_char c) (dropWhile c0_control_or_space text);
          (scheme, rest) = split_scheme url; (netloc, tail) = split_netloc rest
      in if \<not> netloc_ok netloc then None
         else
           let body = before (CHR ''#'') tail
           in Some \<lparr>spr_scheme = scheme, spr_netloc = netloc, spr_path = before (CHR ''?'') body,
                spr_query = after (CHR ''?'') body, spr_fragment = after (CHR ''#'') tail\<rparr>)"

lemma urlsplit_examples:
  "urlsplit ''HTTPS://app.example.com:8443/a/b?c=d#e'' =
     Some \<lparr>spr_scheme = ''https'', spr_netloc = ''app.example.com:8443'', spr_path = ''/a/b'', spr_query = ''c=d'', spr_fragment = ''e''\<rparr>"
  "urlsplit ''//[::1]:80/x'' = Some \<lparr>spr_scheme = [], spr_netloc = ''[::1]:80'', spr_path = ''/x'', spr_query = [], spr_fragment = []\<rparr>"
  "urlsplit ''http://[1.2.3.4]/'' = None"
  "urlsplit ''http://[::1'' = None"
  "urlsplit ''http://[1:2::3:4:5:6:7]/'' = Some \<lparr>spr_scheme = ''http'', spr_netloc = ''[1:2::3:4:5:6:7]'', spr_path = ''/'', spr_query = [], spr_fragment = []\<rparr>"
  "urlsplit ''http://[1::2::3]/'' = None"
  by code_simp+

section \<open>Query strings\<close>

text \<open>
  \<open>urlencode\<close> and \<open>parse_qsl\<close> with UTF-8 percent encoding; \<open>None\<close> where decoding leaves the code
  points 0 to 255.
\<close>

definition quote_safe :: "char \<Rightarrow> bool" where
  "quote_safe c \<longleftrightarrow> ascii_letter c \<or> ascii_digit c \<or> c \<in> set ''_.-~''"

definition percent_byte :: "nat \<Rightarrow> string" where
  "percent_byte n = [CHR ''%'', ''0123456789ABCDEF'' ! (n div 16 mod 16), ''0123456789ABCDEF'' ! (n mod 16)]"

definition quote_char :: "char \<Rightarrow> string" where
  "quote_char c =
     (let n = (of_char c :: nat)
      in if quote_safe c then [c] else if c = CHR '' '' then ''+''
         else if n < 128 then percent_byte n
         else percent_byte (192 + n div 64) @ percent_byte (128 + n mod 64))"

definition quote_plus :: "string \<Rightarrow> string" where
  "quote_plus s = concat (map quote_char s)"

definition urlencode :: "(string \<times> string) list \<Rightarrow> string" where
  "urlencode query = py_join ''&'' (map (\<lambda>(k, v). quote_plus k @ ''='' @ quote_plus v) query)"

text \<open>Percent decoding to bytes (\<open>Inl\<close>), non-ASCII characters kept (\<open>Inr\<close>), then UTF-8 decoding.\<close>

fun unquote_items :: "string \<Rightarrow> (nat + char) list" where
  "unquote_items [] = []"
| "unquote_items (c # cs) =
     (if c = CHR ''%'' then
        (case cs of
           a # b # rest \<Rightarrow>
             (case (hex_value a, hex_value b) of
                (Some x, Some y) \<Rightarrow> Inl (16 * x + y) # unquote_items rest
              | _ \<Rightarrow> Inl 37 # unquote_items cs)
         | _ \<Rightarrow> Inl 37 # unquote_items cs)
      else if (of_char c :: nat) < 128 then Inl (of_char c) # unquote_items cs
      else Inr c # unquote_items cs)"

fun utf8_decode :: "(nat + char) list \<Rightarrow> string option" where
  "utf8_decode [] = Some []"
| "utf8_decode (Inr c # items) = map_option ((#) c) (utf8_decode items)"
| "utf8_decode (Inl n # items) =
     (if n < 128 then map_option ((#) (char_of n)) (utf8_decode items)
      else if n = 194 \<or> n = 195 then
        (case items of
           Inl m # rest \<Rightarrow>
             if 128 \<le> m \<and> m < 192 then map_option ((#) (char_of ((n - 192) * 64 + (m - 128)))) (utf8_decode rest) else None
         | _ \<Rightarrow> None)
      else None)"

definition unquote_plus :: "string \<Rightarrow> string option" where
  "unquote_plus s = utf8_decode (unquote_items (map (\<lambda>c. if c = CHR ''+'' then CHR '' '' else c) s))"

fun all_some :: "'a option list \<Rightarrow> 'a list option" where
  "all_some [] = Some []"
| "all_some (None # _) = None"
| "all_some (Some x # xs) = map_option ((#) x) (all_some xs)"

definition parse_field :: "string \<Rightarrow> (string \<times> string) option" where
  "parse_field field =
     (case (unquote_plus (before (CHR ''='') field), unquote_plus (after (CHR ''='') field)) of
        (Some name, Some value) \<Rightarrow> Some (name, value) | _ \<Rightarrow> None)"

definition parse_qsl :: "string \<Rightarrow> (string \<times> string) list option" where
  "parse_qsl query = all_some (map parse_field (filter (\<lambda>f. f \<noteq> []) (py_split_on (CHR ''&'') query)))"

lemma parse_qsl_examples:
  "parse_qsl ''a=1&b=%41+c&&d=%C3%A9&e'' =
     Some [(''a'', ''1''), (''b'', ''A c''), (''d'', [char_of (233 :: nat)]), (''e'', [])]"
  "urlencode [(''a b'', ''x&y''), (''t'', ''-_.~/'')] = ''a+b=x%26y&t=-_.~%2F''"
  by code_simp+

section \<open>Round trips\<close>

lemma hex_upper_value: "n < 16 \<Longrightarrow> hex_value (''0123456789ABCDEF'' ! n) = Some n"
proof -
  have "\<forall>k \<in> set [0..<16]. hex_value (''0123456789ABCDEF'' ! k) = Some k" by code_simp
  then show "n < 16 \<Longrightarrow> hex_value (''0123456789ABCDEF'' ! n) = Some n" by simp
qed

lemma unquote_percent_byte:
  "n < 256 \<Longrightarrow> unquote_items (percent_byte n @ rest) = Inl n # unquote_items rest"
  by (simp add: percent_byte_def hex_upper_value)

definition plus_to_space :: "char \<Rightarrow> char" where
  "plus_to_space c = (if c = CHR ''+'' then CHR '' '' else c)"

definition quoted_char :: "char \<Rightarrow> bool" where
  "quoted_char c \<longleftrightarrow> quote_safe c \<or> c = CHR ''+'' \<or> c = CHR ''%''"

lemma hex_upper_safe: "quote_safe (''0123456789ABCDEF'' ! (n mod 16))" "''0123456789ABCDEF'' ! (n mod 16) \<noteq> CHR ''+''"
proof -
  have "\<forall>k \<in> set [0..<16]. quote_safe (''0123456789ABCDEF'' ! k) \<and> ''0123456789ABCDEF'' ! k \<noteq> CHR ''+''" by code_simp
  then show "quote_safe (''0123456789ABCDEF'' ! (n mod 16))" "''0123456789ABCDEF'' ! (n mod 16) \<noteq> CHR ''+''" by simp_all
qed

lemma percent_byte_chars: "c \<in> set (percent_byte n) \<Longrightarrow> quoted_char c \<and> c \<noteq> CHR ''+''"
  using hex_upper_safe [of n] hex_upper_safe [of "n div 16"] by (auto simp: percent_byte_def quoted_char_def)

lemma percent_byte_kept: "map plus_to_space (percent_byte n) = percent_byte n"
  using percent_byte_chars by (intro map_idI) (simp add: plus_to_space_def)

lemma quote_char_chars: "c \<in> set (quote_char x) \<Longrightarrow> quoted_char c"
  using percent_byte_chars by (auto simp: quote_char_def quoted_char_def Let_def split: if_splits)

lemma quote_plus_chars: "c \<in> set (quote_plus s) \<Longrightarrow> quoted_char c"
  using quote_char_chars by (auto simp: quote_plus_def)

lemma not_quoted: "\<not> quoted_char (CHR ''&'')" "\<not> quoted_char (CHR ''='')" "\<not> quoted_char (CHR ''#'')"
  by code_simp+

lemma quoted_not_unsafe: "quoted_char c \<Longrightarrow> \<not> unsafe_url_char c"
  by (auto simp: quoted_char_def quote_safe_def ascii_letter_def ascii_digit_def unsafe_url_char_def Let_def)

definition char_items :: "char \<Rightarrow> (nat + char) list" where
  "char_items c =
     (let n = (of_char c :: nat) in if n < 128 then [Inl n] else [Inl (192 + n div 64), Inl (128 + n mod 64)])"

lemma char_code_bound: "(of_char c :: nat) < 256"
  using nat_of_char_less_256 [of c] by simp

lemma latin_bytes:
  fixes n :: nat
  assumes "128 \<le> n" and "n < 256"
  shows "n div 64 = 2 \<or> n div 64 = 3" "n div 64 < 64" "n mod 64 < 64" "n mod 64 < 128" "(n div 64) * 64 + n mod 64 = n"
proof -
  have "n div 64 < 4" using assms(2) by (simp add: less_mult_imp_div_less)
  moreover have "2 \<le> n div 64" using div_le_mono [OF assms(1), of 64] by simp
  ultimately show "n div 64 = 2 \<or> n div 64 = 3" "n div 64 < 64" by linarith+
  have "n mod 64 < 64" by simp
  then show "n mod 64 < 64" "n mod 64 < 128" by linarith+
  show "(n div 64) * 64 + n mod 64 = n" by simp
qed

lemma quote_safe_ascii: "quote_safe c \<Longrightarrow> (of_char c :: nat) < 128 \<and> c \<noteq> CHR ''%'' \<and> c \<noteq> CHR ''+''"
  by (auto simp: quote_safe_def ascii_letter_def ascii_digit_def Let_def)

lemma unquote_quote_char:
  "unquote_items (map plus_to_space (quote_char c) @ rest) = char_items c @ unquote_items rest"
proof -
  let ?n = "of_char c :: nat"
  consider "quote_safe c" | "c = CHR '' ''" | "\<not> quote_safe c" "c \<noteq> CHR '' ''" "?n < 128"
    | "\<not> quote_safe c" "c \<noteq> CHR '' ''" "128 \<le> ?n" by linarith
  then show ?thesis
  proof cases
    case 1
    then show ?thesis using quote_safe_ascii [OF 1] by (simp add: quote_char_def char_items_def plus_to_space_def)
  next
    case 2
    have "\<not> quote_safe (CHR '' '')" by code_simp
    then show ?thesis by (simp add: 2 quote_char_def char_items_def plus_to_space_def)
  next
    case 3
    then show ?thesis by (simp add: quote_char_def char_items_def percent_byte_kept unquote_percent_byte)
  next
    case 4
    note bytes = latin_bytes [OF 4(3) char_code_bound]
    have "192 + ?n div 64 < 256" "128 + ?n mod 64 < 256" using bytes(2,4) by linarith+
    with 4 show ?thesis
      by (simp add: quote_char_def char_items_def Let_def percent_byte_kept unquote_percent_byte)
  qed
qed

lemma utf8_decode_two:
  "q = 2 \<or> q = 3 \<Longrightarrow> r < 64 \<Longrightarrow>
     utf8_decode (Inl (192 + q) # Inl (128 + r) # items) = map_option ((#) (char_of (q * 64 + r))) (utf8_decode items)"
  by (elim disjE) simp_all

lemma utf8_decode_char: "utf8_decode (char_items c @ items) = map_option ((#) c) (utf8_decode items)"
proof (cases "(of_char c :: nat) < 128")
  case True
  then show ?thesis by (simp add: char_items_def)
next
  case False
  let ?n = "of_char c :: nat"
  have "128 \<le> ?n" using False by simp
  note bytes = latin_bytes [OF this char_code_bound]
  have "char_items c = [Inl (192 + ?n div 64), Inl (128 + ?n mod 64)]"
    using False by (simp only: char_items_def Let_def if_False)
  then show ?thesis using utf8_decode_two [OF bytes(1,3), of items] unfolding bytes(5) by simp
qed

lemma unquote_quote_plus: "unquote_plus (quote_plus s) = Some s"
proof -
  have "utf8_decode (unquote_items (map plus_to_space (quote_plus s))) = Some s"
    by (induction s) (simp_all add: quote_plus_def unquote_quote_char utf8_decode_char)
  then show ?thesis by (simp add: unquote_plus_def plus_to_space_def [abs_def])
qed

lemma before_append: "sep \<notin> set a \<Longrightarrow> before sep (a @ sep # b) = a"
  by (induction a) (auto simp: before_def)

lemma after_append: "sep \<notin> set a \<Longrightarrow> after sep (a @ sep # b) = b"
  by (induction a) (auto simp: after_def)

lemma before_absent: "sep \<notin> set a \<Longrightarrow> before sep a = a"
  by (induction a) (auto simp: before_def)

lemma after_absent: "sep \<notin> set a \<Longrightarrow> after sep a = []"
  by (induction a) (auto simp: after_def)

lemma py_split_on_append: "sep \<notin> set a \<Longrightarrow> py_split_on sep (a @ sep # b) = a # py_split_on sep b"
  by (induction a) auto

lemma py_split_on_absent: "sep \<notin> set a \<Longrightarrow> py_split_on sep a = [a]"
  by (induction a) auto

lemma py_split_on_join:
  "ws \<noteq> [] \<Longrightarrow> \<forall>w \<in> set ws. sep \<notin> set w \<Longrightarrow> py_split_on sep (py_join [sep] ws) = ws"
proof (induction ws)
  case (Cons w ws)
  then show ?case
    by (cases ws) (simp_all add: py_split_on_absent py_split_on_append [simplified])
qed simp

definition query_field :: "string \<times> string \<Rightarrow> string" where
  "query_field kv = quote_plus (fst kv) @ ''='' @ quote_plus (snd kv)"

lemma urlencode_fields: "urlencode m = py_join ''&'' (map query_field m)"
  by (simp add: urlencode_def query_field_def [abs_def] case_prod_beta')

lemma query_field_chars: "c \<in> set (query_field kv) \<Longrightarrow> quoted_char c \<or> c = CHR ''=''"
  using quote_plus_chars by (auto simp: query_field_def)

lemma parse_query_field: "parse_field (query_field kv) = Some kv"
proof -
  have "CHR ''='' \<notin> set (quote_plus s)" for s using quote_plus_chars not_quoted(2) by blast
  then show ?thesis
    by (simp add: parse_field_def query_field_def before_append [simplified] after_append [simplified] unquote_quote_plus)
qed

lemma py_join_chars: "c \<in> set (py_join sep ws) \<Longrightarrow> c \<in> set sep \<or> (\<exists>w \<in> set ws. c \<in> set w)"
  by (induction sep ws rule: py_join.induct) auto

lemma urlencode_chars: "c \<in> set (urlencode m) \<Longrightarrow> quoted_char c \<or> c = CHR ''='' \<or> c = CHR ''&''"
  unfolding urlencode_fields using query_field_chars by (fastforce dest: py_join_chars)

lemma all_some_map: "all_some (map (\<lambda>x. Some (f x)) xs) = Some (map f xs)"
  by (induction xs) simp_all

theorem parse_urlencode: "parse_qsl (urlencode m) = Some m"
proof (cases "m = []")
  case True
  then show ?thesis by (simp add: urlencode_def parse_qsl_def)
next
  case False
  have "CHR ''&'' \<notin> set (query_field kv)" for kv using query_field_chars not_quoted(1) by blast
  then have "py_split_on (CHR ''&'') (urlencode m) = map query_field m"
    unfolding urlencode_fields using False by (intro py_split_on_join) auto
  moreover have "filter (\<lambda>f. f \<noteq> []) (map query_field m) = map query_field m"
    by (simp add: filter_id_conv query_field_def)
  moreover have "all_some (map parse_field (map query_field m)) = Some m"
    by (induction m) (simp_all add: parse_query_field)
  ultimately show ?thesis by (simp only: parse_qsl_def)
qed

section \<open>Rebuilding a reference\<close>

text \<open>\<open>urlunsplit\<close> of a reference with a network location.\<close>

definition urlunsplit :: "split_result \<Rightarrow> string" where
  "urlunsplit p =
     (let path = (if spr_path p \<noteq> [] \<and> hd (spr_path p) \<noteq> CHR ''/'' then ''/'' @ spr_path p else spr_path p);
          url = ''//'' @ spr_netloc p @ path;
          url = (if spr_scheme p \<noteq> [] then spr_scheme p @ '':'' @ url else url);
          url = (if spr_query p \<noteq> [] then url @ ''?'' @ spr_query p else url)
      in if spr_fragment p \<noteq> [] then url @ ''#'' @ spr_fragment p else url)"

lemma before_split: "s = before sep s @ (if sep \<in> set s then sep # after sep s else [])"
proof (induction s)
  case Nil
  then show ?case by (simp add: before_def)
next
  case (Cons c cs)
  then show ?case by (auto simp: before_def after_def)
qed

lemma before_subset: "set (before sep s) \<subseteq> set s" "sep \<notin> set (before sep s)"
  by (auto simp: before_def dest: set_takeWhileD)

lemma after_subset: "set (after sep s) \<subseteq> set s"
proof -
  have "set (drop 1 t) \<subseteq> set t" for t :: string by (rule set_drop_subset)
  then show ?thesis unfolding after_def using set_dropWhileD by fastforce
qed

lemma scheme_char_lower:
  "scheme_char c \<Longrightarrow> scheme_char (char_lower c) \<and> char_lower c \<noteq> CHR '':'' \<and> \<not> unsafe_url_char (char_lower c)"
  "ascii_letter c \<Longrightarrow> ascii_letter (char_lower c) \<and> \<not> c0_control_or_space (char_lower c)"
proof -
  have "\<forall>c \<in> set ''+-.''. char_lower c = c \<and> c \<noteq> CHR '':'' \<and> \<not> unsafe_url_char c" by code_simp
  moreover have "\<not> ascii_letter (CHR '':'')" "\<not> ascii_digit (CHR '':'')" by code_simp+
  moreover have "ascii_letter c \<Longrightarrow> ascii_letter (char_lower c) \<and> \<not> c0_control_or_space (char_lower c) \<and> \<not> unsafe_url_char (char_lower c)"
    by (auto simp: ascii_letter_def of_char_char_lower char_upper_case_def c0_control_or_space_def unsafe_url_char_def Let_def)
  moreover have "ascii_digit c \<Longrightarrow> char_lower c = c \<and> \<not> unsafe_url_char c"
    by (auto simp: ascii_digit_def char_lower_def char_upper_case_def unsafe_url_char_def Let_def)
  ultimately show "scheme_char c \<Longrightarrow> scheme_char (char_lower c) \<and> char_lower c \<noteq> CHR '':'' \<and> \<not> unsafe_url_char (char_lower c)"
    and "ascii_letter c \<Longrightarrow> ascii_letter (char_lower c) \<and> \<not> c0_control_or_space (char_lower c)"
    unfolding scheme_char_def by (metis, blast)
qed

text \<open>What \<open>urlsplit\<close> returns for a reference with a scheme and a network location.\<close>

definition absolute_parts :: "split_result \<Rightarrow> bool" where
  "absolute_parts p \<longleftrightarrow>
     spr_scheme p \<noteq> [] \<and> ascii_letter (hd (spr_scheme p)) \<and> \<not> c0_control_or_space (hd (spr_scheme p)) \<and>
     list_all scheme_char (spr_scheme p) \<and> py_lower (spr_scheme p) = spr_scheme p \<and> CHR '':'' \<notin> set (spr_scheme p) \<and>
     netloc_ok (spr_netloc p) \<and> set (spr_netloc p) \<inter> set ''/?#'' = {} \<and>
     (spr_path p = [] \<or> hd (spr_path p) = CHR ''/'') \<and> set (spr_path p) \<inter> set ''?#'' = {} \<and>
     CHR ''#'' \<notin> set (spr_query p) \<and>
     (\<forall>c \<in> set (spr_scheme p @ spr_netloc p @ spr_path p @ spr_query p @ spr_fragment p). \<not> unsafe_url_char c)"

lemma split_scheme_parts:
  assumes "split_scheme url = (scheme, rest)" and "scheme \<noteq> []"
  shows "ascii_letter (hd scheme) \<and> \<not> c0_control_or_space (hd scheme) \<and> list_all scheme_char scheme \<and>
    py_lower scheme = scheme \<and> CHR '':'' \<notin> set scheme \<and> (\<forall>c \<in> set scheme. \<not> unsafe_url_char c) \<and> set rest \<subseteq> set url"
proof -
  let ?s = "before (CHR '':'') url"
  have s: "scheme = py_lower ?s" "?s \<noteq> []" "ascii_letter (hd ?s)" "list_all scheme_char ?s" "rest = after (CHR '':'') url"
    using assms by (auto simp: split_scheme_def Let_def split: if_splits)
  have "hd scheme = char_lower (hd ?s)" using s(1,2) by (simp add: py_lower_def hd_map)
  then have "ascii_letter (hd scheme) \<and> \<not> c0_control_or_space (hd scheme)" using scheme_char_lower(2) s(3) by simp
  moreover have "\<forall>c \<in> set scheme. scheme_char c \<and> c \<noteq> CHR '':'' \<and> \<not> unsafe_url_char c"
    using s(1,4) scheme_char_lower(1) by (auto simp: py_lower_def list_all_iff)
  moreover have "py_lower scheme = scheme" using s(1) py_lower_idem by simp
  ultimately show ?thesis using after_subset s(5) by (auto simp: list_all_iff)
qed

lemma urlsplit_parts:
  assumes "urlsplit text = Some p" and "spr_scheme p \<noteq> []" and "spr_netloc p \<noteq> []"
  shows "absolute_parts p"
proof -
  let ?url = "filter (\<lambda>c. \<not> unsafe_url_char c) (dropWhile c0_control_or_space text)"
  obtain scheme rest where sc: "split_scheme ?url = (scheme, rest)" by fastforce
  obtain netloc tail where nt: "split_netloc rest = (netloc, tail)" by fastforce
  let ?body = "before (CHR ''#'') tail"
  have p: "p = \<lparr>spr_scheme = scheme, spr_netloc = netloc, spr_path = before (CHR ''?'') ?body,
      spr_query = after (CHR ''?'') ?body, spr_fragment = after (CHR ''#'') tail\<rparr>" and ok: "netloc_ok netloc"
    using assms(1) by (simp_all add: urlsplit_def sc nt Let_def split: if_splits)
  note scheme = split_scheme_parts [OF sc]
  let ?stop = "\<lambda>c. c \<notin> set ''/?#''"
  have net: "netloc = takeWhile ?stop (drop 2 rest)" "tail = dropWhile ?stop (drop 2 rest)"
    using nt assms(3) p by (auto simp: split_netloc_def split: if_splits)
  have tail: "tail = [] \<or> hd tail \<in> set ''/?#''"
    using hd_dropWhile [of ?stop "drop 2 rest"] net(2) by (cases "tail = []") auto
  have "set rest \<subseteq> set ?url" using scheme assms(2) p by simp
  then have clean: "\<forall>c \<in> set rest. \<not> unsafe_url_char c" by auto
  have "set (takeWhile P xs) \<subseteq> set xs" "set (dropWhile P xs) \<subseteq> set xs" for P and xs :: string
    by (auto dest: set_takeWhileD set_dropWhileD)
  then have "set netloc \<subseteq> set rest" "set tail \<subseteq> set rest"
    unfolding net using subset_trans [OF _ set_drop_subset] by metis+
  moreover have body: "set ?body \<subseteq> set tail" "CHR ''#'' \<notin> set ?body" using before_subset by auto
  moreover have path: "set (before (CHR ''?'') ?body) \<subseteq> set ?body" "CHR ''?'' \<notin> set (before (CHR ''?'') ?body)"
    and query: "set (after (CHR ''?'') ?body) \<subseteq> set ?body"
    and frag: "set (after (CHR ''#'') tail) \<subseteq> set tail" using before_subset after_subset by auto
  ultimately have "set (netloc @ before (CHR ''?'') ?body @ after (CHR ''?'') ?body @ after (CHR ''#'') tail) \<subseteq> set rest"
    unfolding set_append by blast
  then have "\<forall>c \<in> set (netloc @ before (CHR ''?'') ?body @ after (CHR ''?'') ?body @ after (CHR ''#'') tail). \<not> unsafe_url_char c"
    using clean by blast
  moreover have "before (CHR ''?'') ?body = [] \<or> hd (before (CHR ''?'') ?body) = CHR ''/''"
    using tail by (cases tail) (auto simp: before_def)
  moreover have "set netloc \<inter> set ''/?#'' = {}" using net(1) set_takeWhileD by fastforce
  ultimately show ?thesis
    using scheme assms(2,3) ok path query body by (auto simp: absolute_parts_def p)
qed

lemma span_at: "\<forall>x \<in> set xs. P x \<Longrightarrow> \<not> P c \<Longrightarrow> takeWhile P (xs @ c # cs) = xs \<and> dropWhile P (xs @ c # cs) = c # cs"
  by (induction xs) simp_all

lemma urlsplit_urlunsplit:
  assumes "absolute_parts p" and "spr_query p \<noteq> []"
  shows "urlsplit (urlunsplit p) = Some p"
proof -
  note parts = assms(1) [unfolded absolute_parts_def]
  let ?frag = "if spr_fragment p \<noteq> [] then CHR ''#'' # spr_fragment p else []"
  let ?tail = "spr_path p @ CHR ''?'' # spr_query p @ ?frag"
  have whole: "urlunsplit p = spr_scheme p @ CHR '':'' # ''//'' @ spr_netloc p @ ?tail"
    using parts assms(2) by (auto simp: urlunsplit_def Let_def)
  have "\<not> unsafe_url_char c" if "c \<in> set '':/?#''" for c
  proof -
    have "\<forall>c \<in> set '':/?#''. \<not> unsafe_url_char c" by code_simp
    with that show ?thesis by blast
  qed
  then have "filter (\<lambda>c. \<not> unsafe_url_char c) (urlunsplit p) = urlunsplit p"
    using parts unfolding whole by (intro filter_True) auto
  moreover have "dropWhile c0_control_or_space (urlunsplit p) = urlunsplit p"
    using parts unfolding whole by (intro dropWhile_hd) auto
  moreover have "split_scheme (urlunsplit p) = (spr_scheme p, ''//'' @ spr_netloc p @ ?tail)"
  proof -
    have nc: "CHR '':'' \<notin> set (spr_scheme p)" using parts by blast
    have "before (CHR '':'') (urlunsplit p) = spr_scheme p" "after (CHR '':'') (urlunsplit p) = ''//'' @ spr_netloc p @ ?tail"
      unfolding whole by (rule before_append [OF nc], rule after_append [OF nc])
    moreover have "CHR '':'' \<in> set (urlunsplit p)" by (simp add: whole)
    ultimately show ?thesis using parts by (simp add: split_scheme_def Let_def)
  qed
  moreover have "split_netloc (''//'' @ spr_netloc p @ ?tail) = (spr_netloc p, ?tail)"
  proof -
    let ?P = "\<lambda>c. c \<notin> set ''/?#''"
    have stop: "\<forall>c \<in> set (spr_netloc p). ?P c" using parts by blast
    obtain c cs where tail: "?tail = c # cs" by (cases ?tail) simp_all
    moreover have "hd ?tail \<in> set ''/?#''" using parts by (cases "spr_path p") simp_all
    ultimately have "\<not> ?P c" by simp
    from span_at [of _ ?P, OF stop this, of cs]
    have "takeWhile ?P (spr_netloc p @ ?tail) = spr_netloc p" "dropWhile ?P (spr_netloc p @ ?tail) = ?tail"
      unfolding tail by blast+
    then show ?thesis by (simp add: split_netloc_def)
  qed
  moreover have "before (CHR ''#'') ?tail = spr_path p @ CHR ''?'' # spr_query p" "after (CHR ''#'') ?tail = spr_fragment p"
  proof -
    let ?body = "spr_path p @ CHR ''?'' # spr_query p"
    have body: "CHR ''#'' \<notin> set ?body" using parts by auto
    show "before (CHR ''#'') ?tail = ?body"
      using before_absent [OF body] before_append [OF body, of "spr_fragment p"] by simp
    show "after (CHR ''#'') ?tail = spr_fragment p"
      using after_absent [OF body] after_append [OF body, of "spr_fragment p"] by (cases "spr_fragment p = []") simp_all
  qed
  moreover have "CHR ''?'' \<notin> set (spr_path p)" using parts by auto
  ultimately show ?thesis
    using parts by (simp add: urlsplit_def before_append [simplified] after_append [simplified])
qed

end
