(* ===== verification/Web_Boundary.thy ===== *)
theory Web_Boundary
  imports Operational_Metrics Request_Context Py_Url
begin

text \<open>
  The HTTP boundary of the core backend (\<open>src/backend/app\<close>): \<open>middleware/browser_trust.py\<close>,
  \<open>security_headers.py\<close>, \<open>request_logging.py\<close>, \<open>metrics.py\<close>, \<open>request_correlation.py\<close>,
  \<open>core/request_logging.py\<close> and the stack \<open>create_app\<close> of \<open>main.py\<close> builds.

  An application takes the identifier bound to the request, the request and the state, and returns the
  response it has started, the exception it has let out, the route the router matched, and the new
  state. Response headers are a map from lower-case names. The routes, the CORS middleware
  (Starlette's, with its configuration) and the response the framework sends for an exception
  that leaves every middleware are parameters.
\<close>

section \<open>Requests and responses\<close>

record web_request =
  wrq_method :: string
  wrq_scheme :: string
  wrq_netloc :: string
  wrq_path :: string
  wrq_headers :: "(string \<times> string) list"

record web_response =
  wrs_status :: int
  wrs_headers :: "string \<rightharpoonup> string"
  wrs_body :: json

record web_outcome =
  wot_response :: "web_response option"
  wot_exception :: "string option"
  wot_route :: "string option"

type_synonym 's web_app = "string option \<Rightarrow> web_request \<Rightarrow> 's \<Rightarrow> web_outcome \<times> 's"

definition request_header :: "string \<Rightarrow> web_request \<Rightarrow> string option" where
  "request_header name req = map_of (wrq_headers req) name"

definition raised :: "string \<Rightarrow> web_outcome" where
  "raised exception = \<lparr>wot_response = None, wot_exception = Some exception, wot_route = None\<rparr>"

definition change_response :: "(web_response \<Rightarrow> web_response) \<Rightarrow> web_outcome \<Rightarrow> web_outcome" where
  "change_response f out = out\<lparr>wot_response := map_option f (wot_response out)\<rparr>"

section \<open>Browser trust\<close>

definition UNSAFE_METHODS :: "string list" where
  "UNSAFE_METHODS = [''POST'', ''PUT'', ''PATCH'', ''DELETE'']"

definition rstrip_slash :: "string \<Rightarrow> string" where
  "rstrip_slash s = rev (dropWhile (\<lambda>c. c = CHR ''/'') (rev s))"

definition new_browser_trust :: "string list \<Rightarrow> string list" where
  "new_browser_trust allowed_origins = map rstrip_slash allowed_origins"

definition web_forbidden :: "string \<Rightarrow> web_outcome" where
  "web_forbidden message =
     \<lparr>wot_response = Some \<lparr>wrs_status = 403, wrs_headers = (\<lambda>_. None), wrs_body = JObj [(''detail'', JStr message)]\<rparr>,
      wot_exception = None, wot_route = None\<rparr>"

definition origin_is_allowed :: "string list \<Rightarrow> web_request \<Rightarrow> string \<Rightarrow> bool" where
  "origin_is_allowed allowed_origins req origin =
     (let normalized_origin = rstrip_slash origin
      in normalized_origin \<in> set allowed_origins \<or>
         normalized_origin = rstrip_slash (wrq_scheme req @ ''://'' @ wrq_netloc req))"

text \<open>\<open>None\<close> is the \<open>ValueError\<close> of \<open>urlsplit\<close>.\<close>

definition extract_origin :: "string \<Rightarrow> string option option" where
  "extract_origin referer =
     (case urlsplit referer of
        None \<Rightarrow> None
      | Some parsed \<Rightarrow>
          if spr_scheme parsed = [] \<or> spr_netloc parsed = [] then Some None
          else Some (Some (spr_scheme parsed @ ''://'' @ spr_netloc parsed)))"

definition browser_trust :: "string list \<Rightarrow> 's web_app \<Rightarrow> 's web_app" where
  "browser_trust allowed_origins app ctx req s =
     (if wrq_method req \<notin> set UNSAFE_METHODS then app ctx req s
      else if request_header ''sec-fetch-site'' req = Some ''cross-site''
      then (web_forbidden ''Cross-site state-changing request rejected.'', s)
      else case request_header ''origin'' req of
        Some origin \<Rightarrow>
          if origin_is_allowed allowed_origins req origin then app ctx req s
          else (web_forbidden ''Request origin is not trusted.'', s)
      | None \<Rightarrow>
          (case request_header ''referer'' req of
             None \<Rightarrow> app ctx req s
           | Some referer \<Rightarrow>
               (case extract_origin referer of
                  None \<Rightarrow> (raised ''ValueError'', s)
                | Some None \<Rightarrow> (web_forbidden ''Request referer is not trusted.'', s)
                | Some (Some referer_origin) \<Rightarrow>
                    if origin_is_allowed allowed_origins req referer_origin then app ctx req s
                    else (web_forbidden ''Request referer is not trusted.'', s))))"

section \<open>Security headers\<close>

definition AUTH_CACHE_CONTROL :: string where
  "AUTH_CACHE_CONTROL = ''no-store, no-cache, must-revalidate''"

definition is_auth_path :: "string \<Rightarrow> string \<Rightarrow> bool" where
  "is_auth_path api_v1_prefix path =
     (let auth_prefix = rstrip_slash api_v1_prefix @ ''/auth''
      in path = auth_prefix \<or> take (length auth_prefix + 1) path = auth_prefix @ ''/'')"

definition harden_headers :: "bool \<Rightarrow> bool \<Rightarrow> (string \<rightharpoonup> string) \<Rightarrow> (string \<rightharpoonup> string)" where
  "harden_headers is_production auth_response headers =
     (let h1 = headers(''x-content-type-options'' \<mapsto> ''nosniff'', ''x-frame-options'' \<mapsto> ''DENY'',
                 ''referrer-policy'' \<mapsto> ''strict-origin-when-cross-origin'',
                 ''permissions-policy'' \<mapsto> ''camera=(), microphone=(), geolocation=()'',
                 ''x-permitted-cross-domain-policies'' \<mapsto> ''none'');
          h2 = (if auth_response then h1(''cache-control'' \<mapsto> AUTH_CACHE_CONTROL, ''pragma'' \<mapsto> ''no-cache'') else h1)
      in if is_production then h2(''strict-transport-security'' \<mapsto> ''max-age=31536000; includeSubDomains'') else h2)"

definition security_headers :: "bool \<Rightarrow> string \<Rightarrow> 's web_app \<Rightarrow> 's web_app" where
  "security_headers is_production api_v1_prefix app ctx req s =
     (let auth_response = is_auth_path api_v1_prefix (wrq_path req); (out, s') = app ctx req s
      in (change_response (\<lambda>r. r\<lparr>wrs_headers := harden_headers is_production auth_response (wrs_headers r)\<rparr>) out, s'))"

section \<open>Request logging\<close>

record web_draws =
  wdr_request_id :: uuid
  wdr_now :: instant
  wdr_duration_ms :: real
  wdr_duration_seconds :: real

definition http_request_event ::
    "string \<Rightarrow> string \<Rightarrow> string \<Rightarrow> string option \<Rightarrow> web_draws \<Rightarrow> string \<Rightarrow> string \<Rightarrow> int \<Rightarrow> string option \<Rightarrow> string \<times> payload" where
  "http_request_event event service_name environment request_id d verb path status exception_type =
     (let level = (if event = ''http_request_failed'' then ''ERROR'' else ''INFO'')
      in (level,
          [(''timestamp'', JStr (iso_with ''Z'' (wdr_now d))), (''level'', JStr level), (''event'', JStr event),
           (''service'', JStr service_name), (''environment'', JStr environment),
           (''requestId'', JStr (case request_id of None \<Rightarrow> ''unavailable'' | Some i \<Rightarrow> if i = [] then ''unavailable'' else i)),
           (''method'', JStr verb), (''path'', JStr path), (''statusCode'', JInt status),
           (''durationMs'', JFloat (of_int (round_half_even (max (wdr_duration_ms d) 0 * 1000)) / 1000))] @
          (case exception_type of None \<Rightarrow> [] | Some e \<Rightarrow> [(''exceptionType'', JStr e)])))"

definition logged_path :: "web_outcome \<Rightarrow> web_request \<Rightarrow> string" where
  "logged_path out req = (case wot_route out of Some r \<Rightarrow> if r \<noteq> [] then r else wrq_path req | None \<Rightarrow> wrq_path req)"

definition logged_status :: "web_outcome \<Rightarrow> int" where
  "logged_status out = (case wot_response out of None \<Rightarrow> 500 | Some r \<Rightarrow> if wrs_status r = 0 then 500 else wrs_status r)"

definition request_logging ::
    "string \<Rightarrow> string \<Rightarrow> web_draws \<Rightarrow> 's web_app \<Rightarrow> ('s \<times> (string \<times> payload) list) web_app" where
  "request_logging service_name environment d app ctx req s =
     (let (out, s') = app ctx req (fst s);
          event = (case wot_exception out of None \<Rightarrow> ''http_request_completed'' | Some _ \<Rightarrow> ''http_request_failed'')
      in (out, s', snd s @ [http_request_event event service_name environment ctx d (ascii_upper (wrq_method req))
                              (logged_path out req) (logged_status out) (wot_exception out)]))"

section \<open>Metrics\<close>

definition normalized_route :: "web_outcome \<Rightarrow> string" where
  "normalized_route out = (case wot_route out of Some r \<Rightarrow> r | None \<Rightarrow> ''__unmatched__'')"

definition metrics_middleware :: "web_draws \<Rightarrow> 's web_app \<Rightarrow> ('s \<times> metrics_registry) web_app" where
  "metrics_middleware d app ctx req s =
     (let (out, s') = app ctx req (fst s)
      in (out, s', observe_http_request (wrq_method req) (normalized_route out)
                     (case wot_response out of None \<Rightarrow> 500 | Some r \<Rightarrow> wrs_status r) (wdr_duration_seconds d) (snd s)))"

section \<open>Request correlation\<close>

definition request_correlation :: "web_draws \<Rightarrow> 's web_app \<Rightarrow> 's web_app" where
  "request_correlation d app ctx req s =
     (let request_id = resolve_request_id (wdr_request_id d) (request_header ''x-request-id'' req);
          (out, s') = app (Some request_id) req s
      in (change_response (\<lambda>r. r\<lparr>wrs_headers := (wrs_headers r)(''x-request-id'' \<mapsto> request_id)\<rparr>) out, s'))"

section \<open>The stack\<close>

record web_settings =
  wst_app_name :: string
  wst_app_env :: string
  wst_api_v1_prefix :: string
  wst_frontend_origin :: string
  wst_metrics_enabled :: bool

definition is_production :: "web_settings \<Rightarrow> bool" where
  "is_production cfg \<longleftrightarrow> py_lower (py_strip (wst_app_env cfg)) = ''production''"

definition create_app ::
    "web_settings \<Rightarrow> ('s web_app \<Rightarrow> 's web_app) \<Rightarrow> 's web_app \<Rightarrow> web_draws \<Rightarrow>
     (('s \<times> (string \<times> payload) list) \<times> metrics_registry) web_app" where
  "create_app cfg cors routes d =
     (let trust = browser_trust (new_browser_trust [wst_frontend_origin cfg]) routes;
          headers = security_headers (is_production cfg) (wst_api_v1_prefix cfg) (cors trust);
          logging = request_logging (wst_app_name cfg) (wst_app_env cfg) d headers;
          metrics = (if wst_metrics_enabled cfg then metrics_middleware d logging
                     else (\<lambda>ctx req s. let (out, s') = logging ctx req (fst s) in (out, s', snd s)))
      in request_correlation d metrics)"

text \<open>What the client receives: the started response, or the framework's for an exception before any.\<close>

definition received :: "web_response \<Rightarrow> web_outcome \<Rightarrow> web_response option" where
  "received server_error out =
     (case wot_response out of
        Some r \<Rightarrow> Some r
      | None \<Rightarrow> if wot_exception out \<noteq> None then Some server_error else None)"

section \<open>Contracts\<close>

text \<open>
  What the stack relies on of Starlette's CORS middleware: it answers a preflight itself, and
  otherwise runs the application once and touches response headers only.
\<close>

definition cors_contract :: "('s web_app \<Rightarrow> 's web_app) \<Rightarrow> bool" where
  "cors_contract cors \<longleftrightarrow>
     (\<forall>app ctx req s. wrq_method req \<noteq> ''OPTIONS'' \<longrightarrow>
        (\<exists>h. cors app ctx req s =
           (change_response (\<lambda>r. r\<lparr>wrs_headers := h (wrs_headers r)\<rparr>) (fst (app ctx req s)), snd (app ctx req s))))"

definition same_site :: "web_settings \<Rightarrow> web_request \<Rightarrow> string \<Rightarrow> bool" where
  "same_site cfg req origin \<longleftrightarrow>
     rstrip_slash origin \<in> {rstrip_slash (wst_frontend_origin cfg), rstrip_slash (wrq_scheme req @ ''://'' @ wrq_netloc req)}"

definition browser_trusted :: "web_settings \<Rightarrow> web_request \<Rightarrow> bool" where
  "browser_trusted cfg req \<longleftrightarrow>
     request_header ''sec-fetch-site'' req \<noteq> Some ''cross-site'' \<and>
     (case (request_header ''origin'' req, request_header ''referer'' req) of
        (Some origin, _) \<Rightarrow> same_site cfg req origin
      | (None, Some referer) \<Rightarrow> (case extract_origin referer of Some (Some origin) \<Rightarrow> same_site cfg req origin | _ \<Rightarrow> False)
      | (None, None) \<Rightarrow> True)"

section \<open>Lemmas\<close>

lemma change_response_simps [simp]:
  "wot_response (change_response f out) = map_option f (wot_response out)"
  "wot_exception (change_response f out) = wot_exception out"
  "wot_route (change_response f out) = wot_route out"
  by (simp_all add: change_response_def)

lemma origin_is_allowed_iff: "origin_is_allowed (new_browser_trust [wst_frontend_origin cfg]) req origin \<longleftrightarrow> same_site cfg req origin"
  by (auto simp: origin_is_allowed_def new_browser_trust_def same_site_def Let_def)

lemma browser_trust_cases:
  assumes "wrq_method req \<in> set UNSAFE_METHODS"
  shows "if browser_trusted cfg req
    then browser_trust (new_browser_trust [wst_frontend_origin cfg]) app ctx req s = app ctx req s
    else (\<exists>message. browser_trust (new_browser_trust [wst_frontend_origin cfg]) app ctx req s = (web_forbidden message, s)) \<or>
      browser_trust (new_browser_trust [wst_frontend_origin cfg]) app ctx req s = (raised ''ValueError'', s)"
  using assms
  by (auto simp: browser_trust_def browser_trusted_def origin_is_allowed_iff split: option.splits)

text \<open>The layers around the application, on the outcome of the application they wrap.\<close>

definition wrapped :: "web_settings \<Rightarrow> web_draws \<Rightarrow> web_request \<Rightarrow> web_outcome \<Rightarrow> web_outcome" where
  "wrapped cfg d req out =
     change_response (\<lambda>r. r\<lparr>wrs_headers :=
         (harden_headers (is_production cfg) (is_auth_path (wst_api_v1_prefix cfg) (wrq_path req)) (wrs_headers r))
           (''x-request-id'' \<mapsto> resolve_request_id (wdr_request_id d) (request_header ''x-request-id'' req))\<rparr>) out"

lemma create_app_eq:
  "create_app cfg cors routes d ctx req ((s, lg), m) =
     (let i = resolve_request_id (wdr_request_id d) (request_header ''x-request-id'' req);
          (out, s') = cors (browser_trust (new_browser_trust [wst_frontend_origin cfg]) routes) (Some i) req s
      in (wrapped cfg d req out,
          (s', lg @ [http_request_event
                 (case wot_exception out of None \<Rightarrow> ''http_request_completed'' | Some _ \<Rightarrow> ''http_request_failed'')
                 (wst_app_name cfg) (wst_app_env cfg) (Some i) d (ascii_upper (wrq_method req)) (logged_path out req)
                 (logged_status out) (wot_exception out)]),
          if wst_metrics_enabled cfg
          then observe_http_request (wrq_method req) (normalized_route out)
                 (case wot_response out of None \<Rightarrow> 500 | Some r \<Rightarrow> wrs_status r) (wdr_duration_seconds d) m
          else m))"
  by (auto simp: create_app_def request_correlation_def metrics_middleware_def request_logging_def security_headers_def
      wrapped_def change_response_def Let_def logged_path_def logged_status_def normalized_route_def option.map_comp o_def
      option.case_eq_if split: prod.splits)

lemma create_app_outcome:
  "fst (create_app cfg cors routes d ctx req w) =
     wrapped cfg d req (fst (cors (browser_trust (new_browser_trust [wst_frontend_origin cfg]) routes)
       (Some (resolve_request_id (wdr_request_id d) (request_header ''x-request-id'' req))) req (fst (fst w))))"
  "fst (fst (snd (create_app cfg cors routes d ctx req w))) =
     snd (cors (browser_trust (new_browser_trust [wst_frontend_origin cfg]) routes)
       (Some (resolve_request_id (wdr_request_id d) (request_header ''x-request-id'' req))) req (fst (fst w)))"
proof -
  obtain s lg m where w: "w = ((s, lg), m)" by (cases w) auto
  show "fst (create_app cfg cors routes d ctx req w) =
     wrapped cfg d req (fst (cors (browser_trust (new_browser_trust [wst_frontend_origin cfg]) routes)
       (Some (resolve_request_id (wdr_request_id d) (request_header ''x-request-id'' req))) req (fst (fst w))))"
    and "fst (fst (snd (create_app cfg cors routes d ctx req w))) =
     snd (cors (browser_trust (new_browser_trust [wst_frontend_origin cfg]) routes)
       (Some (resolve_request_id (wdr_request_id d) (request_header ''x-request-id'' req))) req (fst (fst w)))"
    unfolding w create_app_eq Let_def case_prod_beta fst_conv snd_conv by (rule refl)+
qed

text \<open>Under the contract, a state-changing request passes the CORS layer to the trust boundary.\<close>

lemma cors_passes:
  assumes "cors_contract cors" and "wrq_method req \<in> set UNSAFE_METHODS"
  obtains h where "cors app ctx req s = (change_response (\<lambda>r. r\<lparr>wrs_headers := h (wrs_headers r)\<rparr>) (fst (app ctx req s)), snd (app ctx req s))"
proof -
  have "wrq_method req \<noteq> ''OPTIONS''" using assms(2) by (auto simp: UNSAFE_METHODS_def)
  with assms(1) have "\<exists>h. cors app ctx req s =
      (change_response (\<lambda>r. r\<lparr>wrs_headers := h (wrs_headers r)\<rparr>) (fst (app ctx req s)), snd (app ctx req s))"
    unfolding cors_contract_def by (elim allE impE)
  then show thesis by (elim exE) (rule that)
qed

section \<open>Properties\<close>

text \<open>
  Claim C25. A state-changing request that a browser marks as cross-site, or whose origin (or, without
  one, whose referer) is neither the configured frontend nor the API itself, never reaches a route: the
  state is unchanged and the client gets 403, or, for a referer that is no URL, an unhandled error.
  Any other state-changing request runs the routes once, and their status and body are delivered.
\<close>

theorem browser_trust_boundary:
  assumes "cors_contract cors" and "wrq_method req \<in> set UNSAFE_METHODS"
    and "create_app cfg cors routes d ctx req ((s, lg), m) = (out, (s', lg'), m')"
  shows "if browser_trusted cfg req
    then (let (out0, s0) = routes (Some (resolve_request_id (wdr_request_id d) (request_header ''x-request-id'' req))) req s
          in s' = s0 \<and> wot_exception out = wot_exception out0 \<and>
             map_option (\<lambda>r. (wrs_status r, wrs_body r)) (wot_response out) = map_option (\<lambda>r. (wrs_status r, wrs_body r)) (wot_response out0))
    else s' = s \<and> (case wot_response out of Some r \<Rightarrow> wrs_status r = 403 | None \<Rightarrow> wot_exception out = Some ''ValueError'')"
proof -
  let ?i = "resolve_request_id (wdr_request_id d) (request_header ''x-request-id'' req)"
  let ?trust = "browser_trust (new_browser_trust [wst_frontend_origin cfg]) routes"
  obtain h where h: "cors ?trust (Some ?i) req s =
      (change_response (\<lambda>r. r\<lparr>wrs_headers := h (wrs_headers r)\<rparr>) (fst (?trust (Some ?i) req s)), snd (?trust (Some ?i) req s))"
    using cors_passes [OF assms(1,2)] .
  have out: "out = wrapped cfg d req (change_response (\<lambda>r. r\<lparr>wrs_headers := h (wrs_headers r)\<rparr>) (fst (?trust (Some ?i) req s)))"
    using create_app_outcome(1) [of cfg cors routes d ctx req "((s, lg), m)"] unfolding assms(3) fst_conv snd_conv h .
  have s': "s' = snd (?trust (Some ?i) req s)"
    using create_app_outcome(2) [of cfg cors routes d ctx req "((s, lg), m)"] unfolding assms(3) fst_conv snd_conv h .
  show ?thesis
  proof (cases "browser_trusted cfg req")
    case True
    then have "?trust (Some ?i) req s = routes (Some ?i) req s" using browser_trust_cases [OF assms(2), of cfg routes "Some ?i" s] by simp
    then show ?thesis using True
      by (simp add: out s' wrapped_def option.map_comp o_def case_prod_beta)
  next
    case False
    then consider message where "?trust (Some ?i) req s = (web_forbidden message, s)" | "?trust (Some ?i) req s = (raised ''ValueError'', s)"
      using browser_trust_cases [OF assms(2), of cfg routes "Some ?i" s] by auto
    then show ?thesis
      by cases (simp_all add: False out s' wrapped_def web_forbidden_def raised_def)
  qed
qed


text \<open>
  Every request leaves exactly one log record, an error exactly when an exception left the
  layers inside, with the identifier bound to the request and the status of the response that was
  started, 500 if none was. With metrics on, exactly one series counts one request more: the one of
  the request's method, the matched route and that status.
\<close>

theorem request_accounted:
  assumes "create_app cfg cors routes d ctx req ((s, lg), m) = (out, (s', lg'), m')"
  shows "(\<exists>level event. lg' = lg @ [(level, event)] \<and>
      level = (if wot_exception out = None then ''INFO'' else ''ERROR'') \<and>
      map_of event ''requestId'' = Some (JStr (resolve_request_id (wdr_request_id d) (request_header ''x-request-id'' req))) \<and>
      map_of event ''method'' = Some (JStr (ascii_upper (wrq_method req))) \<and>
      map_of event ''statusCode'' = Some (JInt (case wot_response out of None \<Rightarrow> 500 | Some r \<Rightarrow> if wrs_status r = 0 then 500 else wrs_status r)) \<and>
      map_of event ''exceptionType'' = map_option JStr (wot_exception out)) \<and>
    (\<forall>l. counted (mtr_http_requests m') l = counted (mtr_http_requests m) l +
       (if wst_metrics_enabled cfg \<and> l = (ascii_upper (wrq_method req), case wot_route out of None \<Rightarrow> ''__unmatched__'' | Some r \<Rightarrow> r,
            int_text (case wot_response out of None \<Rightarrow> 500 | Some r \<Rightarrow> wrs_status r)) then 1 else 0))"
proof -
  let ?i = "resolve_request_id (wdr_request_id d) (request_header ''x-request-id'' req)"
  obtain out0 s0 where inner: "cors (browser_trust (new_browser_trust [wst_frontend_origin cfg]) routes) (Some ?i) req s = (out0, s0)"
    by (cases "cors (browser_trust (new_browser_trust [wst_frontend_origin cfg]) routes) (Some ?i) req s")
  let ?e = "http_request_event (case wot_exception out0 of None \<Rightarrow> ''http_request_completed'' | Some _ \<Rightarrow> ''http_request_failed'')
                 (wst_app_name cfg) (wst_app_env cfg) (Some ?i) d (ascii_upper (wrq_method req)) (logged_path out0 req)
                 (logged_status out0) (wot_exception out0)"
  have out: "out = wrapped cfg d req out0" and lg': "lg' = lg @ [?e]"
    and m': "m' = (if wst_metrics_enabled cfg
          then observe_http_request (wrq_method req) (normalized_route out0)
                 (case wot_response out0 of None \<Rightarrow> 500 | Some r \<Rightarrow> wrs_status r) (wdr_duration_seconds d) m
          else m)"
    using assms by (simp_all add: create_app_eq inner Let_def)
  have same: "wot_exception out = wot_exception out0" "wot_route out = wot_route out0"
    "map_option wrs_status (wot_response out) = map_option wrs_status (wot_response out0)"
    by (simp_all add: out wrapped_def option.map_comp o_def)
  have status: "(case wot_response out of None \<Rightarrow> a | Some r \<Rightarrow> f (wrs_status r)) = (case wot_response out0 of None \<Rightarrow> a | Some r \<Rightarrow> f (wrs_status r))"
    for a :: int and f
    using same(3) by (auto split: option.splits)
  have "?i \<noteq> []" using valid_request_id_nonempty [OF resolve_request_id_valid] .
  then have event: "fst ?e = (if wot_exception out = None then ''INFO'' else ''ERROR'')"
    "map_of (snd ?e) ''requestId'' = Some (JStr ?i)" "map_of (snd ?e) ''method'' = Some (JStr (ascii_upper (wrq_method req)))"
    "map_of (snd ?e) ''statusCode'' = Some (JInt (logged_status out0))"
    "map_of (snd ?e) ''exceptionType'' = map_option JStr (wot_exception out)"
    unfolding same by (simp_all add: http_request_event_def Let_def split: option.splits)
  have counts: "counted (mtr_http_requests m') l = counted (mtr_http_requests m) l +
       (if wst_metrics_enabled cfg \<and> l = (ascii_upper (wrq_method req), case wot_route out of None \<Rightarrow> ''__unmatched__'' | Some r \<Rightarrow> r,
            int_text (case wot_response out of None \<Rightarrow> 500 | Some r \<Rightarrow> wrs_status r)) then 1 else 0)" for l
    using status [of 500 "\<lambda>x. x"] same(2)
    by (auto simp: m' observe_http_request_def counted_increment normalized_route_def)
  show ?thesis
  proof (intro conjI exI [of _ "fst ?e"] exI [of _ "snd ?e"] allI)
    show "lg' = lg @ [(fst ?e, snd ?e)]" by (simp add: lg')
    show "map_of (snd ?e) ''statusCode'' = Some (JInt (case wot_response out of None \<Rightarrow> 500 | Some r \<Rightarrow> if wrs_status r = 0 then 500 else wrs_status r))"
      using event(4) status [of 500 "\<lambda>x. if x = 0 then 500 else x"] by (simp add: logged_status_def)
  qed (fact event counts)+
qed

text \<open>A referer that is no URL ends a state-changing request without a response of the application.\<close>

theorem malformed_referer_unhandled:
  assumes "cors_contract cors" and "wrq_method req = ''POST''" and "request_header ''sec-fetch-site'' req = None"
    and "request_header ''origin'' req = None" and "request_header ''referer'' req = Some ''http://[''"
  shows "received server_error (fst (create_app cfg cors routes d ctx req w)) = Some server_error"
proof -
  let ?trust = "browser_trust (new_browser_trust [wst_frontend_origin cfg]) routes"
  let ?i = "resolve_request_id (wdr_request_id d) (request_header ''x-request-id'' req)"
  have unsafe: "wrq_method req \<in> set UNSAFE_METHODS" by (simp add: assms(2) UNSAFE_METHODS_def)
  obtain h where h: "cors ?trust (Some ?i) req (fst (fst w)) =
      (change_response (\<lambda>r. r\<lparr>wrs_headers := h (wrs_headers r)\<rparr>) (fst (?trust (Some ?i) req (fst (fst w)))),
       snd (?trust (Some ?i) req (fst (fst w))))"
    using cors_passes [OF assms(1) unsafe] .
  have "extract_origin ''http://['' = None" by code_simp
  then have trust: "?trust (Some ?i) req t = (raised ''ValueError'', t)" for t
    using unsafe by (simp add: browser_trust_def assms(3-5))
  show ?thesis
    unfolding create_app_outcome(1) h trust by (simp add: wrapped_def raised_def received_def)
qed

section \<open>Witnesses\<close>

definition demo_web_settings :: web_settings where
  "demo_web_settings = \<lparr>wst_app_name = ''OpsFlow API'', wst_app_env = '' Production'', wst_api_v1_prefix = ''/api/v1'',
     wst_frontend_origin = ''https://ops.example'', wst_metrics_enabled = True\<rparr>"

definition demo_web_draws :: web_draws where
  "demo_web_draws = \<lparr>wdr_request_id = 7, wdr_now = 0, wdr_duration_ms = 1, wdr_duration_seconds = 1\<rparr>"

definition demo_post :: "string \<Rightarrow> web_request" where
  "demo_post origin = \<lparr>wrq_method = ''POST'', wrq_scheme = ''http'', wrq_netloc = ''api'', wrq_path = ''/api/v1/auth/login'',
     wrq_headers = [(''origin'', origin)]\<rparr>"

definition demo_routes :: "nat web_app" where
  "demo_routes ctx req s =
     (\<lparr>wot_response = Some \<lparr>wrs_status = 200, wrs_headers = (\<lambda>_. None), wrs_body = JNull\<rparr>, wot_exception = None,
       wot_route = Some (wrq_path req)\<rparr>, s + 1)"

definition demo_exchange ::
    "string \<Rightarrow> web_outcome \<times> (nat \<times> (string \<times> payload) list) \<times> metrics_registry" where
  "demo_exchange origin =
     create_app demo_web_settings (\<lambda>app. app) demo_routes demo_web_draws None (demo_post origin) ((5, []), new_operational_metrics)"

lemma transparent_cors: "cors_contract (\<lambda>app. app)"
  unfolding cors_contract_def change_response_def
  by (intro allI impI exI [of _ "\<lambda>h. h"]) (simp add: option.map_ident)

lemma demo_origins:
  "\<not> browser_trusted demo_web_settings (demo_post ''https://evil'')"
  "browser_trusted demo_web_settings (demo_post ''https://ops.example/'')"
  by code_simp+

lemma demo_post_unsafe: "wrq_method (demo_post origin) \<in> set UNSAFE_METHODS"
  by (simp add: demo_post_def UNSAFE_METHODS_def)

theorem browser_trust_boundary_witness:
  "fst (fst (snd (demo_exchange ''https://evil''))) = 5 \<and> fst (fst (snd (demo_exchange ''https://ops.example/''))) = 6"
proof
  obtain out s' lg' m' where run: "demo_exchange ''https://evil'' = (out, (s', lg'), m')"
    by (metis prod.exhaust)
  show "fst (fst (snd (demo_exchange ''https://evil''))) = 5"
    using browser_trust_boundary [OF transparent_cors demo_post_unsafe run [unfolded demo_exchange_def]] demo_origins(1)
    by (simp add: run)
  obtain out s' lg' m' where run: "demo_exchange ''https://ops.example/'' = (out, (s', lg'), m')"
    by (metis prod.exhaust)
  show "fst (fst (snd (demo_exchange ''https://ops.example/''))) = 6"
    using browser_trust_boundary [OF transparent_cors demo_post_unsafe run [unfolded demo_exchange_def]] demo_origins(2)
    by (simp add: run demo_routes_def)
qed

lemma demo_answered:
  obtains out w' r where "demo_exchange ''https://ops.example/'' = (out, w')" "wot_response out = Some r" "wrs_status r = 200"
    "wot_exception out = None"
proof -
  obtain out s' lg' m' where run: "demo_exchange ''https://ops.example/'' = (out, (s', lg'), m')"
    by (metis prod.exhaust)
  have "fst (demo_exchange ''https://ops.example/'') = out" by (simp add: run)
  then have "\<exists>r. wot_response out = Some r \<and> wrs_status r = 200" "wot_exception out = None"
    using browser_trust_cases [OF demo_post_unsafe, of demo_web_settings "''https://ops.example/''" demo_routes] demo_origins(2)
    by (auto simp: demo_exchange_def create_app_outcome wrapped_def demo_routes_def)
  then show thesis using run that by blast
qed


theorem request_accounted_witness:
  "counted (mtr_http_requests (snd (snd (demo_exchange ''https://ops.example/'')))) (''POST'', ''/api/v1/auth/login'', ''200'') \<le> 1"
proof -
  obtain out s' lg' m' where run: "demo_exchange ''https://ops.example/'' = (out, (s', lg'), m')"
    by (metis prod.exhaust)
  then show ?thesis
    using request_accounted [OF run [unfolded demo_exchange_def]]
    by (simp add: new_operational_metrics_def counted_def)
qed

end
