(* ===== verification/Deployment.thy ===== *)
theory Deployment
  imports Service_Identity Incident_Gateway Login_Throttle Reset_Throttle Security_Events
begin

text \<open>
  Configuration and construction: \<open>core/config.py\<close>, \<open>core/service_identity_provider.py\<close>,
  \<open>core/service_token_verifier_loader.py\<close> and the object-building dependencies of
  \<open>api/dependencies.py\<close> in \<open>src/backend/app\<close>; \<open>core/config.py\<close>, \<open>core/service_identity_loader.py\<close> and
  the builder of \<open>core/service_token_provider.py\<close> in \<open>src/incident-service/app\<close>. Settings are the values
  read from the environment, with the constraints pydantic checks. \<open>read\<close> is \<open>Path.read_text\<close>, \<open>None\<close>
  where it raises \<open>OSError\<close> or \<open>UnicodeError\<close>; PEM loading is a parameter.
\<close>

section \<open>Settings of the core backend\<close>

datatype gateway_mode = MODE_LOCAL | MODE_HTTP

record core_settings =
  cst_service_identity_private_key_path :: string
  cst_service_identity_key_id :: string
  cst_service_identity_token_ttl_seconds :: int
  cst_incident_service_identity_key_id :: string
  cst_incident_service_identity_public_key_path :: string
  cst_incident_service_identity_clock_skew_seconds :: int
  cst_incident_gateway_mode :: gateway_mode
  cst_incident_service_url :: string
  cst_incident_service_timeout_seconds :: seconds
  cst_circuit_failure_threshold :: int
  cst_circuit_recovery_seconds :: seconds
  cst_read_max_attempts :: int
  cst_read_backoff_seconds :: seconds
  cst_metrics_enabled :: bool
  cst_access_token_expire_minutes :: int
  cst_refresh_token_expire_days :: int
  cst_reauth_token_expire_minutes :: int
  cst_auth_throttle_secret_key :: string
  cst_login_ip_max_attempts :: int
  cst_login_ip_window_seconds :: int
  cst_login_account_max_failures :: int
  cst_login_account_window_seconds :: int
  cst_reset_ip_max_requests :: int
  cst_reset_ip_window_seconds :: int
  cst_reset_account_max_requests :: int
  cst_reset_account_window_seconds :: int
  cst_password_reset_url :: string
  cst_aws_region :: string
  cst_task_queue_url :: "string option"
  cst_ses_from_email :: string
  cst_security_event_hmac_key :: string
  cst_auth_session_retention_days :: int

definition between :: "nat \<Rightarrow> nat \<Rightarrow> string \<Rightarrow> bool" where
  "between lo hi s \<longleftrightarrow> lo \<le> length s \<and> length s \<le> hi"

definition core_settings_valid :: "core_settings \<Rightarrow> bool" where
  "core_settings_valid c \<longleftrightarrow>
     between 1 128 (cst_service_identity_key_id c) \<and>
     cst_service_identity_token_ttl_seconds c \<in> {30..120} \<and>
     between 1 128 (cst_incident_service_identity_key_id c) \<and>
     cst_incident_service_identity_clock_skew_seconds c \<in> {0..30} \<and>
     between 1 2048 (cst_incident_service_url c) \<and>
     0 < cst_incident_service_timeout_seconds c \<and> cst_incident_service_timeout_seconds c \<le> 30 \<and>
     cst_circuit_failure_threshold c \<in> {1..20} \<and>
     0 < cst_circuit_recovery_seconds c \<and> cst_circuit_recovery_seconds c \<le> 300 \<and>
     cst_read_max_attempts c \<in> {1..3} \<and>
     0 \<le> cst_read_backoff_seconds c \<and> cst_read_backoff_seconds c \<le> 1 \<and>
     cst_access_token_expire_minutes c \<in> {5..60} \<and>
     cst_refresh_token_expire_days c \<in> {1..30} \<and>
     cst_reauth_token_expire_minutes c \<in> {1..15} \<and>
     cst_login_ip_max_attempts c \<in> {5..500} \<and> cst_login_ip_window_seconds c \<in> {10..3600} \<and>
     cst_login_account_max_failures c \<in> {3..100} \<and> cst_login_account_window_seconds c \<in> {60..86400} \<and>
     cst_reset_ip_max_requests c \<in> {1..1000} \<and> cst_reset_ip_window_seconds c \<in> {1..86400} \<and>
     cst_reset_account_max_requests c \<in> {1..100} \<and> cst_reset_account_window_seconds c \<in> {1..86400} \<and>
     between 1 2048 (cst_password_reset_url c) \<and> between 1 64 (cst_aws_region c) \<and>
     pred_option (between 1 2048) (cst_task_queue_url c) \<and> between 3 320 (cst_ses_from_email c) \<and>
     cst_auth_session_retention_days c \<in> {1..365}"

definition SERVICE_IDENTITY_ISSUER :: string where "SERVICE_IDENTITY_ISSUER = ''opsflow-core-backend''"
definition INCIDENT_SERVICE_AUDIENCE :: string where "INCIDENT_SERVICE_AUDIENCE = ''opsflow-incident-service''"
definition INCIDENT_SERVICE_IDENTITY_ISSUER :: string where "INCIDENT_SERVICE_IDENTITY_ISSUER = ''opsflow-incident-service''"
definition CORE_BACKEND_SERVICE_AUDIENCE :: string where "CORE_BACKEND_SERVICE_AUDIENCE = ''opsflow-core-backend''"

section \<open>Settings of the Incident Service\<close>

record incident_settings =
  ist_service_catalog_timeout_seconds :: seconds
  ist_service_identity_issuer :: string
  ist_service_identity_audience :: string
  ist_service_identity_key_id :: string
  ist_service_identity_public_key_file :: string
  ist_service_identity_previous_key_id :: "string option"
  ist_service_identity_previous_public_key_file :: "string option"
  ist_service_identity_clock_skew_seconds :: int
  ist_signing_private_key_path :: string
  ist_signing_key_id :: string
  ist_signing_issuer :: string
  ist_signing_token_ttl_seconds :: int
  ist_core_backend_audience :: string

definition non_empty_text :: "string \<Rightarrow> bool" where
  "non_empty_text s \<longleftrightarrow> py_strip s \<noteq> []"

definition load_incident_settings :: "incident_settings \<Rightarrow> incident_settings option" where
  "load_incident_settings c =
     (if 0 < ist_service_catalog_timeout_seconds c \<and> ist_service_catalog_timeout_seconds c \<le> 30 \<and>
         list_all non_empty_text [ist_service_identity_issuer c, ist_service_identity_audience c, ist_service_identity_key_id c,
           ist_signing_key_id c, ist_signing_issuer c, ist_core_backend_audience c] \<and>
         pred_option non_empty_text (ist_service_identity_previous_key_id c) \<and>
         0 \<le> ist_service_identity_clock_skew_seconds c \<and> ist_service_identity_clock_skew_seconds c \<le> 30 \<and>
         30 \<le> ist_signing_token_ttl_seconds c \<and> ist_signing_token_ttl_seconds c \<le> 120 \<and>
         (ist_service_identity_previous_key_id c \<noteq> None) = (ist_service_identity_previous_public_key_file c \<noteq> None)
      then Some (c\<lparr>ist_service_identity_issuer := py_strip (ist_service_identity_issuer c),
             ist_service_identity_audience := py_strip (ist_service_identity_audience c),
             ist_service_identity_key_id := py_strip (ist_service_identity_key_id c),
             ist_service_identity_previous_key_id := map_option py_strip (ist_service_identity_previous_key_id c),
             ist_signing_key_id := py_strip (ist_signing_key_id c),
             ist_signing_issuer := py_strip (ist_signing_issuer c),
             ist_core_backend_audience := py_strip (ist_core_backend_audience c)\<rparr>)
      else None)"

section \<open>Service identity\<close>

definition read_public_key :: "(string \<Rightarrow> string option) \<Rightarrow> string \<Rightarrow> string \<Rightarrow> service_identity_error + string" where
  "read_public_key read public_key_file setting_name =
     (case read public_key_file of
        None \<Rightarrow> Inl (ServiceIdentityConfigurationError (setting_name @ '' could not be read.''))
      | Some public_key_pem \<Rightarrow>
          if py_strip public_key_pem = [] then Inl (ServiceIdentityConfigurationError (setting_name @ '' must not be empty.''))
          else Inr public_key_pem)"

definition load_service_verification_keys ::
    "(string \<Rightarrow> string option) \<Rightarrow> incident_settings \<Rightarrow> service_identity_error + (string \<times> string) list" where
  "load_service_verification_keys read c =
     (case read_public_key read (ist_service_identity_public_key_file c) ''SERVICE_IDENTITY_PUBLIC_KEY_FILE'' of
        Inl e \<Rightarrow> Inl e
      | Inr current \<Rightarrow>
          (case (ist_service_identity_previous_key_id c, ist_service_identity_previous_public_key_file c) of
             (Some previous_key_id, Some previous_file) \<Rightarrow>
               if previous_key_id = ist_service_identity_key_id c
               then Inl (ServiceIdentityConfigurationError ''Current and previous service-identity key IDs must be different.'')
               else (case read_public_key read previous_file ''SERVICE_IDENTITY_PREVIOUS_PUBLIC_KEY_FILE'' of
                       Inl e \<Rightarrow> Inl e
                     | Inr previous \<Rightarrow> Inr [(ist_service_identity_key_id c, current), (previous_key_id, previous)])
           | _ \<Rightarrow> Inr [(ist_service_identity_key_id c, current)]))"

definition build_service_token_verifier ::
    "(string \<Rightarrow> string option) \<Rightarrow> (string \<Rightarrow> 'pk pem_load) \<Rightarrow> incident_settings \<Rightarrow>
     service_identity_error + 'pk service_token_verifier" where
  "build_service_token_verifier read load c =
     (case load_service_verification_keys read c of
        Inl e \<Rightarrow> Inl e
      | Inr keys \<Rightarrow> new_service_token_verifier load keys (ist_service_identity_issuer c) (ist_service_identity_audience c)
          (ist_service_identity_clock_skew_seconds c))"

definition core_verification_keys ::
    "(string \<Rightarrow> string option) \<Rightarrow> core_settings \<Rightarrow> service_identity_error + (string \<times> string) list" where
  "core_verification_keys read c =
     (case read_public_key read (cst_incident_service_identity_public_key_path c) ''INCIDENT_SERVICE_IDENTITY_PUBLIC_KEY_PATH'' of
        Inl e \<Rightarrow> Inl e
      | Inr key \<Rightarrow> Inr [(cst_incident_service_identity_key_id c, key)])"

definition core_token_verifier ::
    "(string \<Rightarrow> string option) \<Rightarrow> (string \<Rightarrow> 'pk pem_load) \<Rightarrow> core_settings \<Rightarrow>
     service_identity_error + 'pk service_token_verifier" where
  "core_token_verifier read load c =
     (case core_verification_keys read c of
        Inl e \<Rightarrow> Inl e
      | Inr keys \<Rightarrow> new_service_token_verifier load keys INCIDENT_SERVICE_IDENTITY_ISSUER CORE_BACKEND_SERVICE_AUDIENCE
          (cst_incident_service_identity_clock_skew_seconds c))"

definition build_service_token_provider ::
    "(string \<Rightarrow> string option) \<Rightarrow> (string \<Rightarrow> 'sk pem_load) \<Rightarrow> string \<Rightarrow> string \<Rightarrow> string \<Rightarrow> int \<Rightarrow>
     service_identity_error + 'sk service_token_provider" where
  "build_service_token_provider read load private_key_path key_id issuer ttl_seconds =
     (case read private_key_path of
        None \<Rightarrow> Inl (ServiceIdentityConfigurationError ''The service-identity private key could not be loaded.'')
      | Some private_key_pem \<Rightarrow> new_service_token_provider load private_key_pem key_id issuer ttl_seconds)"

definition get_service_token_provider ::
    "(string \<Rightarrow> string option) \<Rightarrow> (string \<Rightarrow> 'sk pem_load) \<Rightarrow> core_settings \<Rightarrow>
     service_identity_error + 'sk service_token_provider" where
  "get_service_token_provider read load c =
     build_service_token_provider read load (cst_service_identity_private_key_path c) (cst_service_identity_key_id c)
       SERVICE_IDENTITY_ISSUER (cst_service_identity_token_ttl_seconds c)"

definition incident_token_provider ::
    "(string \<Rightarrow> string option) \<Rightarrow> (string \<Rightarrow> 'sk pem_load) \<Rightarrow> incident_settings \<Rightarrow>
     service_identity_error + 'sk service_token_provider" where
  "incident_token_provider read load c =
     build_service_token_provider read load (ist_signing_private_key_path c) (ist_signing_key_id c)
       (ist_signing_issuer c) (ist_signing_token_ttl_seconds c)"

section \<open>Objects of the core backend\<close>

definition get_incident_circuit_breaker :: "core_settings \<Rightarrow> string + circuit_breaker" where
  "get_incident_circuit_breaker c = new_circuit_breaker (cst_circuit_failure_threshold c) (cst_circuit_recovery_seconds c)"

definition get_login_throttle :: "(string \<Rightarrow> string \<Rightarrow> string) \<Rightarrow> core_settings \<Rightarrow> string + login_throttle" where
  "get_login_throttle hmac c =
     new_login_throttle hmac (cst_auth_throttle_secret_key c) (cst_login_ip_max_attempts c) (cst_login_ip_window_seconds c)
       (cst_login_account_max_failures c) (cst_login_account_window_seconds c)"

definition get_password_reset_throttle :: "(string \<Rightarrow> string \<Rightarrow> string) \<Rightarrow> core_settings \<Rightarrow> string + reset_throttle" where
  "get_password_reset_throttle hmac c =
     new_reset_throttle hmac (cst_auth_throttle_secret_key c) (cst_reset_ip_max_requests c) (cst_reset_ip_window_seconds c)
       (cst_reset_account_max_requests c) (cst_reset_account_window_seconds c)"

datatype wiring_error = IdentityError service_identity_error | ConfigurationValueError string

text \<open>The HTTP gateway and its shared breaker; \<open>None\<close> is the local gateway.\<close>

definition build_incident_gateway ::
    "(string \<Rightarrow> string option) \<Rightarrow> (string \<Rightarrow> 'sk pem_load) \<Rightarrow> core_settings \<Rightarrow> gateway_world \<Rightarrow>
     (wiring_error + gateway_config \<times> circuit_breaker \<times> gateway_world) option" where
  "build_incident_gateway read load c w =
     (case cst_incident_gateway_mode c of
        MODE_LOCAL \<Rightarrow> None
      | MODE_HTTP \<Rightarrow> Some
          (case get_service_token_provider read load c of
             Inl e \<Rightarrow> Inl (IdentityError e)
           | Inr _ \<Rightarrow>
               (case get_incident_circuit_breaker c of
                  Inl e \<Rightarrow> Inl (ConfigurationValueError e)
                | Inr circuit \<Rightarrow>
                    (case new_http_incident_gateway (cst_incident_service_url c) True INCIDENT_SERVICE_AUDIENCE
                            (cst_read_max_attempts c) (cst_read_backoff_seconds c) (cst_metrics_enabled c) w of
                       Inl e \<Rightarrow> Inl (ConfigurationValueError e)
                     | Inr (cfg, w') \<Rightarrow> Inr (cfg, circuit, w')))))"

section \<open>Lemmas\<close>

lemma load_incident_settings_Some:
  assumes "load_incident_settings raw = Some c"
  shows "py_strip (ist_service_identity_key_id c) = ist_service_identity_key_id c" "ist_service_identity_key_id c \<noteq> []"
    and "ist_service_identity_previous_key_id c = Some k \<Longrightarrow> py_strip k = k \<and> k \<noteq> []"
    and "py_strip (ist_service_identity_issuer c) = ist_service_identity_issuer c"
    and "py_strip (ist_service_identity_audience c) = ist_service_identity_audience c"
  using assms
  by (auto simp: load_incident_settings_def non_empty_text_def text_simps split: if_splits)

text \<open>The verification key the files of the Incident Service publish for a key identifier.\<close>

definition published_key :: "(string \<Rightarrow> string option) \<Rightarrow> (string \<Rightarrow> 'pk pem_load) \<Rightarrow> incident_settings \<Rightarrow> string \<Rightarrow> 'pk option" where
  "published_key read load c kid =
     (let file = (if kid = ist_service_identity_key_id c then Some (ist_service_identity_public_key_file c)
                  else if ist_service_identity_previous_key_id c = Some kid then ist_service_identity_previous_public_key_file c
                  else None)
      in case Option.bind file read of None \<Rightarrow> None
       | Some pem \<Rightarrow> (case load pem of PemRsa key _ \<Rightarrow> Some key | _ \<Rightarrow> None))"

lemma read_public_key_Inr: "read_public_key read file name = Inr pem \<Longrightarrow> read file = Some pem"
  by (auto simp: read_public_key_def split: option.splits if_splits)

lemma verifier_Inr:
  assumes "new_service_token_verifier load keys iss aud skew = Inr stv"
  shows "load_public_keys load keys [] = Inr (stv_public_keys stv) \<and> stv_clock_skew stv = timedelta_seconds skew"
  using assms by (auto simp: new_service_token_verifier_def split: sum.splits if_splits)

lemma load_one_key:
  assumes "load_public_keys load ((k, pem) # rest) acc = Inr keys" and "py_strip k = k"
  obtains key bits where "load pem = PemRsa key bits" "load_public_keys load rest (AList.update k key acc) = Inr keys"
  using assms by (auto simp: require_non_empty_text_Inr require_non_empty_text_def Let_def split: sum.splits pem_load.splits if_splits)

lemma built_verifier:
  assumes "load_incident_settings raw = Some c" and "build_service_token_verifier read load c = Inr stv"
  shows "stv_expected_issuer stv = ist_service_identity_issuer c"
    and "stv_expected_audience stv = ist_service_identity_audience c"
    and "stv_clock_skew stv = timedelta_seconds (ist_service_identity_clock_skew_seconds c)"
    and "map_of (stv_public_keys stv) = published_key read load c"
proof -
  obtain keys where keys: "load_service_verification_keys read c = Inr keys"
    and new: "new_service_token_verifier load keys (ist_service_identity_issuer c) (ist_service_identity_audience c)
        (ist_service_identity_clock_skew_seconds c) = Inr stv"
    using assms(2) by (auto simp: build_service_token_verifier_def split: sum.splits)
  note texts = load_incident_settings_Some [OF assms(1)]
  show "stv_expected_issuer stv = ist_service_identity_issuer c" "stv_expected_audience stv = ist_service_identity_audience c"
    using new_service_token_verifier_Inr(4,5) [OF new] texts(4,5) by simp_all
  show "stv_clock_skew stv = timedelta_seconds (ist_service_identity_clock_skew_seconds c)" using verifier_Inr [OF new] by simp
  let ?k = "ist_service_identity_key_id c" and ?load = "load_public_keys load"
  have loaded: "?load keys [] = Inr (stv_public_keys stv)" using verifier_Inr [OF new] by simp
  obtain current where cur: "read (ist_service_identity_public_key_file c) = Some current"
    using keys read_public_key_Inr by (fastforce simp: load_service_verification_keys_def split: sum.splits)
  show "map_of (stv_public_keys stv) = published_key read load c"
  proof (cases "\<exists>k2 f2. ist_service_identity_previous_key_id c = Some k2 \<and> ist_service_identity_previous_public_key_file c = Some f2")
    case True
    then obtain k2 f2 where two: "ist_service_identity_previous_key_id c = Some k2" "ist_service_identity_previous_public_key_file c = Some f2"
      by blast
    then obtain prev where prev: "read f2 = Some prev" "k2 \<noteq> ?k" "keys = [(?k, current), (k2, prev)]"
      using keys cur read_public_key_Inr
      by (fastforce simp: load_service_verification_keys_def split: sum.splits if_splits)
    obtain a na where a: "load current = PemRsa a na" "?load [(k2, prev)] (AList.update ?k a []) = Inr (stv_public_keys stv)"
      using load_one_key [OF loaded [unfolded prev(3)] texts(1)] .
    obtain b nb where b: "load prev = PemRsa b nb" "?load [] (AList.update k2 b (AList.update ?k a [])) = Inr (stv_public_keys stv)"
      using load_one_key [OF a(2)] texts(3) [OF two(1)] by blast
    then have "stv_public_keys stv = [(?k, a), (k2, b)]" using prev(2) by simp
    then show ?thesis
      using two prev(1,2) cur a(1) b(1) by (intro ext) (auto simp: published_key_def)
  next
    case False
    then have "keys = [(?k, current)]"
      using keys cur read_public_key_Inr
      by (fastforce simp: load_service_verification_keys_def split: sum.splits option.splits)
    then obtain a na where a: "load current = PemRsa a na" "?load [] (AList.update ?k a []) = Inr (stv_public_keys stv)"
      using load_one_key [OF loaded [unfolded \<open>keys = _\<close>] texts(1)] by blast
    then have "stv_public_keys stv = [(?k, a)]" by simp
    then show ?thesis
      using False cur a(1) by (intro ext) (auto simp: published_key_def Let_def split: option.splits)
  qed
qed

lemma minted_unknown_key:
  assumes "jwt_contract lib public_of"
    and "new_service_token_provider load pem kid issuer ttl = Inr prov"
    and "create_token lib prov clock token_id audience scopes = Inr token"
    and "map_of (stv_public_keys stv) (stp_key_id prov) = None"
  shows "verify_token lib stv lib_now now token = Inl (ServiceAuthenticationError UNKNOWN_KEY)"
proof -
  obtain issued where enc: "jwt_encode lib (service_claims prov issued token_id (py_strip audience) scopes) (stp_private_key prov)
      SERVICE_TOKEN_ALGORITHM (service_header prov) = Some token"
    using assms(3) by (auto simp: create_token_def require_non_empty_text_def Let_def
        split: if_splits sum.splits option.splits clock_reading.splits)
  obtain h where h: "jwt_get_unverified_header lib token = Some h"
    and alg: "payload_get h ''alg'' = JStr SERVICE_TOKEN_ALGORITHM"
    and hdr: "\<And>k. payload_get (service_header prov) k \<noteq> JNull \<Longrightarrow> payload_get h k = payload_get (service_header prov) k"
    and vis: "\<exists>c \<in> set token. \<not> char_space c"
    by (rule jwt_contract_token [OF assms(1) enc]) (rule that)
  have "payload_get h ''typ'' = JStr SERVICE_TOKEN_TYPE" "payload_get h ''kid'' = JStr (stp_key_id prov)"
    using hdr [of "''typ''"] hdr [of "''kid''"] by (simp_all add: service_header_def payload_get_def service_token_constants)
  then show ?thesis
    using h alg vis assms(4) new_service_token_provider_Inr(2) [OF assms(2)]
    by (simp add: verify_token_def py_strip_eq_Nil)
qed

section \<open>Properties\<close>

text \<open>
  Claim C19. Key rotation is safe. When the Incident Service publishes a caller's verification key under its key
  identifier, as the current or as the previous key, every token the caller mints for it is accepted
  from its issue to its expiry, give or take the clock skew, with exactly the scopes asked for; a caller
  whose key identifier is neither is refused as unknown.
\<close>

theorem key_rotation:
  assumes "jwt_contract lib public_of"
    and "load_incident_settings raw = Some c" and "build_service_token_verifier read load_public c = Inr stv"
    and "build_service_token_provider read_caller load_private path kid issuer ttl = Inr prov"
    and "py_strip issuer = ist_service_identity_issuer c" and "py_strip audience = ist_service_identity_audience c"
    and "create_token lib prov (Aware issued) token_id audience scopes = Inr token"
    and "0 \<le> issued" and "issued < timedelta_seconds 253402300000"
  shows "case published_key read load_public c (py_strip kid) of
      Some key \<Rightarrow>
        (if key = public_of (stp_private_key prov)
         then let from = issued div us_per_second * us_per_second; until = from + timedelta_seconds ttl;
                  skew = timedelta_seconds (ist_service_identity_clock_skew_seconds c)
              in if from \<le> now + skew \<and> now < until + skew
                 then \<exists>caller. verify_token lib stv lib_now (Aware now) token = Inr caller \<and> set (sp_scopes caller) = set scopes
                 else verify_token lib stv lib_now (Aware now) token = Inl (ServiceAuthenticationError INVALID_LIFETIME)
         else True)
    | None \<Rightarrow> verify_token lib stv lib_now (Aware now) token = Inl (ServiceAuthenticationError UNKNOWN_KEY)"
proof -
  note stv = built_verifier [OF assms(2,3)]
  obtain pem where new: "new_service_token_provider load_private pem kid issuer ttl = Inr prov"
    using assms(4) by (auto simp: build_service_token_provider_def split: option.splits)
  note prov = new_service_token_provider_Inr [OF new]
  show ?thesis
  proof (cases "published_key read load_public c (py_strip kid)")
    case None
    then have "map_of (stv_public_keys stv) (stp_key_id prov) = None" by (simp add: stv(4) prov(1))
    then show ?thesis using minted_unknown_key [OF assms(1) new assms(7)] None by simp
  next
    case (Some key)
    show ?thesis
    proof (cases "key = public_of (stp_private_key prov)")
      case True
      then have "map_of (stv_public_keys stv) (stp_key_id prov) = Some (public_of (stp_private_key prov))"
        by (simp add: stv(4) prov(1) Some)
      then show ?thesis
        using minted_token_verified [OF assms(1) new assms(7), of stv lib_now now] assms(5,6,8,9) True
        by (simp add: Some stv(1-3) prov(3) Let_def)
    qed (simp add: Some)
  qed
qed

text \<open>
  Settings that pass validation build the backend's objects with the configured bounds: the circuit
  breaker always, each throttle unless its secret is empty, and in HTTP mode the gateway unless the
  signing identity is unusable or the service URL is blank. Nothing else is refused at construction.
\<close>

theorem accepted_settings_construct:
  assumes "core_settings_valid c"
  shows "(\<exists>b. get_incident_circuit_breaker c = Inr b \<and> state b = CLOSED \<and> failure_threshold b = cst_circuit_failure_threshold c) \<and>
    (if cst_auth_throttle_secret_key c = [] then isl (get_login_throttle hmac c) \<and> isl (get_password_reset_throttle hmac c)
     else (\<exists>lt rt. get_login_throttle hmac c = Inr lt \<and> lt_ip_max_attempts lt = cst_login_ip_max_attempts c \<and>
             get_password_reset_throttle hmac c = Inr rt \<and> rt_account_max_requests rt = cst_reset_account_max_requests c)) \<and>
    (case (cst_incident_gateway_mode c, get_service_token_provider read load c) of
       (MODE_LOCAL, _) \<Rightarrow> build_incident_gateway read load c w = None
     | (MODE_HTTP, Inl e) \<Rightarrow> build_incident_gateway read load c w = Some (Inl (IdentityError e))
     | (MODE_HTTP, Inr _) \<Rightarrow>
         (if \<exists>x \<in> set (py_strip (cst_incident_service_url c)). x \<noteq> CHR ''/''
          then \<exists>cfg b w'. build_incident_gateway read load c w = Some (Inr (cfg, b, w')) \<and> state b = CLOSED \<and>
            gc_read_max_attempts cfg = cst_read_max_attempts c \<and> gc_audience cfg = ''opsflow-incident-service''
          else \<exists>e. build_incident_gateway read load c w = Some (Inl (ConfigurationValueError e))))"
proof -
  have breaker: "\<exists>b. get_incident_circuit_breaker c = Inr b \<and> state b = CLOSED \<and> failure_threshold b = cst_circuit_failure_threshold c"
    using assms by (simp add: core_settings_valid_def get_incident_circuit_breaker_def new_circuit_breaker_def)
  have "py_strip ''opsflow-incident-service'' = ''opsflow-incident-service''" by code_simp
  moreover have "rev (dropWhile (\<lambda>x. x = CHR ''/'') (rev s)) = [] \<longleftrightarrow> (\<forall>x \<in> set s. x = CHR ''/'')" for s by auto
  ultimately have "case new_http_incident_gateway (cst_incident_service_url c) True INCIDENT_SERVICE_AUDIENCE
        (cst_read_max_attempts c) (cst_read_backoff_seconds c) (cst_metrics_enabled c) w of
      Inl _ \<Rightarrow> \<forall>x \<in> set (py_strip (cst_incident_service_url c)). x = CHR ''/''
    | Inr (cfg, _) \<Rightarrow> (\<exists>x \<in> set (py_strip (cst_incident_service_url c)). x \<noteq> CHR ''/'') \<and>
        gc_read_max_attempts cfg = cst_read_max_attempts c \<and> gc_audience cfg = ''opsflow-incident-service''"
    using assms by (simp add: core_settings_valid_def new_http_incident_gateway_def Let_def INCIDENT_SERVICE_AUDIENCE_def)
  then have gateway: "case (cst_incident_gateway_mode c, get_service_token_provider read load c) of
       (MODE_LOCAL, _) \<Rightarrow> build_incident_gateway read load c w = None
     | (MODE_HTTP, Inl e) \<Rightarrow> build_incident_gateway read load c w = Some (Inl (IdentityError e))
     | (MODE_HTTP, Inr _) \<Rightarrow>
         (if \<exists>x \<in> set (py_strip (cst_incident_service_url c)). x \<noteq> CHR ''/''
          then \<exists>cfg b w'. build_incident_gateway read load c w = Some (Inr (cfg, b, w')) \<and> state b = CLOSED \<and>
            gc_read_max_attempts cfg = cst_read_max_attempts c \<and> gc_audience cfg = ''opsflow-incident-service''
          else \<exists>e. build_incident_gateway read load c w = Some (Inl (ConfigurationValueError e)))"
    using breaker
    by (auto simp: build_incident_gateway_def split: gateway_mode.splits sum.splits prod.splits)
  have "if cst_auth_throttle_secret_key c = [] then isl (get_login_throttle hmac c) \<and> isl (get_password_reset_throttle hmac c)
     else (\<exists>lt rt. get_login_throttle hmac c = Inr lt \<and> lt_ip_max_attempts lt = cst_login_ip_max_attempts c \<and>
             get_password_reset_throttle hmac c = Inr rt \<and> rt_account_max_requests rt = cst_reset_account_max_requests c)"
    using assms
    by (simp add: core_settings_valid_def get_login_throttle_def get_password_reset_throttle_def new_login_throttle_def
        new_reset_throttle_def)
  with breaker gateway show ?thesis by blast
qed

section \<open>Witnesses\<close>

text \<open>The caller signs with its old key, which the Incident Service keeps as the previous one.\<close>

definition demo_rotated_settings :: incident_settings where
  "demo_rotated_settings =
     \<lparr>ist_service_catalog_timeout_seconds = 3, ist_service_identity_issuer = ''core-backend'',
      ist_service_identity_audience = ''incident-service'', ist_service_identity_key_id = ''k2'',
      ist_service_identity_public_key_file = ''new.pem'', ist_service_identity_previous_key_id = Some ''k1'',
      ist_service_identity_previous_public_key_file = Some ''old.pem'', ist_service_identity_clock_skew_seconds = 5,
      ist_signing_private_key_path = ''p'', ist_signing_key_id = ''i1'', ist_signing_issuer = ''i'',
      ist_signing_token_ttl_seconds = 60, ist_core_backend_audience = ''c''\<rparr>"

definition demo_rotated_verifier :: "unit service_token_verifier" where
  "demo_rotated_verifier = \<lparr>stv_expected_issuer = ''core-backend'', stv_expected_audience = ''incident-service'',
     stv_public_keys = [(''k2'', ()), (''k1'', ())], stv_clock_skew = timedelta_seconds 5\<rparr>"

lemma demo_rotation:
  "load_incident_settings demo_rotated_settings = Some demo_rotated_settings"
  "build_service_token_verifier (\<lambda>_. Some ''pem'') demo_load demo_rotated_settings = Inr demo_rotated_verifier"
  "build_service_token_provider (\<lambda>_. Some ''pem'') demo_load ''p'' ''k1'' ''core-backend'' 60 = Inr demo_provider"
proof -
  have strip: "py_strip ''k2'' = ''k2''" "py_strip ''i1'' = ''i1''" "py_strip ''i'' = ''i''" "py_strip ''c'' = ''c''"
    "py_strip ''pem'' = ''pem''" by code_simp+
  show "load_incident_settings demo_rotated_settings = Some demo_rotated_settings"
    by (simp add: load_incident_settings_def demo_rotated_settings_def non_empty_text_def strip)
  show "build_service_token_verifier (\<lambda>_. Some ''pem'') demo_load demo_rotated_settings = Inr demo_rotated_verifier"
    by (simp add: build_service_token_verifier_def load_service_verification_keys_def read_public_key_def demo_rotated_settings_def
        strip new_service_token_verifier_def require_non_empty_text_def service_token_constants demo_load_def
        demo_rotated_verifier_def)
  show "build_service_token_provider (\<lambda>_. Some ''pem'') demo_load ''p'' ''k1'' ''core-backend'' 60 = Inr demo_provider"
    by (simp add: build_service_token_provider_def) (simp add: demo_new_provider new_service_token_provider_def
        require_non_empty_text_def service_token_constants demo_service_defs)
qed

theorem key_rotation_witness:
  "\<exists>caller. verify_token demo_token_lib demo_rotated_verifier 0 (Aware 1010000000) ''t'' = Inr caller \<and>
     set (sp_scopes caller) = {INCIDENTS_READ}"
proof -
  have "published_key (\<lambda>_. Some ''pem'') demo_load demo_rotated_settings ''k1'' = Some ()"
    by (simp add: published_key_def demo_rotated_settings_def demo_load_def)
  then show ?thesis
    using key_rotation [OF demo_contract demo_rotation _ _ demo_create_token, of 0 1010000000]
    by (simp add: demo_rotated_settings_def timedelta_seconds_def us_per_second_def Let_def)
qed

definition demo_core_settings :: core_settings where
  "demo_core_settings =
     \<lparr>cst_service_identity_private_key_path = ''p'', cst_service_identity_key_id = ''core-backend-key-1'',
      cst_service_identity_token_ttl_seconds = 60, cst_incident_service_identity_key_id = ''incident-service-key-1'',
      cst_incident_service_identity_public_key_path = ''q'', cst_incident_service_identity_clock_skew_seconds = 5,
      cst_incident_gateway_mode = MODE_HTTP, cst_incident_service_url = ''http://incident-service:8000/api/v1'',
      cst_incident_service_timeout_seconds = 3, cst_circuit_failure_threshold = 3, cst_circuit_recovery_seconds = 15,
      cst_read_max_attempts = 2, cst_read_backoff_seconds = 1 / 10, cst_metrics_enabled = True,
      cst_access_token_expire_minutes = 15, cst_refresh_token_expire_days = 7, cst_reauth_token_expire_minutes = 5,
      cst_auth_throttle_secret_key = ''s'', cst_login_ip_max_attempts = 20, cst_login_ip_window_seconds = 60,
      cst_login_account_max_failures = 8, cst_login_account_window_seconds = 900, cst_reset_ip_max_requests = 10,
      cst_reset_ip_window_seconds = 900, cst_reset_account_max_requests = 3, cst_reset_account_window_seconds = 3600,
      cst_password_reset_url = ''http://localhost:5173/reset-password'', cst_aws_region = ''us-east-1'', cst_task_queue_url = None,
      cst_ses_from_email = ''no-reply@example.com'', cst_security_event_hmac_key = ''k'', cst_auth_session_retention_days = 30\<rparr>"

theorem accepted_settings_construct_witness:
  "(\<exists>b. get_incident_circuit_breaker demo_core_settings = Inr b \<and> state b = CLOSED) \<and>
   \<not> isl (get_login_throttle (\<lambda>k m. m) demo_core_settings)"
proof -
  have "core_settings_valid demo_core_settings" by (simp add: core_settings_valid_def demo_core_settings_def between_def)
  moreover have "cst_auth_throttle_secret_key demo_core_settings \<noteq> []" by (simp add: demo_core_settings_def)
  ultimately show ?thesis
    using accepted_settings_construct [of demo_core_settings "\<lambda>k m. m" "\<lambda>_. None" demo_load undefined] by auto
qed

end
