(* ===== verification/Reset_Delivery.thy ===== *)
theory Reset_Delivery
  imports Auth_Guarantees Security_Events Py_Url Py_Datetime
begin

text \<open>
  Delivery of recovery credentials: \<open>core/password_reset_links.py\<close>, \<open>services/password_reset_delivery.py\<close>,
  \<open>password_reset_delivery_coordinator.py\<close> and \<open>infrastructure/aws/ses_password_reset_delivery.py\<close> of
  \<open>src/backend/app\<close>. SES is the list of the mails submitted to it; \<open>ses_fails\<close> tells whether it
  raises. The outer option of \<open>build_reset_link\<close> and \<open>deliver_reset\<close> is \<open>None\<close> only for a configured
  query whose decoded text leaves the model's characters.
\<close>

section \<open>Links\<close>

datatype link_error = LinkConfigurationError string | LinkValueError string

definition validate_reset_url :: "string \<Rightarrow> link_error + string" where
  "validate_reset_url reset_url =
     (let normalized = py_strip reset_url
      in if normalized = [] then Inl (LinkConfigurationError ''Password reset URL must not be empty.'')
         else case urlsplit normalized of
           None \<Rightarrow> Inl (LinkValueError ''Invalid IPv6 URL'')
         | Some parsed \<Rightarrow>
             if spr_scheme parsed \<notin> {''http'', ''https''}
             then Inl (LinkConfigurationError ''Password reset URL must use HTTP or HTTPS.'')
             else if spr_netloc parsed = [] then Inl (LinkConfigurationError ''Password reset URL must be absolute.'')
             else if CHR ''@'' \<in> set (spr_netloc parsed)
             then Inl (LinkConfigurationError ''Password reset URL must not contain user information.'')
             else Inr normalized)"

definition dict_of :: "(string \<times> string) list \<Rightarrow> (string \<times> string) list" where
  "dict_of pairs = fold (\<lambda>(k, v) d. dict_put k v d) pairs []"

definition build_reset_link :: "string \<Rightarrow> string \<Rightarrow> (link_error + string) option" where
  "build_reset_link reset_url raw_token =
     (if raw_token = [] then Some (Inl (LinkValueError ''raw_token must not be empty.''))
      else case urlsplit reset_url of
        None \<Rightarrow> Some (Inl (LinkValueError ''Invalid IPv6 URL''))
      | Some parsed \<Rightarrow>
          (case parse_qsl (spr_query parsed) of
             None \<Rightarrow> None
           | Some pairs \<Rightarrow>
               let existing_query = dict_put ''token'' raw_token (dict_of pairs)
               in Some (Inr (urlunsplit (parsed\<lparr>spr_query := urlencode existing_query\<rparr>)))))"

section \<open>Mail\<close>

record reset_message =
  rmg_recipient_email :: string
  rmg_reset_url :: string
  rmg_expires_at :: instant

record ses_email =
  sesm_from :: string
  sesm_to :: "string list"
  sesm_subject :: string
  sesm_text :: string
  sesm_html :: string
  sesm_configuration_set :: "string option"

record ses_delivery =
  sesd_sender_email :: string
  sesd_configuration_set_name :: "string option"

definition new_ses_delivery :: "string \<Rightarrow> string option \<Rightarrow> string + ses_delivery" where
  "new_ses_delivery sender_email configuration_set_name =
     (let normalized_sender = py_strip sender_email
      in if normalized_sender = [] then Inl ''sender_email must not be empty.''
         else Inr \<lparr>sesd_sender_email = normalized_sender,
                sesd_configuration_set_name =
                  (case configuration_set_name of
                     None \<Rightarrow> None
                   | Some name \<Rightarrow> if py_strip name = [] then None else Some (py_strip name))\<rparr>)"

definition format_expiration :: "instant \<Rightarrow> string" where
  "format_expiration expires_at =
     (let seconds = expires_at div us_per_second; (y, m, d) = civil_of_days (seconds div 86400); s = seconds mod 86400
      in decimal_padded 4 y @ ''-'' @ decimal_padded 2 m @ ''-'' @ decimal_padded 2 d @ '' '' @
         decimal_padded 2 (s div 3600) @ '':'' @ decimal_padded 2 (s div 60 mod 60) @ '' UTC'')"

definition newline :: string where "newline = [CHR 0x0A]"
definition quotation :: string where "quotation = [CHR 0x22]"

definition build_text_body :: "string \<Rightarrow> instant \<Rightarrow> string" where
  "build_text_body reset_url expires_at =
     ''A password reset was requested for your OpsFlow account.'' @ newline @ newline @
     ''Use the following link to choose a new password:'' @ newline @ newline @
     reset_url @ newline @ newline @
     ''This link expires at '' @ format_expiration expires_at @ ''.'' @ newline @ newline @
     ''If you did not request a password reset, you can ignore this message.''"

fun escape_char :: "char \<Rightarrow> string" where
  "escape_char c =
     (if c = CHR ''&'' then ''&amp;'' else if c = CHR ''<'' then ''&lt;'' else if c = CHR ''>'' then ''&gt;''
      else if c = CHR 0x22 then ''&quot;'' else if c = CHR 0x27 then ''&#x27;'' else [c])"

definition html_escape :: "string \<Rightarrow> string" where
  "html_escape s = concat (map escape_char s)"

definition build_html_body :: "string \<Rightarrow> instant \<Rightarrow> string" where
  "build_html_body reset_url expires_at =
     ''<!doctype html><html><body><p>A password reset was requested for your OpsFlow account.</p><p>'' @
     ''<a href='' @ quotation @ html_escape reset_url @ quotation @ ''>Reset your password</a></p><p>'' @
     ''This link expires at '' @ html_escape (format_expiration expires_at) @
     ''.</p><p>If you did not request a password reset, you can ignore this message.</p></body></html>''"

definition send_password_reset ::
    "ses_delivery \<Rightarrow> bool \<Rightarrow> reset_message \<Rightarrow> ses_email list \<Rightarrow> (string + unit) \<times> ses_email list" where
  "send_password_reset cfg ses_fails message sent =
     (let recipient_email = py_strip (rmg_recipient_email message)
      in if recipient_email = [] then (Inl ''Password reset recipient is invalid.'', sent)
         else (if ses_fails then Inl ''Password reset email delivery failed.'' else Inr (),
               sent @ [\<lparr>sesm_from = sesd_sender_email cfg, sesm_to = [recipient_email],
                  sesm_subject = ''Reset your OpsFlow password'',
                  sesm_text = build_text_body (rmg_reset_url message) (rmg_expires_at message),
                  sesm_html = build_html_body (rmg_reset_url message) (rmg_expires_at message),
                  sesm_configuration_set = sesd_configuration_set_name cfg\<rparr>]))"

datatype delivery_failure = LinkFailure link_error | PasswordResetDeliveryError string

definition deliver_reset ::
    "string \<Rightarrow> ses_delivery \<Rightarrow> bool \<Rightarrow> password_reset_issue_result \<Rightarrow> ses_email list \<Rightarrow>
     ((delivery_failure + unit) \<times> ses_email list) option" where
  "deliver_reset reset_url cfg ses_fails issuance sent =
     (case build_reset_link reset_url (pri_raw_token issuance) of
        None \<Rightarrow> None
      | Some (Inl e) \<Rightarrow> Some (Inl (LinkFailure e), sent)
      | Some (Inr link) \<Rightarrow>
          (case send_password_reset cfg ses_fails
                  \<lparr>rmg_recipient_email = pri_email issuance, rmg_reset_url = link, rmg_expires_at = pri_expires_at issuance\<rparr> sent of
             (Inl e, sent') \<Rightarrow> Some (Inl (PasswordResetDeliveryError e), sent')
           | (Inr _, sent') \<Rightarrow> Some (Inr (), sent')))"

text \<open>What the page behind the link reads: the \<open>token\<close> parameter of its query.\<close>

definition link_token :: "string \<Rightarrow> string option" where
  "link_token link =
     Option.bind (urlsplit link) (\<lambda>p. Option.bind (parse_qsl (spr_query p)) (\<lambda>pairs. map_of pairs ''token''))"

section \<open>Lemmas\<close>

lemma map_of_dict_put: "map_of (dict_put k v m) = (map_of m)(k \<mapsto> v)"
  by (induction k v m rule: dict_put.induct) auto

lemma dict_put_nonempty: "dict_put k v m \<noteq> []"
  by (induction k v m rule: dict_put.induct) auto

lemma map_of_dict_of: "map_of (dict_of pairs) = map_of (rev pairs)"
proof -
  have "map_of (fold (\<lambda>(k, v) d. dict_put k v d) pairs d) = map_of d ++ map_of (rev pairs)" for d
    by (induction pairs arbitrary: d) (auto simp: map_of_dict_put map_add_def fun_eq_iff split: option.splits)
  from this [of "[]"] show ?thesis by (simp add: dict_of_def)
qed

lemma validated_url:
  assumes "validate_reset_url url = Inr u"
  obtains p where "urlsplit u = Some p" "spr_scheme p \<in> {''http'', ''https''}" "spr_netloc p \<noteq> []" "CHR ''@'' \<notin> set (spr_netloc p)"
    "absolute_parts p"
proof -
  obtain p where p: "urlsplit u = Some p" "spr_scheme p \<in> {''http'', ''https''}" "spr_netloc p \<noteq> []" "CHR ''@'' \<notin> set (spr_netloc p)"
    using assms by (auto simp: validate_reset_url_def Let_def split: if_splits option.splits)
  moreover have "absolute_parts p" using p by (intro urlsplit_parts) auto
  ultimately show thesis by (rule that)
qed

lemma urlencode_nonempty: "m \<noteq> [] \<Longrightarrow> urlencode m \<noteq> []"
  using parse_urlencode [of m] by (auto simp: parse_qsl_def)

lemma absolute_parts_query:
  assumes "absolute_parts p"
  shows "absolute_parts (p\<lparr>spr_query := urlencode m\<rparr>)"
proof -
  have "\<forall>c \<in> set ''=&''. \<not> unsafe_url_char c \<and> c \<noteq> CHR ''#''" by code_simp
  then have "\<forall>c \<in> set (urlencode m). \<not> unsafe_url_char c \<and> c \<noteq> CHR ''#''"
    using urlencode_chars quoted_not_unsafe not_quoted(3) by fastforce
  with assms show ?thesis by (auto simp: absolute_parts_def)
qed

text \<open>The link keeps the configured URL and its other parameters, and its token is the credential.\<close>

lemma built_link:
  assumes "validate_reset_url url = Inr u" and "urlsplit u = Some p" and "parse_qsl (spr_query p) = Some pairs"
    and "raw_token \<noteq> []"
  obtains link q where "build_reset_link u raw_token = Some (Inr link)" and "urlsplit link = Some (p\<lparr>spr_query := q\<rparr>)"
    and "parse_qsl q = Some (dict_put ''token'' raw_token (dict_of pairs))" and "link_token link = Some raw_token"
proof -
  let ?query = "dict_put ''token'' raw_token (dict_of pairs)"
  obtain p' where "urlsplit u = Some p'" "absolute_parts p'" using validated_url [OF assms(1)] by blast
  with assms(2) have "absolute_parts p" by simp
  then have "absolute_parts (p\<lparr>spr_query := urlencode ?query\<rparr>)" by (rule absolute_parts_query)
  then have split: "urlsplit (urlunsplit (p\<lparr>spr_query := urlencode ?query\<rparr>)) = Some (p\<lparr>spr_query := urlencode ?query\<rparr>)"
    by (rule urlsplit_urlunsplit) (simp add: urlencode_nonempty dict_put_nonempty)
  show thesis
  proof (rule that [of "urlunsplit (p\<lparr>spr_query := urlencode ?query\<rparr>)" "urlencode ?query"])
    show "build_reset_link u raw_token = Some (Inr (urlunsplit (p\<lparr>spr_query := urlencode ?query\<rparr>)))"
      using assms(2-4) by (simp add: build_reset_link_def Let_def)
    show "link_token (urlunsplit (p\<lparr>spr_query := urlencode ?query\<rparr>)) = Some raw_token"
      by (simp add: link_token_def split parse_urlencode map_of_dict_put)
  qed (simp_all add: split parse_urlencode)
qed

lemma html_escape_safe: "set (html_escape s) \<inter> {CHR ''<'', CHR ''>'', CHR 0x22, CHR 0x27} = {}"
  by (auto simp: html_escape_def split: if_splits)

section \<open>From the mail to the new password\<close>

text \<open>The row behind an issued credential.\<close>

lemma issued_row:
  assumes "request_reset sec d ttl email db = (Inr (Some i), db')" and "auth_db_inv db"
    and "get_auth_record_by_email (py_identifier email) db = Some r"
  obtains t where "reset_token_get_by_digest_for_update (digest_token sec (pd_raw_token d)) db' = Some t"
    and "prt_user_id t = user_key r" and "require_usable_token t now = (if pd_now d + ttl \<le> now
      then Some (InvalidPasswordResetCredentialError ''Password reset credential has expired.'') else None)"
    and "prt_credential_fingerprint t = create_reauthentication_fingerprint sec (uar_hashed_password r)"
    and "db_users db' = db_users db" and "unique_key prt_id (db_reset_tokens db')"
    and "lookup_by prt_id (prt_id t) (db_reset_tokens db') = Some t"
    and "prt_used_at t = None" and "prt_invalidated_at t = None"
proof -
  let ?db1 = "snd (reset_token_invalidate_active_for_user (user_key r) (pd_now d) None db)"
  let ?t = "\<lparr>prt_id = pd_token_id d, prt_user_id = user_key r, prt_token_digest = digest_token sec (pd_raw_token d),
    prt_credential_fingerprint = create_reauthentication_fingerprint sec (uar_hashed_password r),
    prt_created_at = pd_now d, prt_expires_at = pd_now d + ttl, prt_used_at = None, prt_invalidated_at = None\<rparr>"
  have made: "fst (reset_token_create ?t ?db1) = Inr ?t" "db' = snd (reset_token_create ?t ?db1)"
    using assms(1,3) by (auto simp: request_reset_def Let_def split_beta py_identifier_def reset_token_create_def
        split: if_splits sum.splits)
  then have new: "db' = ?db1\<lparr>db_reset_tokens := db_reset_tokens ?db1 @ [?t]\<rparr>"
    and fresh: "lookup_by prt_id (pd_token_id d) (db_reset_tokens ?db1) = None"
      "lookup_by prt_token_digest (digest_token sec (pd_raw_token d)) (db_reset_tokens ?db1) = None"
    by (auto simp: reset_token_create_def split: if_splits)
  have "unique_key prt_id (db_reset_tokens ?db1)"
    using assms(2) by (auto simp: reset_token_invalidate_active_for_user_def Let_def auth_db_inv_def)
  with new fresh have "unique_key prt_id (db_reset_tokens db')" by (simp add: unique_key_snoc)
  moreover have "db_users db' = db_users db"
    by (simp add: new reset_token_invalidate_active_for_user_def Let_def)
  ultimately show thesis
    using that [of ?t] fresh
    by (simp add: new reset_token_get_by_digest_for_update_def require_usable_token_def lookup_by_append lookup_by_Cons)
qed

lemma consume_issued:
  assumes "auth_db_inv db" and "lookup_by user_key (usr_id u) (db_users db) = Some r"
    and "unique_key prt_id (db_reset_tokens db)" and "lookup_by prt_id (prt_id t) (db_reset_tokens db) = Some t"
    and "prt_used_at t = None" and "prt_invalidated_at t = None"
  obtains c db' where "consume_reset sec d t u (uar_hashed_password r) pw db = (Inr c, db')" and "prc_user_id c = usr_id u"
    and "map_option uar_hashed_password (lookup_by user_key (usr_id u) (db_users db')) = Some (hash_password sec (pd_salt d) pw)"
proof -
  obtain a db1 where 1: "update_password_hash_if_current (pd_update_now d) (usr_id u) (uar_hashed_password r)
      (hash_password sec (pd_salt d) pw) db = (a, db1)" by fastforce
  obtain b db2 where 2: "reset_token_mark_used (prt_id t) (pd_now d) db1 = (b, db2)" by fastforce
  obtain m db3 where 3: "reset_token_invalidate_active_for_user (usr_id u) (pd_now d) (Some (prt_id t)) db2 =
      (m, db3)" by fastforce
  obtain n db4 where 4: "session_revoke_all_for_user (usr_id u) (pd_now d) ''password_reset'' db3 = (n, db4)"
    by fastforce
  have users: "unique_key user_key (db_users db)" using assms(1) by (simp add: auth_db_inv_def)
  have a: "a" using 1 assms(2)
    by (auto simp: update_password_hash_if_current_def Let_def count_where_unique [OF users])
  have tokens: "db_reset_tokens db1 = db_reset_tokens db"
    using 1 by (auto simp: update_password_hash_if_current_def Let_def)
  have b: "b" using 2 assms(4-6)
    by (auto simp: reset_token_mark_used_def Let_def tokens count_where_unique [OF assms(3)])
  have "db_users db4 = db_users db1"
    using 2 3 4 by (auto simp: auth_store_defs Let_def)
  moreover have "map_option uar_hashed_password (lookup_by user_key (usr_id u) (db_users db1)) =
      Some (hash_password sec (pd_salt d) pw)"
    using 1 a by (auto elim: update_password_effect [OF users])
  ultimately have "map_option uar_hashed_password (lookup_by user_key (usr_id u) (db_users db4)) =
      Some (hash_password sec (pd_salt d) pw)" by simp
  with a b show thesis
    using that [of "\<lparr>prc_user_id = usr_id u, prc_revoked_sessions = n\<rparr>" db4]
    by (simp add: consume_reset_def Let_def 1 2 3 4)
qed

text \<open>
  Claim C18. A forgotten password can be replaced through the mail. Asking for a reset of an active
  account, with a validated reset URL and a mail service that accepts the mail, submits exactly one mail, to the
  address of the account alone; the link in its text keeps the configured URL but for the query and carries the raw
  credential, which a page reads back as the \<open>token\<close> parameter. Confirming with what that page reads, before the
  credential expires and with an acceptable password that differs from the current one, succeeds and leaves the
  hash of the new password as the account's.
\<close>

theorem reset_by_mail:
  assumes "auth_db_inv db" and "get_auth_record_by_email (py_identifier email) db = Some r"
    and "usr_is_active (uar_user r)" and "py_strip (user_email_key r) \<noteq> []"
    and "lookup_by prt_id (pd_token_id d) (db_reset_tokens db) = None"
    and "lookup_by prt_token_digest (digest_token sec (pd_raw_token d)) (db_reset_tokens db) = None"
    and "pd_raw_token d \<noteq> []"
    and "validate_reset_url url = Inr u" and "urlsplit u = Some p" and "parse_qsl (spr_query p) = Some pairs"
    and "pd_now d' < pd_now d + ttl" and "validate_new_password pw = None"
    and "\<not> verify_password sec pw (uar_hashed_password r)"
  shows "\<exists>i db1 mail link q c db2.
    request_reset sec d ttl email db = (Inr (Some i), db1) \<and>
    deliver_reset u cfg False i sent = Some (Inr (), sent @ [mail]) \<and>
    sesm_to mail = [py_strip (user_email_key r)] \<and> sesm_text mail = build_text_body link (pd_now d + ttl) \<and>
    urlsplit link = Some (p\<lparr>spr_query := q\<rparr>) \<and>
    parse_qsl q = Some (dict_put ''token'' (pd_raw_token d) (dict_of pairs)) \<and>
    confirm_reset sec d' (the (link_token link)) pw db1 = (Inr c, db2) \<and> prc_user_id c = user_key r \<and>
    map_option uar_hashed_password (lookup_by user_key (user_key r) (db_users db2)) = Some (hash_password sec (pd_salt d') pw)"
proof -
  obtain db1 where req: "request_reset sec d ttl email db =
      (Inr (Some \<lparr>pri_user_id = user_key r, pri_email = user_email_key r, pri_raw_token = pd_raw_token d,
         pri_expires_at = pd_now d + ttl\<rparr>), db1)"
    by (rule request_reset_issues [OF assms(2,3,5,6)])
  obtain link q where link: "build_reset_link u (pd_raw_token d) = Some (Inr link)"
      "urlsplit link = Some (p\<lparr>spr_query := q\<rparr>)"
      "parse_qsl q = Some (dict_put ''token'' (pd_raw_token d) (dict_of pairs))" "link_token link = Some (pd_raw_token d)"
    by (rule built_link [OF assms(8-10,7)])
  obtain t where t: "reset_token_get_by_digest_for_update (digest_token sec (pd_raw_token d)) db1 = Some t"
      "prt_user_id t = user_key r" "require_usable_token t (pd_now d') = None"
      "prt_credential_fingerprint t = create_reauthentication_fingerprint sec (uar_hashed_password r)"
      "db_users db1 = db_users db" "unique_key prt_id (db_reset_tokens db1)"
      "lookup_by prt_id (prt_id t) (db_reset_tokens db1) = Some t" "prt_used_at t = None" "prt_invalidated_at t = None"
    using issued_row [OF req assms(1,2), of "pd_now d'"] assms(11) by auto
  have inv: "auth_db_inv db1" using wellformed.keep_request_reset [OF assms(1), of sec d ttl email] req by simp
  have row: "r \<in> set (db_users db)" "user_email_key r = py_identifier email"
    using assms(2) by (auto simp: get_auth_record_by_email_def dest: lookup_by_SomeD)
  then have by_id: "lookup_by user_key (user_key r) (db_users db1) = Some r"
    using assms(1) t(5) lookup_by_unique [of user_key "db_users db" r "user_key r"] by (simp add: auth_db_inv_def)
  have by_email: "get_auth_record_by_email (py_identifier (user_email_key r)) db1 = Some r"
    using row assms(1,2) t(5) by (simp add: auth_db_inv_def get_auth_record_by_email_def)
  obtain c db2 where con: "consume_reset sec d' t (uar_user r) (uar_hashed_password r) pw db1 = (Inr c, db2)"
      "prc_user_id c = user_key r"
      "map_option uar_hashed_password (lookup_by user_key (user_key r) (db_users db2)) = Some (hash_password sec (pd_salt d') pw)"
    by (rule consume_issued [OF inv by_id t(6-9)])
  have "confirm_reset sec d' (the (link_token link)) pw db1 = (Inr c, db2)"
    using t(1-4) con(1) by_id by_email assms(3,12,13)
    by (simp add: confirm_reset_def link(4) user_get_by_id_def py_identifier_def)
  moreover define mail where "mail = \<lparr>sesm_from = sesd_sender_email cfg, sesm_to = [py_strip (user_email_key r)],
    sesm_subject = ''Reset your OpsFlow password'', sesm_text = build_text_body link (pd_now d + ttl),
    sesm_html = build_html_body link (pd_now d + ttl), sesm_configuration_set = sesd_configuration_set_name cfg\<rparr>"
  moreover have "deliver_reset u cfg False \<lparr>pri_user_id = user_key r, pri_email = user_email_key r,
      pri_raw_token = pd_raw_token d, pri_expires_at = pd_now d + ttl\<rparr> sent = Some (Inr (), sent @ [mail])"
    using link(1) assms(4) by (simp add: deliver_reset_def send_password_reset_def Let_def mail_def)
  moreover have "sesm_to mail = [py_strip (user_email_key r)]" "sesm_text mail = build_text_body link (pd_now d + ttl)"
    by (simp_all add: mail_def)
  ultimately show ?thesis using req link(2,3) con(2,3) by blast
qed

definition demo_parts :: split_result where
  "demo_parts = \<lparr>spr_scheme = ''https'', spr_netloc = ''ops.example'', spr_path = ''/reset'', spr_query = ''lang=en'',
     spr_fragment = []\<rparr>"

theorem reset_by_mail_witness:
  "\<exists>i db1 mail link q c db2.
    request_reset demo_sec demo_reset_draws 900 '' A@b.c'' (app_db demo_app1) = (Inr (Some i), db1) \<and>
    deliver_reset ''https://ops.example/reset?lang=en'' \<lparr>sesd_sender_email = ''ops@b.c'', sesd_configuration_set_name = None\<rparr>
      False i [] = Some (Inr (), [] @ [mail]) \<and>
    sesm_to mail = [''a@b.c''] \<and> sesm_text mail = build_text_body link (2000000 + 900) \<and>
    urlsplit link = Some (demo_parts\<lparr>spr_query := q\<rparr>) \<and> parse_qsl q = Some [(''lang'', ''en''), (''token'', ''raw'')] \<and>
    confirm_reset demo_sec demo_reset_draws (the (link_token link)) ''another battery'' db1 = (Inr c, db2) \<and>
    prc_user_id c = 7 \<and> map_option uar_hashed_password (lookup_by user_key 7 (db_users db2)) = Some ''another battery''"
proof -
  have url: "validate_reset_url '' https://ops.example/reset?lang=en '' = Inr ''https://ops.example/reset?lang=en''"
    and parts: "urlsplit ''https://ops.example/reset?lang=en'' = Some demo_parts"
    and pairs: "parse_qsl (spr_query demo_parts) = Some [(''lang'', ''en'')]"
    and merged: "dict_put ''token'' ''raw'' (dict_of [(''lang'', ''en'')]) = [(''lang'', ''en''), (''token'', ''raw'')]"
    by code_simp+
  have user: "get_auth_record_by_email (py_identifier '' A@b.c'') (app_db demo_app1) = Some (hd demo_users)"
    and fresh: "lookup_by prt_id (pd_token_id demo_reset_draws) (db_reset_tokens (app_db demo_app1)) = None"
      "lookup_by prt_token_digest (digest_token demo_sec (pd_raw_token demo_reset_draws))
         (db_reset_tokens (app_db demo_app1)) = None"
    and active: "usr_is_active (uar_user (hd demo_users))" and to: "py_strip (user_email_key (hd demo_users)) = ''a@b.c''"
    and draws: "pd_now demo_reset_draws = 2000000" "pd_raw_token demo_reset_draws = ''raw''" "user_key (hd demo_users) = 7"
    and pw: "validate_new_password ''another battery'' = None" "hash_password demo_sec (pd_salt demo_reset_draws) ''another battery'' = ''another battery''"
      "\<not> verify_password demo_sec ''another battery'' (uar_hashed_password (hd demo_users))"
    by code_simp+
  show ?thesis
    using reset_by_mail [OF demo_app1_inv user active _ fresh _ url parts pairs _ pw(1,3), of demo_reset_draws 900
        "\<lparr>sesd_sender_email = ''ops@b.c'', sesd_configuration_set_name = None\<rparr>" "[]"]
    by (simp only: to draws pw(2) merged) simp
qed

end
