(* ===== verification/Operator_Scripts.thy ===== *)
theory Operator_Scripts
  imports Auth_Guarantees
begin

text \<open>
  The account scripts an operator runs at a terminal: \<open>scripts/create_user.py\<close> and \<open>scripts/recover_admin.py\<close>
  under \<open>src/backend/app\<close>. The answers typed at the prompts are arguments; what a script ends with is the
  message it prints before returning, the account it reports, or the database error it lets through.
\<close>

section \<open>The scripts\<close>

datatype script_end = Refused string | AccountCreated user | AccountRecovered user | ScriptRaised db_error

definition user_role_of :: "string \<Rightarrow> user_role option" where
  "user_role_of v = find (\<lambda>r. user_role_value r = v) [VIEWER, OPERATOR, ADMIN]"

record account_answers =
  ans_email :: string
  ans_full_name :: string
  ans_role :: string
  ans_password :: string
  ans_confirm_password :: string

record account_draws =
  acd_created :: "instant \<times> instant"
  acd_fresh_id :: uuid
  acd_salt :: nat
  acd_now :: instant

definition create_user_main ::
    "security \<Rightarrow> account_draws \<Rightarrow> account_answers \<Rightarrow> auth_db \<Rightarrow> script_end \<times> auth_db" where
  "create_user_main sec d a db =
     (let email = py_strip (ans_email a); full_name = py_strip (ans_full_name a);
          typed_role = py_lower (py_strip (ans_role a));
          role_input = (if typed_role = [] then ''viewer'' else typed_role)
      in case user_role_of role_input of
           None \<Rightarrow> (Refused (''Invalid role: '' @ role_input), db)
         | Some role \<Rightarrow>
             if ans_password a \<noteq> ans_confirm_password a then (Refused ''Passwords do not match.'', db)
             else (case validate_new_password (ans_password a) of
                     Some violation \<Rightarrow> (Refused violation, db)
                   | None \<Rightarrow>
                       (case create_user sec (acd_created d) (acd_fresh_id d) (acd_salt d) email full_name (ans_password a) role db of
                          (Inr u, db') \<Rightarrow> (AccountCreated u, db')
                        | (Inl (UserAlreadyExistsError _), _) \<Rightarrow> (Refused ''A user with that email already exists.'', db)
                        | (Inl (CreateUserDatabaseError e), _) \<Rightarrow> (ScriptRaised e, db))))"

definition DEFAULT_ADMIN_EMAIL :: string where
  "DEFAULT_ADMIN_EMAIL = ''admin@example.com''"

text \<open>\<open>recover_account\<close> is the row the script writes on the account it found.\<close>

definition recover_account :: "string \<Rightarrow> instant \<Rightarrow> user_auth_record \<Rightarrow> user_auth_record" where
  "recover_account hashed_password now r =
     r\<lparr>uar_hashed_password := hashed_password,
       uar_user := (uar_user r)\<lparr>usr_role := ADMIN, usr_is_active := True, usr_updated_at := now\<rparr>\<rparr>"

definition recover_admin_main ::
    "security \<Rightarrow> account_draws \<Rightarrow> string \<Rightarrow> string \<Rightarrow> string \<Rightarrow> auth_db \<Rightarrow> script_end \<times> auth_db" where
  "recover_admin_main sec d typed_email password confirm_password db =
     (let email_input = py_strip typed_email;
          email = py_lower (if email_input = [] then DEFAULT_ADMIN_EMAIL else email_input)
      in if password \<noteq> confirm_password then (Refused ''Passwords do not match.'', db)
         else (case validate_new_password password of
                 Some violation \<Rightarrow> (Refused violation, db)
               | None \<Rightarrow>
                   (case get_auth_record_by_email email db of
                      None \<Rightarrow>
                        (case create_user sec (acd_created d) (acd_fresh_id d) (acd_salt d) email ''OpsFlow Administrator''
                                password ADMIN db of
                           (Inr u, db') \<Rightarrow> (AccountCreated u, db')
                         | (Inl (UserAlreadyExistsError _), _) \<Rightarrow> (Refused ''A user with that email already exists.'', db)
                         | (Inl (CreateUserDatabaseError e), _) \<Rightarrow> (ScriptRaised e, db))
                    | Some model \<Rightarrow>
                        let recovered = recover_account (hash_password sec (acd_salt d) password) (acd_now d)
                        in (AccountRecovered (uar_user (recovered model)),
                            db\<lparr>db_users := update_where (\<lambda>r. user_key r = user_key model) recovered (db_users db)\<rparr>))))"

section \<open>Lemmas\<close>

lemma recover_account_keys [simp]:
  "user_key (recover_account h now r) = user_key r" "user_email_key (recover_account h now r) = user_email_key r"
  "uar_hashed_password (recover_account h now r) = h" "usr_role (uar_user (recover_account h now r)) = ADMIN"
  "usr_is_active (uar_user (recover_account h now r))"
  by (simp_all add: recover_account_def)

lemma user_get_None: "user_get_by_email email db = None \<longleftrightarrow> get_auth_record_by_email email db = None"
  by (simp add: user_get_by_email_def get_auth_record_by_email_def)

text \<open>What creating an account leaves behind.\<close>

lemma create_user_row:
  assumes "create_user sec now i salt email name pw role db = (Inr u, db')"
  shows "db' = db\<lparr>db_users := db_users db @ [\<lparr>uar_user = u, uar_hashed_password = hash_password sec salt pw\<rparr>]\<rparr>"
    and "usr_email u = py_identifier email" and "usr_role u = role" and "usr_is_active u"
    and "get_auth_record_by_email (py_identifier email) db = None" and "usr_id u = i"
  using assms
  by (auto simp: create_user_def user_add_def Let_def py_identifier_def user_get_by_email_def get_auth_record_by_email_def
      split: option.splits if_splits)

lemma created_signs_in:
  assumes "create_user sec now i salt email name pw role db = (Inr u, db')"
    and "py_identifier email' = py_identifier email" and "\<And>s p. sec_verify sec p (sec_hash sec s p)"
  shows "authenticate sec email' pw db' = Inr u"
  using create_user_row [OF assms(1)] assms(2,3)
  by (simp add: authenticate_def get_auth_record_by_email_def lookup_by_append lookup_by_Cons py_identifier_def
      verify_password_def hash_password_def)

lemma create_user_kept:
  "create_user sec now i salt email name pw role db = (res, db') \<Longrightarrow> (\<nexists>u. res = Inr u) \<Longrightarrow> db' = db"
  by (auto simp: create_user_def user_add_def Let_def split: option.splits if_splits)

lemma auth_db_inv_recovered:
  assumes "auth_db_inv db"
  shows "auth_db_inv (db\<lparr>db_users := update_where p (recover_account h now) (db_users db)\<rparr>)"
  using assms
  by (auto simp: auth_db_inv_def unique_key_update_where dest!: update_where_key_in [where g = user_email_key])

lemma recovered_signs_in:
  assumes "auth_db_inv db" and "get_auth_record_by_email (py_identifier email) db = Some r"
    and "\<And>s p. sec_verify sec p (sec_hash sec s p)"
  shows "authenticate sec email pw (db\<lparr>db_users := update_where (\<lambda>x. user_key x = user_key r)
      (recover_account (hash_password sec salt pw) now) (db_users db)\<rparr>) =
    Inr (uar_user (recover_account (hash_password sec salt pw) now r))"
  using assms
  by (simp add: authenticate_def get_auth_record_by_email_def lookup_by_update_where py_identifier_def verify_password_def
      hash_password_def)

section \<open>Properties\<close>


text \<open>
  Creating an account from the terminal changes the database exactly when it reports an account,
  which then has the role asked for (a viewer when none is typed), a password that passed the policy
  and was typed twice, and can sign in at once; any refusal leaves the database as it was.
\<close>

theorem operator_creates_account:
  assumes "\<And>s p. sec_verify sec p (sec_hash sec s p)"
  shows "case create_user_main sec d a db of (res, db') \<Rightarrow>
    (case res of
       AccountCreated u \<Rightarrow>
         user_role_value (usr_role u) = (if py_strip (ans_role a) = [] then ''viewer'' else py_lower (py_strip (ans_role a))) \<and>
         ans_password a = ans_confirm_password a \<and> validate_new_password (ans_password a) = None \<and>
         authenticate sec (ans_email a) (ans_password a) db' = Inr u \<and>
         db' = db\<lparr>db_users := db_users db @ [\<lparr>uar_user = u, uar_hashed_password = hash_password sec (acd_salt d) (ans_password a)\<rparr>]\<rparr>
     | AccountRecovered _ \<Rightarrow> False
     | _ \<Rightarrow> db' = db)"
proof -
  have role: "user_role_of v = Some r \<Longrightarrow> user_role_value r = v" for v r
    by (auto simp: user_role_of_def split: if_splits)
  have lower: "py_lower s = [] \<longleftrightarrow> s = []" for s by (simp add: py_lower_def)
  have ident: "py_identifier (ans_email a) = py_identifier (py_strip (ans_email a))"
    by (simp add: py_identifier_def text_simps)
  obtain res db' where run: "create_user_main sec d a db = (res, db')" by fastforce
  show ?thesis
  proof (cases res)
    case (AccountCreated u)
    then obtain r where r: "user_role_of (if py_lower (py_strip (ans_role a)) = [] then ''viewer'' else py_lower (py_strip (ans_role a))) = Some r"
      and cr: "create_user sec (acd_created d) (acd_fresh_id d) (acd_salt d) (py_strip (ans_email a)) (py_strip (ans_full_name a))
          (ans_password a) r db = (Inr u, db')"
      and pw: "ans_password a = ans_confirm_password a" "validate_new_password (ans_password a) = None"
      using run by (auto simp: create_user_main_def Let_def split: option.splits if_splits prod.splits sum.splits create_user_error.splits)
    show ?thesis
      using created_signs_in [OF cr ident assms] create_user_row [OF cr] role [OF r] pw run AccountCreated
      by (simp add: lower)
  qed (use run in \<open>auto simp: create_user_main_def Let_def
      split: option.splits if_splits prod.splits sum.splits create_user_error.splits\<close>)
qed

section \<open>Witnesses\<close>

definition demo_account_draws :: account_draws where
  "demo_account_draws = \<lparr>acd_created = (1000000, 1000000), acd_fresh_id = 3, acd_salt = 0, acd_now = 2000000\<rparr>"


definition demo_answers :: account_answers where
  "demo_answers = \<lparr>ans_email = ''New@b.c'', ans_full_name = ''n'', ans_role = [], ans_password = ''another battery'',
     ans_confirm_password = ''another battery''\<rparr>"

theorem operator_creates_account_witness:
  "\<exists>u. authenticate demo_sec ''New@b.c'' ''another battery'' (snd (create_user_main demo_sec demo_account_draws demo_answers
     (app_db demo_app1))) = Inr u \<and> usr_role u = VIEWER"
proof -
  let ?u = "\<lparr>usr_id = 3, usr_email = ''new@b.c'', usr_full_name = ''n'', usr_role = VIEWER, usr_is_active = True,
      usr_created_at = 1000000, usr_updated_at = 1000000\<rparr>"
  obtain res db' where run: "create_user_main demo_sec demo_account_draws demo_answers (app_db demo_app1) = (res, db')" by fastforce
  have "fst (create_user_main demo_sec demo_account_draws demo_answers (app_db demo_app1)) = AccountCreated ?u" by code_simp
  then have res: "res = AccountCreated ?u" using run by simp
  have law: "sec_verify demo_sec p (sec_hash demo_sec s p)" for s p by (simp add: demo_sec_def demo_security_def)
  have "authenticate demo_sec (ans_email demo_answers) (ans_password demo_answers) db' = Inr ?u"
    using operator_creates_account [where sec = demo_sec and d = demo_account_draws and a = demo_answers and db = "app_db demo_app1", OF law]
    unfolding run res prod.case script_end.simps by (elim conjE)
  then show ?thesis using run by (simp add: demo_answers_def)
qed

end
