(* ===== verification/Worker_Runtime.thy ===== *)
theory Worker_Runtime
  imports Reconciler Outbox_Relay Task_Worker
begin

text \<open>
  How the background programs start and run: the environment readers and \<open>main\<close> of
  \<open>workers/incident_task_reconciler.py\<close>, \<open>incident_outbox_relay.py\<close> and
  \<open>incident_task_completion_outbox_relay.py\<close> under \<open>src/incident-service/app\<close>, and the settings and lazily built objects of
  the task worker Lambda (\<open>execution_state.py\<close>, \<open>idempotency.py\<close>). The environment is a function from names to
  values; a cycle's draws are an argument, and a run is over the list of cycles the process lives to begin.
\<close>

section \<open>Numbers read from text\<close>

text \<open>Digits with single underscores between them; \<open>int\<close> and \<open>float\<close> drop the underscores.\<close>

fun py_digits :: "string \<Rightarrow> string option" where
  "py_digits [] = None"
| "py_digits [c] = (if decimal_digit c then Some [c] else None)"
| "py_digits (c # c' # rest) =
     (if \<not> decimal_digit c then None
      else map_option ((#) c) (if c' = CHR ''_'' then py_digits rest else py_digits (c' # rest)))"

definition digits_value :: "string \<Rightarrow> nat" where
  "digits_value ds = foldl (\<lambda>a c. a * 10 + digit_value c) 0 ds"

definition signed :: "string \<Rightarrow> bool \<times> string" where
  "signed s = (case s of c # rest \<Rightarrow> if c = CHR ''-'' then (True, rest) else if c = CHR ''+'' then (False, rest) else (False, s)
                       | [] \<Rightarrow> (False, []))"

text \<open>\<open>int(text)\<close>: \<open>None\<close> is \<open>ValueError\<close>, which more than 4300 digits raise too.\<close>

definition py_int_of :: "string \<Rightarrow> int option" where
  "py_int_of raw =
     (case signed (py_strip raw) of (negative, body) \<Rightarrow>
        (case py_digits body of
           None \<Rightarrow> None
         | Some ds \<Rightarrow> if 4300 < length ds then None
             else Some (if negative then - int (digits_value ds) else int (digits_value ds))))"

text \<open>
  \<open>float(text)\<close>: the decimal it denotes, zero where it underflows and infinite where it overflows a
  double; the rounding of the other values is not modelled.
\<close>

datatype py_float = Finite real | Infinite bool | NotANumber

definition to_double :: "real \<Rightarrow> py_float" where
  "to_double x =
     (if \<bar>x\<bar> \<le> 1 / 2 ^ 1075 then Finite 0
      else if 2 ^ 1024 - 2 ^ 970 \<le> \<bar>x\<bar> then Infinite (x < 0) else Finite x)"

definition optional_digits :: "string \<Rightarrow> string option" where
  "optional_digits s = (if s = [] then Some [] else py_digits s)"

definition mantissa_of :: "string \<Rightarrow> (nat \<times> nat) option" where
  "mantissa_of s =
     (case (if CHR ''.'' \<in> set s
            then (takeWhile (\<lambda>c. c \<noteq> CHR ''.'') s, tl (dropWhile (\<lambda>c. c \<noteq> CHR ''.'') s)) else (s, [])) of
        (whole, fraction) \<Rightarrow>
          (case (optional_digits whole, optional_digits fraction) of
             (Some ds, Some es) \<Rightarrow> if ds @ es = [] then None else Some (digits_value (ds @ es), length es)
           | _ \<Rightarrow> None))"

definition exponent_of :: "string \<Rightarrow> int option" where
  "exponent_of s =
     (case signed s of (negative, body) \<Rightarrow>
        map_option (\<lambda>ds. if negative then - int (digits_value ds) else int (digits_value ds)) (py_digits body))"

definition scale_ten :: "nat \<Rightarrow> int \<Rightarrow> real" where
  "scale_ten m e = (if 0 \<le> e then real m * 10 ^ nat e else real m / 10 ^ nat (- e))"

definition py_float_of :: "string \<Rightarrow> py_float option" where
  "py_float_of raw =
     (case signed (py_strip raw) of (negative, body) \<Rightarrow>
        let lowered = py_lower body; is_e = (\<lambda>c. c = CHR ''e'')
        in if lowered \<in> {''inf'', ''infinity''} then Some (Infinite negative)
           else if lowered = ''nan'' then Some NotANumber
           else (case (mantissa_of (takeWhile (\<lambda>c. \<not> is_e c) lowered),
                       if CHR ''e'' \<in> set lowered then exponent_of (tl (dropWhile (\<lambda>c. \<not> is_e c) lowered)) else Some 0) of
                   (Some (m, scale), Some e) \<Rightarrow>
                     Some (to_double (if negative then - scale_ten m (e - int scale) else scale_ten m (e - int scale)))
                 | _ \<Rightarrow> None))"

section \<open>The environment\<close>

type_synonym environment = "string \<Rightarrow> string option"

definition required_environment :: "environment \<Rightarrow> string \<Rightarrow> string + string" where
  "required_environment env name =
     (let value = py_strip (case env name of None \<Rightarrow> [] | Some v \<Rightarrow> v)
      in if value = [] then Inl (name @ '' must be configured.'') else Inr value)"

definition positive_int_environment :: "environment \<Rightarrow> string \<Rightarrow> int \<Rightarrow> string + int" where
  "positive_int_environment env name default_value =
     (case env name of
        None \<Rightarrow> Inr default_value
      | Some raw_value \<Rightarrow>
          (case py_int_of raw_value of
             None \<Rightarrow> Inl (name @ '' must be a whole number.'')
           | Some value \<Rightarrow> if value \<le> 0 then Inl (name @ '' must be greater than zero.'') else Inr value))"

text \<open>\<open>value <= 0\<close>, which is false for a NaN.\<close>

definition float_not_positive :: "py_float \<Rightarrow> bool" where
  "float_not_positive v = (case v of Finite x \<Rightarrow> x \<le> 0 | Infinite negative \<Rightarrow> negative | NotANumber \<Rightarrow> False)"

definition positive_float_environment :: "environment \<Rightarrow> string \<Rightarrow> py_float \<Rightarrow> string + py_float" where
  "positive_float_environment env name default_value =
     (case env name of
        None \<Rightarrow> Inr default_value
      | Some raw_value \<Rightarrow>
          (case py_float_of raw_value of
             None \<Rightarrow> Inl (name @ '' must be numeric.'')
           | Some value \<Rightarrow> if float_not_positive value then Inl (name @ '' must be greater than zero.'') else Inr value))"

section \<open>Settings of the workers\<close>

record reconciler_settings =
  rcs_task_execution_table_name :: string
  rcs_status_index_name :: string
  rcs_poll_seconds :: py_float
  rcs_batch_size :: int
  rcs_lease_seconds :: int

definition DEFAULT_STATUS_INDEX_NAME :: string where
  "DEFAULT_STATUS_INDEX_NAME = ''status-created-at-index''"

definition load_reconciler_settings :: "environment \<Rightarrow> string + reconciler_settings" where
  "load_reconciler_settings env =
     (case required_environment env ''TASK_EXECUTION_TABLE_NAME'' of Inl e \<Rightarrow> Inl e | Inr table \<Rightarrow>
      (let typed = py_strip (case env ''TASK_EXECUTION_STATUS_INDEX_NAME'' of None \<Rightarrow> DEFAULT_STATUS_INDEX_NAME | Some v \<Rightarrow> v);
           index = (if typed = [] then DEFAULT_STATUS_INDEX_NAME else typed)
       in case positive_float_environment env ''INCIDENT_TASK_RECONCILER_POLL_SECONDS'' (Finite 5) of Inl e \<Rightarrow> Inl e | Inr poll \<Rightarrow>
          case positive_int_environment env ''INCIDENT_TASK_RECONCILER_BATCH_SIZE'' 10 of Inl e \<Rightarrow> Inl e | Inr batch \<Rightarrow>
          case positive_int_environment env ''INCIDENT_TASK_RECONCILER_LEASE_SECONDS'' 60 of Inl e \<Rightarrow> Inl e | Inr lease \<Rightarrow>
            Inr \<lparr>rcs_task_execution_table_name = table, rcs_status_index_name = index, rcs_poll_seconds = poll,
                 rcs_batch_size = batch, rcs_lease_seconds = lease\<rparr>))"

record relay_settings =
  rys_queue_url :: string
  rys_poll_seconds :: py_float
  rys_retry_seconds :: int

definition load_outbox_relay_settings :: "environment \<Rightarrow> string + relay_settings" where
  "load_outbox_relay_settings env =
     (case required_environment env ''TASK_QUEUE_URL'' of Inl e \<Rightarrow> Inl e | Inr url \<Rightarrow>
      case positive_float_environment env ''INCIDENT_OUTBOX_RELAY_POLL_SECONDS'' (Finite 2) of Inl e \<Rightarrow> Inl e | Inr poll \<Rightarrow>
      case positive_int_environment env ''INCIDENT_OUTBOX_RELAY_RETRY_SECONDS'' 15 of Inl e \<Rightarrow> Inl e | Inr retry \<Rightarrow>
        Inr \<lparr>rys_queue_url = url, rys_poll_seconds = poll, rys_retry_seconds = retry\<rparr>)"

definition load_completion_outbox_relay_settings :: "environment \<Rightarrow> string + relay_settings" where
  "load_completion_outbox_relay_settings env =
     (case required_environment env ''REALTIME_NOTIFICATION_QUEUE_URL'' of Inl e \<Rightarrow> Inl e | Inr url \<Rightarrow>
      case positive_float_environment env ''INCIDENT_TASK_COMPLETION_OUTBOX_RELAY_POLL_SECONDS'' (Finite 2) of
        Inl e \<Rightarrow> Inl e | Inr poll \<Rightarrow>
      case positive_int_environment env ''INCIDENT_TASK_COMPLETION_OUTBOX_RELAY_RETRY_SECONDS'' 15 of
        Inl e \<Rightarrow> Inl e | Inr retry \<Rightarrow>
        Inr \<lparr>rys_queue_url = url, rys_poll_seconds = poll, rys_retry_seconds = retry\<rparr>)"

section \<open>The loop of a worker\<close>

text \<open>\<open>time.sleep\<close> returns for a length that fits 64-bit nanoseconds and raises for any other.\<close>

definition py_sleep :: "py_float \<Rightarrow> bool" where
  "py_sleep v = (case v of Finite x \<Rightarrow> 0 \<le> x \<and> x * 10 ^ 9 < 2 ^ 63 | _ \<Rightarrow> False)"

datatype worker_exit = Exited | Crashed | StillRunning

text \<open>
  \<open>cycle\<close> is \<open>None\<close> where an exception leaves it. The last component is what the worker logged, a report per
  finished cycle.
\<close>

fun worker_loop ::
    "('d \<Rightarrow> 's \<Rightarrow> 'r option \<times> 's) \<Rightarrow> bool \<Rightarrow> py_float \<Rightarrow> 'd list \<Rightarrow> 's \<Rightarrow> worker_exit \<times> 's \<times> 'r list" where
  "worker_loop cycle once poll [] s = (StillRunning, s, [])"
| "worker_loop cycle once poll (d # ds) s =
     (case cycle d s of
        (None, s') \<Rightarrow> (Crashed, s', [])
      | (Some report, s') \<Rightarrow>
          if once then (Exited, s', [report])
          else if \<not> py_sleep poll then (Crashed, s', [report])
          else (case worker_loop cycle once poll ds s' of (x, s'', reports) \<Rightarrow> (x, s'', report # reports)))"

record reconciler_cycle =
  rcc_now_epoch :: int
  rcc_view :: execution_table
  rcc_draws :: "nat \<Rightarrow> cycle_draws"

definition reconciler_main ::
    "environment \<Rightarrow> bool \<Rightarrow> reconciler_cycle list \<Rightarrow> reconciler_world \<Rightarrow>
     string + worker_exit \<times> reconciler_world \<times> reconciliation_summary list" where
  "reconciler_main env once cycles w =
     (case load_reconciler_settings env of
        Inl e \<Rightarrow> Inl e
      | Inr c \<Rightarrow> Inr (worker_loop
          (\<lambda>y. reconcile_once (rcc_now_epoch y) (nat (rcs_batch_size c)) (rcs_lease_seconds c) (rcc_view y) (rcc_draws y))
          once (rcs_poll_seconds c) cycles w))"

definition relay_main ::
    "environment \<Rightarrow> bool \<Rightarrow> relay_attempt list \<Rightarrow> task_message relay_state \<Rightarrow>
     string + worker_exit \<times> task_message relay_state \<times> outbox_relay_result list" where
  "relay_main env once attempts s =
     (case load_outbox_relay_settings env of
        Inl e \<Rightarrow> Inl e
      | Inr c \<Rightarrow> Inr (worker_loop (relay_one (rys_retry_seconds c)) once (rys_poll_seconds c) attempts s))"

definition completion_relay_main ::
    "environment \<Rightarrow> bool \<Rightarrow> relay_attempt list \<Rightarrow> completion_message relay_state \<Rightarrow>
     string + worker_exit \<times> completion_message relay_state \<times> completion_relay_result list" where
  "completion_relay_main env once attempts s =
     (case load_completion_outbox_relay_settings env of
        Inl e \<Rightarrow> Inl e
      | Inr c \<Rightarrow> Inr (worker_loop (completion_relay_one (rys_retry_seconds c)) once (rys_poll_seconds c) attempts s))"

section \<open>What a worker logs\<close>

text \<open>\<open>_log\<close>: the members of one JSON line, sorted by name.\<close>

definition log_line :: "string \<Rightarrow> payload \<Rightarrow> payload" where
  "log_line event members = sort_key fst ((''event'', JStr event) # members)"

definition optional_text :: "string option \<Rightarrow> json" where
  "optional_text v = (case v of None \<Rightarrow> JNull | Some t \<Rightarrow> JStr t)"

definition optional_count :: "nat option \<Rightarrow> json" where
  "optional_count v = (case v of None \<Rightarrow> JNull | Some n \<Rightarrow> JInt (int n))"

definition relay_log_result :: "outbox_relay_result \<Rightarrow> payload" where
  "relay_log_result r =
     (case orr_outcome r of
        NoPending \<Rightarrow> log_line ''incident_outbox_relay_idle'' [(''level'', JStr ''debug'')]
      | Published \<Rightarrow> log_line ''incident_outbox_task_published''
          [(''level'', JStr ''info''), (''task_id'', optional_text (orr_task_id r)),
           (''correlation_id'', optional_text (orr_correlation_id r)), (''sqs_message_id'', optional_text (orr_sqs_message_id r)),
           (''publish_attempt'', optional_count (orr_publish_attempt r))]
      | PublicationFailed \<Rightarrow> log_line ''incident_outbox_publication_failed''
          [(''level'', JStr ''error''), (''task_id'', optional_text (orr_task_id r)),
           (''correlation_id'', optional_text (orr_correlation_id r)), (''publish_attempt'', optional_count (orr_publish_attempt r)),
           (''error'', optional_text (orr_error r))])"

definition completion_log_result :: "completion_relay_result \<Rightarrow> payload" where
  "completion_log_result r =
     (let about = [(''event_id'', optional_text (crr_event_id r)), (''task_id'', optional_text (orr_task_id r)),
            (''incident_id'', optional_text (crr_incident_id r)), (''correlation_id'', optional_text (orr_correlation_id r))]
      in case orr_outcome r of
        NoPending \<Rightarrow> log_line ''incident_task_completion_outbox_relay_idle'' [(''level'', JStr ''debug'')]
      | Published \<Rightarrow> log_line ''incident_task_completion_event_published''
          ((''level'', JStr ''info'') # about @
           [(''sqs_message_id'', optional_text (orr_sqs_message_id r)), (''publish_attempt'', optional_count (orr_publish_attempt r))])
      | PublicationFailed \<Rightarrow> log_line ''incident_task_completion_publication_failed''
          ((''level'', JStr ''error'') # about @
           [(''publish_attempt'', optional_count (orr_publish_attempt r)), (''error'', optional_text (orr_error r))]))"

definition cycle_log_line :: "reconciliation_summary \<Rightarrow> payload" where
  "cycle_log_line s = log_line ''incident_task_reconciliation_cycle''
     [(''level'', JStr ''info''), (''discovered'', JInt (int (rsm_discovered s))), (''claimed'', JInt (int (rsm_claimed s))),
      (''succeeded'', JInt (int (rsm_succeeded s))), (''retryable_failures'', JInt (int (rsm_retryable_failures s))),
      (''permanent_failures'', JInt (int (rsm_permanent_failures s))), (''skipped'', JInt (int (rsm_skipped s)))]"

section \<open>The task worker Lambda\<close>

definition required_variable :: "environment \<Rightarrow> string \<Rightarrow> string + string" where
  "required_variable env name =
     (case env name of
        None \<Rightarrow> Inl (name @ '' must be configured'')
      | Some v \<Rightarrow> if py_strip v = [] then Inl (name @ '' must be configured'') else Inr (py_strip v))"

record expiring_table =
  ext_table_name :: string
  ext_expiration_seconds :: int

definition MINIMUM_EXECUTION_EXPIRATION_SECONDS :: int where "MINIMUM_EXECUTION_EXPIRATION_SECONDS = 60"
definition MINIMUM_EXPIRATION_SECONDS :: int where "MINIMUM_EXPIRATION_SECONDS = 60"

definition load_task_execution_settings :: "environment \<Rightarrow> string + expiring_table" where
  "load_task_execution_settings env =
     (case required_variable env ''TASK_EXECUTION_TABLE_NAME'' of Inl e \<Rightarrow> Inl e | Inr table_name \<Rightarrow>
      case required_variable env ''TASK_EXECUTION_EXPIRATION_SECONDS'' of Inl e \<Rightarrow> Inl e | Inr raw \<Rightarrow>
      case py_int_of raw of
        None \<Rightarrow> Inl ''TASK_EXECUTION_EXPIRATION_SECONDS must be a whole number''
      | Some expiration_seconds \<Rightarrow>
          if expiration_seconds < MINIMUM_EXECUTION_EXPIRATION_SECONDS
          then Inl ''TASK_EXECUTION_EXPIRATION_SECONDS must be at least 60''
          else Inr \<lparr>ext_table_name = table_name, ext_expiration_seconds = expiration_seconds\<rparr>)"

definition load_idempotency_settings :: "environment \<Rightarrow> string + expiring_table" where
  "load_idempotency_settings env =
     (case required_variable env ''IDEMPOTENCY_TABLE_NAME'' of Inl e \<Rightarrow> Inl e | Inr table_name \<Rightarrow>
      case required_variable env ''IDEMPOTENCY_EXPIRATION_SECONDS'' of Inl e \<Rightarrow> Inl e | Inr raw \<Rightarrow>
      case py_int_of raw of
        None \<Rightarrow> Inl ''IDEMPOTENCY_EXPIRATION_SECONDS must be a whole number''
      | Some expiration_seconds \<Rightarrow>
          if expiration_seconds < MINIMUM_EXPIRATION_SECONDS
          then Inl ''IDEMPOTENCY_EXPIRATION_SECONDS must be at least 60''
          else Inr \<lparr>ext_table_name = table_name, ext_expiration_seconds = expiration_seconds\<rparr>)"

text \<open>The module's globals, built on first use: a failed build leaves nothing behind.\<close>

record lambda_globals =
  lgl_execution_store :: "expiring_table option"
  lgl_idempotency_runtime :: "expiring_table option"

definition get_task_execution_store :: "environment \<Rightarrow> lambda_globals \<Rightarrow> (string + expiring_table) \<times> lambda_globals" where
  "get_task_execution_store env g =
     (case lgl_execution_store g of
        Some store \<Rightarrow> (Inr store, g)
      | None \<Rightarrow> (case load_task_execution_settings env of
                   Inl e \<Rightarrow> (Inl e, g)
                 | Inr store \<Rightarrow> (Inr store, g\<lparr>lgl_execution_store := Some store\<rparr>)))"

definition get_idempotency_runtime :: "environment \<Rightarrow> lambda_globals \<Rightarrow> (string + expiring_table) \<times> lambda_globals" where
  "get_idempotency_runtime env g =
     (case lgl_idempotency_runtime g of
        Some runtime \<Rightarrow> (Inr runtime, g)
      | None \<Rightarrow> (case load_idempotency_settings env of
                   Inl e \<Rightarrow> (Inl e, g)
                 | Inr runtime \<Rightarrow> (Inr runtime, g\<lparr>lgl_idempotency_runtime := Some runtime\<rparr>)))"

section \<open>Lemmas\<close>

lemma loop_once:
  "worker_loop cycle True poll (d # ds) s =
     (case cycle d s of (None, s') \<Rightarrow> (Crashed, s', []) | (Some report, s') \<Rightarrow> (Exited, s', [report]))"
  by (simp split: prod.split option.split)

text \<open>Without \<open>--once\<close> a worker only ends by an exception, and has then done the cycles it reported.\<close>

lemma loop_forever:
  assumes "worker_loop cycle False poll ds s = (x, s', reports)" and "py_sleep poll"
  shows "x \<noteq> Exited" and "x = StillRunning \<Longrightarrow> length reports = length ds"
    and "x = Crashed \<Longrightarrow> length reports < length ds"
    and "s' = fold (\<lambda>d s. snd (cycle d s)) (take (length reports + (if x = Crashed then 1 else 0)) ds) s"
proof -
  have "x \<noteq> Exited \<and> (x = StillRunning \<longrightarrow> length reports = length ds) \<and> (x = Crashed \<longrightarrow> length reports < length ds) \<and>
      s' = fold (\<lambda>d s. snd (cycle d s)) (take (length reports + (if x = Crashed then 1 else 0)) ds) s"
    using assms
  proof (induction cycle "False" poll ds s arbitrary: x s' reports rule: worker_loop.induct)
    case (1 cycle poll s)
    then show ?case by simp
  next
    case (2 cycle poll d ds s)
    show ?case
    proof (cases "cycle d s")
      case (Pair r s1)
      show ?thesis
      proof (cases r)
        case None
        then show ?thesis using 2(2) Pair by auto
      next
        case (Some report)
        obtain x1 s2 rs where rest: "worker_loop cycle False poll ds s1 = (x1, s2, rs)" by (metis prod_cases3)
        have "x = x1" "s' = s2" "reports = report # rs" using 2(2,3) Pair Some rest by auto
        with 2(1) [OF Pair [symmetric] Some _ _ rest] 2(3) Pair show ?thesis by auto
      qed
    qed
  qed
  then show "x \<noteq> Exited" "x = StillRunning \<Longrightarrow> length reports = length ds" "x = Crashed \<Longrightarrow> length reports < length ds"
    "s' = fold (\<lambda>d s. snd (cycle d s)) (take (length reports + (if x = Crashed then 1 else 0)) ds) s" by blast+
qed

lemma loop_reports:
  assumes "\<And>d s r s'. cycle d s = (Some r, s') \<Longrightarrow> P r"
  shows "worker_loop cycle once poll ds s = (x, s', reports) \<Longrightarrow> \<forall>r \<in> set reports. P r"
proof (induction ds arbitrary: s x s' reports)
  case (Cons d ds)
  obtain r s1 where Pair: "cycle d s = (r, s1)" by fastforce
  obtain x1 s2 rs where rest: "worker_loop cycle once poll ds s1 = (x1, s2, rs)" by (metis prod_cases3)
  show ?case
    using Cons.prems Cons.IH [OF rest] assms Pair rest by (cases r) (auto split: if_splits)
qed simp

lemma positive_int_Inr: "positive_int_environment env name v = Inr n \<Longrightarrow> 0 < v \<Longrightarrow> 0 < n"
  by (auto simp: positive_int_environment_def split: option.splits if_splits)

lemma positive_float_Inr: "positive_float_environment env name v = Inr x \<Longrightarrow> \<not> float_not_positive v \<Longrightarrow> \<not> float_not_positive x"
  by (auto simp: positive_float_environment_def split: option.splits if_splits)

lemma required_environment_Inr: "required_environment env name = Inr v \<Longrightarrow> v \<noteq> [] \<and> py_strip v = v"
  unfolding required_environment_def Let_def by (simp split: if_splits) (metis py_strip_idem)

lemma defaults_positive: "\<not> float_not_positive (Finite 2)" "\<not> float_not_positive (Finite 5)"
  by (simp_all add: float_not_positive_def)

lemma reconciler_settings_Inr:
  assumes "load_reconciler_settings env = Inr c"
  shows "0 < rcs_batch_size c" "0 < rcs_lease_seconds c" "rcs_status_index_name c \<noteq> []"
    "rcs_task_execution_table_name c \<noteq> []" "\<not> float_not_positive (rcs_poll_seconds c)"
proof -
  obtain table poll batch lease where parts: "required_environment env ''TASK_EXECUTION_TABLE_NAME'' = Inr table"
      "positive_float_environment env ''INCIDENT_TASK_RECONCILER_POLL_SECONDS'' (Finite 5) = Inr poll"
      "positive_int_environment env ''INCIDENT_TASK_RECONCILER_BATCH_SIZE'' 10 = Inr batch"
      "positive_int_environment env ''INCIDENT_TASK_RECONCILER_LEASE_SECONDS'' 60 = Inr lease"
    and c: "rcs_task_execution_table_name c = table" "rcs_poll_seconds c = poll" "rcs_batch_size c = batch"
      "rcs_lease_seconds c = lease" "rcs_status_index_name c \<noteq> []"
    using assms by (auto simp: load_reconciler_settings_def Let_def DEFAULT_STATUS_INDEX_NAME_def split: sum.splits)
  show "0 < rcs_batch_size c" "0 < rcs_lease_seconds c" "rcs_status_index_name c \<noteq> []"
    "rcs_task_execution_table_name c \<noteq> []" "\<not> float_not_positive (rcs_poll_seconds c)"
    using c required_environment_Inr [OF parts(1)] positive_float_Inr [OF parts(2) defaults_positive(2)]
      positive_int_Inr [OF parts(3)] positive_int_Inr [OF parts(4)] by simp_all
qed

lemma relay_settings_Inr:
  assumes "load_outbox_relay_settings env = Inr r \<or> load_completion_outbox_relay_settings env = Inr r"
  shows "rys_queue_url r \<noteq> []" "0 < rys_retry_seconds r" "\<not> float_not_positive (rys_poll_seconds r)"
proof -
  obtain n1 n2 n3 where parts: "required_environment env n1 = Inr (rys_queue_url r)"
      "positive_float_environment env n2 (Finite 2) = Inr (rys_poll_seconds r)"
      "positive_int_environment env n3 15 = Inr (rys_retry_seconds r)"
    using assms unfolding load_outbox_relay_settings_def load_completion_outbox_relay_settings_def
    by (elim disjE) (fastforce split: sum.splits)+
  show "rys_queue_url r \<noteq> []" "0 < rys_retry_seconds r" "\<not> float_not_positive (rys_poll_seconds r)"
    using required_environment_Inr [OF parts(1)] positive_float_Inr [OF parts(2) defaults_positive(1)]
      positive_int_Inr [OF parts(3)] by simp_all
qed

text \<open>The counts of a cycle add up.\<close>

definition summary_adds_up :: "reconciliation_summary \<Rightarrow> nat \<Rightarrow> bool" where
  "summary_adds_up s candidates \<longleftrightarrow>
     rsm_claimed s = rsm_succeeded s + rsm_retryable_failures s + rsm_permanent_failures s \<and>
     rsm_claimed s + rsm_skipped s = candidates"

lemma candidates_add_up:
  assumes "reconcile_candidates lease cs s w = (Some s', w')" and "summary_adds_up s n"
  shows "summary_adds_up s' (n + length cs) \<and> rsm_discovered s' = rsm_discovered s"
  using assms
proof (induction lease cs s w arbitrary: n rule: reconcile_candidates.induct)
  case (1 lease s w)
  then show ?case by simp
next
  case (2 lease candidate d rest s w)
  have counted: "summary_adds_up (count_outcome out (s\<lparr>rsm_claimed := rsm_claimed s + 1\<rparr>)) (n + 1)"
    "rsm_discovered (count_outcome out (s\<lparr>rsm_claimed := rsm_claimed s + 1\<rparr>)) = rsm_discovered s"
    "summary_adds_up (s\<lparr>rsm_skipped := rsm_skipped s + 1\<rparr>) (n + 1)" for out
    using "2.prems"(2) by (auto simp: summary_adds_up_def count_outcome_def split: reconciliation_outcome.split)
  obtain a rows where claim: "claim_execution (cyd_now_epoch d) (cyd_claim_now d) (cyd_token d) lease (cyd_claim_fault d)
      (ite_task_id candidate) (rcw_table w) = (a, rows)" by fastforce
  obtain b where a: "a = Inr b" using "2.prems"(1) claim by (cases a) auto
  show ?case
  proof (cases b)
    case None
    then have "reconcile_candidates lease rest (s\<lparr>rsm_skipped := rsm_skipped s + 1\<rparr>) (w\<lparr>rcw_table := rows\<rparr>) = (Some s', w')"
      using "2.prems"(1) claim a by simp
    from "2.IH"(1) [OF claim [symmetric] a None this counted(3)] show ?thesis by simp
  next
    case (Some execution)
    obtain out w1 where step: "reconcile_claimed d execution (w\<lparr>rcw_table := rows\<rparr>) = (Some out, w1)"
      and next_ones: "reconcile_candidates lease rest (count_outcome out (s\<lparr>rsm_claimed := rsm_claimed s + 1\<rparr>)) w1 = (Some s', w')"
      using "2.prems"(1) claim a Some by (auto split: prod.splits option.splits)
    from "2.IH"(2) [OF claim [symmetric] a Some step [symmetric] refl next_ones counted(1)] counted(2) show ?thesis by simp
  qed
qed

lemma cycle_adds_up:
  assumes "reconcile_once now batch lease view draws w = (Some s, w')"
  shows "summary_adds_up s (rsm_discovered s) \<and> rsm_discovered s \<le> batch"
proof -
  obtain candidates where list: "list_reconcilable now batch view = Inr candidates"
    using assms by (auto simp: reconcile_once_def split: sum.splits)
  then have "length candidates \<le> batch"
    by (auto simp: list_reconcilable_def Let_def dest!: sum_map_length)
  moreover note run = assms [unfolded reconcile_once_def list, simplified]
  have "summary_adds_up \<lparr>rsm_discovered = length candidates, rsm_claimed = 0, rsm_succeeded = 0, rsm_retryable_failures = 0,
             rsm_permanent_failures = 0, rsm_skipped = 0\<rparr> 0" by (simp add: summary_adds_up_def)
  from candidates_add_up [OF run this]
  have "summary_adds_up s (length candidates) \<and> rsm_discovered s = length candidates" by simp
  ultimately show ?thesis by simp
qed

section \<open>Properties\<close>


text \<open>
  Claim C22. With \<open>--once\<close> every worker ends after its first cycle, whatever the cycle meets and whatever would
  come later: it exits with one report, or an exception ends it with none. Without \<open>--once\<close>, a worker whose
  poll interval \<open>sleep\<close> accepts never exits by itself: it is still running after a report per cycle, or an
  exception ended it, and the state is the one of the cycles it began; for a relay that is the state
  after a run of those attempts. An interval \<open>sleep\<close> refuses ends the worker after its first report.
\<close>

theorem workers_terminate:
  fixes cycle :: "'d \<Rightarrow> 's \<Rightarrow> 'r option \<times> 's"
  shows "(worker_loop cycle True poll (d # ds) s =
      (case cycle d s of (None, s') \<Rightarrow> (Crashed, s', []) | (Some report, s') \<Rightarrow> (Exited, s', [report]))) \<and>
    (\<not> py_sleep poll \<longrightarrow> worker_loop cycle False poll (d # ds) s =
      (case cycle d s of (None, s') \<Rightarrow> (Crashed, s', []) | (Some report, s') \<Rightarrow> (Crashed, s', [report]))) \<and>
    (py_sleep poll \<longrightarrow> (case worker_loop cycle False poll ds s of (x, s', reports) \<Rightarrow>
      x \<noteq> Exited \<and> (if x = StillRunning then length reports = length ds else length reports < length ds) \<and>
      s' = fold (\<lambda>d s. snd (cycle d s)) (take (length reports + (if x = Crashed then 1 else 0)) ds) s)) \<and>
    (load_outbox_relay_settings env = Inr c \<longrightarrow> py_sleep (rys_poll_seconds c) \<longrightarrow>
      (\<exists>x t' reports. relay_main env False attempts t = Inr (x, t', reports) \<and>
        t' = relay_run (rys_retry_seconds c) (take (length reports + (if x = Crashed then 1 else 0)) attempts) t))"
proof (intro conjI impI)
  show "worker_loop cycle True poll (d # ds) s =
      (case cycle d s of (None, s') \<Rightarrow> (Crashed, s', []) | (Some report, s') \<Rightarrow> (Exited, s', [report]))"
    by (rule loop_once)
  show "\<not> py_sleep poll \<Longrightarrow> worker_loop cycle False poll (d # ds) s =
      (case cycle d s of (None, s') \<Rightarrow> (Crashed, s', []) | (Some report, s') \<Rightarrow> (Crashed, s', [report]))"
    by (simp split: prod.split option.split)
next
  assume poll: "py_sleep poll"
  obtain x s' reports where run: "worker_loop cycle False poll ds s = (x, s', reports)" by (rule prod_cases3)
  show "case worker_loop cycle False poll ds s of (x, s', reports) \<Rightarrow>
      x \<noteq> Exited \<and> (if x = StillRunning then length reports = length ds else length reports < length ds) \<and>
      s' = fold (\<lambda>d s. snd (cycle d s)) (take (length reports + (if x = Crashed then 1 else 0)) ds) s"
    using loop_forever [OF run poll] run by (cases x) simp_all
next
  assume c: "load_outbox_relay_settings env = Inr c" and poll: "py_sleep (rys_poll_seconds c)"
  obtain x t' reports where run: "worker_loop (relay_one (rys_retry_seconds c)) False (rys_poll_seconds c) attempts t = (x, t', reports)"
    by (rule prod_cases3)
  then show "\<exists>x t' reports. relay_main env False attempts t = Inr (x, t', reports) \<and>
        t' = relay_run (rys_retry_seconds c) (take (length reports + (if x = Crashed then 1 else 0)) attempts) t"
    using loop_forever(4) [OF run poll] by (simp add: relay_main_def c relay_run_def)
qed

section \<open>The object a Lambda process keeps\<close>

text \<open>Every lookup after the first success gives the same store, whatever the environment says by then.\<close>

lemma lambda_store_kept:
  "get_task_execution_store env g = (Inr store, g') \<Longrightarrow> get_task_execution_store env' g' = (Inr store, g')"
  by (auto simp: get_task_execution_store_def split: option.splits sum.splits)

lemma lambda_store_expires:
  "load_task_execution_settings env = Inr c \<Longrightarrow> 60 \<le> ext_expiration_seconds c \<and> ext_table_name c \<noteq> []"
  by (auto simp: load_task_execution_settings_def required_variable_def MINIMUM_EXECUTION_EXPIRATION_SECONDS_def
      split: sum.splits option.splits if_splits)

section \<open>Reading decimals back\<close>

lemma decimal_digit_char [simp]: "decimal_digit (digit_char (int n))"
proof -
  have "\<forall>c \<in> set ''0123456789''. decimal_digit c" by code_simp
  then show ?thesis using digit_char_value(2) by blast
qed

lemma py_digits_plain: "ds \<noteq> [] \<Longrightarrow> list_all decimal_digit ds \<Longrightarrow> py_digits ds = Some ds"
proof (induction ds rule: py_digits.induct)
  case (3 c c' rest)
  moreover have "\<not> decimal_digit (CHR ''_'')" by (simp add: decimal_digit_def)
  ultimately show ?case by auto
qed auto

lemma decimal_digits: "list_all decimal_digit (decimal n)" "decimal n \<noteq> []"
proof -
  show "list_all decimal_digit (decimal n)"
  proof (induction n rule: decimal.induct)
    case (1 n)
    then show ?case by (cases "n < 10") (simp_all add: decimal.simps [of n])
  qed
  show "decimal n \<noteq> []" by (simp add: decimal.simps)
qed

text \<open>A whole number written in decimal is read back as itself.\<close>

lemma py_int_of_decimal:
  assumes "length (decimal n) \<le> 4300"
  shows "py_int_of (decimal n) = Some (int n)"
proof -
  obtain c cs where cs: "decimal n = c # cs" "decimal_digit c"
    using decimal_digits [of n] by (cases "decimal n") auto
  have spaces: "\<not> char_space x" if "decimal_digit x" for x
    using that by (auto simp: decimal_digit_def char_space_def Let_def)
  then have "py_strip (decimal n) = decimal n"
    using decimal_digits(1) by (intro py_strip_visible) (auto simp: list_all_iff)
  moreover have "signed (decimal n) = (False, decimal n)"
    using cs by (auto simp: signed_def decimal_digit_def)
  ultimately show ?thesis
    using assms py_digits_plain [OF decimal_digits(2,1)] by (simp add: py_int_of_def digits_value_def decimal_value)
qed

section \<open>Witnesses\<close>

definition demo_environment :: "string \<Rightarrow> environment" where
  "demo_environment poll = map_of [(''TASK_QUEUE_URL'', '' q ''), (''INCIDENT_OUTBOX_RELAY_POLL_SECONDS'', poll)]"

lemma demo_poll: "py_float_of ''2.5'' = Some (to_double (5 / 2))" "py_float_of ''nan'' = Some NotANumber"
proof -
  have "py_strip ''2.5'' = ''2.5''" "py_lower ''2.5'' = ''2.5''" "mantissa_of ''2.5'' = Some (25, 1)" by code_simp+
  then show "py_float_of ''2.5'' = Some (to_double (5 / 2))"
    by (simp add: py_float_of_def signed_def scale_ten_def Let_def)
  have "py_strip ''nan'' = ''nan''" "py_lower ''nan'' = ''nan''" by code_simp+
  then show "py_float_of ''nan'' = Some NotANumber"
    by (simp add: py_float_of_def signed_def Let_def)
qed

lemma demo_half: "to_double (5 / 2) = Finite (5 / 2)"
proof -
  have "1 / 2 ^ 1075 \<le> (1 :: real)" by simp
  moreover have "(2 :: real) ^ 1024 - 2 ^ 970 = 2 ^ 970 * (2 ^ 54 - 1)" by (simp add: algebra_simps flip: power_add)
  moreover have "(1 :: real) \<le> 2 ^ 970" by simp
  ultimately show ?thesis by (simp add: to_double_def)
qed

lemma demo_relay_settings:
  "load_outbox_relay_settings (demo_environment ''2.5'') = Inr \<lparr>rys_queue_url = ''q'', rys_poll_seconds = Finite (5 / 2), rys_retry_seconds = 15\<rparr>"
  "load_outbox_relay_settings (demo_environment ''nan'') = Inr \<lparr>rys_queue_url = ''q'', rys_poll_seconds = NotANumber, rys_retry_seconds = 15\<rparr>"
proof -
  have strip: "py_strip '' q '' = ''q''" by code_simp
  show "load_outbox_relay_settings (demo_environment ''2.5'') = Inr \<lparr>rys_queue_url = ''q'', rys_poll_seconds = Finite (5 / 2), rys_retry_seconds = 15\<rparr>"
    by (simp add: load_outbox_relay_settings_def required_environment_def positive_float_environment_def positive_int_environment_def
        demo_environment_def strip demo_poll demo_half float_not_positive_def)
  show "load_outbox_relay_settings (demo_environment ''nan'') = Inr \<lparr>rys_queue_url = ''q'', rys_poll_seconds = NotANumber, rys_retry_seconds = 15\<rparr>"
    by (simp add: load_outbox_relay_settings_def required_environment_def positive_float_environment_def positive_int_environment_def
        demo_environment_def strip demo_poll float_not_positive_def)
qed


theorem workers_terminate_witness:
  "\<exists>x t' reports. relay_main (demo_environment ''2.5'') False [demo_attempt, demo_attempt] demo_outbox = Inr (x, t', reports) \<and>
     t' = relay_run 15 (take (length reports + (if x = Crashed then 1 else 0)) [demo_attempt, demo_attempt]) demo_outbox"
  using workers_terminate [THEN conjunct2, THEN conjunct2, THEN conjunct2, rule_format, OF demo_relay_settings(1),
      of "[demo_attempt, demo_attempt]" demo_outbox]
  by (simp add: py_sleep_def)

text \<open>
  A poll interval of \<open>nan\<close> passes the check that it is greater than zero, and ends the relay at its first
  \<open>sleep\<close>, after one attempt.
\<close>

theorem nan_poll_ends_relay:
  assumes "relay_one 15 a s = (Some report, s')"
  shows "relay_main (demo_environment ''nan'') False (a # attempts) s = Inr (Crashed, s', [report])"
  using assms by (simp add: relay_main_def demo_relay_settings py_sleep_def)

text \<open>
  The status index is read up to the batch size before the lease is looked at: while that many executions
  with a running lease come first, a cycle discovers none of those whose lease has expired.
\<close>

theorem expired_lease_overlooked:
  assumes "status_index READY_FOR_INCIDENT_SERVICE view = []"
    and "\<forall>x \<in> set (take batch (status_index INCIDENT_SERVICE_PROCESSING view)). \<not> lease_expired now x"
  shows "list_reconcilable now batch view = Inr []"
proof -
  have "query_expired_processing now batch view = []"
    using assms(2) by (simp add: query_expired_processing_def filter_empty_conv)
  with assms(1) show ?thesis by (simp add: list_reconcilable_def query_status_def Let_def)
qed

end
