(* ===== verification/Service_Boundary.thy ===== *)
theory Service_Boundary
  imports Web_Boundary Incident_Routes Incident_Gateway
begin

text \<open>
  The HTTP boundary of the Incident Service: the stack \<open>create_app\<close> of \<open>main.py\<close> builds, whose layers are
  the same code as the core backend's (\<open>middleware/request_correlation.py\<close>, \<open>metrics.py\<close>,
  \<open>request_logging.py\<close>), and the records of \<open>core/service_security_events.py\<close>, the same file in both services;
  and the exchange between the two services, in which the gateway forwards the request identifier.
\<close>

section \<open>The stack of the Incident Service\<close>

record incident_web_settings =
  iws_app_name :: string
  iws_app_env :: string
  iws_metrics_enabled :: bool

definition incident_create_app ::
    "incident_web_settings \<Rightarrow> 's web_app \<Rightarrow> web_draws \<Rightarrow> (('s \<times> (string \<times> payload) list) \<times> metrics_registry) web_app" where
  "incident_create_app cfg routes d =
     (let logging = request_logging (iws_app_name cfg) (iws_app_env cfg) d routes;
          metrics = (if iws_metrics_enabled cfg then metrics_middleware d logging
                     else (\<lambda>ctx req s. let (out, s') = logging ctx req (fst s) in (out, s', snd s)))
      in request_correlation d metrics)"

section \<open>Service security events\<close>

record event_draws =
  evd_event_id :: uuid
  evd_now :: instant

definition emit_service_event ::
    "event_draws \<Rightarrow> string option \<Rightarrow> string \<Rightarrow> string \<Rightarrow> string option \<Rightarrow> string option \<Rightarrow> string + string \<times> payload" where
  "emit_service_event d request_id event outcome reason scope =
     (if event \<notin> set [''service_authentication'', ''service_authorization''] then Inl ''Unsupported service security event.''
      else if outcome \<notin> set [''success'', ''failure'', ''blocked''] then Inl ''Unsupported service security outcome.''
      else Inr (if outcome = ''success'' then ''INFO'' else ''WARNING'',
             sort_key fst ([(''event_id'', JStr (uuid_str (evd_event_id d))), (''occurred_at'', JStr (isoformat (evd_now d))),
               (''event'', JStr event), (''outcome'', JStr outcome)] @
               (case request_id of None \<Rightarrow> [] | Some i \<Rightarrow> [(''request_id'', JStr i)]) @
               (case reason of None \<Rightarrow> [] | Some r \<Rightarrow> [(''reason'', JStr r)]) @
               (case scope of None \<Rightarrow> [] | Some sc \<Rightarrow> [(''scope'', JStr sc)]))))"

text \<open>The line each audit record of the dependencies writes to the security log; counters write none.\<close>

definition service_event_line :: "event_draws \<Rightarrow> string option \<Rightarrow> audit_record \<Rightarrow> (string + string \<times> payload) option" where
  "service_event_line d request_id a =
     (case a of
        AuthenticationEvent outcome reason \<Rightarrow>
          Some (emit_service_event d request_id ''service_authentication'' outcome (Some reason) None)
      | AuthorizationEvent outcome scope \<Rightarrow>
          Some (emit_service_event d request_id ''service_authorization'' outcome None (Some scope))
      | _ \<Rightarrow> None)"

section \<open>Lemmas\<close>

text \<open>The framework hands header names over in lower case.\<close>

definition received_headers :: "(string \<times> string) list \<Rightarrow> (string \<times> string) list" where
  "received_headers sent = map (\<lambda>(name, v). (py_lower name, v)) sent"

lemma incident_create_app_eq:
  "incident_create_app cfg routes d ctx req ((s, lg), m) =
     (let i = resolve_request_id (wdr_request_id d) (request_header ''x-request-id'' req);
          (out, s') = routes (Some i) req s
      in (change_response (\<lambda>r. r\<lparr>wrs_headers := (wrs_headers r)(''x-request-id'' \<mapsto> i)\<rparr>) out,
          (s', lg @ [http_request_event
                 (case wot_exception out of None \<Rightarrow> ''http_request_completed'' | Some _ \<Rightarrow> ''http_request_failed'')
                 (iws_app_name cfg) (iws_app_env cfg) (Some i) d (Operational_Metrics.ascii_upper (wrq_method req)) (logged_path out req)
                 (logged_status out) (wot_exception out)]),
          if iws_metrics_enabled cfg
          then observe_http_request (wrq_method req) (normalized_route out)
                 (case wot_response out of None \<Rightarrow> 500 | Some r \<Rightarrow> wrs_status r) (wdr_duration_seconds d) m
          else m))"
  by (auto simp: incident_create_app_def request_correlation_def metrics_middleware_def request_logging_def Let_def
      split: prod.splits)

lemma resolve_bound_id: "resolve_request_id g (Some (resolve_request_id g' h)) = resolve_request_id g' h"
  using resolve_request_id_valid [of g' h] by (simp add: resolve_request_id_def)

lemma http_event_request_id:
  "i \<noteq> [] \<Longrightarrow> map_of (snd (http_request_event event name env (Some i) d verb path status exc)) ''requestId'' = Some (JStr i)"
  by (simp add: http_request_event_def Let_def)

lemma forwarded_id:
  assumes "send_attempt gcfg genv meth url params body n gw = (res, gw')" and "gw_log gw' = gw_log gw @ [Sent r]"
    and "ge_request_id genv = Some i"
  shows "map_of (received_headers (orq_headers r)) ''x-request-id'' = Some i"
proof -
  obtain authorization where "orq_headers r = AList.update ''Authorization'' authorization (request_headers genv)"
    using assms(1,2) by (auto simp: send_attempt_def log_event_def Let_def split: sum.splits)
  moreover have "py_lower ''Accept'' \<noteq> ''x-request-id''" "py_lower ''X-Request-ID'' = ''x-request-id''" by code_simp+
  ultimately show ?thesis
    using assms(3) by (simp add: received_headers_def request_headers_def REQUEST_ID_HEADER_def)
qed

lemma emitted_request_id:
  assumes "emit_service_event d (Some i) event outcome reason scope = Inr (level, line)"
  shows "map_of line ''request_id'' = Some (JStr i)"
proof -
  define members where "members = [(''event_id'', JStr (uuid_str (evd_event_id d))), (''occurred_at'', JStr (isoformat (evd_now d))),
      (''event'', JStr event), (''outcome'', JStr outcome)] @ [(''request_id'', JStr i)] @
      (case reason of None \<Rightarrow> [] | Some r \<Rightarrow> [(''reason'', JStr r)]) @ (case scope of None \<Rightarrow> [] | Some sc \<Rightarrow> [(''scope'', JStr sc)])"
  have "line = sort_key fst members"
    using assms unfolding emit_service_event_def members_def by (simp split: if_splits)
  moreover have "distinct (map fst members)" by (simp add: members_def split: option.split)
  moreover have "map_of members ''request_id'' = Some (JStr i)" by (simp add: members_def)
  ultimately show ?thesis by (simp add: map_of_sort_key)
qed

lemma event_line_request_id:
  assumes "service_event_line d (Some i) a = Some (Inr (level, line))"
  shows "map_of line ''request_id'' = Some (JStr i)"
  using assms unfolding service_event_line_def
  by (auto split: audit_record.splits dest: emitted_request_id)

section \<open>Properties\<close>

text \<open>
  Claim C20. One identifier follows a request through both services. Whatever the client sent, the identifier the
  core backend binds is a safe token; it is in the record of the request's log, on the response, and on
  every request the gateway sends while handling it. The Incident Service binds the same one for that
  request: its routes run under it once, its log record, its response and every service security event
  written under it carry it.
\<close>

theorem request_trace:
  assumes "create_app cfg cors routes d ctx req ((s, lg), m) = (out, (s', lg'), m')"
    and "ge_request_id genv = Some (resolve_request_id (wdr_request_id d) (request_header ''x-request-id'' req))"
    and "send_attempt gcfg genv meth url params body n gw = (res, gw')" and "gw_log gw' = gw_log gw @ [Sent r]"
    and "wrq_headers req' = received_headers (orq_headers r)"
    and "incident_create_app icfg iroutes d' ctx' req' ((t, il), im) = (iout, (t', il'), im')"
  shows "\<exists>i event event'. valid_request_id i \<and>
    lg' = lg @ [event] \<and> map_of (snd event) ''requestId'' = Some (JStr i) \<and>
    (\<forall>p. wot_response out = Some p \<longrightarrow> wrs_headers p ''x-request-id'' = Some i) \<and>
    map_of (orq_headers r) ''X-Request-ID'' = Some i \<and>
    t' = snd (iroutes (Some i) req' t) \<and>
    il' = il @ [event'] \<and> map_of (snd event') ''requestId'' = Some (JStr i) \<and>
    (\<forall>p. wot_response iout = Some p \<longrightarrow> wrs_headers p ''x-request-id'' = Some i) \<and>
    (\<forall>ed a level line. service_event_line ed (Some i) a = Some (Inr (level, line)) \<longrightarrow> map_of line ''request_id'' = Some (JStr i))"
proof -
  define i where "i = resolve_request_id (wdr_request_id d) (request_header ''x-request-id'' req)"
  have valid: "valid_request_id i" unfolding i_def by (rule resolve_request_id_valid)
  have nonempty: "i \<noteq> []" using valid by (rule valid_request_id_nonempty)
  obtain out0 s0 where inner: "cors (browser_trust (new_browser_trust [wst_frontend_origin cfg]) routes) (Some i) req s = (out0, s0)"
    by fastforce
  have core: "out = wrapped cfg d req out0" "lg' = lg @ [http_request_event
      (case wot_exception out0 of None \<Rightarrow> ''http_request_completed'' | Some _ \<Rightarrow> ''http_request_failed'')
      (wst_app_name cfg) (wst_app_env cfg) (Some i) d (Operational_Metrics.ascii_upper (wrq_method req)) (logged_path out0 req)
      (logged_status out0) (wot_exception out0)]"
    using assms(1) inner by (simp_all add: create_app_eq Let_def flip: i_def)
  have "request_header ''x-request-id'' req' = Some i"
    using forwarded_id [OF assms(3,4,2)] by (simp add: request_header_def assms(5) i_def)
  then have bound: "resolve_request_id (wdr_request_id d') (request_header ''x-request-id'' req') = i"
    by (simp add: i_def resolve_bound_id)
  obtain out1 t1 where routed: "iroutes (Some i) req' t = (out1, t1)" by fastforce
  have service: "iout = change_response (\<lambda>r. r\<lparr>wrs_headers := (wrs_headers r)(''x-request-id'' \<mapsto> i)\<rparr>) out1" "t' = t1"
    "il' = il @ [http_request_event
      (case wot_exception out1 of None \<Rightarrow> ''http_request_completed'' | Some _ \<Rightarrow> ''http_request_failed'')
      (iws_app_name icfg) (iws_app_env icfg) (Some i) d' (Operational_Metrics.ascii_upper (wrq_method req')) (logged_path out1 req')
      (logged_status out1) (wot_exception out1)]"
    using assms(6) routed by (simp_all add: incident_create_app_eq Let_def bound)
  have header: "map_of (orq_headers r) ''X-Request-ID'' = Some i"
    using assms(2-4) by (auto simp: send_attempt_def log_event_def Let_def request_headers_def REQUEST_ID_HEADER_def update_conv i_def
        split: sum.splits)
  have on_response: "\<forall>p. wot_response out = Some p \<longrightarrow> wrs_headers p ''x-request-id'' = Some i"
    "\<forall>p. wot_response iout = Some p \<longrightarrow> wrs_headers p ''x-request-id'' = Some i"
    by (auto simp: core(1) wrapped_def service(1) i_def)
  let ?e = "hd (drop (length lg) lg')" and ?e' = "hd (drop (length il) il')"
  have "lg' = lg @ [?e]" "map_of (snd ?e) ''requestId'' = Some (JStr i)"
    "il' = il @ [?e']" "map_of (snd ?e') ''requestId'' = Some (JStr i)"
    using http_event_request_id [OF nonempty] by (simp_all add: core(2) service(3))
  moreover have "t' = snd (iroutes (Some i) req' t)" by (simp add: service(2) routed)
  ultimately show ?thesis
    using valid on_response header event_line_request_id by blast
qed

section \<open>Witnesses\<close>

definition demo_traced_env :: gateway_env where
  "demo_traced_env = (demo_env (\<lambda>_. TimedOut))
     \<lparr>ge_request_id := Some (resolve_request_id (wdr_request_id demo_web_draws) (request_header ''x-request-id'' (demo_post ''https://ops.example/'')))\<rparr>"

definition demo_incident_web :: incident_web_settings where
  "demo_incident_web = \<lparr>iws_app_name = ''Incident Service'', iws_app_env = ''development'', iws_metrics_enabled = False\<rparr>"

theorem request_trace_witness:
  "\<exists>i r event. valid_request_id i \<and>
     gw_log (snd (send_attempt demo_gateway demo_traced_env ''GET'' ''u'' None None 1 \<lparr>gw_circuit = None, gw_log = []\<rparr>)) = [Sent r] \<and>
     map_of (orq_headers r) ''X-Request-ID'' = Some i \<and>
     snd (fst (snd (incident_create_app demo_incident_web demo_routes demo_web_draws None
       \<lparr>wrq_method = ''GET'', wrq_scheme = ''http'', wrq_netloc = ''i'', wrq_path = ''/'', wrq_headers = received_headers (orq_headers r)\<rparr>
       ((0, []), new_operational_metrics)))) = [event] \<and>
     map_of (snd event) ''requestId'' = Some (JStr i)"
proof -
  let ?gw = "\<lparr>gw_circuit = None, gw_log = []\<rparr> :: gateway_world"
  obtain res gw' where sent: "send_attempt demo_gateway demo_traced_env ''GET'' ''u'' None None 1 ?gw = (res, gw')" by fastforce
  have "\<exists>r. gw_log gw' = [Sent r]"
    using sent by (auto simp: send_attempt_def create_service_authorization_def demo_traced_env_def demo_env_def log_event_def Let_def
        split: if_splits)
  then obtain r where r: "gw_log gw' = gw_log ?gw @ [Sent r]" by auto
  let ?req = "\<lparr>wrq_method = ''GET'', wrq_scheme = ''http'', wrq_netloc = ''i'', wrq_path = ''/'', wrq_headers = received_headers (orq_headers r)\<rparr>"
  obtain out s' lg' m' where core: "create_app demo_web_settings (\<lambda>app. app) demo_routes demo_web_draws None (demo_post ''https://ops.example/'')
      ((5, []), new_operational_metrics) = (out, (s', lg'), m')" by (metis prod.exhaust)
  obtain iout t' il' im' where service: "incident_create_app demo_incident_web demo_routes demo_web_draws None ?req
      ((0, []), new_operational_metrics) = (iout, (t', il'), im')" by (metis prod.exhaust)
  have "ge_request_id demo_traced_env =
      Some (resolve_request_id (wdr_request_id demo_web_draws) (request_header ''x-request-id'' (demo_post ''https://ops.example/'')))"
    by (simp add: demo_traced_env_def)
  from request_trace [OF core this sent r _ service] r sent service show ?thesis by auto
qed

end
