(* ===== verification/Auth_Cookies.thy ===== *)
theory Auth_Cookies
  imports Auth_Guarantees
begin

text \<open>
  The cookies the authentication endpoints set and delete: \<open>core/auth_cookies.py\<close> of \<open>src/backend/app\<close>. A
  \<open>set_cookie\<close> is one Set-Cookie header as Starlette writes it for \<open>set_cookie\<close> and \<open>delete_cookie\<close>; the jar
  is what a browser keeps of them, per name and path, as RFC 6265 documents: a header with no time left
  removes the cookie, any other replaces it.
\<close>

section \<open>Headers\<close>

record set_cookie =
  sck_key :: string
  sck_value :: string
  sck_httponly :: bool
  sck_secure :: bool
  sck_samesite :: string
  sck_path :: string
  sck_max_age :: "int option"

record cookie_settings =
  cks_app_env :: string
  cks_api_v1_prefix :: string
  cks_refresh_cookie_name :: string
  cks_csrf_cookie_name :: string
  cks_refresh_cookie_samesite :: string

definition cookies_secure :: "cookie_settings \<Rightarrow> bool" where
  "cookies_secure c \<longleftrightarrow> py_lower (py_strip (cks_app_env c)) = ''production''"

definition refresh_cookie_path :: "cookie_settings \<Rightarrow> string" where
  "refresh_cookie_path c = cks_api_v1_prefix c @ ''/auth''"

definition set_refresh_cookie :: "cookie_settings \<Rightarrow> string \<Rightarrow> int option \<Rightarrow> set_cookie" where
  "set_refresh_cookie c token max_age =
     \<lparr>sck_key = cks_refresh_cookie_name c, sck_value = token, sck_httponly = True, sck_secure = cookies_secure c,
      sck_samesite = cks_refresh_cookie_samesite c, sck_path = refresh_cookie_path c, sck_max_age = max_age\<rparr>"

definition clear_refresh_cookie :: "cookie_settings \<Rightarrow> set_cookie" where
  "clear_refresh_cookie c =
     \<lparr>sck_key = cks_refresh_cookie_name c, sck_value = [], sck_httponly = True, sck_secure = cookies_secure c,
      sck_samesite = cks_refresh_cookie_samesite c, sck_path = refresh_cookie_path c, sck_max_age = Some 0\<rparr>"

definition set_csrf_cookie :: "cookie_settings \<Rightarrow> string \<Rightarrow> set_cookie" where
  "set_csrf_cookie c token =
     \<lparr>sck_key = cks_csrf_cookie_name c, sck_value = token, sck_httponly = False, sck_secure = cookies_secure c,
      sck_samesite = cks_refresh_cookie_samesite c, sck_path = ''/'', sck_max_age = None\<rparr>"

definition clear_csrf_cookie :: "cookie_settings \<Rightarrow> set_cookie" where
  "clear_csrf_cookie c =
     \<lparr>sck_key = cks_csrf_cookie_name c, sck_value = [], sck_httponly = False, sck_secure = cookies_secure c,
      sck_samesite = cks_refresh_cookie_samesite c, sck_path = ''/'', sck_max_age = Some 0\<rparr>"

definition auth_cookie_headers :: "cookie_settings \<Rightarrow> auth_reply \<Rightarrow> set_cookie list" where
  "auth_cookie_headers c reply =
     (case rp_refresh_cookie reply of
        CookieKept \<Rightarrow> []
      | CookieCleared \<Rightarrow> [clear_refresh_cookie c]
      | CookieSet token max_age \<Rightarrow> [set_refresh_cookie c token max_age]) @
     (case rp_csrf_cookie reply of
        CookieKept \<Rightarrow> []
      | CookieCleared \<Rightarrow> [clear_csrf_cookie c]
      | CookieSet token _ \<Rightarrow> [set_csrf_cookie c token])"

section \<open>The browser's jar\<close>

type_synonym cookie_jar = "string \<times> string \<Rightarrow> set_cookie option"

definition accept_cookie :: "set_cookie \<Rightarrow> cookie_jar \<Rightarrow> cookie_jar" where
  "accept_cookie k jar =
     (case sck_max_age k of
        Some age \<Rightarrow> if age \<le> 0 then jar((sck_key k, sck_path k) := None) else jar((sck_key k, sck_path k) \<mapsto> k)
      | None \<Rightarrow> jar((sck_key k, sck_path k) \<mapsto> k))"

definition browse_step :: "auth_deployment \<Rightarrow> cookie_settings \<Rightarrow> auth_call \<Rightarrow> auth_app \<times> cookie_jar \<Rightarrow> auth_app \<times> cookie_jar" where
  "browse_step dep c call s =
     (case auth_serve dep call (fst s) of (reply, app) \<Rightarrow> (app, fold accept_cookie (auth_cookie_headers c reply) (snd s)))"

definition browse :: "auth_deployment \<Rightarrow> cookie_settings \<Rightarrow> auth_call list \<Rightarrow> auth_app \<times> cookie_jar \<Rightarrow> auth_app \<times> cookie_jar" where
  "browse dep c calls s = fold (browse_step dep c) calls s"

section \<open>Lemmas\<close>

lemmas cookie_defs = set_refresh_cookie_def clear_refresh_cookie_def set_csrf_cookie_def clear_csrf_cookie_def

definition jar_wellformed :: "cookie_settings \<Rightarrow> cookie_jar \<Rightarrow> bool" where
  "jar_wellformed c jar \<longleftrightarrow>
     (\<forall>name path k. jar (name, path) = Some k \<longrightarrow>
        sck_key k = name \<and> sck_path k = path \<and> sck_secure k = cookies_secure c \<and>
        sck_samesite k = cks_refresh_cookie_samesite c \<and>
        (name = cks_refresh_cookie_name c \<and> path = refresh_cookie_path c \<and> sck_httponly k \<or>
         name = cks_csrf_cookie_name c \<and> path = ''/'' \<and> \<not> sck_httponly k))"

lemma accept_wellformed:
  "jar_wellformed c jar \<Longrightarrow> k \<in> set (auth_cookie_headers c reply) \<Longrightarrow> jar_wellformed c (accept_cookie k jar)"
  unfolding jar_wellformed_def accept_cookie_def auth_cookie_headers_def
  by (auto simp: cookie_defs split: option.splits if_splits cookie_change.splits)

lemma accept_all_wellformed:
  "jar_wellformed c jar \<Longrightarrow> set ks \<subseteq> set (auth_cookie_headers c reply) \<Longrightarrow> jar_wellformed c (fold accept_cookie ks jar)"
  by (induction ks arbitrary: jar) (auto intro: accept_wellformed)

lemma browse_wellformed: "jar_wellformed c (snd s) \<Longrightarrow> jar_wellformed c (snd (browse dep c calls s))"
proof (induction calls arbitrary: s)
  case (Cons call calls)
  obtain reply app where served: "auth_serve dep call (fst s) = (reply, app)" by fastforce
  have "jar_wellformed c (snd (browse_step dep c call s))"
    using accept_all_wellformed [OF Cons.prems, of "auth_cookie_headers c reply" reply] served by (simp add: browse_step_def)
  from Cons.IH [OF this] show ?case by (simp add: browse_def)
qed (simp add: browse_def)

text \<open>Deleting both cookies leaves a well-formed jar empty.\<close>

lemma cleared_jar:
  assumes "jar_wellformed c jar" and "rp_refresh_cookie reply = CookieCleared" and "rp_csrf_cookie reply = CookieCleared"
  shows "fold accept_cookie (auth_cookie_headers c reply) jar = (\<lambda>_. None)"
proof
  fix x :: "string \<times> string"
  obtain name path where x: "x = (name, path)" by fastforce
  have "jar (name, path) = None"
    if "\<not> (name = cks_refresh_cookie_name c \<and> path = refresh_cookie_path c)" "\<not> (name = cks_csrf_cookie_name c \<and> path = ''/'')"
    using assms(1) that unfolding jar_wellformed_def by (cases "jar (name, path)") auto
  then show "fold accept_cookie (auth_cookie_headers c reply) jar x = None"
    using assms(2,3) unfolding x by (auto simp: auth_cookie_headers_def accept_cookie_def cookie_defs)
qed

definition ends_session :: "auth_call \<Rightarrow> bool" where
  "ends_session call \<longleftrightarrow>
     (case call of ChangePassword _ _ _ _ \<Rightarrow> True | ConfirmReset _ _ _ \<Rightarrow> True | Logout _ _ \<Rightarrow> True | LogoutAll _ _ \<Rightarrow> True | _ \<Rightarrow> False)"

lemma ended_session_clears:
  assumes "auth_serve dep call app = (reply, app')" and "rp_status reply = 204" and "ends_session call"
  shows "rp_refresh_cookie reply = CookieCleared \<and> rp_csrf_cookie reply = CookieCleared"
  using assms(3)
proof (cases call)
  case (ChangePassword d req tok pw)
  then show ?thesis using assms(1,2)
    by (auto simp: auth_serve_def unit_of_work_def change_current_user_password_def get_current_user_def http_exception_def
        unhandled_def plain_reply_def clear_auth_cookies_def split: sum.splits prod.splits option.splits auth_error.splits)
next
  case (ConfirmReset d tok pw)
  then show ?thesis using assms(1,2)
    by (auto simp: auth_serve_def unit_of_work_def confirm_password_reset_def http_exception_def unhandled_def plain_reply_def
        clear_auth_cookies_def split: sum.splits prod.splits password_reset_error.splits)
next
  case (Logout d req)
  then show ?thesis using assms(1,2)
    by (auto simp: auth_serve_def unit_of_work_def logout_def http_exception_def unhandled_def plain_reply_def
        clear_auth_cookies_def Let_def split: sum.splits prod.splits option.splits auth_error.splits)
next
  case (LogoutAll d req)
  then show ?thesis using assms(1,2)
    by (auto simp: auth_serve_def unit_of_work_def logout_all_def get_current_user_def http_exception_def unhandled_def plain_reply_def
        clear_auth_cookies_def Let_def split: sum.splits prod.splits option.splits auth_error.splits)
qed (simp_all add: ends_session_def)

section \<open>Properties\<close>

text \<open>
  Claim C24. A browser that starts without cookies never holds, after any sequence of authentication
  requests, anything but the two cookies of the application: the refresh credential, unreadable by
  scripts and sent to the authentication endpoints only, and the CSRF proof; both only over HTTPS in
  production. When a logout, a global logout, a password change or a password reset succeeds, it holds
  neither.
\<close>

theorem browser_credentials:
  assumes "browse dep c calls (app, \<lambda>_. None) = (app1, jar)"
  shows "(\<forall>name path k. jar (name, path) = Some k \<longrightarrow>
      sck_secure k = (py_lower (py_strip (cks_app_env c)) = ''production'') \<and>
      (name = cks_refresh_cookie_name c \<and> path = cks_api_v1_prefix c @ ''/auth'' \<and> sck_httponly k \<or>
       name = cks_csrf_cookie_name c \<and> path = ''/'' \<and> \<not> sck_httponly k)) \<and>
    (\<forall>call reply app2. auth_serve dep call app1 = (reply, app2) \<longrightarrow> ends_session call \<longrightarrow> rp_status reply = 204 \<longrightarrow>
      browse dep c (calls @ [call]) (app, \<lambda>_. None) = (app2, \<lambda>_. None))"
proof -
  have "jar_wellformed c (\<lambda>_. None)" by (simp add: jar_wellformed_def)
  then have ok: "jar_wellformed c jar"
    using browse_wellformed [of c "(app, \<lambda>_. None)" dep calls] assms by simp
  have "browse dep c (calls @ [call]) (app, \<lambda>_. None) = (app2, \<lambda>_. None)"
    if "auth_serve dep call app1 = (reply, app2)" "ends_session call" "rp_status reply = 204" for call reply app2
  proof -
    have "browse dep c (calls @ [call]) (app, \<lambda>_. None) = browse_step dep c call (app1, jar)"
      using assms by (simp add: browse_def)
    then show ?thesis
      using cleared_jar [OF ok] ended_session_clears [OF that(1,3,2)] that(1) by (simp add: browse_step_def)
  qed
  with ok show ?thesis
    unfolding jar_wellformed_def cookies_secure_def refresh_cookie_path_def by blast
qed

section \<open>Witnesses\<close>

definition demo_cookie_settings :: cookie_settings where
  "demo_cookie_settings = \<lparr>cks_app_env = ''production'', cks_api_v1_prefix = ''/api/v1'', cks_refresh_cookie_name = ''r'',
     cks_csrf_cookie_name = ''c'', cks_refresh_cookie_samesite = ''lax''\<rparr>"

lemma ends_session_change: "ends_session demo_change"
  by (simp add: demo_change_def ends_session_def)

theorem browser_credentials_witness:
  "snd (browse demo_dep demo_cookie_settings [demo_change] (demo_app1, \<lambda>_. None)) = (\<lambda>_. None) \<and>
   snd (browse demo_dep demo_cookie_settings [demo_login] (demo_app0, \<lambda>_. None)) (''r'', ''/'') = None"
proof (rule conjI)
  have "rp_status (fst (auth_serve demo_dep demo_change demo_app1)) = 204" by (rule demo_changed)
  moreover have "browse demo_dep demo_cookie_settings [] (demo_app1, \<lambda>_. None) = (demo_app1, \<lambda>_. None)"
    by (simp add: browse_def)
  ultimately show "snd (browse demo_dep demo_cookie_settings [demo_change] (demo_app1, \<lambda>_. None)) = (\<lambda>_. None)"
    using browser_credentials [of demo_dep demo_cookie_settings "[]" demo_app1 demo_app1 "\<lambda>_. None"]
    by (metis append_Nil ends_session_change prod.collapse snd_conv)
  show "snd (browse demo_dep demo_cookie_settings [demo_login] (demo_app0, \<lambda>_. None)) (''r'', ''/'') = None"
    (is "?jar (''r'', ''/'') = None")
  proof (rule ccontr)
    assume "?jar (''r'', ''/'') \<noteq> None"
    then obtain k where k: "?jar (''r'', ''/'') = Some k" by blast
    show False
      using browser_credentials [OF prod.collapse [symmetric], THEN conjunct1, rule_format, OF k]
      by (simp add: demo_cookie_settings_def)
  qed
qed

end
