(* ===== verification/Whitespace_Check.thy ===== *)
theory Whitespace_Check
  imports Py_Url Py_Datetime "HOL-Library.List_Lexorder" "HOL-Library.Char_ord"
begin

text \<open>
  The quality gate on trailing whitespace, \<open>src/scripts/trim_trailing_whitespace.py\<close>, which the workflow
  \<open>opsflow-quality.yml\<close> runs with \<open>--check\<close>. The contents of a file are its bytes, a list of \<open>char\<close>. The
  regular expression is matched the way \<open>re.sub\<close> matches it: at each position the longest run of spaces
  and tabs first, then shorter ones, until what follows is the end of a line. The file system maps the parts
  of a path to what is found there, following no link. Git is a parameter: its standard output for the
  arguments of a query, \<open>None\<close> where it exits with an error; so is \<open>os.fsdecode\<close>. A set of paths is a list
  without duplicates, whose order the script never shows.
\<close>

abbreviation (input) LF :: char where "LF \<equiv> CHR 0x0A"
abbreviation (input) CR :: char where "CR \<equiv> CHR 0x0D"
abbreviation (input) NUL :: char where "NUL \<equiv> CHR 0x00"

section \<open>The regular expression\<close>

definition blank_char :: "char \<Rightarrow> bool" where
  "blank_char c \<longleftrightarrow> c = CHR '' '' \<or> c = CHR 0x09"

fun at_line_end :: "string \<Rightarrow> bool" where
  "at_line_end [] = True"
| "at_line_end (c # cs) = (c = LF)"

definition ending_ahead :: "string \<Rightarrow> bool" where
  "ending_ahead rest \<longleftrightarrow> (rest \<noteq> [] \<and> hd rest = CR \<and> at_line_end (tl rest)) \<or> at_line_end rest"

definition blanks_matched :: "string \<Rightarrow> nat option" where
  "blanks_matched s =
     find (\<lambda>n. ending_ahead (drop n s)) (rev [1..<Suc (length (takeWhile blank_char s))])"

lemma blanks_matched_pos: "blanks_matched s = Some n \<Longrightarrow> 0 < n"
  by (auto simp: blanks_matched_def find_Some_iff rev_nth simp del: upt_Suc)

function remove_trailing_whitespace :: "string \<Rightarrow> string" where
  "remove_trailing_whitespace [] = []"
| "remove_trailing_whitespace (c # cs) =
     (case blanks_matched (c # cs) of
        Some n \<Rightarrow> remove_trailing_whitespace (drop n (c # cs))
      | None \<Rightarrow> c # remove_trailing_whitespace cs)"
  by pat_completeness auto

termination
  by (relation "measure length") (auto dest: blanks_matched_pos)

section \<open>Paths\<close>

type_synonym path = "string list"

definition py_path :: "string \<Rightarrow> path" where
  "py_path s =
     (if s \<noteq> [] \<and> hd s = CHR ''/'' then [''/''] else []) @
     filter (\<lambda>w. w \<noteq> [] \<and> w \<noteq> ''.'') (py_split_on (CHR ''/'') s)"

definition joined :: "path \<Rightarrow> path \<Rightarrow> path" where
  "joined base p = (if p \<noteq> [] \<and> hd p = ''/'' then p else base @ p)"

definition as_posix :: "path \<Rightarrow> string" where
  "as_posix p =
     (if p = [] then ''.'' else if hd p = ''/'' then ''/'' @ py_join ''/'' (tl p) else py_join ''/'' p)"

definition path_name :: "path \<Rightarrow> string" where
  "path_name p = (if p = [] \<or> p = [''/''] then [] else last p)"

definition path_suffix :: "path \<Rightarrow> string" where
  "path_suffix p =
     (let name = path_name p; ext = after_last (CHR ''.'') name; stem = length name - length ext - 1
      in if CHR ''.'' \<in> set name \<and> 0 < stem \<and> ext \<noteq> [] then CHR ''.'' # ext else [])"

definition SUPPORTED_SUFFIXES :: "string list" where
  "SUPPORTED_SUFFIXES =
     [''.cfg'', ''.css'', ''.dockerfile'', ''.env'', ''.example'', ''.html'', ''.ini'', ''.js'', ''.json'', ''.jsx'',
      ''.md'', ''.py'', ''.pyi'', ''.scss'', ''.sh'', ''.sql'', ''.toml'', ''.ts'', ''.tsx'', ''.txt'', ''.yaml'', ''.yml'']"

definition SUPPORTED_NAMES :: "string list" where
  "SUPPORTED_NAMES = [''.gitattributes'', ''.gitignore'', ''Dockerfile'']"

definition EXCLUDED_DIRECTORY_NAMES :: "string list" where
  "EXCLUDED_DIRECTORY_NAMES =
     [''.git'', ''.mypy_cache'', ''.pytest_cache'', ''.ruff_cache'', ''.venv'', ''coverage'', ''dist'', ''node_modules'']"

definition is_supported_path :: "path \<Rightarrow> bool" where
  "is_supported_path p \<longleftrightarrow>
     (if list_ex (\<lambda>part. part \<in> set EXCLUDED_DIRECTORY_NAMES) p then False
      else if path_name p \<in> set SUPPORTED_NAMES then True
      else py_lower (path_suffix p) \<in> set SUPPORTED_SUFFIXES)"

section \<open>Git queries\<close>

datatype script_error = CalledProcessError | UnsupportedMode string

type_synonym git = "string list \<Rightarrow> string option"

definition ascii_strip :: "string \<Rightarrow> string" where
  "ascii_strip s =
     (let space = (\<lambda>c. c = CHR '' '' \<or> 9 \<le> (of_char c :: nat) \<and> (of_char c :: nat) \<le> 13)
      in rev (dropWhile space (rev (dropWhile space s))))"

definition repository_root :: "git \<Rightarrow> (string \<Rightarrow> string) \<Rightarrow> script_error + path" where
  "repository_root git fsdecode =
     (case git [''rev-parse'', ''--show-toplevel''] of
        None \<Rightarrow> Inl CalledProcessError
      | Some out \<Rightarrow> Inr (py_path (fsdecode (ascii_strip out))))"

definition git_paths :: "git \<Rightarrow> (string \<Rightarrow> string) \<Rightarrow> string list \<Rightarrow> script_error + path list" where
  "git_paths git fsdecode arguments =
     (case git (arguments @ [''-z'']) of
        None \<Rightarrow> Inl CalledProcessError
      | Some out \<Rightarrow>
          Inr (remdups (map (\<lambda>raw. py_path (fsdecode raw)) (filter (\<lambda>raw. raw \<noteq> []) (py_split_on NUL out)))))"

definition tracked_paths :: "git \<Rightarrow> (string \<Rightarrow> string) \<Rightarrow> script_error + path list" where
  "tracked_paths git fsdecode = git_paths git fsdecode [''ls-files'']"

definition untracked_paths :: "git \<Rightarrow> (string \<Rightarrow> string) \<Rightarrow> script_error + path list" where
  "untracked_paths git fsdecode = git_paths git fsdecode [''ls-files'', ''--others'', ''--exclude-standard'']"

definition unstaged_tracked_paths :: "git \<Rightarrow> (string \<Rightarrow> string) \<Rightarrow> script_error + path list" where
  "unstaged_tracked_paths git fsdecode =
     git_paths git fsdecode [''diff'', ''--name-only'', ''--diff-filter=ACMR'', ''--'']"

definition paths_union :: "script_error + path list \<Rightarrow> script_error + path list \<Rightarrow> script_error + path list" where
  "paths_union a b =
     (case a of
        Inl e \<Rightarrow> Inl e
      | Inr ps \<Rightarrow> (case b of Inl e \<Rightarrow> Inl e | Inr qs \<Rightarrow> Inr (remdups (ps @ qs))))"

definition candidate_paths :: "git \<Rightarrow> (string \<Rightarrow> string) \<Rightarrow> string \<Rightarrow> script_error + path list" where
  "candidate_paths git fsdecode mode =
     (case (if mode = ''fix-unstaged''
            then paths_union (unstaged_tracked_paths git fsdecode) (untracked_paths git fsdecode)
            else if mode \<in> {''check'', ''fix-all''}
            then paths_union (tracked_paths git fsdecode) (untracked_paths git fsdecode)
            else Inl (UnsupportedMode mode)) of
        Inl e \<Rightarrow> Inl e
      | Inr ps \<Rightarrow> Inr (sort_key as_posix (filter is_supported_path ps)))"

section \<open>Files\<close>

datatype file_entry = Regular string | Symlink | Directory

type_synonym files = "path \<rightharpoonup> file_entry"

fun changed_paths :: "path \<Rightarrow> path list \<Rightarrow> bool \<Rightarrow> files \<Rightarrow> path list \<times> files" where
  "changed_paths base [] write_changes fs = ([], fs)"
| "changed_paths base (p # ps) write_changes fs =
     (case fs (joined base p) of
        Some (Regular original) \<Rightarrow>
          if NUL \<in> set original then changed_paths base ps write_changes fs
          else
            let normalized = remove_trailing_whitespace original
            in if normalized = original then changed_paths base ps write_changes fs
               else
                 let (changed, fs') =
                       changed_paths base ps write_changes
                         (if write_changes then fs(joined base p \<mapsto> Regular normalized) else fs)
                 in (p # changed, fs')
      | _ \<Rightarrow> changed_paths base ps write_changes fs)"

section \<open>The command\<close>

record trim_arguments =
  ta_check :: bool
  ta_fix_all :: bool
  ta_fix_unstaged :: bool

record trim_outcome =
  to_code :: int
  to_out :: "string list"
  to_err :: "string list"
  to_files :: files

definition trim_mode :: "trim_arguments \<Rightarrow> string" where
  "trim_mode arguments =
     (if ta_check arguments then ''check''
      else if ta_fix_all arguments then ''fix-all''
      else ''fix-unstaged'')"

definition trim_report :: "string \<Rightarrow> path list \<Rightarrow> files \<Rightarrow> trim_outcome" where
  "trim_report mode changed fs =
     (if mode = ''check''
      then if changed = []
           then \<lparr>to_code = 0, to_out = [''Trailing-whitespace check passed.''], to_err = [], to_files = fs\<rparr>
           else \<lparr>to_code = 1, to_out = [],
                 to_err = [''Trailing whitespace was found in:''] @
                          map (\<lambda>p. ''  '' @ as_posix p) changed @
                          [''Run: python scripts/trim_trailing_whitespace.py --fix-all''],
                 to_files = fs\<rparr>
      else if changed = []
      then \<lparr>to_code = 0, to_out = [''No trailing whitespace required removal.''], to_err = [], to_files = fs\<rparr>
      else \<lparr>to_code = 0,
            to_out = map (\<lambda>p. ''Trimmed trailing whitespace from: '' @ as_posix p) changed @
                     [''Updated '' @ decimal (length changed) @ '' file(s).''],
            to_err = [], to_files = fs\<rparr>)"

definition trim_main :: "git \<Rightarrow> (string \<Rightarrow> string) \<Rightarrow> trim_arguments \<Rightarrow> files \<Rightarrow> script_error + trim_outcome" where
  "trim_main git fsdecode arguments fs =
     (let mode = trim_mode arguments
      in case repository_root git fsdecode of
           Inl e \<Rightarrow> Inl e
         | Inr base \<Rightarrow>
             (case candidate_paths git fsdecode mode of
                Inl e \<Rightarrow> Inl e
              | Inr paths \<Rightarrow>
                  let (changed, fs') = changed_paths base paths (mode \<noteq> ''check'') fs
                  in Inr (trim_report mode changed fs')))"

section \<open>Line by line\<close>

text \<open>
  What the expression is meant to do, said without it: of every line, cut the blanks at its end, before the
  carriage return when it ends in one.
\<close>

definition cut_blanks :: "string \<Rightarrow> string" where
  "cut_blanks l = rev (dropWhile blank_char (rev l))"

definition trim_line :: "string \<Rightarrow> string" where
  "trim_line l = (if l \<noteq> [] \<and> last l = CR then cut_blanks (butlast l) @ [CR] else cut_blanks l)"

definition trimmed_lines :: "string \<Rightarrow> string" where
  "trimmed_lines s = py_join [LF] (map trim_line (py_split_on LF s))"

lemma blank_char_simps [simp]: "\<not> blank_char LF" "\<not> blank_char CR"
  by (auto simp: blank_char_def)

lemma cut_blanks_Cons:
  "cut_blanks (c # l) = (if blank_char c \<and> (\<forall>x \<in> set l. blank_char x) then [] else c # cut_blanks l)"
proof (cases "\<forall>x \<in> set l. blank_char x")
  case True
  then have "dropWhile blank_char (rev l @ [c]) = (if blank_char c then [] else [c])"
    and "dropWhile blank_char (rev l) = []"
    using dropWhile_append2 [of "rev l" blank_char "[c]"] by auto
  with True show ?thesis by (simp add: cut_blanks_def)
next
  case False
  then show ?thesis by (auto simp: cut_blanks_def dropWhile_append1)
qed

lemma cut_blanks_Nil [simp]: "cut_blanks [] = []"
  by (simp add: cut_blanks_def)

lemma cut_blanks_all: "\<forall>x \<in> set l. blank_char x \<Longrightarrow> cut_blanks l = []"
  by (cases l) (simp_all add: cut_blanks_Cons)

lemma set_cut_blanks: "set (cut_blanks l) \<subseteq> set l"
  by (auto simp: cut_blanks_def dest: set_dropWhileD)

lemma cut_blanks_idem [simp]: "cut_blanks (cut_blanks l) = cut_blanks l"
  by (simp add: cut_blanks_def)

lemma cut_blanks_prefix: "\<exists>w. l = cut_blanks l @ w \<and> (\<forall>x \<in> set w. blank_char x)"
proof (intro exI conjI)
  have "rev l = takeWhile blank_char (rev l) @ dropWhile blank_char (rev l)" by simp
  then show "l = cut_blanks l @ rev (takeWhile blank_char (rev l))"
    unfolding cut_blanks_def by (metis rev_append rev_rev_ident)
  show "\<forall>x \<in> set (rev (takeWhile blank_char (rev l))). blank_char x"
    by (auto dest: set_takeWhileD)
qed

lemma set_trim_line: "set (trim_line l) \<subseteq> set l"
proof (cases "l \<noteq> [] \<and> last l = CR")
  case True
  then have "CR \<in> set l" by (metis last_in_set)
  then show ?thesis
    using True set_cut_blanks [of "butlast l"] by (auto simp: trim_line_def dest: in_set_butlastD)
next
  case False
  then show ?thesis using set_cut_blanks [of l] by (auto simp: trim_line_def)
qed

lemma trim_line_Nil [simp]: "trim_line [] = []"
  by (simp add: trim_line_def)

text \<open>The blanks a line starts with survive unless nothing but a carriage return follows them.\<close>

lemma trim_line_blanks:
  assumes "dropWhile blank_char l = [] \<or> dropWhile blank_char l = [CR]"
  shows "trim_line l = dropWhile blank_char l"
proof -
  have split: "l = takeWhile blank_char l @ dropWhile blank_char l" by simp
  have all: "\<forall>x \<in> set (takeWhile blank_char l). blank_char x" by (auto dest: set_takeWhileD)
  from assms show ?thesis
  proof
    assume none: "dropWhile blank_char l = []"
    then have blanks: "\<forall>x \<in> set l. blank_char x" by simp
    then have "l \<noteq> [] \<Longrightarrow> last l \<noteq> CR" by (metis blank_char_simps(2) last_in_set)
    then have "trim_line l = cut_blanks l" by (auto simp: trim_line_def)
    then show ?thesis unfolding none using cut_blanks_all [OF blanks] by simp
  next
    assume cr: "dropWhile blank_char l = [CR]"
    then have "l = takeWhile blank_char l @ [CR]" using split by metis
    then have "trim_line l = trim_line (takeWhile blank_char l @ [CR])" by (rule arg_cong)
    also have "\<dots> = cut_blanks (takeWhile blank_char l) @ [CR]" by (simp add: trim_line_def)
    finally have "trim_line l = cut_blanks (takeWhile blank_char l) @ [CR]" .
    then show ?thesis using cr all by (simp add: cut_blanks_all)
  qed
qed

lemma trim_line_Cons:
  assumes "\<not> (blank_char c \<and> (dropWhile blank_char (c # l) = [] \<or> dropWhile blank_char (c # l) = [CR]))"
  shows "trim_line (c # l) = c # trim_line l"
proof (cases "l = []")
  case True
  then show ?thesis using assms by (auto simp: trim_line_def cut_blanks_Cons)
next
  case False
  have kept: "\<not> (blank_char c \<and> (\<forall>x \<in> set l. blank_char x))" using assms by auto
  have kept_cr: "\<not> (blank_char c \<and> (\<forall>x \<in> set (butlast l). blank_char x))" if "last l = CR"
  proof
    assume blanks: "blank_char c \<and> (\<forall>x \<in> set (butlast l). blank_char x)"
    have "l = butlast l @ [CR]" using False that by (metis append_butlast_last_id)
    then have "dropWhile blank_char l = [CR]"
      using blanks dropWhile_append2 [of "butlast l" blank_char "[CR]"] by simp
    then show False using assms blanks by auto
  qed
  show ?thesis
  proof (cases "last l = CR")
    case True
    have "cut_blanks (c # butlast l) = c # cut_blanks (butlast l)"
      using kept_cr [OF True] by (simp only: cut_blanks_Cons if_False)
    then show ?thesis using False True by (simp add: trim_line_def)
  next
    case other: False
    have "cut_blanks (c # l) = c # cut_blanks l" using kept by (simp only: cut_blanks_Cons if_False)
    then show ?thesis using False other by (simp add: trim_line_def)
  qed
qed

section \<open>What is matched\<close>

lemma not_ending_in_blank: "rest \<noteq> [] \<Longrightarrow> blank_char (hd rest) \<Longrightarrow> \<not> ending_ahead rest"
  by (cases rest) (auto simp: ending_ahead_def)

text \<open>Only the whole run of blanks can match: after a shorter one comes a blank.\<close>

lemma blanks_matched_run:
  "blanks_matched s =
     (if takeWhile blank_char s \<noteq> [] \<and> ending_ahead (dropWhile blank_char s)
      then Some (length (takeWhile blank_char s)) else None)"
proof -
  let ?w = "takeWhile blank_char s"
  have short: "\<not> ending_ahead (drop n s)" if "n < length ?w" for n
  proof (rule not_ending_in_blank)
    have "n < length s" using that length_takeWhile_le [of blank_char s] by linarith
    then show "drop n s \<noteq> []" by simp
    have "hd (drop n s) = ?w ! n" using \<open>n < length s\<close> that by (simp add: hd_drop_conv_nth takeWhile_nth)
    then show "blank_char (hd (drop n s))" using that by (metis nth_mem set_takeWhileD)
  qed
  have full: "drop (length ?w) s = dropWhile blank_char s" by (simp add: dropWhile_eq_drop)
  have none: "find (\<lambda>n. ending_ahead (drop n s)) (rev [1..<length ?w]) = None"
    using short by (auto simp: find_None_iff)
  show ?thesis
  proof (cases "?w = []")
    case True
    then show ?thesis by (simp add: blanks_matched_def)
  next
    case False
    then have "[1..<Suc (length ?w)] = [1..<length ?w] @ [length ?w]" by (simp add: Suc_le_eq)
    then show ?thesis using False none full by (simp add: blanks_matched_def del: upt_Suc)
  qed
qed

lemma ending_ahead_line:
  assumes "LF \<notin> set d" and "r = [] \<or> hd r = LF" and "d \<noteq> [] \<longrightarrow> \<not> blank_char (hd d)"
  shows "ending_ahead (d @ r) \<longleftrightarrow> d = [] \<or> d = [CR]"
proof -
  have r: "at_line_end r" using assms(2) by (cases r) auto
  show ?thesis
  proof (cases d)
    case Nil
    then show ?thesis using r by (simp add: ending_ahead_def)
  next
    case (Cons x d')
    then show ?thesis using assms(1) r by (cases d') (auto simp: ending_ahead_def)
  qed
qed

lemma blanks_in_line:
  "r = [] \<or> hd r = LF \<Longrightarrow>
   takeWhile blank_char (l @ r) = takeWhile blank_char l \<and> dropWhile blank_char (l @ r) = dropWhile blank_char l @ r"
  by (induction l) (cases r; auto)+

lemma remove_line:
  "LF \<notin> set l \<Longrightarrow> r = [] \<or> hd r = LF \<Longrightarrow>
   remove_trailing_whitespace (l @ r) = trim_line l @ remove_trailing_whitespace r"
proof (induction l rule: length_induct)
  case (1 l)
  show ?case
  proof (cases l)
    case Nil
    then show ?thesis by simp
  next
    case (Cons c w)
    let ?d = "dropWhile blank_char l"
    have take: "takeWhile blank_char (l @ r) = takeWhile blank_char l"
      and drop: "dropWhile blank_char (l @ r) = ?d @ r"
      using blanks_in_line [OF 1(3)] by auto
    have "set ?d \<subseteq> set l" by (auto dest: set_dropWhileD)
    then have absent: "LF \<notin> set ?d" using 1(2) by auto
    have ending: "ending_ahead (?d @ r) \<longleftrightarrow> ?d = [] \<or> ?d = [CR]"
    proof (rule ending_ahead_line [OF absent 1(3)])
      show "?d \<noteq> [] \<longrightarrow> \<not> blank_char (hd ?d)" by (metis dropWhile_eq_Nil_conv hd_dropWhile)
    qed
    have run: "takeWhile blank_char l \<noteq> [] \<longleftrightarrow> blank_char c" using Cons by simp
    show ?thesis
    proof (cases "blank_char c \<and> (?d = [] \<or> ?d = [CR])")
      case True
      then have matched: "blanks_matched (l @ r) = Some (length (takeWhile blank_char l))"
        using take drop ending run by (simp add: blanks_matched_run)
      have cut: "drop (length (takeWhile blank_char l)) (l @ r) = ?d @ r"
        using take drop by (metis dropWhile_eq_drop)
      have "?d = dropWhile blank_char w" using True Cons by simp
      then have "length ?d < length l"
        using length_dropWhile_le [of blank_char w] Cons by simp
      then have "remove_trailing_whitespace (?d @ r) = trim_line ?d @ remove_trailing_whitespace r"
        using 1(1) absent 1(3) by blast
      moreover have "trim_line ?d = trim_line l"
      proof -
        have "trim_line [CR] = [CR]" by (simp add: trim_line_def)
        then have "trim_line ?d = ?d" using True trim_line_Nil by metis
        moreover have "trim_line l = ?d" using True by (intro trim_line_blanks) simp
        ultimately show ?thesis by simp
      qed
      moreover have "remove_trailing_whitespace (l @ r) = remove_trailing_whitespace (?d @ r)"
        using matched cut Cons by simp
      ultimately show ?thesis by simp
    next
      case False
      then have "blanks_matched (l @ r) = None"
        using take drop ending run by (simp add: blanks_matched_run)
      then have "remove_trailing_whitespace (l @ r) = c # remove_trailing_whitespace (w @ r)"
        using Cons by simp
      also have "\<dots> = c # trim_line w @ remove_trailing_whitespace r"
        using 1 Cons by simp
      also have "\<dots> = trim_line l @ remove_trailing_whitespace r"
        using trim_line_Cons [of c w] False Cons by simp
      finally show ?thesis .
    qed
  qed
qed

lemma remove_newline: "remove_trailing_whitespace (LF # s) = LF # remove_trailing_whitespace s"
  by (simp add: blanks_matched_run)

lemma remove_lines:
  "ls \<noteq> [] \<Longrightarrow> \<forall>l \<in> set ls. LF \<notin> set l \<Longrightarrow>
   remove_trailing_whitespace (py_join [LF] ls) = py_join [LF] (map trim_line ls)"
proof (induction ls rule: induct_list012)
  case (2 l)
  then show ?case using remove_line [of l "[]"] by simp
next
  case (3 l k ls)
  then show ?case
    using remove_line [of l "LF # py_join [LF] (k # ls)"] by (simp add: remove_newline del: remove_trailing_whitespace.simps(2))
qed simp

lemma split_lines: "py_split_on LF s \<noteq> []" "\<forall>l \<in> set (py_split_on LF s). LF \<notin> set l"
  "py_join [LF] (py_split_on LF s) = s"
proof -
  have "py_split_on LF s \<noteq> [] \<and> (\<forall>l \<in> set (py_split_on LF s). LF \<notin> set l) \<and>
        py_join [LF] (py_split_on LF s) = s"
  proof (induction s)
    case (Cons c s)
    obtain w ws where split: "py_split_on LF s = w # ws" using Cons.IH by (cases "py_split_on LF s") auto
    have "py_join [LF] ([] # w # ws) = LF # py_join [LF] (w # ws)" by simp
    moreover have "py_join [LF] ((c # w) # ws) = c # py_join [LF] (w # ws)" by (cases ws) auto
    ultimately show ?case using Cons.IH split by auto
  qed simp
  then show "py_split_on LF s \<noteq> []" "\<forall>l \<in> set (py_split_on LF s). LF \<notin> set l"
    "py_join [LF] (py_split_on LF s) = s" by auto
qed

theorem trim_by_lines: "remove_trailing_whitespace s = trimmed_lines s"
  using remove_lines [OF split_lines(1,2)] split_lines(3) by (simp add: trimmed_lines_def)

section \<open>A second pass\<close>

text \<open>
  A carriage return in the middle of a line is the one case in which a second pass finds more to cut: the
  first one uncovers it as the end of the line.
\<close>

definition stray_free :: "string \<Rightarrow> bool" where
  "stray_free s \<longleftrightarrow> (\<forall>l \<in> set (py_split_on LF s). CR \<notin> set (butlast l))"

lemma trim_line_idem:
  assumes "CR \<notin> set (butlast l)"
  shows "trim_line (trim_line l) = trim_line l"
proof (cases "l \<noteq> [] \<and> last l = CR")
  case True
  then show ?thesis by (simp add: trim_line_def)
next
  case False
  then have cut: "trim_line l = cut_blanks l" by (auto simp: trim_line_def)
  obtain w where w: "l = cut_blanks l @ w" "\<forall>x \<in> set w. blank_char x" using cut_blanks_prefix by blast
  have "last (cut_blanks l) \<noteq> CR" if some: "cut_blanks l \<noteq> []"
  proof (cases "w = []")
    case True
    then show ?thesis using False w some by auto
  next
    case False
    then have "butlast l = cut_blanks l @ butlast w" using w(1) by (metis butlast_append)
    then have "CR \<notin> set (cut_blanks l)" using assms by simp
    then show ?thesis using some by (metis last_in_set)
  qed
  then show ?thesis using cut by (auto simp: trim_line_def [of "cut_blanks l"])
qed

lemma trimmed_split:
  "py_split_on LF (remove_trailing_whitespace s) = map trim_line (py_split_on LF s)"
proof -
  have "\<forall>l \<in> set (map trim_line (py_split_on LF s)). LF \<notin> set l"
    using split_lines(2) [of s] set_trim_line by fastforce
  then show ?thesis
    using split_lines(1) [of s] by (simp add: trim_by_lines trimmed_lines_def py_split_on_join)
qed

lemma remove_idem: "stray_free s \<Longrightarrow> remove_trailing_whitespace (remove_trailing_whitespace s) = remove_trailing_whitespace s"
  unfolding trim_by_lines [of "remove_trailing_whitespace s"] trimmed_lines_def trimmed_split
  by (simp add: stray_free_def trim_line_idem trim_by_lines trimmed_lines_def cong: map_cong)

lemma remove_NUL: "NUL \<notin> set s \<Longrightarrow> NUL \<notin> set (remove_trailing_whitespace s)"
proof -
  have "set (remove_trailing_whitespace s) \<subseteq> set s"
  proof (induction s rule: remove_trailing_whitespace.induct)
    case (2 c cs)
    show ?case
    proof (cases "blanks_matched (c # cs)")
      case None
      then show ?thesis using 2(1) by auto
    next
      case (Some n)
      then show ?thesis using 2(2) set_drop_subset [of n "c # cs"] by auto
    qed
  qed simp
  then show "NUL \<notin> set s \<Longrightarrow> NUL \<notin> set (remove_trailing_whitespace s)" by auto
qed

lemma remove_length:
  "length (remove_trailing_whitespace s) \<le> length s \<and>
   (length (remove_trailing_whitespace s) = length s \<longrightarrow> remove_trailing_whitespace s = s)"
proof (induction s rule: remove_trailing_whitespace.induct)
  case (2 c cs)
  show ?case
  proof (cases "blanks_matched (c # cs)")
    case None
    then show ?thesis using 2(1) by simp
  next
    case (Some n)
    then have "length (remove_trailing_whitespace (c # cs)) \<le> length (c # cs) - n"
      using 2(2) by (simp only: remove_trailing_whitespace.simps option.case length_drop)
    then have "length (remove_trailing_whitespace (c # cs)) < length (c # cs)"
      using blanks_matched_pos [OF Some] by (metis diff_less length_greater_0_conv list.distinct(1) order_le_less_trans)
    then show ?thesis by linarith
  qed
qed simp

text \<open>Repeating the command settles: every pass that changes a file shortens it.\<close>

theorem passes_settle:
  "\<exists>k \<le> length s. \<forall>j \<ge> k. (remove_trailing_whitespace ^^ j) s = (remove_trailing_whitespace ^^ k) s"
proof (induction "length s" arbitrary: s rule: less_induct)
  case less
  let ?t = "remove_trailing_whitespace s"
  show ?case
  proof (cases "?t = s")
    case True
    then have "(remove_trailing_whitespace ^^ j) s = s" for j by (induction j) auto
    then show ?thesis by auto
  next
    case False
    then have shorter: "length ?t < length s" using remove_length [of s] by linarith
    then obtain k where k: "k \<le> length ?t"
      "\<forall>j \<ge> k. (remove_trailing_whitespace ^^ j) ?t = (remove_trailing_whitespace ^^ k) ?t"
      using less by blast
    have shift: "(remove_trailing_whitespace ^^ Suc j) s = (remove_trailing_whitespace ^^ j) ?t" for j
      by (simp add: funpow_swap1)
    have "(remove_trailing_whitespace ^^ j) s = (remove_trailing_whitespace ^^ Suc k) s" if "Suc k \<le> j" for j
    proof -
      obtain i where i: "j = Suc i" "k \<le> i" using \<open>Suc k \<le> j\<close> by (metis Suc_le_D Suc_le_mono)
      have "(remove_trailing_whitespace ^^ j) s = (remove_trailing_whitespace ^^ i) ?t" unfolding i(1) by (rule shift)
      also have "\<dots> = (remove_trailing_whitespace ^^ k) ?t" using k(2) i(2) by blast
      also have "\<dots> = (remove_trailing_whitespace ^^ Suc k) s" by (rule shift [symmetric])
      finally show ?thesis .
    qed
    then show ?thesis using k(1) shorter by (intro exI [of _ "Suc k"]) auto
  qed
qed

section \<open>The files\<close>

definition trims :: "file_entry option \<Rightarrow> string option" where
  "trims e =
     (case e of
        Some (Regular c) \<Rightarrow>
          if NUL \<in> set c \<or> remove_trailing_whitespace c = c then None else Some (remove_trailing_whitespace c)
      | _ \<Rightarrow> None)"

lemma trims_regular:
  "trims (Some (Regular c)) =
     (if NUL \<in> set c \<or> remove_trailing_whitespace c = c then None else Some (remove_trailing_whitespace c))"
  by (simp add: trims_def)

lemma changed_paths_step:
  "changed_paths base (p # ps) write fs =
     (case trims (fs (joined base p)) of
        None \<Rightarrow> changed_paths base ps write fs
      | Some c \<Rightarrow>
          (let (changed, fs') = changed_paths base ps write (if write then fs(joined base p \<mapsto> Regular c) else fs)
           in (p # changed, fs')))"
proof (cases "fs (joined base p)")
  case None
  then show ?thesis by (simp add: trims_def)
next
  case (Some e)
  then show ?thesis by (cases e) (simp_all add: trims_def Let_def)
qed

lemma changed_paths_check:
  "changed_paths base ps False fs = (filter (\<lambda>p. trims (fs (joined base p)) \<noteq> None) ps, fs)"
  by (induction ps) (auto simp: changed_paths_step simp del: changed_paths.simps(2) split: option.splits)

definition settles_once :: "files \<Rightarrow> bool" where
  "settles_once fs \<longleftrightarrow> (\<forall>q c. trims (fs q) = Some c \<longrightarrow> trims (Some (Regular c)) = None)"

definition rewritten :: "path set \<Rightarrow> files \<Rightarrow> files" where
  "rewritten qs fs = (\<lambda>q. if q \<in> qs then (case trims (fs q) of Some c \<Rightarrow> Some (Regular c) | None \<Rightarrow> fs q) else fs q)"

lemma trims_Some:
  "trims e = Some c \<Longrightarrow> \<exists>c0. e = Some (Regular c0) \<and> NUL \<notin> set c0 \<and> c = remove_trailing_whitespace c0"
  by (auto simp: trims_def split: option.splits file_entry.splits if_splits)

lemma stray_free_settles: "(\<And>q c. fs q = Some (Regular c) \<Longrightarrow> stray_free c) \<Longrightarrow> settles_once fs"
  unfolding settles_once_def by (metis remove_idem trims_Some trims_regular)

lemma changed_paths_fix: "settles_once fs \<Longrightarrow> snd (changed_paths base ps True fs) = rewritten (joined base ` set ps) fs"
proof (induction ps arbitrary: fs)
  case Nil
  then show ?case by (simp add: rewritten_def)
next
  case (Cons p ps)
  show ?case
  proof (cases "trims (fs (joined base p))")
    case None
    then have "rewritten (joined base ` set (p # ps)) fs = rewritten (joined base ` set ps) fs"
      by (auto simp: rewritten_def)
    then show ?thesis using None Cons by (simp add: changed_paths_step del: changed_paths.simps(2))
  next
    case (Some c)
    let ?fs = "fs(joined base p \<mapsto> Regular c)"
    have final: "trims (Some (Regular c)) = None" using Cons.prems Some by (auto simp: settles_once_def)
    then have "settles_once ?fs" using Cons.prems by (auto simp: settles_once_def)
    then have "snd (changed_paths base ps True ?fs) = rewritten (joined base ` set ps) ?fs" by (rule Cons.IH)
    moreover have "snd (changed_paths base (p # ps) True fs) = snd (changed_paths base ps True ?fs)"
      using Some by (simp only: changed_paths_step option.case Let_def case_prod_beta snd_conv if_True)
    moreover have "rewritten (joined base ` set ps) ?fs = rewritten (joined base ` set (p # ps)) fs"
      using final Some by (intro ext) (auto simp: rewritten_def split: option.splits)
    ultimately show ?thesis by (simp only:)
  qed
qed

lemma nothing_left: "settles_once fs \<Longrightarrow> q \<in> qs \<Longrightarrow> trims (rewritten qs fs q) = None"
  by (auto simp: rewritten_def settles_once_def split: option.splits)

lemma candidates_agree: "candidate_paths git fsdecode ''check'' = candidate_paths git fsdecode ''fix-all''"
  by (simp add: candidate_paths_def)

text \<open>
  The check answers 0 exactly when no candidate file has a line that ends in blanks, and writes nothing.
\<close>

theorem check_verdict:
  assumes "repository_root git fsdecode = Inr base" and "candidate_paths git fsdecode ''check'' = Inr ps"
    and "ta_check arguments"
  shows "\<exists>outcome. trim_main git fsdecode arguments fs = Inr outcome \<and> to_files outcome = fs \<and>
    to_code outcome = (if \<forall>p \<in> set ps. \<forall>c. fs (joined base p) = Some (Regular c) \<longrightarrow> NUL \<in> set c \<or> trimmed_lines c = c
                       then 0 else 1)"
proof -
  have clean: "trims e = None \<longleftrightarrow> (\<forall>c. e = Some (Regular c) \<longrightarrow> NUL \<in> set c \<or> trimmed_lines c = c)" for e
    by (auto simp: trims_def trim_by_lines split: option.splits file_entry.splits)
  have "trim_main git fsdecode arguments fs =
      Inr (trim_report ''check'' (filter (\<lambda>p. trims (fs (joined base p)) \<noteq> None) ps) fs)"
    using assms by (simp add: trim_main_def trim_mode_def changed_paths_check)
  then show ?thesis
    by (auto simp: trim_report_def filter_empty_conv clean)
qed

text \<open>
  After \<open>--fix-all\<close> the check passes, provided no carriage return stands inside a line; a file is left as it
  was or has the blanks at the ends of its lines cut.
\<close>

theorem fix_all_then_check:
  assumes "trim_main git fsdecode fixing fs = Inr outcome" and "\<not> ta_check fixing" and "ta_fix_all fixing"
    and "ta_check checking" and "\<And>q c. fs q = Some (Regular c) \<Longrightarrow> stray_free c"
  shows "to_code outcome = 0 \<and>
    trim_main git fsdecode checking (to_files outcome) =
      Inr \<lparr>to_code = 0, to_out = [''Trailing-whitespace check passed.''], to_err = [], to_files = to_files outcome\<rparr> \<and>
    (\<forall>q. to_files outcome q = fs q \<or>
      (\<exists>c. fs q = Some (Regular c) \<and> NUL \<notin> set c \<and> to_files outcome q = Some (Regular (trimmed_lines c))))"
proof -
  have once: "settles_once fs" using assms(5) by (rule stray_free_settles)
  obtain base where base: "repository_root git fsdecode = Inr base"
    using assms(1) by (cases "repository_root git fsdecode") (auto simp: trim_main_def Let_def)
  obtain ps where ps: "candidate_paths git fsdecode ''fix-all'' = Inr ps"
    using assms(1,2,3) base
    by (cases "candidate_paths git fsdecode ''fix-all''") (auto simp: trim_main_def trim_mode_def Let_def)
  let ?qs = "joined base ` set ps"
  have out: "outcome = trim_report ''fix-all'' (fst (changed_paths base ps True fs)) (rewritten ?qs fs)"
    using assms(1-3) base ps changed_paths_fix [OF once, of base ps]
    by (simp add: trim_main_def trim_mode_def case_prod_beta)
  then have files: "to_files outcome = rewritten ?qs fs" and code: "to_code outcome = 0"
    by (auto simp: trim_report_def)
  have "filter (\<lambda>p. trims (rewritten ?qs fs (joined base p)) \<noteq> None) ps = []"
    using nothing_left [OF once] by (auto simp: filter_empty_conv)
  then have passed: "trim_main git fsdecode checking (to_files outcome) =
      Inr \<lparr>to_code = 0, to_out = [''Trailing-whitespace check passed.''], to_err = [], to_files = to_files outcome\<rparr>"
    using assms(4) base ps
    by (simp add: trim_main_def trim_mode_def changed_paths_check candidates_agree files trim_report_def)
  have "rewritten ?qs fs q = fs q \<or>
      (\<exists>c. fs q = Some (Regular c) \<and> NUL \<notin> set c \<and> rewritten ?qs fs q = Some (Regular (trimmed_lines c)))" for q
  proof (cases "q \<in> ?qs \<and> trims (fs q) \<noteq> None")
    case True
    then obtain c where c: "trims (fs q) = Some c" by blast
    obtain c0 where "fs q = Some (Regular c0)" "NUL \<notin> set c0" "c = remove_trailing_whitespace c0"
      using trims_Some [OF c] by blast
    then show ?thesis using True c by (simp add: rewritten_def trim_by_lines)
  next
    case False
    then show ?thesis by (auto simp: rewritten_def)
  qed
  with code passed show ?thesis by (simp add: files)
qed

section \<open>A repository of one file\<close>

definition demo_git :: git where
  "demo_git arguments =
     Some (if arguments = [''rev-parse'', ''--show-toplevel''] then ''/r'' @ [LF]
           else if arguments = [''ls-files'', ''-z''] then ''src/a.py'' @ [NUL] else [])"

definition demo_files :: "string \<Rightarrow> files" where
  "demo_files c = [[''/'', ''r'', ''src'', ''a.py''] \<mapsto> Regular c]"

definition demo_fix :: trim_arguments where
  "demo_fix = \<lparr>ta_check = False, ta_fix_all = True, ta_fix_unstaged = False\<rparr>"

definition demo_check :: trim_arguments where
  "demo_check = \<lparr>ta_check = True, ta_fix_all = False, ta_fix_unstaged = False\<rparr>"

definition fixed_and_checked :: "string \<Rightarrow> (int \<times> int) option" where
  "fixed_and_checked c =
     (case trim_main demo_git id demo_fix (demo_files c) of
        Inl _ \<Rightarrow> None
      | Inr outcome \<Rightarrow>
          (case trim_main demo_git id demo_check (to_files outcome) of
             Inl _ \<Rightarrow> None
           | Inr verdict \<Rightarrow> Some (to_code outcome, to_code verdict)))"

text \<open>A stray carriage return between blanks: the repaired file still fails the check.\<close>

theorem stray_return_fails_check:
  "fixed_and_checked (''x = 1  '' @ [LF]) = Some (0, 0)"
  "fixed_and_checked (''x = 1 '' @ [CR] @ '' '' @ [LF]) = Some (0, 1)"
  by code_simp+

end
