(* ===== verification/Compose_Boundary.thy ===== *)
theory Compose_Boundary
  imports Py_Values "HOL-Library.AList" "HOL-Library.List_Lexorder" "HOL-Library.Char_ord"
begin

text \<open>
  The check of the service-identity keys in the rendered Docker Compose configuration,
  \<open>src/scripts/validate_service_identity_compose.py\<close>: each of the two services is to mount its own private key
  and the other's public key, and nothing else of the four. The configuration is the JSON value Docker
  prints, \<open>None\<close> where rendering failed. A violation is a value with the parts its message names. \<open>Inl\<close> is an
  exception the script does not catch, which a configuration of another shape raises.
\<close>

section \<open>Expected boundary\<close>

definition EXPECTED_SECRETS :: "(string \<times> (string \<times> string) list) list" where
  "EXPECTED_SECRETS =
     [(''backend'',
        [(''core_service_identity_private_key'', ''core_service_identity_private_key''),
         (''incident_service_identity_public_key'', ''incident_service_identity_public_key'')]),
      (''incident-service'',
        [(''core_service_identity_public_key'', ''core_service_identity_public_key''),
         (''incident_service_identity_private_key'', ''incident_service_identity_private_key'')])]"

definition EXPECTED_ENVIRONMENT :: "(string \<times> (string \<times> string) list) list" where
  "EXPECTED_ENVIRONMENT =
     [(''backend'',
        [(''SERVICE_IDENTITY_PRIVATE_KEY_PATH'', ''/run/secrets/core_service_identity_private_key''),
         (''INCIDENT_SERVICE_IDENTITY_PUBLIC_KEY_PATH'', ''/run/secrets/incident_service_identity_public_key'')]),
      (''incident-service'',
        [(''SERVICE_IDENTITY_PUBLIC_KEY_FILE'', ''/run/secrets/core_service_identity_public_key''),
         (''SERVICE_IDENTITY_SIGNING_PRIVATE_KEY_PATH'', ''/run/secrets/incident_service_identity_private_key'')])]"

definition ALL_IDENTITY_SECRETS :: "string list" where
  "ALL_IDENTITY_SECRETS =
     [''core_service_identity_private_key'', ''core_service_identity_public_key'',
      ''incident_service_identity_private_key'', ''incident_service_identity_public_key'']"

section \<open>Reading the configuration\<close>

datatype python_error = AttributeError | TypeError | KeyError string

definition json_get :: "json \<Rightarrow> string \<Rightarrow> json \<Rightarrow> python_error + json" where
  "json_get x k fallback =
     (case x of
        JObj m \<Rightarrow> Inr (case map_of m k of None \<Rightarrow> fallback | Some v \<Rightarrow> v)
      | _ \<Rightarrow> Inl AttributeError)"

definition json_iter :: "json \<Rightarrow> python_error + json list" where
  "json_iter x =
     (case x of
        JList xs \<Rightarrow> Inr xs
      | JObj m \<Rightarrow> Inr (map (\<lambda>(k, v). JStr k) m)
      | JStr s \<Rightarrow> Inr (map (\<lambda>c. JStr [c]) s)
      | _ \<Rightarrow> Inl TypeError)"

definition json_truthy :: "json \<Rightarrow> bool" where
  "json_truthy x =
     (case x of
        JNull \<Rightarrow> False
      | JBool b \<Rightarrow> b
      | JInt i \<Rightarrow> i \<noteq> 0
      | JFloat r \<Rightarrow> r \<noteq> 0
      | JStr s \<Rightarrow> s \<noteq> []
      | JList xs \<Rightarrow> xs \<noteq> []
      | JObj m \<Rightarrow> m \<noteq> [])"

definition json_hashable :: "json \<Rightarrow> bool" where
  "json_hashable x = (case x of JList _ \<Rightarrow> False | JObj _ \<Rightarrow> False | _ \<Rightarrow> True)"

type_synonym mounts = "(json \<times> json) list"

definition mount_secret :: "mounts \<Rightarrow> json \<Rightarrow> python_error + mounts" where
  "mount_secret mounts secret =
     (case secret of
        JStr s \<Rightarrow> Inr (AList.update secret secret mounts)
      | _ \<Rightarrow>
          (case json_get secret ''source'' JNull of
             Inl e \<Rightarrow> Inl e
           | Inr source \<Rightarrow>
               (case json_get secret ''target'' source of
                  Inl e \<Rightarrow> Inl e
                | Inr target \<Rightarrow>
                    if json_truthy source \<and> json_truthy target
                    then if json_hashable source then Inr (AList.update source target mounts) else Inl TypeError
                    else Inr mounts)))"

fun mount_secrets :: "mounts \<Rightarrow> json list \<Rightarrow> python_error + mounts" where
  "mount_secrets mounts [] = Inr mounts"
| "mount_secrets mounts (secret # secrets) =
     (case mount_secret mounts secret of Inl e \<Rightarrow> Inl e | Inr mounts' \<Rightarrow> mount_secrets mounts' secrets)"

definition mounted_secrets :: "json \<Rightarrow> python_error + mounts" where
  "mounted_secrets service =
     (case json_get service ''secrets'' (JList []) of
        Inl e \<Rightarrow> Inl e
      | Inr secrets \<Rightarrow> (case json_iter secrets of Inl e \<Rightarrow> Inl e | Inr xs \<Rightarrow> mount_secrets [] xs))"

section \<open>Validation\<close>

datatype violation =
    MissingSecrets "string list"
  | MissingService string
  | SecretMounts string mounts
  | Variable string string string json

definition same_mounts :: "mounts \<Rightarrow> (string \<times> string) list \<Rightarrow> bool" where
  "same_mounts mounts expected \<longleftrightarrow>
     length mounts = length expected \<and> list_all (\<lambda>(s, t). map_of mounts (JStr s) = Some (JStr t)) expected"

fun check_environment :: "string \<Rightarrow> json \<Rightarrow> (string \<times> string) list \<Rightarrow> python_error + violation list" where
  "check_environment name environment [] = Inr []"
| "check_environment name environment ((variable, expected) # rest) =
     (case json_get environment variable JNull of
        Inl e \<Rightarrow> Inl e
      | Inr actual \<Rightarrow>
          (case check_environment name environment rest of
             Inl e \<Rightarrow> Inl e
           | Inr vs \<Rightarrow> Inr ((if actual \<noteq> JStr expected then [Variable name variable expected actual] else []) @ vs)))"

definition validate_service :: "string \<Rightarrow> json \<Rightarrow> python_error + violation list" where
  "validate_service service_name service =
     (case mounted_secrets service of
        Inl e \<Rightarrow> Inl e
      | Inr actual \<Rightarrow>
          let identity = filter (\<lambda>(source, target). source \<in> JStr ` set ALL_IDENTITY_SECRETS) actual
          in case map_of EXPECTED_SECRETS service_name of
               None \<Rightarrow> Inl (KeyError service_name)
             | Some expected \<Rightarrow>
                 let mounts = (if same_mounts identity expected then [] else [SecretMounts service_name identity])
                 in case json_get service ''environment'' (JObj []) of
                      Inl e \<Rightarrow> Inl e
                    | Inr environment \<Rightarrow>
                        (case map_of EXPECTED_ENVIRONMENT service_name of
                           None \<Rightarrow> Inl (KeyError service_name)
                         | Some variables \<Rightarrow>
                             (case check_environment service_name environment variables of
                                Inl e \<Rightarrow> Inl e
                              | Inr vs \<Rightarrow> Inr (mounts @ vs))))"

fun validate_services :: "json \<Rightarrow> string list \<Rightarrow> python_error + violation list" where
  "validate_services services [] = Inr []"
| "validate_services services (name # names) =
     (case json_get services name JNull of
        Inl e \<Rightarrow> Inl e
      | Inr service \<Rightarrow>
          (case (if service = JNull then Inr [MissingService name] else validate_service name service) of
             Inl e \<Rightarrow> Inl e
           | Inr vs \<Rightarrow> (case validate_services services names of Inl e \<Rightarrow> Inl e | Inr ws \<Rightarrow> Inr (vs @ ws))))"

datatype compose_verdict = NotRendered | Violations "violation list" | BoundariesPassed

definition compose_main :: "json option \<Rightarrow> python_error + compose_verdict" where
  "compose_main rendered =
     (case rendered of
        None \<Rightarrow> Inr NotRendered
      | Some configuration \<Rightarrow>
          (case json_get configuration ''services'' (JObj []) of
             Inl e \<Rightarrow> Inl e
           | Inr services \<Rightarrow>
               (case json_get configuration ''secrets'' (JObj []) of
                  Inl e \<Rightarrow> Inl e
                | Inr secrets \<Rightarrow>
                    (case json_iter secrets of
                       Inl e \<Rightarrow> Inl e
                     | Inr configured \<Rightarrow>
                         if \<not> list_all json_hashable configured then Inl TypeError
                         else
                           let missing = sort (filter (\<lambda>s. JStr s \<notin> set configured) ALL_IDENTITY_SECRETS)
                           in case validate_services services (map fst EXPECTED_SECRETS) of
                                Inl e \<Rightarrow> Inl e
                              | Inr vs \<Rightarrow>
                                  (let violations = (if missing \<noteq> [] then [MissingSecrets missing] else []) @ vs
                                   in Inr (if violations \<noteq> [] then Violations violations else BoundariesPassed))))))"

section \<open>Lemmas\<close>

lemma json_get_Inr: "json_get x k d = Inr v \<Longrightarrow> \<exists>m. x = JObj m \<and> v = (case map_of m k of None \<Rightarrow> d | Some v \<Rightarrow> v)"
  by (cases x) (auto simp: json_get_def)

lemma mount_secret_distinct:
  "mount_secret mounts secret = Inr mounts' \<Longrightarrow> distinct (map fst mounts) \<Longrightarrow> distinct (map fst mounts')"
  by (auto simp: mount_secret_def distinct_update split: json.splits sum.splits if_splits)

lemma mount_secrets_distinct:
  "mount_secrets mounts xs = Inr mounts' \<Longrightarrow> distinct (map fst mounts) \<Longrightarrow> distinct (map fst mounts')"
  by (induction mounts xs rule: mount_secrets.induct) (auto split: sum.splits dest: mount_secret_distinct)

lemma mounted_distinct: "mounted_secrets service = Inr mounts \<Longrightarrow> distinct (map fst mounts)"
  by (auto simp: mounted_secrets_def split: sum.splits dest: mount_secrets_distinct)

lemma map_of_filter_key: "map_of (filter (\<lambda>(k, v). P k) m) k = (if P k then map_of m k else None)"
  by (induction m) auto

lemma distinct_filter_key: "distinct (map fst m) \<Longrightarrow> distinct (map fst (filter (\<lambda>(k, v). P k) m))"
  by (induction m) auto

lemma same_mounts_lookup:
  assumes "same_mounts m e" and "distinct (map fst m)" and "distinct (map fst e)"
  shows "map_of m (JStr s) = map_option JStr (map_of e s)"
proof (cases "map_of e s")
  case (Some t)
  then have "(s, t) \<in> set e" by (rule map_of_SomeD)
  then show ?thesis using assms(1) Some by (auto simp: same_mounts_def list_all_iff)
next
  case None
  have found: "map_of m (JStr s') = Some (JStr t)" if "(s', t) \<in> set e" for s' t
    using assms(1) that by (auto simp: same_mounts_def list_all_iff)
  have sub: "JStr ` fst ` set e \<subseteq> fst ` set m" using found by (force dest: map_of_SomeD)
  have "card (JStr ` fst ` set e) = length e"
    using assms(3) distinct_card [of "map fst e"] by (simp add: card_image inj_on_def)
  moreover have "card (fst ` set m) = length m" using distinct_card [OF assms(2)] by simp
  ultimately have "JStr ` fst ` set e = fst ` set m"
    using sub assms(1) by (intro card_subset_eq) (auto simp: same_mounts_def)
  moreover have "s \<notin> fst ` set e" using None by (simp add: map_of_eq_None_iff)
  ultimately have "JStr s \<notin> fst ` set m" by (auto simp flip: \<open>JStr ` fst ` set e = fst ` set m\<close>)
  then have "map_of m (JStr s) = None" by (simp only: map_of_eq_None_iff not_False_eq_True)
  then show ?thesis using None by simp
qed

lemma expected_distinct: "map_of EXPECTED_SECRETS name = Some e \<Longrightarrow> distinct (map fst e)"
  by (auto simp: EXPECTED_SECRETS_def split: if_splits)

lemma check_environment_none:
  "check_environment name environment vs = Inr [] \<Longrightarrow> \<forall>(variable, expected) \<in> set vs.
     json_get environment variable JNull = Inr (JStr expected)"
  by (induction vs) (auto split: sum.splits if_splits)

text \<open>What a service that raises no violation mounts and is told.\<close>

definition boundary_kept :: "string \<Rightarrow> json \<Rightarrow> bool" where
  "boundary_kept name service \<longleftrightarrow>
     (\<exists>mounts environment. mounted_secrets service = Inr mounts \<and>
        (\<forall>s \<in> set ALL_IDENTITY_SECRETS.
           map_of mounts (JStr s) = map_option JStr (map_of (the (map_of EXPECTED_SECRETS name)) s)) \<and>
        json_get service ''environment'' (JObj []) = Inr environment \<and>
        (\<forall>(variable, expected) \<in> set (the (map_of EXPECTED_ENVIRONMENT name)).
           json_get environment variable JNull = Inr (JStr expected)))"

lemma validate_service_none:
  assumes "validate_service name service = Inr []"
  shows "boundary_kept name service"
proof -
  obtain mounts where mounts: "mounted_secrets service = Inr mounts"
    using assms by (auto simp: validate_service_def split: sum.splits)
  obtain expected where expected: "map_of EXPECTED_SECRETS name = Some expected"
    using assms mounts by (auto simp: validate_service_def Let_def split: option.splits)
  obtain environment where environment: "json_get service ''environment'' (JObj []) = Inr environment"
    using assms mounts expected by (auto simp: validate_service_def Let_def split: sum.splits)
  obtain variables where variables: "map_of EXPECTED_ENVIRONMENT name = Some variables"
    using assms mounts expected environment by (auto simp: validate_service_def Let_def split: option.splits)
  let ?identity = "filter (\<lambda>(source, target). source \<in> JStr ` set ALL_IDENTITY_SECRETS) mounts"
  have same: "same_mounts ?identity expected"
    and none: "check_environment name environment variables = Inr []"
    using assms mounts expected environment variables
    by (auto simp: validate_service_def Let_def split: sum.splits if_splits)
  have "map_of mounts (JStr s) = map_option JStr (map_of expected s)" if "s \<in> set ALL_IDENTITY_SECRETS" for s
    using same_mounts_lookup [OF same distinct_filter_key [OF mounted_distinct [OF mounts]] expected_distinct [OF expected], of s]
      that map_of_filter_key [of "\<lambda>source. source \<in> JStr ` set ALL_IDENTITY_SECRETS" mounts "JStr s"] by simp
  then show ?thesis
    using mounts expected environment variables check_environment_none [OF none] by (auto simp: boundary_kept_def)
qed

lemma validate_services_none:
  "validate_services (JObj m) names = Inr [] \<Longrightarrow> name \<in> set names \<Longrightarrow>
   \<exists>service. map_of m name = Some service \<and> boundary_kept name service"
proof (induction names)
  case (Cons n ns)
  obtain service where service: "json_get (JObj m) n JNull = Inr service" by (auto simp: json_get_def)
  have here: "service \<noteq> JNull \<and> validate_service n service = Inr [] \<and> validate_services (JObj m) ns = Inr []"
    using Cons.prems(1) service by (auto split: sum.splits if_splits)
  moreover have "map_of m n = Some service"
    using here service by (auto simp: json_get_def split: option.splits)
  ultimately show ?case using Cons validate_service_none by auto
qed simp

section \<open>The boundary\<close>

text \<open>
  A configuration that passes names the four secrets, and each of the two services mounts its own private
  key and the other's public key at the expected paths, and neither the other's private key nor its own
  public key.
\<close>

theorem compose_keys_isolated:
  assumes "compose_main (Some configuration) = Inr BoundariesPassed"
  shows "\<exists>services backend incident. json_get configuration ''services'' (JObj []) = Inr (JObj services) \<and>
    map_of services ''backend'' = Some backend \<and> map_of services ''incident-service'' = Some incident \<and>
    boundary_kept ''backend'' backend \<and> boundary_kept ''incident-service'' incident"
proof -
  obtain services where services: "json_get configuration ''services'' (JObj []) = Inr services"
    using assms by (auto simp: compose_main_def split: sum.splits)
  have valid: "validate_services services [''backend'', ''incident-service''] = Inr []"
    using assms services
    by (auto simp: compose_main_def Let_def EXPECTED_SECRETS_def split: sum.splits if_splits)
  obtain m where m: "services = JObj m"
    using valid by (cases services) (auto simp: json_get_def)
  obtain backend incident where "map_of m ''backend'' = Some backend" "boundary_kept ''backend'' backend"
    "map_of m ''incident-service'' = Some incident" "boundary_kept ''incident-service'' incident"
    using validate_services_none [OF valid [unfolded m]] by (metis list.set_intros(1,2))
  then show ?thesis using services m by blast
qed

lemma foreign_keys_not_mounted:
  "boundary_kept ''backend'' service \<Longrightarrow> mounted_secrets service = Inr mounts \<Longrightarrow>
     map_of mounts (JStr ''incident_service_identity_private_key'') = None"
  "boundary_kept ''incident-service'' service \<Longrightarrow> mounted_secrets service = Inr mounts \<Longrightarrow>
     map_of mounts (JStr ''core_service_identity_private_key'') = None"
  by (auto simp: boundary_kept_def ALL_IDENTITY_SECRETS_def EXPECTED_SECRETS_def)

text \<open>What any other service mounts is not looked at.\<close>

lemma validate_services_other:
  "n \<notin> set names \<Longrightarrow> validate_services (JObj (services @ [(n, x)])) names = validate_services (JObj services) names"
  by (induction names) (auto simp: json_get_def map_add_def split: option.splits sum.splits)

theorem other_services_unchecked:
  assumes "n \<noteq> ''backend''" and "n \<noteq> ''incident-service''"
  shows "compose_main (Some (JObj [(''services'', JObj (services @ [(n, x)])), (''secrets'', secrets)])) =
         compose_main (Some (JObj [(''services'', JObj services), (''secrets'', secrets)]))"
proof -
  have "n \<notin> set (map fst EXPECTED_SECRETS)" using assms by (simp add: EXPECTED_SECRETS_def)
  note same = validate_services_other [OF this, of services x]
  have "json_get (JObj [(''services'', s), (''secrets'', secrets)]) ''services'' d = Inr s"
    "json_get (JObj [(''services'', s), (''secrets'', secrets)]) ''secrets'' d = Inr secrets" for s d
    by (simp_all add: json_get_def)
  then show ?thesis by (simp only: compose_main_def option.case sum.case same)
qed

section \<open>The repository's own configuration\<close>

definition demo_compose :: json where
  "demo_compose =
     (let mounting = (\<lambda>names. JList (map (\<lambda>n. JObj [(''source'', JStr n), (''target'', JStr n)]) names));
          service = (\<lambda>name. JObj
            [(''secrets'', mounting (map fst (the (map_of EXPECTED_SECRETS name)))),
             (''environment'', JObj (map (\<lambda>(v, e). (v, JStr e)) (the (map_of EXPECTED_ENVIRONMENT name))))])
      in JObj [(''services'', JObj [(''backend'', service ''backend''), (''incident-service'', service ''incident-service'')]),
               (''secrets'', JObj (map (\<lambda>n. (n, JObj [])) ALL_IDENTITY_SECRETS))])"

lemma demo_compose_passes: "compose_main (Some demo_compose) = Inr BoundariesPassed"
  by code_simp

lemma demo_boundary: "\<exists>service. boundary_kept ''backend'' service"
  using compose_keys_isolated [OF demo_compose_passes] by blast

end
